(* ===== verification/Prelude.thy ===== *)
theory Prelude
  imports Main "HOL-Library.Signed_Division"
begin

text \<open>
  What every component shares: the three ways a Go call can end (a value, a returned
  error, a panic) as the type \<open>result\<close>, stateful calls as state-passing functions,
  64-bit signed arithmetic with its wrap-around written out, and the functions of the Go
  standard library's \<open>strings\<close> package that the program calls on byte strings.
  The collections \<open>io_defs\<close> (the combinators' equations), \<open>io_inv\<close> (what a successful
  composed call says of its parts) and \<open>go_text\<close> (the string functions) carry the
  component proofs.
\<close>

named_theorems io_defs
named_theorems io_inv
named_theorems go_text

section \<open>Ways a call ends\<close>

text \<open>
  A Go function returning \<open>(T, error)\<close> yields \<open>Ok\<close> of its value when the error is nil and
  \<open>Err\<close> of the error otherwise (the accompanying value is then the zero value and no
  caller reads it). A panic is a third way to end, never confused with an error.
\<close>

datatype ('e, 'a) result = Ok 'a | Err 'e | Panic string

fun bind_result :: "('e, 'a) result \<Rightarrow> ('a \<Rightarrow> ('e, 'b) result) \<Rightarrow> ('e, 'b) result" where
  "bind_result (Ok x) f = f x"
| "bind_result (Err e) f = Err e"
| "bind_result (Panic p) f = Panic p"

fun map_result :: "('a \<Rightarrow> 'b) \<Rightarrow> ('e, 'a) result \<Rightarrow> ('e, 'b) result" where
  "map_result f (Ok x) = Ok (f x)"
| "map_result f (Err e) = Err e"
| "map_result f (Panic p) = Panic p"

fun is_panic :: "('e, 'a) result \<Rightarrow> bool" where
  "is_panic (Panic p) = True"
| "is_panic (Ok x) = False"
| "is_panic (Err e) = False"

lemma bind_result_Ok [io_inv]:
  "bind_result m f = Ok y \<longleftrightarrow> (\<exists>x. m = Ok x \<and> f x = Ok y)"
  by (cases m) auto

lemma bind_result_Err [io_inv]:
  "bind_result m f = Err e \<longleftrightarrow> m = Err e \<or> (\<exists>x. m = Ok x \<and> f x = Err e)"
  by (cases m) auto

lemma map_result_Ok [io_inv]: "map_result f m = Ok y \<longleftrightarrow> (\<exists>x. m = Ok x \<and> y = f x)"
  by (cases m) auto

text \<open>A loop that appends one converted element per iteration and returns the first error.\<close>

fun map_until :: "('a \<Rightarrow> ('e, 'b) result) \<Rightarrow> 'a list \<Rightarrow> ('e, 'b list) result" where
  "map_until f [] = Ok []"
| "map_until f (x # xs) =
     bind_result (f x) (\<lambda>y. bind_result (map_until f xs) (\<lambda>ys. Ok (y # ys)))"

lemma map_until_Ok_iff:
  "map_until f xs = Ok ys \<longleftrightarrow> list_all2 (\<lambda>x y. f x = Ok y) xs ys"
  by (induction xs arbitrary: ys) (auto simp: io_inv list_all2_Cons1)

lemma map_until_all_Ok: "(\<And>x. x \<in> set xs \<Longrightarrow> f x = Ok (g x)) \<Longrightarrow> map_until f xs = Ok (map g xs)"
  by (induction xs) auto

lemma map_until_first_Err:
  assumes "\<And>x. x \<in> set xs \<Longrightarrow> \<exists>y. f x = Ok y" and "f z = Err e"
  shows "map_until f (xs @ z # zs) = Err e"
  using assms by (induction xs) force+

section \<open>Stateful calls\<close>

text \<open>A call reads and writes the world \<open>'s\<close>; the result carries the error or panic.\<close>

type_synonym ('e, 's, 'a) call = "'s \<Rightarrow> ('e, 'a) result \<times> 's"

definition ret :: "'a \<Rightarrow> ('e, 's, 'a) call" where
  "ret x s = (Ok x, s)"

definition throw :: "'e \<Rightarrow> ('e, 's, 'a) call" where
  "throw e s = (Err e, s)"

definition lift :: "('e, 'a) result \<Rightarrow> ('e, 's, 'a) call" where
  "lift r s = (r, s)"

text \<open>\<open>x, err := m(); if err != nil { return err }; f(x)\<close>\<close>

definition bind :: "('e, 's, 'a) call \<Rightarrow> ('a \<Rightarrow> ('e, 's, 'b) call) \<Rightarrow> ('e, 's, 'b) call" where
  "bind m f s =
     (case m s of (Ok x, s') \<Rightarrow> f x s' | (Err e, s') \<Rightarrow> (Err e, s') | (Panic p, s') \<Rightarrow> (Panic p, s'))"

text \<open>A call that cannot fail (a clock, an identifier source): \<open>x := g(); f(x)\<close>.\<close>

definition get_with :: "('s \<Rightarrow> 'a \<times> 's) \<Rightarrow> ('a \<Rightarrow> ('e, 's, 'b) call) \<Rightarrow> ('e, 's, 'b) call" where
  "get_with g f s = (case g s of (x, s') \<Rightarrow> f x s')"

declare ret_def [io_defs] throw_def [io_defs] lift_def [io_defs]

lemma bind_simps [simp]:
  "m s = (Ok x, s') \<Longrightarrow> bind m f s = f x s'"
  "m s = (Err e, s') \<Longrightarrow> bind m f s = (Err e, s')"
  "m s = (Panic p, s') \<Longrightarrow> bind m f s = (Panic p, s')"
  by (simp_all add: bind_def)

lemma bind_Ok [io_inv]:
  "bind m f s = (Ok y, t) \<longleftrightarrow> (\<exists>x s'. m s = (Ok x, s') \<and> f x s' = (Ok y, t))"
  by (auto simp: bind_def split: prod.splits result.splits)

lemma bind_Err [io_inv]:
  "bind m f s = (Err e, t) \<longleftrightarrow>
     m s = (Err e, t) \<or> (\<exists>x s'. m s = (Ok x, s') \<and> f x s' = (Err e, t))"
  by (auto simp: bind_def split: prod.splits result.splits)

lemma bind_Panic [io_inv]:
  "bind m f s = (Panic p, t) \<longleftrightarrow>
     m s = (Panic p, t) \<or> (\<exists>x s'. m s = (Ok x, s') \<and> f x s' = (Panic p, t))"
  by (auto simp: bind_def split: prod.splits result.splits)

lemma get_with_iff [io_inv]:
  "get_with g f s = r \<longleftrightarrow> (\<exists>x s'. g s = (x, s') \<and> f x s' = r)"
  by (auto simp: get_with_def split: prod.splits)

text \<open>A loop over a list with a call per element, stopping at the first error or panic.\<close>

fun for_each :: "('a \<Rightarrow> 'b \<Rightarrow> ('e, 's, 'b) call) \<Rightarrow> 'a list \<Rightarrow> 'b \<Rightarrow> ('e, 's, 'b) call" where
  "for_each f [] acc = ret acc"
| "for_each f (x # xs) acc = bind (f x acc) (for_each f xs)"

section \<open>64-bit signed integers\<close>

text \<open>
  Go's \<open>int64\<close> as \<open>int\<close>: every sum and product is reduced with \<open>wrap64\<close>, the two's
  complement reading of its low 64 bits; \<open>/\<close> and \<open>%\<close> truncate towards zero (\<open>sdiv\<close>,
  \<open>smod\<close>).
\<close>

definition in64 :: "int \<Rightarrow> bool" where
  "in64 i \<longleftrightarrow> - 9223372036854775808 \<le> i \<and> i \<le> 9223372036854775807"

definition wrap64 :: "int \<Rightarrow> int" where
  "wrap64 i = (i + 9223372036854775808) mod 18446744073709551616 - 9223372036854775808"

lemma wrap64_id [simp]: "in64 i \<Longrightarrow> wrap64 i = i"
  by (simp add: wrap64_def in64_def)

lemma wrap64_in64 [simp]: "in64 (wrap64 i)"
  using pos_mod_bound [of 18446744073709551616 "i + 9223372036854775808"]
    pos_mod_sign [of 18446744073709551616 "i + 9223372036854775808"]
  unfolding wrap64_def in64_def by linarith

lemma wrap64_cong: "wrap64 i mod 18446744073709551616 = i mod 18446744073709551616"
  by (simp add: wrap64_def mod_diff_left_eq)

definition in32 :: "int \<Rightarrow> bool" where
  "in32 i \<longleftrightarrow> - 2147483648 \<le> i \<and> i \<le> 2147483647"

definition wrap32 :: "int \<Rightarrow> int" where
  "wrap32 i = (i + 2147483648) mod 4294967296 - 2147483648"

lemma wrap32_id [simp]: "in32 i \<Longrightarrow> wrap32 i = i"
  by (simp add: wrap32_def in32_def)

lemma wrap32_in32 [simp]: "in32 (wrap32 i)"
  using pos_mod_bound [of 4294967296 "i + 2147483648"] pos_mod_sign [of 4294967296 "i + 2147483648"]
  unfolding wrap32_def in32_def by linarith

section \<open>Byte strings\<close>

text \<open>
  A Go string is a sequence of bytes, here a \<open>char list\<close>. \<open>strings.TrimSpace\<close> removes the
  Unicode white space at both ends: the runes below in their UTF-8 encoding.
\<close>

definition utf8_spaces :: "string list" where
  "utf8_spaces =
     [[CHR 0x20], [CHR 0x09], [CHR 0x0A], [CHR 0x0B], [CHR 0x0C], [CHR 0x0D],
      [CHR 0xC2, CHR 0x85], [CHR 0xC2, CHR 0xA0], [CHR 0xE1, CHR 0x9A, CHR 0x80],
      [CHR 0xE2, CHR 0x80, CHR 0x80], [CHR 0xE2, CHR 0x80, CHR 0x81],
      [CHR 0xE2, CHR 0x80, CHR 0x82], [CHR 0xE2, CHR 0x80, CHR 0x83],
      [CHR 0xE2, CHR 0x80, CHR 0x84], [CHR 0xE2, CHR 0x80, CHR 0x85],
      [CHR 0xE2, CHR 0x80, CHR 0x86], [CHR 0xE2, CHR 0x80, CHR 0x87],
      [CHR 0xE2, CHR 0x80, CHR 0x88], [CHR 0xE2, CHR 0x80, CHR 0x89],
      [CHR 0xE2, CHR 0x80, CHR 0x8A], [CHR 0xE2, CHR 0x80, CHR 0xA8],
      [CHR 0xE2, CHR 0x80, CHR 0xA9], [CHR 0xE2, CHR 0x80, CHR 0xAF],
      [CHR 0xE2, CHR 0x81, CHR 0x9F], [CHR 0xE3, CHR 0x80, CHR 0x80]]"

definition starts_with :: "string \<Rightarrow> string \<Rightarrow> bool" where
  "starts_with s p \<longleftrightarrow> p \<noteq> [] \<and> take (length p) s = p"

function trim_prefixes :: "string list \<Rightarrow> string \<Rightarrow> string" where
  "trim_prefixes ps s =
     (case find (starts_with s) ps of
        None \<Rightarrow> s
      | Some p \<Rightarrow> trim_prefixes ps (drop (length p) s))"
  by pat_completeness auto
termination
proof (relation "measure (\<lambda>(ps, s). length s)", goal_cases)
  case 1
  show ?case by simp
next
  case (2 ps s p)
  then have p: "p \<noteq> []" "take (length p) s = p"
    by (auto simp: find_Some_iff starts_with_def)
  then have "s \<noteq> []" by auto
  with p show ?case by simp
qed

declare trim_prefixes.simps [simp del]

definition TrimSpace :: "string \<Rightarrow> string" where
  "TrimSpace s = rev (trim_prefixes (map rev utf8_spaces) (rev (trim_prefixes utf8_spaces s)))"

text \<open>
  \<open>strings.ToUpper\<close> on the bytes that matter to a comparison with ASCII text: ASCII letters,
  and the two runes outside ASCII whose upper case is an ASCII letter (U+017F, long s, and
  U+0131, dotless i). Every other rune outside ASCII maps to a rune outside ASCII; the model
  leaves its bytes as they are.
\<close>

definition ascii_upper :: "char \<Rightarrow> char" where
  "ascii_upper c =
     (case map_of (zip ''abcdefghijklmnopqrstuvwxyz'' ''ABCDEFGHIJKLMNOPQRSTUVWXYZ'') c of
        Some d \<Rightarrow> d | None \<Rightarrow> c)"

fun ToUpper :: "string \<Rightarrow> string" where
  "ToUpper [] = []"
| "ToUpper [c] = [ascii_upper c]"
| "ToUpper (c # d # cs) =
     (if c = CHR 0xC5 \<and> d = CHR 0xBF then CHR ''S'' # ToUpper cs
      else if c = CHR 0xC4 \<and> d = CHR 0xB1 then CHR ''I'' # ToUpper cs
      else ascii_upper c # ToUpper (d # cs))"

text \<open>\<open>strings.Split(s, sep)\<close> for a one-byte separator: always at least one part.\<close>

fun split_on :: "char \<Rightarrow> string \<Rightarrow> string list" where
  "split_on sep [] = [[]]"
| "split_on sep (c # cs) =
     (if c = sep then [] # split_on sep cs
      else (case split_on sep cs of p # ps \<Rightarrow> (c # p) # ps | [] \<Rightarrow> [[c]]))"

fun join_with :: "string \<Rightarrow> string list \<Rightarrow> string" where
  "join_with sep [] = []"
| "join_with sep [x] = x"
| "join_with sep (x # y # xs) = x @ sep @ join_with sep (y # xs)"

declare utf8_spaces_def [go_text] starts_with_def [go_text] TrimSpace_def [go_text]
  ascii_upper_def [go_text]

lemma split_on_nonempty [simp]: "split_on sep s \<noteq> []"
  by (induction s) (auto split: list.splits)

lemma join_split_on: "join_with [sep] (split_on sep s) = s"
proof (induction s)
  case Nil
  then show ?case by simp
next
  case (Cons c cs)
  obtain p ps where p: "split_on sep cs = p # ps"
    using split_on_nonempty by (metis neq_Nil_conv)
  with Cons show ?case by (cases ps) auto
qed

lemma trim_prefixes_done: "find (starts_with (trim_prefixes ps s)) ps = None"
proof (induction ps s rule: trim_prefixes.induct)
  case (1 ps s)
  then show ?case
    by (cases "find (starts_with s) ps") (auto simp: trim_prefixes.simps [of ps s])
qed

lemma trim_prefixes_idem [simp]: "trim_prefixes ps (trim_prefixes ps s) = trim_prefixes ps s"
  by (subst trim_prefixes.simps) (simp add: trim_prefixes_done)

lemma trim_prefixes_suffix: "\<exists>pre. s = pre @ trim_prefixes ps s"
proof (induction ps s rule: trim_prefixes.induct)
  case (1 ps s)
  show ?case
  proof (cases "find (starts_with s) ps")
    case None
    then show ?thesis by (simp add: trim_prefixes.simps [of ps s])
  next
    case (Some p)
    with 1 obtain pre where "drop (length p) s = pre @ trim_prefixes ps (drop (length p) s)"
      by blast
    then have "s = (take (length p) s @ pre) @ trim_prefixes ps (drop (length p) s)"
      by (metis append.assoc append_take_drop_id)
    moreover from Some have "trim_prefixes ps s = trim_prefixes ps (drop (length p) s)"
      by (simp add: trim_prefixes.simps [of ps s])
    ultimately show ?thesis by metis
  qed
qed

lemma length_trim_prefixes: "length (trim_prefixes ps s) \<le> length s"
  using trim_prefixes_suffix [of s ps] by (metis le_add2 length_append)

lemma length_TrimSpace: "length (TrimSpace s) \<le> length s"
  using length_trim_prefixes [of "map rev utf8_spaces" "rev (trim_prefixes utf8_spaces s)"]
    length_trim_prefixes [of utf8_spaces s]
  by (simp add: TrimSpace_def)

lemma starts_with_prefix: "starts_with w p \<Longrightarrow> starts_with (w @ t) p"
  by (auto simp: starts_with_def)
    (metis append_take_drop_id length_take min.absorb_iff2 nle_le take_all take_append)

lemma trim_prefixes_stable: "find (starts_with s) ps = None \<Longrightarrow> trim_prefixes ps s = s"
  by (simp add: trim_prefixes.simps [of ps s])

text \<open>Trimming twice is trimming once: a key or a code read back is the one stored.\<close>

lemma TrimSpace_idem [simp]: "TrimSpace (TrimSpace s) = TrimSpace s"
proof -
  let ?u = "trim_prefixes utf8_spaces s"
  let ?w = "TrimSpace s"
  obtain pre where "rev ?u = pre @ trim_prefixes (map rev utf8_spaces) (rev ?u)"
    using trim_prefixes_suffix by blast
  then have u: "?u = ?w @ rev pre"
    unfolding TrimSpace_def by (metis rev_append rev_rev_ident)
  have "find (starts_with ?w) utf8_spaces = None"
    using trim_prefixes_done [of utf8_spaces s] u
    by (simp only: find_None_iff) (metis starts_with_prefix)
  then have "trim_prefixes utf8_spaces ?w = ?w" by (rule trim_prefixes_stable)
  then show ?thesis
    by (simp only: TrimSpace_def rev_rev_ident trim_prefixes_idem)
qed

section \<open>Lists searched and updated by a key\<close>

text \<open>
  A table whose rows carry a key: facts about the first row with a key, and about replacing
  the rows with a key, shared by the store and the use cases.
\<close>

lemma find_append: "find P (xs @ ys) = (case find P xs of Some x \<Rightarrow> Some x | None \<Rightarrow> find P ys)"
  by (induction xs) auto

lemma find_map: "find P (map f xs) = map_option f (find (P \<circ> f) xs)"
  by (induction xs) auto

lemma find_key_distinct:
  assumes "distinct (map k xs)" and "x \<in> set xs"
  shows "find (\<lambda>y. k y = k x) xs = Some x"
  using assms by (induction xs) (auto simp: image_iff)

lemma find_key_None: "find (\<lambda>y. k y = a) xs = None \<longleftrightarrow> a \<notin> set (map k xs)"
  by (auto simp: find_None_iff)

lemma find_SomeD: "find P xs = Some x \<Longrightarrow> x \<in> set xs \<and> P x"
  by (auto simp: find_Some_iff)

definition update_where :: "('a \<Rightarrow> bool) \<Rightarrow> ('a \<Rightarrow> 'a) \<Rightarrow> 'a list \<Rightarrow> 'a list" where
  "update_where P f xs = map (\<lambda>x. if P x then f x else x) xs"

lemma length_update_where [simp]: "length (update_where P f xs) = length xs"
  by (simp add: update_where_def)

lemma map_update_where: "(\<And>x. P x \<Longrightarrow> k (f x) = k x) \<Longrightarrow> map k (update_where P f xs) = map k xs"
  by (induction xs) (auto simp: update_where_def)

lemma set_update_where: "set (update_where P f xs) = (\<lambda>x. if P x then f x else x) ` set xs"
  by (simp add: update_where_def)

lemma update_where_none: "\<not> list_ex P xs \<Longrightarrow> update_where P f xs = xs"
  by (induction xs) (auto simp: update_where_def)

lemma find_key_update_where:
  assumes "\<And>x. k (f x) = k x"
  shows "find (\<lambda>y. k y = a) (update_where P f xs) =
    map_option (\<lambda>x. if P x then f x else x) (find (\<lambda>y. k y = a) xs)"
  using assms by (induction xs) (auto simp: update_where_def)

end
