(* ===== verification/Errors.thy ===== *)
theory Errors
  imports Prelude
begin

text \<open>
  \<open>internal/domain/errors.go\<close>: the application error every layer returns, and how an
  arbitrary Go error is turned into one. A Go \<open>error\<close> value is an \<open>AppError\<close>, an error of
  another package (\<open>PlainError\<close>), or an error that wraps another with a text of its own
  (\<open>WrapError\<close>, \<open>fmt.Errorf\<close> with \<open>%w\<close>). A nil error is \<open>None\<close> where the code passes a
  possibly nil error.
\<close>

section \<open>Error values\<close>

text \<open>
  Values of a \<open>Details\<close> map, as the program stores them there; \<open>DDuration\<close> stands for the
  text of a duration.
\<close>

datatype detail =
    DStr string
  | DInt int
  | DTime int
  | DDuration int
  | DIssues "(string \<times> string) list list"

type_synonym details = "(string \<times> detail) list"

datatype go_error =
    AppError string string details "go_error option"
  | PlainError string
  | WrapError string go_error

definition ErrorCodeNotFound :: string where "ErrorCodeNotFound = ''NOT_FOUND''"
definition ErrorCodeValidation :: string where "ErrorCodeValidation = ''VALIDATION_ERROR''"
definition ErrorCodeConflict :: string where "ErrorCodeConflict = ''CONFLICT''"
definition ErrorCodeUnauthorized :: string where "ErrorCodeUnauthorized = ''UNAUTHORIZED''"
definition ErrorCodeInternal :: string where "ErrorCodeInternal = ''INTERNAL_ERROR''"
definition defaultInternalMessage :: string where
  "defaultInternalMessage = ''Unexpected server error''"

named_theorems code_defs

declare ErrorCodeNotFound_def [code_defs] ErrorCodeValidation_def [code_defs]
  ErrorCodeConflict_def [code_defs] ErrorCodeUnauthorized_def [code_defs]
  ErrorCodeInternal_def [code_defs]

section \<open>Constructors and methods\<close>

definition NotFound :: "string \<Rightarrow> details \<Rightarrow> go_error" where
  "NotFound message dets = AppError ErrorCodeNotFound message dets None"

definition Validation :: "string \<Rightarrow> details \<Rightarrow> go_error" where
  "Validation message dets = AppError ErrorCodeValidation message dets None"

definition Conflict :: "string \<Rightarrow> details \<Rightarrow> go_error" where
  "Conflict message dets = AppError ErrorCodeConflict message dets None"

definition Unauthorized :: "string \<Rightarrow> details \<Rightarrow> go_error" where
  "Unauthorized message dets = AppError ErrorCodeUnauthorized message dets None"

definition Internal :: "string \<Rightarrow> details \<Rightarrow> go_error" where
  "Internal message dets =
     AppError ErrorCodeInternal (if message = [] then defaultInternalMessage else message) dets None"

text \<open>\<open>WithCause\<close> is a method of \<open>*AppError\<close> only.\<close>

fun WithCause :: "go_error \<Rightarrow> go_error \<Rightarrow> go_error" where
  "WithCause (AppError code message dets _) cause = AppError code message dets (Some cause)"
| "WithCause e cause = e"

text \<open>The \<open>Error()\<close> method: the message, else the cause's text, else the code.\<close>

fun error_text :: "go_error \<Rightarrow> string" where
  "error_text (AppError code message dets cause) =
     (if message \<noteq> [] then message
      else (case cause of Some e \<Rightarrow> error_text e | None \<Rightarrow> code))"
| "error_text (PlainError text) = text"
| "error_text (WrapError text e) = text"

fun Unwrap :: "go_error \<Rightarrow> go_error option" where
  "Unwrap (AppError code message dets cause) = cause"
| "Unwrap (PlainError text) = None"
| "Unwrap (WrapError text e) = Some e"

text \<open>\<open>errors.As(err, &appErr)\<close>: the first application error of the chain of causes.\<close>

fun errors_As :: "go_error \<Rightarrow> go_error option" where
  "errors_As (AppError code message dets cause) = Some (AppError code message dets cause)"
| "errors_As (PlainError text) = None"
| "errors_As (WrapError text e) = errors_As e"

definition as_app_error :: "go_error \<Rightarrow> go_error" where
  "as_app_error err =
     (case errors_As err of
        Some app_err \<Rightarrow> app_err
      | None \<Rightarrow> WithCause (Internal defaultInternalMessage []) err)"

definition AsAppError :: "go_error option \<Rightarrow> go_error option" where
  "AsAppError err = (case err of None \<Rightarrow> None | Some e \<Rightarrow> Some (as_app_error e))"

definition Errorf :: "string \<Rightarrow> string \<Rightarrow> details \<Rightarrow> go_error \<Rightarrow> go_error" where
  "Errorf code message dets formatted = AppError code message dets (Some formatted)"

text \<open>Reading the fields of an application error.\<close>

fun app_code :: "go_error \<Rightarrow> string" where
  "app_code (AppError code message dets cause) = code"
| "app_code (PlainError text) = []"
| "app_code (WrapError text e) = []"

fun app_message :: "go_error \<Rightarrow> string" where
  "app_message (AppError code message dets cause) = message"
| "app_message (PlainError text) = []"
| "app_message (WrapError text e) = []"

fun app_details :: "go_error \<Rightarrow> details" where
  "app_details (AppError code message dets cause) = dets"
| "app_details (PlainError text) = []"
| "app_details (WrapError text e) = []"

fun is_app_error :: "go_error \<Rightarrow> bool" where
  "is_app_error (AppError code message dets cause) = True"
| "is_app_error (PlainError text) = False"
| "is_app_error (WrapError text e) = False"

type_synonym 'a res = "(go_error, 'a) result"
type_synonym ('s, 'a) io = "(go_error, 's, 'a) call"

section \<open>Facts\<close>

lemma app_code_simps [simp]:
  "app_code (NotFound m d) = ErrorCodeNotFound"
  "app_code (Validation m d) = ErrorCodeValidation"
  "app_code (Conflict m d) = ErrorCodeConflict"
  "app_code (Unauthorized m d) = ErrorCodeUnauthorized"
  "app_code (Internal m d) = ErrorCodeInternal"
  by (simp_all add: NotFound_def Validation_def Conflict_def Unauthorized_def Internal_def)

lemma errors_As_simps [simp]:
  "errors_As (NotFound m d) = Some (NotFound m d)"
  "errors_As (Validation m d) = Some (Validation m d)"
  "errors_As (Conflict m d) = Some (Conflict m d)"
  "errors_As (Unauthorized m d) = Some (Unauthorized m d)"
  "errors_As (Internal m d) = Some (Internal m d)"
  by (simp_all add: NotFound_def Validation_def Conflict_def Unauthorized_def Internal_def)

lemma errors_As_app: "errors_As e = Some a \<Longrightarrow> is_app_error a"
  by (induction e) auto

lemma app_code_WithCause [simp]: "app_code (WithCause e c) = app_code e"
  by (cases e) auto

lemma app_message_WithCause [simp]: "app_message (WithCause e c) = app_message e"
  by (cases e) auto

lemma errors_As_WithCause:
  "is_app_error e \<Longrightarrow> errors_As (WithCause e c) = Some (WithCause e c)"
  by (cases e) auto

lemma is_app_error_Internal [simp]: "is_app_error (Internal m d)"
  by (simp add: Internal_def)

lemma is_app_error_as_app_error: "is_app_error (as_app_error e)"
  by (auto simp: as_app_error_def Internal_def dest: errors_As_app split: option.splits)

lemma as_app_error_idem [simp]: "as_app_error (as_app_error e) = as_app_error e"
  using is_app_error_as_app_error [of e] by (cases "as_app_error e") (auto simp: as_app_error_def)

lemma as_app_error_app [simp]: "is_app_error e \<Longrightarrow> as_app_error e = e"
  by (cases e) (auto simp: as_app_error_def)

lemma errors_As_wrap: "errors_As (WrapError t e) = errors_As e"
  by simp

end
