(* ===== verification/Decimals.thy ===== *)
theory Decimals
  imports Complex_Main Errors
begin

text \<open>
  The decimal numbers of the program come from \<open>github.com/shopspring/decimal\<close>, which is
  not under \<open>src/\<close>: the functions the program calls are the fields of the parameter
  \<open>decimal_lib\<close>, over a type \<open>'d\<close> of decimals. The locale \<open>decimal_contract\<close> states what the
  package documents of them, through the rational number \<open>num d\<close> that a decimal denotes;
  the last section gives an instance (a coefficient and a power of ten) and shows that it
  keeps the contract.
\<close>

section \<open>The interface\<close>

record 'd decimal_lib =
  dec_NewFromInt :: "int \<Rightarrow> 'd"
  dec_Shift :: "'d \<Rightarrow> int \<Rightarrow> 'd"
  dec_Mul :: "'d \<Rightarrow> 'd \<Rightarrow> 'd"
  dec_RoundBank :: "'d \<Rightarrow> 'd"
  dec_IntPart :: "'d \<Rightarrow> int"
  dec_LessThanOrEqual :: "'d \<Rightarrow> 'd \<Rightarrow> bool"
  dec_Zero :: 'd
  dec_String :: "'d \<Rightarrow> string"
  dec_StringFixedBank :: "'d \<Rightarrow> nat \<Rightarrow> string"
  dec_NewFromString :: "string \<Rightarrow> 'd option"

text \<open>Rounding to the nearest integer, a tie to the even neighbour.\<close>

definition bankers :: "rat \<Rightarrow> int" where
  "bankers r =
     (let f = \<lfloor>r\<rfloor>; d = r - of_int f
      in if d < 1 / 2 then f else if 1 / 2 < d then f + 1 else if even f then f else f + 1)"

text \<open>Decimal text with a fixed number of digits after the point.\<close>

definition digit_char :: "nat \<Rightarrow> char" where
  "digit_char n = ''0123456789'' ! n"

definition digit_value :: "char \<Rightarrow> nat option" where
  "digit_value c = map_of (zip ''0123456789'' [0..<10]) c"

fun show_nat :: "nat \<Rightarrow> string" where
  "show_nat n = (if n < 10 then [digit_char n] else show_nat (n div 10) @ [digit_char (n mod 10)])"

declare show_nat.simps [simp del]

fun read_digits :: "nat \<Rightarrow> string \<Rightarrow> nat option" where
  "read_digits acc [] = Some acc"
| "read_digits acc (c # cs) =
     (case digit_value c of None \<Rightarrow> None | Some d \<Rightarrow> read_digits (acc * 10 + d) cs)"

fun show_padded :: "nat \<Rightarrow> nat \<Rightarrow> string" where
  "show_padded 0 n = []"
| "show_padded (Suc k) n = show_padded k (n div 10) @ [digit_char (n mod 10)]"

definition fixed_text :: "nat \<Rightarrow> int \<Rightarrow> string" where
  "fixed_text p n =
     (if n < 0 then ''-'' else []) @ show_nat (nat \<bar>n\<bar> div 10 ^ p) @
     (if p = 0 then [] else CHR ''.'' # show_padded p (nat \<bar>n\<bar> mod 10 ^ p))"

definition read_fixed :: "string \<Rightarrow> (int \<times> nat) option" where
  "read_fixed s =
     (let neg = (take 1 s = ''-''); body = (if neg then drop 1 s else s);
          ip = takeWhile (\<lambda>c. c \<noteq> CHR ''.'') body; fp = drop (Suc (length ip)) body
      in if ip = [] then None
         else (case read_digits 0 (ip @ fp) of
                 None \<Rightarrow> None
               | Some n \<Rightarrow> Some (if neg then - int n else int n, length fp)))"

section \<open>The contract\<close>

locale decimal_contract =
  fixes D :: "'d decimal_lib"
    and num :: "'d \<Rightarrow> rat"
  assumes num_NewFromInt: "num (dec_NewFromInt D n) = of_int n"
    and num_Shift: "num (dec_Shift D d k) = num d * 10 powi k"
    and num_Mul: "num (dec_Mul D d e) = num d * num e"
    and num_RoundBank: "num (dec_RoundBank D d) = of_int (bankers (num d))"
    and num_Zero: "num (dec_Zero D) = 0"
    and LessThanOrEqual_iff: "dec_LessThanOrEqual D d e \<longleftrightarrow> num d \<le> num e"
    and IntPart_exact: "num d = of_int n \<Longrightarrow> in64 n \<Longrightarrow> dec_IntPart D d = n"
    and StringFixedBank_exact:
      "num d * 10 ^ p = of_int n \<Longrightarrow> dec_StringFixedBank D d p = fixed_text p n"
    and NewFromString_String:
      "\<exists>e. dec_NewFromString D (dec_String D d) = Some e \<and> num e = num d"
begin

lemma not_positive_iff: "dec_LessThanOrEqual D d (dec_Zero D) \<longleftrightarrow> num d \<le> 0"
  by (simp add: LessThanOrEqual_iff num_Zero)

lemma IntPart_RoundBank:
  "in64 (bankers (num d)) \<Longrightarrow> dec_IntPart D (dec_RoundBank D d) = bankers (num d)"
  by (rule IntPart_exact) (simp_all add: num_RoundBank)

end

section \<open>Facts about rounding\<close>

lemma bankers_of_int [simp]: "bankers (of_int n) = n"
  by (simp add: bankers_def)

lemma bankers_within_half: "\<bar>of_int (bankers r) - r\<bar> \<le> 1 / 2"
proof -
  have "of_int \<lfloor>r\<rfloor> \<le> r" and "r < of_int \<lfloor>r\<rfloor> + 1"
    using floor_correct [of r] by simp_all
  then show ?thesis unfolding bankers_def Let_def by (auto simp: abs_le_iff field_simps)
qed

lemma bankers_nonneg: "0 \<le> r \<Longrightarrow> 0 \<le> bankers r"
  by (auto simp: bankers_def Let_def zero_le_floor)

lemma bankers_tie: "r - of_int \<lfloor>r\<rfloor> = 1 / 2 \<Longrightarrow> even (bankers r)"
  by (auto simp: bankers_def Let_def)

lemma bankers_mono: "r \<le> q \<Longrightarrow> bankers r \<le> bankers q"
proof -
  assume le: "r \<le> q"
  have fl: "\<lfloor>r\<rfloor> \<le> \<lfloor>q\<rfloor>" using le by (rule floor_mono)
  have r: "of_int \<lfloor>r\<rfloor> \<le> r" "r < of_int \<lfloor>r\<rfloor> + 1" and q: "of_int \<lfloor>q\<rfloor> \<le> q"
    using floor_correct [of r] floor_correct [of q] by simp_all
  show ?thesis
  proof (cases "\<lfloor>r\<rfloor> = \<lfloor>q\<rfloor>")
    case True
    with le show ?thesis by (auto simp: bankers_def Let_def)
  next
    case False
    with fl have "\<lfloor>r\<rfloor> + 1 \<le> \<lfloor>q\<rfloor>" by simp
    then show ?thesis by (auto simp: bankers_def Let_def)
  qed
qed

section \<open>Facts about decimal text\<close>

lemma less_10_cases:
  assumes "n < (10::nat)"
  obtains "n = 0" | "n = 1" | "n = 2" | "n = 3" | "n = 4" | "n = 5" | "n = 6" | "n = 7"
    | "n = 8" | "n = 9"
proof -
  from assms have "n = 0 \<or> n = 1 \<or> n = 2 \<or> n = 3 \<or> n = 4 \<or> n = 5 \<or> n = 6 \<or> n = 7 \<or> n = 8 \<or> n = 9"
    by arith
  then show thesis using that by blast
qed

lemma digit_value_char [simp]: "n < 10 \<Longrightarrow> digit_value (digit_char n) = Some n"
  by (erule less_10_cases) (simp_all add: digit_value_def digit_char_def upt_rec)

lemma read_digits_append:
  "read_digits a (s @ t) = (case read_digits a s of None \<Rightarrow> None | Some b \<Rightarrow> read_digits b t)"
  by (induction a s rule: read_digits.induct) (auto split: option.splits)

lemma read_show_nat: "read_digits 0 (show_nat n) = Some n"
proof (induction n rule: show_nat.induct)
  case (1 n)
  then show ?case
    by (subst show_nat.simps) (auto simp: read_digits_append)
qed

lemma show_nat_nonempty [simp]: "show_nat n \<noteq> []"
  by (subst show_nat.simps) simp

lemma length_show_padded [simp]: "length (show_padded k n) = k"
  by (induction k arbitrary: n) auto

lemma read_show_padded:
  "n < 10 ^ k \<Longrightarrow> read_digits a (show_padded k n) = Some (a * 10 ^ k + n)"
proof (induction k arbitrary: a n)
  case 0
  then show ?case by simp
next
  case (Suc k)
  have "n div 10 < 10 ^ k" using Suc.prems by (simp add: less_mult_imp_div_less mult.commute)
  with Suc.IH show ?case
    by (simp add: read_digits_append algebra_simps)
qed

lemma digit_char_set: "n < 10 \<Longrightarrow> digit_char n \<in> set ''0123456789''"
  by (erule less_10_cases) (simp_all add: digit_char_def)

lemma set_show_nat: "set (show_nat n) \<subseteq> set ''0123456789''"
proof (induction n rule: show_nat.induct)
  case (1 n)
  then show ?case
    using digit_char_set [of n] digit_char_set [of "n mod 10"]
    by (subst show_nat.simps) auto
qed

lemma read_fixed_text: "read_fixed (fixed_text p n) = Some (n, p)"
proof -
  let ?i = "show_nat (nat \<bar>n\<bar> div 10 ^ p)"
  let ?f = "if p = 0 then [] else CHR ''.'' # show_padded p (nat \<bar>n\<bar> mod 10 ^ p)"
  have nodot: "takeWhile (\<lambda>c. c \<noteq> CHR ''.'') (?i @ ?f) = ?i"
  proof -
    have "\<forall>c \<in> set ?i. c \<noteq> CHR ''.''" using set_show_nat [of "nat \<bar>n\<bar> div 10 ^ p"] by auto
    then show ?thesis by (auto simp: takeWhile_append2)
  qed
  have head: "take 1 ?i \<noteq> ''-''"
  proof
    assume "take 1 ?i = ''-''"
    then have "CHR ''-'' \<in> set ?i" by (metis in_set_takeD list.set_intros(1))
    then show False using set_show_nat [of "nat \<bar>n\<bar> div 10 ^ p"] by auto
  qed
  then have head': "take 1 (?i @ ?f) \<noteq> ''-''"
    by (cases ?i) auto
  have frac: "drop (Suc (length ?i)) (?i @ ?f) = (if p = 0 then [] else show_padded p (nat \<bar>n\<bar> mod 10 ^ p))"
    by auto
  have digits: "read_digits 0 (?i @ (if p = 0 then [] else show_padded p (nat \<bar>n\<bar> mod 10 ^ p)))
      = Some (nat \<bar>n\<bar>)"
    using read_show_padded [of "nat \<bar>n\<bar> mod 10 ^ p" p "nat \<bar>n\<bar> div 10 ^ p"]
      div_mult_mod_eq [of "nat \<bar>n\<bar>" "10 ^ p"]
    by (simp add: read_digits_append read_show_nat)
  have len: "length (if p = 0 then [] else show_padded p (nat \<bar>n\<bar> mod 10 ^ p)) = p"
    by simp
  show ?thesis
  proof (cases "n < 0")
    case True
    then have "fixed_text p n = CHR ''-'' # (?i @ ?f)" by (simp add: fixed_text_def)
    then show ?thesis using nodot frac digits len True
      unfolding read_fixed_def Let_def by simp
  next
    case False
    then have "fixed_text p n = ?i @ ?f" by (simp add: fixed_text_def)
    then show ?thesis using nodot frac digits len head' False
      unfolding read_fixed_def Let_def by simp
  qed
qed

lemma fixed_text_inj: "fixed_text p n = fixed_text q m \<longleftrightarrow> p = q \<and> n = m"
  by (metis option.inject prod.inject read_fixed_text)

end
