(* ===== verification/Decimal_Instance.thy ===== *)
theory Decimal_Instance
  imports Decimals
begin

text \<open>
  An instance of the decimal interface that keeps \<open>decimal_contract\<close>: arbitrary precision
  decimals as a coefficient and a power of ten. It evaluates, so the witnesses of the
  theorems about an arbitrary decimal library use it; no theorem about the program rests on
  its details.
\<close>

type_synonym decimal = "int \<times> int"

fun decimal_num :: "decimal \<Rightarrow> rat" where
  "decimal_num (c, e) = of_int c * 10 powi e"

definition round_div :: "int \<Rightarrow> int \<Rightarrow> int" where
  "round_div c p =
     (let q = c div p; r = c mod p
      in if 2 * r < p then q else if p < 2 * r then q + 1 else if even q then q else q + 1)"

fun decimal_round :: "decimal \<Rightarrow> int" where
  "decimal_round (c, e) = (if 0 \<le> e then c * 10 ^ nat e else round_div c (10 ^ nat (- e)))"

fun decimal_le :: "decimal \<Rightarrow> decimal \<Rightarrow> bool" where
  "decimal_le (c, e) (c', e') =
     (c * 10 ^ nat (e - min e e') \<le> c' * 10 ^ nat (e' - min e e'))"

fun decimal_int_part :: "decimal \<Rightarrow> int" where
  "decimal_int_part (c, e) =
     wrap64 (if 0 \<le> e then c * 10 ^ nat e else c sdiv 10 ^ nat (- e))"

fun strip_zeros :: "nat \<Rightarrow> int \<Rightarrow> nat \<times> int" where
  "strip_zeros 0 c = (0, c)"
| "strip_zeros (Suc k) c = (if c mod 10 = 0 then strip_zeros k (c div 10) else (Suc k, c))"

fun decimal_string :: "decimal \<Rightarrow> string" where
  "decimal_string (c, e) =
     (if 0 \<le> e then fixed_text 0 (c * 10 ^ nat e)
      else (case strip_zeros (nat (- e)) c of (k, c') \<Rightarrow> fixed_text k c'))"

definition decimal_parse :: "string \<Rightarrow> decimal option" where
  "decimal_parse s = (case read_fixed s of None \<Rightarrow> None | Some (n, p) \<Rightarrow> Some (n, - int p))"

definition decimals :: "decimal decimal_lib" where
  "decimals =
     \<lparr>dec_NewFromInt = (\<lambda>n. (n, 0)),
      dec_Shift = (\<lambda>(c, e) k. (c, e + k)),
      dec_Mul = (\<lambda>(c, e) (c', e'). (c * c', e + e')),
      dec_RoundBank = (\<lambda>d. (decimal_round d, 0)),
      dec_IntPart = decimal_int_part,
      dec_LessThanOrEqual = decimal_le,
      dec_Zero = (0, 0),
      dec_String = decimal_string,
      dec_StringFixedBank = (\<lambda>(c, e) p. fixed_text p (decimal_round (c, e + int p))),
      dec_NewFromString = decimal_parse\<rparr>"

lemma bankers_divide:
  assumes "0 < p"
  shows "bankers (of_int c / of_int p) = round_div c p"
proof -
  have fl: "\<lfloor>of_int c / (of_int p :: rat)\<rfloor> = c div p"
    by (rule floor_divide_of_int_eq)
  have "(of_int c :: rat) = of_int (c div p) * of_int p + of_int (c mod p)"
    by (metis div_mult_mod_eq of_int_add of_int_mult)
  with assms have frac: "of_int c / (of_int p :: rat) - of_int (c div p) = of_int (c mod p) / of_int p"
    by (simp add: field_simps)
  have lt: "of_int (c mod p) / (of_int p :: rat) < 1 / 2 \<longleftrightarrow> 2 * (c mod p) < p"
    using assms by (simp add: field_simps) (metis of_int_less_iff of_int_mult of_int_numeral)
  have gt: "1 / 2 < of_int (c mod p) / (of_int p :: rat) \<longleftrightarrow> p < 2 * (c mod p)"
    using assms by (simp add: field_simps) (metis of_int_less_iff of_int_mult of_int_numeral)
  show ?thesis unfolding bankers_def round_div_def Let_def fl frac lt gt by (rule refl)
qed

lemma num_neg_exp:
  "e < 0 \<Longrightarrow> of_int c * (10::rat) powi e = of_int c / of_int (10 ^ nat (- e))"
  by (simp add: power_int_def field_simps)

lemma num_nonneg_exp: "0 \<le> e \<Longrightarrow> of_int c * (10::rat) powi e = of_int (c * 10 ^ nat e)"
  by (simp add: power_int_def)

lemma decimal_round_bankers: "decimal_round d = bankers (decimal_num d)"
proof (cases d)
  case (Pair c e)
  show ?thesis
  proof (cases "0 \<le> e")
    case True
    with Pair show ?thesis by (simp only: decimal_num.simps num_nonneg_exp bankers_of_int) simp
  next
    case False
    have "bankers (of_int c / of_int (10 ^ nat (- e))) = round_div c (10 ^ nat (- e))"
      by (rule bankers_divide) simp
    with False Pair show ?thesis by (simp add: num_neg_exp)
  qed
qed

lemma powi_shift: "(10::rat) powi (e + k) = 10 powi e * 10 powi k"
  by (simp add: power_int_add)

lemma decimal_le_iff: "decimal_le d d' \<longleftrightarrow> decimal_num d \<le> decimal_num d'"
proof (cases d, cases d')
  fix c e c' e'
  assume d: "d = (c, e)" "d' = (c', e')"
  let ?m = "min e e'"
  have scale: "of_int x * (10::rat) powi f = of_int (x * 10 ^ nat (f - ?m)) * 10 powi ?m"
    if "?m \<le> f" for x f
  proof -
    have "(10::rat) powi f = 10 powi (f - ?m) * 10 powi ?m" by (simp flip: power_int_add)
    with that show ?thesis by (simp add: power_int_def)
  qed
  have "decimal_num d \<le> decimal_num d' \<longleftrightarrow>
      of_int (c * 10 ^ nat (e - ?m)) * (10::rat) powi ?m \<le> of_int (c' * 10 ^ nat (e' - ?m)) * 10 powi ?m"
    using scale [of e c] scale [of e' c'] by (simp only: d decimal_num.simps min.cobounded1 min.cobounded2)
  also have "\<dots> \<longleftrightarrow> c * 10 ^ nat (e - ?m) \<le> c' * 10 ^ nat (e' - ?m)"
    by (simp only: mult_le_cancel_right_pos zero_less_power_int zero_less_numeral of_int_le_iff)
  finally show ?thesis by (simp only: d decimal_le.simps)
qed

lemma decimal_int_part_exact:
  assumes "decimal_num d = of_int n" and "in64 n"
  shows "decimal_int_part d = n"
proof (cases d)
  case (Pair c e)
  show ?thesis
  proof (cases "0 \<le> e")
    case True
    with assms Pair have "c * 10 ^ nat e = n"
      by (simp only: decimal_num.simps num_nonneg_exp of_int_eq_iff)
    with True Pair assms show ?thesis by simp
  next
    case False
    with assms Pair have "(of_int c :: rat) = of_int (n * 10 ^ nat (- e))"
      by (simp only: decimal_num.simps num_neg_exp not_le) (simp add: field_simps)
    then have "c = n * 10 ^ nat (- e)" by (simp only: of_int_eq_iff)
    then have "c sdiv 10 ^ nat (- e) = n"
      by (simp add: signed_divide_int_def sgn_mult abs_mult mult.assoc [symmetric])
        (simp add: mult_sgn_abs)
    with False Pair assms show ?thesis by simp
  qed
qed

lemma strip_zeros_num:
  "strip_zeros k c = (j, c') \<Longrightarrow> of_int c * (10::rat) powi (- int k) = of_int c' * 10 powi (- int j)"
proof (induction k arbitrary: c)
  case 0
  then show ?case by simp
next
  case (Suc k)
  show ?case
  proof (cases "c mod 10 = 0")
    case True
    then have "c = c div 10 * 10" by (metis add.right_neutral div_mult_mod_eq)
    then have c: "of_int c = of_int (c div 10) * (10::rat)" by (metis of_int_mult of_int_numeral)
    have "(10::rat) * 10 powi (- int (Suc k)) = 10 powi (- int k)"
      using power_int_add [of "10::rat" 1 "- int (Suc k)"] by simp
    with c have "of_int c * (10::rat) powi (- int (Suc k)) = of_int (c div 10) * 10 powi (- int k)"
      by (metis mult.assoc)
    with Suc True show ?thesis by simp
  next
    case False
    with Suc.prems show ?thesis by simp
  qed
qed

lemma decimal_parse_string:
  "\<exists>e. decimal_parse (decimal_string d) = Some e \<and> decimal_num e = decimal_num d"
proof (cases d)
  case (Pair c e)
  obtain j c' where strip: "strip_zeros (nat (- e)) c = (j, c')" by (metis surj_pair)
  show ?thesis
  proof (cases "0 \<le> e")
    case True
    with Pair show ?thesis
      by (simp add: decimal_parse_def read_fixed_text power_int_def)
  next
    case False
    with Pair strip strip_zeros_num [OF strip] show ?thesis
      by (simp add: decimal_parse_def read_fixed_text)
  qed
qed

interpretation dec: decimal_contract decimals decimal_num
proof (unfold_locales, goal_cases)
  case (1 n)
  show ?case by (simp add: decimals_def)
next
  case (2 d k)
  show ?case by (cases d) (simp add: decimals_def powi_shift)
next
  case (3 d e)
  show ?case by (cases d; cases e) (simp add: decimals_def powi_shift)
next
  case (4 d)
  show ?case by (simp add: decimals_def decimal_round_bankers)
next
  case 5
  show ?case by (simp add: decimals_def)
next
  case (6 d e)
  show ?case by (simp add: decimals_def decimal_le_iff)
next
  case (7 d n)
  then show ?case by (simp add: decimals_def decimal_int_part_exact)
next
  case (8 d p n)
  obtain c e where d: "d = (c, e)" by (cases d)
  have "decimal_num (c, e + int p) = decimal_num d * 10 ^ p"
    by (simp add: d powi_shift)
  with 8 have "decimal_round (c, e + int p) = n"
    by (simp only: decimal_round_bankers bankers_of_int)
  then show ?case by (simp add: decimals_def d)
next
  case (9 d)
  show ?case using decimal_parse_string [of d] by (simp add: decimals_def)
qed

end
