(* ===== verification/Shared.thy ===== *)
theory Shared
  imports Decimal_Instance
begin

text \<open>
  \<open>internal/domain/shared\<close>: currencies, money in integer minor units, exchange rates,
  idempotency keys and the names of the external providers. Times are instants in
  nanoseconds (\<open>time.Time\<close> up to its location, which \<open>UTC()\<close> changes and no comparison
  reads); durations are nanoseconds too.
\<close>

type_synonym time = int
type_synonym duration = int

section \<open>Currencies (currency.go)\<close>

definition CurrencyKRW :: string where "CurrencyKRW = ''KRW''"
definition CurrencyUSD :: string where "CurrencyUSD = ''USD''"
definition CurrencyJPY :: string where "CurrencyJPY = ''JPY''"
definition CurrencyEUR :: string where "CurrencyEUR = ''EUR''"

definition supportedCurrencies :: "string \<rightharpoonup> int" where
  "supportedCurrencies =
     [CurrencyKRW \<mapsto> 0, CurrencyUSD \<mapsto> 2, CurrencyJPY \<mapsto> 0, CurrencyEUR \<mapsto> 2]"

definition supported :: "string \<Rightarrow> bool" where
  "supported c \<longleftrightarrow> supportedCurrencies c \<noteq> None"

definition ParseCurrency :: "string \<Rightarrow> string res" where
  "ParseCurrency raw =
     (let currency = ToUpper (TrimSpace raw)
      in if \<not> supported currency
         then Err (Validation ''Unsupported currency'' [(''currency'', DStr raw)])
         else Ok currency)"

definition MustCurrency :: "string \<Rightarrow> string res" where
  "MustCurrency raw =
     (case ParseCurrency raw of
        Ok currency \<Rightarrow> Ok currency
      | Err err \<Rightarrow> Panic (error_text err)
      | Panic p \<Rightarrow> Panic p)"

definition Scale :: "string \<Rightarrow> int" where
  "Scale c = (case supportedCurrencies c of Some n \<Rightarrow> n | None \<Rightarrow> 0)"

named_theorems currency_defs

declare CurrencyKRW_def [currency_defs] CurrencyUSD_def [currency_defs]
  CurrencyJPY_def [currency_defs] CurrencyEUR_def [currency_defs]
  supportedCurrencies_def [currency_defs] supported_def [currency_defs] Scale_def [currency_defs]

lemma supported_iff: "supported c \<longleftrightarrow> c \<in> {''KRW'', ''USD'', ''JPY'', ''EUR''}"
  by (auto simp: currency_defs)

lemma Scale_0_or_2: "Scale c = 0 \<or> Scale c = 2"
  by (auto simp: currency_defs)

lemma ParseCurrency_Ok [io_inv]:
  "ParseCurrency raw = Ok c \<longleftrightarrow> c = ToUpper (TrimSpace raw) \<and> supported c"
  by (auto simp: ParseCurrency_def Let_def)

lemma ParseCurrency_no_panic [simp]: "ParseCurrency raw \<noteq> Panic p"
  by (simp add: ParseCurrency_def Let_def)

lemma ParseCurrency_Err:
  "ParseCurrency raw = Err e \<longleftrightarrow>
     \<not> supported (ToUpper (TrimSpace raw)) \<and>
     e = Validation ''Unsupported currency'' [(''currency'', DStr raw)]"
  by (auto simp: ParseCurrency_def Let_def)

lemma ToUpper_code: "supported c \<Longrightarrow> ToUpper (TrimSpace c) = c"
  unfolding supported_iff by (elim insertE emptyE; hypsubst; code_simp)

lemma ParseCurrency_code [simp]: "supported c \<Longrightarrow> ParseCurrency c = Ok c"
  by (simp add: ParseCurrency_Ok ToUpper_code)

lemma MustCurrency_code [simp]: "supported c \<Longrightarrow> MustCurrency c = Ok c"
  by (simp add: MustCurrency_def)

section \<open>Idempotency keys (idempotency_key.go)\<close>

definition maxIdempotencyKeyLength :: nat where "maxIdempotencyKeyLength = 128"

definition ParseIdempotencyKey :: "string \<Rightarrow> string res" where
  "ParseIdempotencyKey raw =
     (let key = TrimSpace raw
      in if key = [] then Err (Validation ''Idempotency-Key header is required'' [])
         else if length key > maxIdempotencyKeyLength
         then Err (Validation ''Idempotency-Key header is too long''
                [(''maxLength'', DInt (int maxIdempotencyKeyLength))])
         else Ok key)"

lemma ParseIdempotencyKey_Ok [io_inv]:
  "ParseIdempotencyKey raw = Ok k \<longleftrightarrow>
     k = TrimSpace raw \<and> k \<noteq> [] \<and> length k \<le> maxIdempotencyKeyLength"
  by (auto simp: ParseIdempotencyKey_def Let_def)

lemma ParseIdempotencyKey_no_panic [simp]: "ParseIdempotencyKey raw \<noteq> Panic p"
  by (simp add: ParseIdempotencyKey_def Let_def)

section \<open>Money (money.go)\<close>

record money =
  Currency :: string
  MinorUnits :: int

definition NewMoney :: "string \<Rightarrow> int \<Rightarrow> money res" where
  "NewMoney currency minorUnits =
     (if \<not> supported currency
      then Err (Validation ''Unsupported currency'' [(''currency'', DStr currency)])
      else Ok \<lparr>Currency = currency, MinorUnits = minorUnits\<rparr>)"

definition MustMoney :: "string \<Rightarrow> int \<Rightarrow> money res" where
  "MustMoney currency minorUnits =
     (case NewMoney currency minorUnits of
        Ok m \<Rightarrow> Ok m
      | Err err \<Rightarrow> Panic (error_text err)
      | Panic p \<Rightarrow> Panic p)"

definition money_Scale :: "money \<Rightarrow> int" where
  "money_Scale m = Scale (Currency m)"

definition DecimalAmount :: "'d decimal_lib \<Rightarrow> money \<Rightarrow> 'd" where
  "DecimalAmount D m = dec_Shift D (dec_NewFromInt D (MinorUnits m)) (- money_Scale m)"

definition AmountString :: "'d decimal_lib \<Rightarrow> money \<Rightarrow> string" where
  "AmountString D m = dec_StringFixedBank D (DecimalAmount D m) (nat (money_Scale m))"

definition Add :: "money \<Rightarrow> money \<Rightarrow> money res" where
  "Add m other =
     (if Currency m \<noteq> Currency other
      then Err (Validation ''Currency mismatch''
             [(''left'', DStr (Currency m)), (''right'', DStr (Currency other))])
      else Ok \<lparr>Currency = Currency m, MinorUnits = wrap64 (MinorUnits m + MinorUnits other)\<rparr>)"

definition ValidatePositive :: "money \<Rightarrow> string \<Rightarrow> unit res" where
  "ValidatePositive m field =
     (if MinorUnits m \<le> 0
      then Err (Validation ''Money amount must be positive''
             [(''field'', DStr field), (''currency'', DStr (Currency m)),
              (''minorUnits'', DInt (MinorUnits m))])
      else Ok ())"

definition Convert :: "'d decimal_lib \<Rightarrow> money \<Rightarrow> string \<Rightarrow> 'd \<Rightarrow> money res" where
  "Convert D base target rate =
     bind_result (ValidatePositive base ''baseAmount'') (\<lambda>_.
       if dec_LessThanOrEqual D rate (dec_Zero D)
       then Err (Validation ''Exchange rate must be positive'' [(''rate'', DStr (dec_String D rate))])
       else
         (let targetAmount = dec_Mul D (DecimalAmount D base) rate;
              minorUnits = dec_IntPart D (dec_RoundBank D (dec_Shift D targetAmount (Scale target)))
          in NewMoney target minorUnits))"

definition FeeFromBPS :: "money \<Rightarrow> int \<Rightarrow> money \<Rightarrow> money res" where
  "FeeFromBPS base feeBPS minimum =
     (if Currency base \<noteq> Currency minimum
      then Err (Validation ''Fee currency mismatch''
             [(''baseCurrency'', DStr (Currency base)),
              (''minimumCurrency'', DStr (Currency minimum))])
      else if feeBPS < 0
      then Err (Validation ''Fee basis points must be zero or positive'' [(''feeBPS'', DInt feeBPS)])
      else
        (let product = wrap64 (MinorUnits base * feeBPS);
             calculated = product sdiv 10000;
             calculated = (if product smod 10000 \<noteq> 0 then wrap64 (calculated + 1) else calculated);
             calculated = (if calculated < MinorUnits minimum then MinorUnits minimum else calculated)
         in NewMoney (Currency base) calculated))"

definition money_String :: "'d decimal_lib \<Rightarrow> money \<Rightarrow> string" where
  "money_String D m = Currency m @ '' '' @ AmountString D m"

section \<open>Exchange rates (exchange_rate.go)\<close>

record 'd exchange_rate =
  rate_Base :: string
  rate_Quote :: string
  rate_Provider :: string
  rate_Rate :: 'd
  rate_ObservedAt :: time
  rate_FetchedAt :: time

definition Validate_rate :: "'d decimal_lib \<Rightarrow> 'd exchange_rate \<Rightarrow> unit res" where
  "Validate_rate D r =
     (if rate_Base r = [] \<or> rate_Quote r = []
      then Err (Validation ''Reference rate currencies are required'' [])
      else if rate_Provider r = []
      then Err (Validation ''Reference rate provider is required'' [])
      else if dec_LessThanOrEqual D (rate_Rate r) (dec_Zero D)
      then Err (Validation ''Reference rate must be positive''
             [(''provider'', DStr (rate_Provider r)), (''base'', DStr (rate_Base r)),
              (''quote'', DStr (rate_Quote r))])
      else Ok ())"

section \<open>Providers (provider.go)\<close>

definition ProviderFrankfurter :: string where "ProviderFrankfurter = ''frankfurter''"
definition ProviderToss :: string where "ProviderToss = ''toss''"
definition ProviderStripe :: string where "ProviderStripe = ''stripe''"
definition ProviderPlaid :: string where "ProviderPlaid = ''plaid''"
definition ProviderWise :: string where "ProviderWise = ''wise''"
definition ProviderDemo :: string where "ProviderDemo = ''demo''"

definition IsSupportedPaymentProvider :: "string \<Rightarrow> bool" where
  "IsSupportedPaymentProvider provider \<longleftrightarrow> provider \<in> {ProviderToss, ProviderStripe, ProviderDemo}"

definition IsSupportedTransferProvider :: "string \<Rightarrow> bool" where
  "IsSupportedTransferProvider provider \<longleftrightarrow> provider \<in> {ProviderWise, ProviderPlaid, ProviderDemo}"

record provider_event =
  ev_Provider :: string
  ev_Topic :: string
  ev_ExternalEventID :: string
  ev_ConversionID :: string
  ev_ExternalReference :: "string option"
  ev_OccurredAt :: time
  ev_Payload :: string

section \<open>Facts\<close>

lemma NewMoney_Ok [io_inv]:
  "NewMoney c n = Ok m \<longleftrightarrow> supported c \<and> m = \<lparr>Currency = c, MinorUnits = n\<rparr>"
  by (auto simp: NewMoney_def)

lemma NewMoney_no_panic [simp]: "NewMoney c n \<noteq> Panic p"
  by (simp add: NewMoney_def)

lemma MustMoney_code [simp]:
  "supported c \<Longrightarrow> MustMoney c n = Ok \<lparr>Currency = c, MinorUnits = n\<rparr>"
  by (simp add: MustMoney_def NewMoney_def)

lemma ValidatePositive_Ok [io_inv]: "ValidatePositive m f = Ok u \<longleftrightarrow> 0 < MinorUnits m"
  by (auto simp: ValidatePositive_def)

lemma Add_Ok [io_inv]:
  "Add m n = Ok t \<longleftrightarrow> Currency m = Currency n \<and>
     t = \<lparr>Currency = Currency m, MinorUnits = wrap64 (MinorUnits m + MinorUnits n)\<rparr>"
  by (auto simp: Add_def)

text \<open>The rounded-up quotient of a non-negative product, as the two Go statements compute it.\<close>

lemma sdiv_nonneg: "0 \<le> (p::int) \<Longrightarrow> p sdiv 10000 = p div 10000"
  by (cases "p = 0") (simp_all add: signed_divide_int_def)

lemma smod_nonneg: "0 \<le> (p::int) \<Longrightarrow> p smod 10000 = p mod 10000"
  by (cases "p = 0") (simp_all add: signed_modulo_int_def)

lemma ceil_quotient:
  assumes "0 \<le> (p::int)"
  shows "(if p smod 10000 \<noteq> 0 then p sdiv 10000 + 1 else p sdiv 10000) = (p + 9999) div 10000"
proof -
  define q r where "q = p div 10000" and "r = p mod 10000"
  then have p: "p = 10000 * q + r" and r: "0 \<le> r" "r < 10000" by simp_all
  have "(p + 9999) div 10000 = (if r \<noteq> 0 then q + 1 else q)"
  proof (cases "r = 0")
    case True
    with p have "p + 9999 = 10000 * q + 9999" by linarith
    then have "(p + 9999) div 10000 = q" by (rule int_div_pos_eq) simp_all
    with True show ?thesis by simp
  next
    case False
    from p have "p + 9999 = 10000 * (q + 1) + (r - 1)" by simp
    moreover have "0 \<le> r - 1" "r - 1 < 10000" using False r by simp_all
    ultimately have "(p + 9999) div 10000 = q + 1" by (rule int_div_pos_eq)
    with False show ?thesis by simp
  qed
  with assms show ?thesis by (simp add: sdiv_nonneg smod_nonneg q_def r_def)
qed

lemma FeeFromBPS_value:
  assumes "supported (Currency base)" "Currency minimum = Currency base" "0 \<le> feeBPS"
    and "0 \<le> MinorUnits base" "in64 (MinorUnits base * feeBPS)"
  shows "FeeFromBPS base feeBPS minimum =
    Ok \<lparr>Currency = Currency base,
        MinorUnits = max (MinorUnits minimum) ((MinorUnits base * feeBPS + 9999) div 10000)\<rparr>"
proof -
  let ?p = "MinorUnits base * feeBPS"
  have p: "0 \<le> ?p" using assms by simp
  have "?p sdiv 10000 = ?p div 10000" using p by (rule sdiv_nonneg)
  with p assms(5) have "in64 (?p sdiv 10000 + 1)" unfolding in64_def by simp
  then show ?thesis
    using ceil_quotient [OF p] assms
    by (simp add: FeeFromBPS_def Let_def NewMoney_def max_def split: if_splits)
qed

context decimal_contract begin

lemma num_DecimalAmount: "num (DecimalAmount D m) = of_int (MinorUnits m) * 10 powi (- money_Scale m)"
  by (simp add: DecimalAmount_def num_NewFromInt num_Shift)

lemma AmountString_fixed: "AmountString D m = fixed_text (nat (money_Scale m)) (MinorUnits m)"
proof -
  have "num (DecimalAmount D m) * 10 ^ nat (money_Scale m) = of_int (MinorUnits m)"
    using Scale_0_or_2 [of "Currency m"]
    by (auto simp: num_DecimalAmount money_Scale_def power_int_def power2_eq_square)
  then show ?thesis by (simp add: AmountString_def StringFixedBank_exact)
qed

lemma Convert_value:
  assumes "0 < MinorUnits base" "0 < num rate" "supported target"
    and "in64 (bankers (of_int (MinorUnits base) * num rate * 10 powi (Scale target - money_Scale base)))"
  shows "Convert D base target rate =
    Ok \<lparr>Currency = target, MinorUnits =
         bankers (of_int (MinorUnits base) * num rate * 10 powi (Scale target - money_Scale base))\<rparr>"
proof -
  let ?x = "dec_Shift D (dec_Mul D (DecimalAmount D base) rate) (Scale target)"
  have num: "num ?x = of_int (MinorUnits base) * num rate * 10 powi (Scale target - money_Scale base)"
    by (simp add: num_Shift num_Mul num_DecimalAmount power_int_diff power_int_minus field_simps)
  with assms(4) have "dec_IntPart D (dec_RoundBank D ?x) =
      bankers (of_int (MinorUnits base) * num rate * 10 powi (Scale target - money_Scale base))"
    using IntPart_RoundBank [of ?x] by simp
  with assms show ?thesis
    by (simp add: Convert_def ValidatePositive_def not_positive_iff NewMoney_def Let_def)
qed

lemma Convert_OkD:
  "Convert D base target rate = Ok m \<Longrightarrow>
     0 < MinorUnits base \<and> 0 < num rate \<and> supported target \<and> Currency m = target"
  by (auto simp: Convert_def io_inv Let_def not_positive_iff not_le split: if_splits)

end

end
