(* ===== verification/Quotes.thy ===== *)
theory Quotes
  imports Shared
begin

text \<open>
  \<open>internal/domain/quote/quote.go\<close>: the quote aggregate, its constructor \<open>New\<close> and the
  guard \<open>CanAccept\<close>. The lemmas say what a constructed quote satisfies (\<open>quote_wf\<close>) and
  when it can be accepted.
\<close>

record 'd quote =
  q_ID :: string
  q_IdempotencyKey :: string
  q_BaseAmount :: money
  q_QuoteAmount :: money
  q_FeeAmount :: money
  q_TotalDebitAmount :: money
  q_Rate :: 'd
  q_RateProvider :: string
  q_ExpiresAt :: time
  q_AcceptedAt :: "time option"
  q_CreatedAt :: time

definition New_quote ::
  "'d decimal_lib \<Rightarrow> string \<Rightarrow> string \<Rightarrow> money \<Rightarrow> string \<Rightarrow> 'd exchange_rate \<Rightarrow> int \<Rightarrow> money \<Rightarrow> time \<Rightarrow> duration
   \<Rightarrow> 'd quote res" where
  "New_quote D qid idempotencyKey baseAmount targetCurrency exchangeRate feeBPS minimumFee now ttl =
     (if qid = [] then Err (Validation ''Quote ID is required'' [])
      else bind_result (ValidatePositive baseAmount ''baseAmount'') (\<lambda>_.
      if targetCurrency = [] then Err (Validation ''Quote currency is required'' [])
      else if ttl \<le> 0
      then Err (Validation ''Quote TTL must be positive'' [(''ttl'', DDuration ttl)])
      else if rate_Base exchangeRate \<noteq> Currency baseAmount \<or> rate_Quote exchangeRate \<noteq> targetCurrency
      then Err (Validation ''Reference rate does not match quote corridor''
             [(''rateBase'', DStr (rate_Base exchangeRate)),
              (''rateQuote'', DStr (rate_Quote exchangeRate)),
              (''baseCurrency'', DStr (Currency baseAmount)),
              (''quote'', DStr targetCurrency)])
      else bind_result (Convert D baseAmount targetCurrency (rate_Rate exchangeRate)) (\<lambda>quoteAmount.
           bind_result (FeeFromBPS baseAmount feeBPS minimumFee) (\<lambda>feeAmount.
           bind_result (Add baseAmount feeAmount) (\<lambda>totalDebitAmount.
             Ok \<lparr>q_ID = qid, q_IdempotencyKey = idempotencyKey, q_BaseAmount = baseAmount,
                 q_QuoteAmount = quoteAmount, q_FeeAmount = feeAmount,
                 q_TotalDebitAmount = totalDebitAmount, q_Rate = rate_Rate exchangeRate,
                 q_RateProvider = rate_Provider exchangeRate, q_ExpiresAt = now + ttl,
                 q_AcceptedAt = None, q_CreatedAt = now\<rparr>)))))"

definition CanAccept :: "'d quote \<Rightarrow> time \<Rightarrow> unit res" where
  "CanAccept q at_time =
     (if q_AcceptedAt q \<noteq> None
      then Err (Conflict ''Quote already accepted'' [(''quoteId'', DStr (q_ID q))])
      else if at_time > q_ExpiresAt q
      then Err (Conflict ''Quote expired''
             [(''quoteId'', DStr (q_ID q)), (''expiresAt'', DTime (q_ExpiresAt q))])
      else Ok ())"

text \<open>
  What every stored quote satisfies: supported currencies, the fee and the total in the
  base currency, the total the (wrapped) sum of amount and fee, a positive base amount.
\<close>

definition quote_wf :: "'d quote \<Rightarrow> bool" where
  "quote_wf q \<longleftrightarrow>
     supported (Currency (q_BaseAmount q)) \<and> supported (Currency (q_QuoteAmount q)) \<and>
     Currency (q_FeeAmount q) = Currency (q_BaseAmount q) \<and>
     Currency (q_TotalDebitAmount q) = Currency (q_BaseAmount q) \<and>
     MinorUnits (q_TotalDebitAmount q) =
       wrap64 (MinorUnits (q_BaseAmount q) + MinorUnits (q_FeeAmount q)) \<and>
     0 < MinorUnits (q_BaseAmount q)"

lemma CanAccept_Ok [io_inv]:
  "CanAccept q at_time = Ok u \<longleftrightarrow> q_AcceptedAt q = None \<and> at_time \<le> q_ExpiresAt q"
  by (auto simp: CanAccept_def)

lemma CanAccept_Err_code: "CanAccept q at_time = Err e \<Longrightarrow> app_code e = ErrorCodeConflict"
  by (auto simp: CanAccept_def split: if_splits)

lemma CanAccept_no_panic [simp]: "CanAccept q at_time \<noteq> Panic p"
  by (simp add: CanAccept_def)

lemma FeeFromBPS_OkD:
  "FeeFromBPS base bps minimum = Ok m \<Longrightarrow>
     supported (Currency base) \<and> Currency minimum = Currency base \<and> Currency m = Currency base \<and>
     MinorUnits minimum \<le> MinorUnits m"
  by (auto simp: FeeFromBPS_def io_inv Let_def split: if_splits)

lemma New_quote_OkD:
  assumes "New_quote D qid key base target rate bps minimum now ttl = Ok q"
  shows "qid \<noteq> []" "0 < MinorUnits base" "0 < ttl"
    and "rate_Base rate = Currency base" "rate_Quote rate = target"
    and "Convert D base target (rate_Rate rate) = Ok (q_QuoteAmount q)"
    and "FeeFromBPS base bps minimum = Ok (q_FeeAmount q)"
    and "Add base (q_FeeAmount q) = Ok (q_TotalDebitAmount q)"
    and "q_ID q = qid" "q_IdempotencyKey q = key" "q_BaseAmount q = base"
    and "q_Rate q = rate_Rate rate" "q_RateProvider q = rate_Provider rate"
    and "q_ExpiresAt q = now + ttl" "q_AcceptedAt q = None" "q_CreatedAt q = now"
  using assms by (auto simp: New_quote_def bind_result_Ok ValidatePositive_Ok split: if_splits)

lemma New_quote_no_panic: "New_quote D qid key base target rate bps minimum now ttl \<noteq> Panic p"
proof
  assume "New_quote D qid key base target rate bps minimum now ttl = Panic p"
  then show False
    by (cases "ValidatePositive base ''baseAmount''";
        cases "Convert D base target (rate_Rate rate)"; cases "FeeFromBPS base bps minimum")
      (auto simp: New_quote_def ValidatePositive_def Convert_def FeeFromBPS_def Add_def Let_def
        split: if_splits)
qed

lemma Convert_Ok_supported: "Convert D base target rate = Ok m \<Longrightarrow> supported target \<and> Currency m = target"
  by (auto simp: Convert_def bind_result_Ok NewMoney_Ok Let_def split: if_splits)

lemma New_quote_wf:
  assumes "New_quote D qid key base target rate bps minimum now ttl = Ok q"
  shows "quote_wf q"
  using Convert_Ok_supported [OF New_quote_OkD(6) [OF assms]]
    FeeFromBPS_OkD [OF New_quote_OkD(7) [OF assms]]
    New_quote_OkD(2,8,11) [OF assms]
  by (simp add: quote_wf_def Add_Ok)

end
