(* ===== verification/Conversions.thy ===== *)
theory Conversions
  imports Quotes
begin

text \<open>
  \<open>internal/domain/conversion/conversion.go\<close>: the conversion aggregate and its state
  machine. \<open>conversion_step\<close> has one rule per transition method; \<open>lifecycle\<close> is the
  status graph the methods implement, and the lemmas relate the two and say what no
  transition changes.
\<close>

definition StatusRequested :: string where "StatusRequested = ''REQUESTED''"
definition StatusAwaitingPayment :: string where "StatusAwaitingPayment = ''AWAITING_PAYMENT''"
definition StatusProcessing :: string where "StatusProcessing = ''PROCESSING''"
definition StatusCompleted :: string where "StatusCompleted = ''COMPLETED''"
definition StatusFailed :: string where "StatusFailed = ''FAILED''"
definition StatusCancelled :: string where "StatusCancelled = ''CANCELLED''"

named_theorems status_defs

declare StatusRequested_def [status_defs] StatusAwaitingPayment_def [status_defs]
  StatusProcessing_def [status_defs] StatusCompleted_def [status_defs]
  StatusFailed_def [status_defs] StatusCancelled_def [status_defs]

record 'd conversion =
  c_ID :: string
  c_QuoteID :: string
  c_IdempotencyKey :: string
  c_BaseAmount :: money
  c_QuoteAmount :: money
  c_FeeAmount :: money
  c_TotalDebitAmount :: money
  c_Rate :: 'd
  c_RateProvider :: string
  c_PaymentProvider :: string
  c_TransferProvider :: string
  c_Status :: string
  c_ExternalPaymentID :: "string option"
  c_ExternalTransferID :: "string option"
  c_FailureReason :: "string option"
  c_CreatedAt :: time
  c_UpdatedAt :: time

definition FromQuote ::
  "string \<Rightarrow> string \<Rightarrow> 'd quote \<Rightarrow> string \<Rightarrow> string \<Rightarrow> time \<Rightarrow> 'd conversion res" where
  "FromQuote cid idempotencyKey sourceQuote paymentProvider transferProvider now =
     (if cid = [] then Err (Validation ''Conversion ID is required'' [])
      else if \<not> IsSupportedPaymentProvider paymentProvider
      then Err (Validation ''Unsupported payment provider'' [(''provider'', DStr paymentProvider)])
      else if \<not> IsSupportedTransferProvider transferProvider
      then Err (Validation ''Unsupported transfer provider'' [(''provider'', DStr transferProvider)])
      else bind_result (CanAccept sourceQuote now) (\<lambda>_.
        Ok \<lparr>c_ID = cid, c_QuoteID = q_ID sourceQuote, c_IdempotencyKey = idempotencyKey,
            c_BaseAmount = q_BaseAmount sourceQuote, c_QuoteAmount = q_QuoteAmount sourceQuote,
            c_FeeAmount = q_FeeAmount sourceQuote,
            c_TotalDebitAmount = q_TotalDebitAmount sourceQuote,
            c_Rate = q_Rate sourceQuote, c_RateProvider = q_RateProvider sourceQuote,
            c_PaymentProvider = paymentProvider, c_TransferProvider = transferProvider,
            c_Status = StatusAwaitingPayment, c_ExternalPaymentID = None,
            c_ExternalTransferID = None, c_FailureReason = None,
            c_CreatedAt = now, c_UpdatedAt = now\<rparr>))"

definition AdvanceForPayment :: "'d conversion \<Rightarrow> string \<Rightarrow> time \<Rightarrow> 'd conversion res" where
  "AdvanceForPayment c externalReference now =
     (if c_Status c \<noteq> StatusAwaitingPayment \<and> c_Status c \<noteq> StatusRequested
      then Err (Conflict ''Conversion cannot move to processing from current status''
             [(''conversionId'', DStr (c_ID c)), (''status'', DStr (c_Status c))])
      else
        (let c = c\<lparr>c_Status := StatusProcessing, c_UpdatedAt := now\<rparr>
         in Ok (if externalReference \<noteq> [] then c\<lparr>c_ExternalPaymentID := Some externalReference\<rparr>
                else c)))"

definition CompleteTransfer :: "'d conversion \<Rightarrow> string \<Rightarrow> time \<Rightarrow> 'd conversion res" where
  "CompleteTransfer c externalReference now =
     (if c_Status c \<noteq> StatusProcessing
      then Err (Conflict ''Conversion cannot complete from current status''
             [(''conversionId'', DStr (c_ID c)), (''status'', DStr (c_Status c))])
      else
        (let c = c\<lparr>c_Status := StatusCompleted, c_UpdatedAt := now\<rparr>
         in Ok (if externalReference \<noteq> [] then c\<lparr>c_ExternalTransferID := Some externalReference\<rparr>
                else c)))"

definition FailPayment :: "'d conversion \<Rightarrow> string \<Rightarrow> string \<Rightarrow> time \<Rightarrow> 'd conversion" where
  "FailPayment c reason externalReference now =
     (let c = c\<lparr>c_Status := StatusFailed, c_UpdatedAt := now\<rparr>;
          c = (if reason \<noteq> [] then c\<lparr>c_FailureReason := Some reason\<rparr> else c)
      in if externalReference \<noteq> [] \<and> c_ExternalPaymentID c = None
         then c\<lparr>c_ExternalPaymentID := Some externalReference\<rparr> else c)"

definition FailTransfer :: "'d conversion \<Rightarrow> string \<Rightarrow> string \<Rightarrow> time \<Rightarrow> 'd conversion" where
  "FailTransfer c reason externalReference now =
     (let c = c\<lparr>c_Status := StatusFailed, c_UpdatedAt := now\<rparr>;
          c = (if reason \<noteq> [] then c\<lparr>c_FailureReason := Some reason\<rparr> else c)
      in if externalReference \<noteq> [] \<and> c_ExternalTransferID c = None
         then c\<lparr>c_ExternalTransferID := Some externalReference\<rparr> else c)"

section \<open>The state machine\<close>

inductive conversion_step :: "'d conversion \<Rightarrow> 'd conversion \<Rightarrow> bool" where
  advance: "AdvanceForPayment c ref now = Ok c' \<Longrightarrow> conversion_step c c'"
| complete: "CompleteTransfer c ref now = Ok c' \<Longrightarrow> conversion_step c c'"
| fail_payment: "conversion_step c (FailPayment c reason ref now)"
| fail_transfer: "conversion_step c (FailTransfer c reason ref now)"

inductive conversion_run :: "'d conversion \<Rightarrow> 'd conversion \<Rightarrow> bool" where
  run_start: "conversion_run c c"
| run_step: "conversion_run c c' \<Longrightarrow> conversion_step c' c'' \<Longrightarrow> conversion_run c c''"

text \<open>The specification: which status may follow which.\<close>

definition lifecycle :: "string \<Rightarrow> string \<Rightarrow> bool" where
  "lifecycle a b \<longleftrightarrow>
     b = StatusFailed \<or>
     a \<in> {StatusRequested, StatusAwaitingPayment} \<and> b = StatusProcessing \<or>
     a = StatusProcessing \<and> b = StatusCompleted"

text \<open>What a conversion was agreed on: everything a transition may not touch.\<close>

definition terms_of ::
  "'d conversion \<Rightarrow> string \<times> string \<times> string \<times> money \<times> money \<times> money \<times> money \<times> 'd \<times> string \<times> string \<times> string \<times> time"
where
  "terms_of c =
     (c_ID c, c_QuoteID c, c_IdempotencyKey c, c_BaseAmount c, c_QuoteAmount c, c_FeeAmount c,
      c_TotalDebitAmount c, c_Rate c, c_RateProvider c, c_PaymentProvider c, c_TransferProvider c,
      c_CreatedAt c)"

lemma AdvanceForPayment_OkD [io_inv]:
  "AdvanceForPayment c ref now = Ok c' \<longleftrightarrow>
     c_Status c \<in> {StatusRequested, StatusAwaitingPayment} \<and>
     c' = c\<lparr>c_Status := StatusProcessing, c_UpdatedAt := now,
            c_ExternalPaymentID := (if ref \<noteq> [] then Some ref else c_ExternalPaymentID c)\<rparr>"
  by (auto simp: AdvanceForPayment_def Let_def)

lemma CompleteTransfer_OkD [io_inv]:
  "CompleteTransfer c ref now = Ok c' \<longleftrightarrow>
     c_Status c = StatusProcessing \<and>
     c' = c\<lparr>c_Status := StatusCompleted, c_UpdatedAt := now,
            c_ExternalTransferID := (if ref \<noteq> [] then Some ref else c_ExternalTransferID c)\<rparr>"
  by (auto simp: CompleteTransfer_def Let_def)

lemma AdvanceForPayment_no_panic [simp]: "AdvanceForPayment c ref now \<noteq> Panic p"
  by (simp add: AdvanceForPayment_def Let_def)

lemma CompleteTransfer_no_panic [simp]: "CompleteTransfer c ref now \<noteq> Panic p"
  by (simp add: CompleteTransfer_def Let_def)

lemma Fail_Status [simp]:
  "c_Status (FailPayment c reason ref now) = StatusFailed"
  "c_Status (FailTransfer c reason ref now) = StatusFailed"
  by (simp_all add: FailPayment_def FailTransfer_def Let_def)

lemma Fail_terms [simp]:
  "terms_of (FailPayment c reason ref now) = terms_of c"
  "terms_of (FailTransfer c reason ref now) = terms_of c"
  by (simp_all add: FailPayment_def FailTransfer_def Let_def terms_of_def)

lemma Fail_payment_ref:
  "c_ExternalPaymentID c = Some r \<Longrightarrow> c_ExternalPaymentID (FailPayment c reason ref now) = Some r"
  "c_ExternalPaymentID (FailTransfer c reason ref now) = c_ExternalPaymentID c"
  "c_ExternalTransferID c = Some r \<Longrightarrow> c_ExternalTransferID (FailTransfer c reason ref now) = Some r"
  "c_ExternalTransferID (FailPayment c reason ref now) = c_ExternalTransferID c"
  by (simp_all add: FailPayment_def FailTransfer_def Let_def)

lemma step_terms: "conversion_step c c' \<Longrightarrow> terms_of c' = terms_of c"
  by (induction rule: conversion_step.induct) (auto simp: io_inv, auto simp: terms_of_def)

lemma step_lifecycle: "conversion_step c c' \<Longrightarrow> lifecycle (c_Status c) (c_Status c')"
  by (induction rule: conversion_step.induct) (auto simp: io_inv lifecycle_def)

lemma lifecycle_step: "lifecycle (c_Status c) b \<Longrightarrow> \<exists>c'. conversion_step c c' \<and> c_Status c' = b"
  unfolding lifecycle_def
proof (elim disjE conjE)
  assume "b = StatusFailed"
  then show ?thesis by (metis Fail_Status(1) fail_payment)
next
  assume "c_Status c \<in> {StatusRequested, StatusAwaitingPayment}" "b = StatusProcessing"
  then have "AdvanceForPayment c [] 0 = Ok (c\<lparr>c_Status := StatusProcessing, c_UpdatedAt := 0\<rparr>)"
    by (simp add: AdvanceForPayment_OkD)
  then show ?thesis using \<open>b = StatusProcessing\<close> by (force intro: advance)
next
  assume "c_Status c = StatusProcessing" "b = StatusCompleted"
  then have "CompleteTransfer c [] 0 = Ok (c\<lparr>c_Status := StatusCompleted, c_UpdatedAt := 0\<rparr>)"
    by (simp add: CompleteTransfer_OkD)
  then show ?thesis using \<open>b = StatusCompleted\<close> by (force intro: complete)
qed

lemma run_terms: "conversion_run c c' \<Longrightarrow> terms_of c' = terms_of c"
  by (induction rule: conversion_run.induct) (auto dest: step_terms)

lemma lifecycle_from_failed: "lifecycle StatusFailed b \<longleftrightarrow> b = StatusFailed"
  by (auto simp: lifecycle_def status_defs)

lemma lifecycle_from_completed: "lifecycle StatusCompleted b \<longleftrightarrow> b = StatusFailed"
  by (auto simp: lifecycle_def status_defs)

lemma run_failed: "conversion_run c c' \<Longrightarrow> c_Status c = StatusFailed \<Longrightarrow> c_Status c' = StatusFailed"
  by (induction rule: conversion_run.induct) (metis step_lifecycle lifecycle_from_failed)+

lemma run_completed:
  "conversion_run c c' \<Longrightarrow> c_Status c = StatusCompleted \<Longrightarrow> c_Status c' \<in> {StatusCompleted, StatusFailed}"
  by (induction rule: conversion_run.induct)
    (auto dest!: step_lifecycle simp: lifecycle_from_failed lifecycle_from_completed)

lemma FromQuote_Ok [io_inv]:
  "FromQuote cid key q pay tra now = Ok c \<longleftrightarrow>
     cid \<noteq> [] \<and> IsSupportedPaymentProvider pay \<and> IsSupportedTransferProvider tra \<and>
     q_AcceptedAt q = None \<and> now \<le> q_ExpiresAt q \<and>
     c = \<lparr>c_ID = cid, c_QuoteID = q_ID q, c_IdempotencyKey = key,
          c_BaseAmount = q_BaseAmount q, c_QuoteAmount = q_QuoteAmount q,
          c_FeeAmount = q_FeeAmount q, c_TotalDebitAmount = q_TotalDebitAmount q,
          c_Rate = q_Rate q, c_RateProvider = q_RateProvider q,
          c_PaymentProvider = pay, c_TransferProvider = tra,
          c_Status = StatusAwaitingPayment, c_ExternalPaymentID = None,
          c_ExternalTransferID = None, c_FailureReason = None,
          c_CreatedAt = now, c_UpdatedAt = now\<rparr>"
  by (auto simp: FromQuote_def io_inv)

lemma FromQuote_no_panic [simp]: "FromQuote cid key q pay tra now \<noteq> Panic p"
  by (simp add: FromQuote_def CanAccept_def)

end
