(* ===== verification/Messages.thy ===== *)
theory Messages
  imports Conversions
begin

text \<open>
  The two message models: \<open>internal/domain/webhook/inbox.go\<close> (a received webhook) and
  \<open>internal/domain/outbox/event.go\<close> (an event waiting to be published).
\<close>

record inbox_message =
  m_ID :: string
  m_Provider :: string
  m_Topic :: string
  m_ExternalEventID :: string
  m_ConversionID :: string
  m_ExternalRef :: "string option"
  m_Payload :: string
  m_ReceivedAt :: time
  m_ProcessedAt :: "time option"

definition Validate_inbox :: "inbox_message \<Rightarrow> unit res" where
  "Validate_inbox m =
     (if m_ID m = [] \<or> m_Provider m = [] \<or> m_Topic m = [] \<or> m_ExternalEventID m = [] \<or>
         m_ConversionID m = []
      then Err (Validation ''Webhook inbox message is incomplete''
             [(''id'', DStr (m_ID m)), (''provider'', DStr (m_Provider m)),
              (''topic'', DStr (m_Topic m)), (''externalEventId'', DStr (m_ExternalEventID m)),
              (''conversionId'', DStr (m_ConversionID m))])
      else Ok ())"

definition inbox_key :: "inbox_message \<Rightarrow> string \<times> string" where
  "inbox_key m = (m_Provider m, m_ExternalEventID m)"

record outbox_event =
  e_ID :: string
  e_AggregateType :: string
  e_AggregateID :: string
  e_EventType :: string
  e_Payload :: string
  e_CreatedAt :: time
  e_PublishedAt :: "time option"
  e_PublishAttempts :: int
  e_LastError :: "string option"

definition IsPublished :: "outbox_event \<Rightarrow> bool" where
  "IsPublished e \<longleftrightarrow> e_PublishedAt e \<noteq> None"

lemma Validate_inbox_Ok [io_inv]:
  "Validate_inbox m = Ok u \<longleftrightarrow>
     m_ID m \<noteq> [] \<and> m_Provider m \<noteq> [] \<and> m_Topic m \<noteq> [] \<and> m_ExternalEventID m \<noteq> [] \<and>
     m_ConversionID m \<noteq> []"
  by (auto simp: Validate_inbox_def)

lemma Validate_inbox_no_panic [simp]: "Validate_inbox m \<noteq> Panic p"
  by (simp add: Validate_inbox_def)

end
