(* ===== verification/Ports.thy ===== *)
theory Ports
  imports Messages "HOL-Library.Multiset"
begin

text \<open>
  \<open>internal/port/fx.go\<close>: the interfaces the use cases are written against, each a record of
  the operations a client may call, over a world \<open>'s\<close> and a type of decimals \<open>'d\<close>.
  The second half is what a provider of the persistence ports promises: an abstract book of
  domain values, one specification per operation (a relation between the book before, the
  result and the book after), and the locale \<open>fx_ports\<close> that collects them. The locale
  \<open>fx_env\<close> adds the ports that leave the book alone.
\<close>

section \<open>The interfaces\<close>

record ('s, 'd) rate_repository =
  rr_UpsertRates :: "'d exchange_rate list \<Rightarrow> ('s, unit) io"
  rr_ListLatestRates :: "string \<Rightarrow> string list \<Rightarrow> ('s, 'd exchange_rate list) io"

record ('s, 'd) quote_repository =
  qr_GetQuoteByID :: "string \<Rightarrow> ('s, 'd quote) io"
  qr_GetQuoteByIdempotencyKey :: "string \<Rightarrow> ('s, 'd quote option) io"
  qr_CreateQuote :: "'d quote \<Rightarrow> ('s, 'd quote) io"
  qr_MarkQuoteAccepted :: "string \<Rightarrow> time \<Rightarrow> ('s, unit) io"

record ('s, 'd) conversion_repository =
  cr_GetConversionByID :: "string \<Rightarrow> ('s, 'd conversion) io"
  cr_GetConversionByIdempotencyKey :: "string \<Rightarrow> ('s, 'd conversion option) io"
  cr_CreateConversion :: "'d conversion \<Rightarrow> ('s, 'd conversion) io"
  cr_UpdateConversion :: "'d conversion \<Rightarrow> ('s, 'd conversion) io"

record 's inbox_repository =
  ir_StoreIfAbsent :: "inbox_message \<Rightarrow> ('s, bool) io"

record 's outbox_repository =
  or_Enqueue :: "outbox_event \<Rightarrow> ('s, unit) io"
  or_ListPending :: "int \<Rightarrow> ('s, outbox_event list) io"
  or_MarkPublished :: "string \<Rightarrow> time \<Rightarrow> ('s, unit) io"
  or_MarkPublishFailed :: "string \<Rightarrow> string \<Rightarrow> ('s, unit) io"

record ('s, 'd) rate_provider =
  rp_GetReferenceRates :: "string \<Rightarrow> string list \<Rightarrow> ('s, 'd exchange_rate list) io"

record 's event_publisher =
  ep_Publish :: "outbox_event \<Rightarrow> ('s, unit) io"

record 's clock =
  ck_Now :: "'s \<Rightarrow> time \<times> 's"

text \<open>\<open>StartSpan\<close> returns the span's \<open>finish\<close> function: here the span's number.\<close>

record 's telemetry =
  tm_StartSpan :: "string \<Rightarrow> 's \<Rightarrow> nat \<times> 's"
  tm_Finish :: "nat \<Rightarrow> go_error option \<Rightarrow> 's \<Rightarrow> 's"
  tm_RecordInboundRequest :: "string \<Rightarrow> string \<Rightarrow> string \<Rightarrow> duration \<Rightarrow> 's \<Rightarrow> 's"
  tm_RecordWebhookDuplicate :: "string \<Rightarrow> 's \<Rightarrow> 's"
  tm_RecordWebhookAccepted :: "string \<Rightarrow> 's \<Rightarrow> 's"
  tm_RecordOutboxPublished :: "string \<Rightarrow> 's \<Rightarrow> 's"
  tm_RecordOutboxPublishFailure :: "string \<Rightarrow> 's \<Rightarrow> 's"

record ('s, 'd) transaction_repositories =
  tx_Rates :: "('s, 'd) rate_repository"
  tx_Quotes :: "('s, 'd) quote_repository"
  tx_Conversions :: "('s, 'd) conversion_repository"
  tx_WebhookInbox :: "'s inbox_repository"
  tx_Outbox :: "'s outbox_repository"

text \<open>
  The unit of work: the repositories bound to the transaction, and the database's begin,
  commit and rollback. \<open>WithinTransaction\<close> runs a function between them: committed when it
  returns nil, rolled back when it returns an error or panics.
\<close>

record ('s, 'd) unit_of_work =
  uow_Begin :: "('s, unit) io"
  uow_Commit :: "('s, unit) io"
  uow_Rollback :: "'s \<Rightarrow> 's"
  uow_Repos :: "('s, 'd) transaction_repositories"

definition WithinTransaction ::
  "('s, 'd) unit_of_work \<Rightarrow> (('s, 'd) transaction_repositories \<Rightarrow> ('s, 'a) io) \<Rightarrow> ('s, 'a) io" where
  "WithinTransaction U fn =
     bind (uow_Begin U) (\<lambda>_ s.
       (case fn (uow_Repos U) s of
          (Ok x, s') \<Rightarrow> bind (uow_Commit U) (\<lambda>_. ret x) s'
        | (Err e, s') \<Rightarrow> (Err e, uow_Rollback U s')
        | (Panic p, s') \<Rightarrow> (Panic p, uow_Rollback U s')))"

section \<open>What a provider promises\<close>

record 'd book =
  bk_rates :: "'d exchange_rate list"
  bk_quotes :: "'d quote list"
  bk_convs :: "'d conversion list"
  bk_inbox :: "inbox_message list"
  bk_outbox :: "outbox_event list"

text \<open>
  \<open>refines\<close>: from a state that satisfies the representation invariant, a call ends in such a
  state, leaves the transaction's snapshot alone and relates the abstract states and the
  result as its specification says.
\<close>

definition refines ::
  "('s \<Rightarrow> 'v) \<Rightarrow> ('s \<Rightarrow> 'v option) \<Rightarrow> ('s \<Rightarrow> bool) \<Rightarrow> ('e, 's, 'a) call \<Rightarrow>
   ('v \<Rightarrow> ('e, 'a) result \<Rightarrow> 'v \<Rightarrow> bool) \<Rightarrow> bool" where
  "refines view snap ok call spec \<longleftrightarrow>
     (\<forall>s r s'. ok s \<longrightarrow> call s = (r, s') \<longrightarrow>
        ok s' \<and> snap s' = snap s \<and> spec (view s) r (view s'))"

lemma refinesI:
  "(\<And>s r s'. ok s \<Longrightarrow> call s = (r, s') \<Longrightarrow> ok s' \<and> snap s' = snap s \<and> spec (view s) r (view s')) \<Longrightarrow>
   refines view snap ok call spec"
  by (auto simp: refines_def)

lemma refinesD:
  assumes "refines view snap ok call spec" "call s = (r, s')" "ok s"
  shows "ok s'" "snap s' = snap s" "spec (view s) r (view s')"
  using assms by (auto simp: refines_def)

lemma refines_weaken:
  "refines view snap ok call spec \<Longrightarrow> (\<And>b r b'. spec b r b' \<Longrightarrow> spec' b r b') \<Longrightarrow>
   refines view snap ok call spec'"
  unfolding refines_def by blast

text \<open>
  An error of the infrastructure: the database or the driver failed, and the caller sees an
  internal error, wrapped by the repository or still the driver's own.
\<close>

definition infra :: "go_error \<Rightarrow> bool" where
  "infra e \<longleftrightarrow> app_code (as_app_error e) = ErrorCodeInternal"

text \<open>
  How the columns' types change a stored value: the forms a later read returns, and the forms
  in which values are compared. \<open>sf_id\<close> is for identifiers (fixed-length text, where trailing
  blanks do not count) and \<open>sf_text n\<close> for text of at most \<open>n\<close> characters.
\<close>

record 'd stored_form =
  sf_rate :: "'d \<Rightarrow> 'd"
  sf_time :: "time \<Rightarrow> time"
  sf_json :: "string \<Rightarrow> string"
  sf_id :: "string \<Rightarrow> string"
  sf_text :: "nat \<Rightarrow> string \<Rightarrow> string"

definition stored_rate :: "'d stored_form \<Rightarrow> 'd exchange_rate \<Rightarrow> 'd exchange_rate" where
  "stored_rate F r =
     r\<lparr>rate_Provider := sf_text F 32 (rate_Provider r), rate_Rate := sf_rate F (rate_Rate r), rate_ObservedAt := sf_time F (rate_ObservedAt r),
       rate_FetchedAt := sf_time F (rate_FetchedAt r)\<rparr>"

definition stored_quote :: "'d stored_form \<Rightarrow> 'd quote \<Rightarrow> 'd quote" where
  "stored_quote F q =
     q\<lparr>q_ID := sf_id F (q_ID q), q_IdempotencyKey := sf_text F 128 (q_IdempotencyKey q),
       q_RateProvider := sf_text F 32 (q_RateProvider q),
       q_Rate := sf_rate F (q_Rate q), q_ExpiresAt := sf_time F (q_ExpiresAt q),
       q_AcceptedAt := map_option (sf_time F) (q_AcceptedAt q),
       q_CreatedAt := sf_time F (q_CreatedAt q)\<rparr>"

definition stored_conversion :: "'d stored_form \<Rightarrow> 'd conversion \<Rightarrow> 'd conversion" where
  "stored_conversion F c =
     c\<lparr>c_ID := sf_id F (c_ID c), c_QuoteID := sf_id F (c_QuoteID c),
       c_IdempotencyKey := sf_text F 128 (c_IdempotencyKey c),
       c_RateProvider := sf_text F 32 (c_RateProvider c),
       c_PaymentProvider := sf_text F 32 (c_PaymentProvider c),
       c_TransferProvider := sf_text F 32 (c_TransferProvider c),
       c_Status := sf_text F 32 (c_Status c),
       c_ExternalPaymentID := map_option (sf_text F 128) (c_ExternalPaymentID c),
       c_ExternalTransferID := map_option (sf_text F 128) (c_ExternalTransferID c),
       c_Rate := sf_rate F (c_Rate c), c_CreatedAt := sf_time F (c_CreatedAt c),
       c_UpdatedAt := sf_time F (c_UpdatedAt c)\<rparr>"

definition stored_message :: "'d stored_form \<Rightarrow> inbox_message \<Rightarrow> inbox_message" where
  "stored_message F m =
     m\<lparr>m_ID := sf_id F (m_ID m), m_Provider := sf_text F 32 (m_Provider m),
       m_Topic := sf_text F 64 (m_Topic m),
       m_ExternalEventID := sf_text F 128 (m_ExternalEventID m),
       m_ConversionID := sf_id F (m_ConversionID m),
       m_ExternalRef := map_option (sf_text F 128) (m_ExternalRef m),
       m_Payload := sf_json F (m_Payload m), m_ReceivedAt := sf_time F (m_ReceivedAt m),
       m_ProcessedAt := map_option (sf_time F) (m_ProcessedAt m)\<rparr>"

definition stored_event :: "'d stored_form \<Rightarrow> outbox_event \<Rightarrow> outbox_event" where
  "stored_event F e =
     e\<lparr>e_ID := sf_id F (e_ID e), e_AggregateType := sf_text F 64 (e_AggregateType e),
       e_AggregateID := sf_id F (e_AggregateID e), e_EventType := sf_text F 64 (e_EventType e),
       e_Payload := sf_json F (e_Payload e), e_CreatedAt := sf_time F (e_CreatedAt e),
       e_PublishedAt := map_option (sf_time F) (e_PublishedAt e)\<rparr>"

text \<open>Currencies a stored row can hold: every one supported, fee and total in the base's.\<close>

definition quote_currencies :: "'d quote \<Rightarrow> bool" where
  "quote_currencies q \<longleftrightarrow>
     supported (Currency (q_BaseAmount q)) \<and> supported (Currency (q_QuoteAmount q)) \<and>
     Currency (q_FeeAmount q) = Currency (q_BaseAmount q) \<and>
     Currency (q_TotalDebitAmount q) = Currency (q_BaseAmount q)"

definition conversion_currencies :: "'d conversion \<Rightarrow> bool" where
  "conversion_currencies c \<longleftrightarrow>
     supported (Currency (c_BaseAmount c)) \<and> supported (Currency (c_QuoteAmount c)) \<and>
     Currency (c_FeeAmount c) = Currency (c_BaseAmount c) \<and>
     Currency (c_TotalDebitAmount c) = Currency (c_BaseAmount c)"

definition rate_currencies :: "'d exchange_rate \<Rightarrow> bool" where
  "rate_currencies r \<longleftrightarrow> supported (rate_Base r) \<and> supported (rate_Quote r)"

definition rate_key :: "'d exchange_rate \<Rightarrow> string \<times> string \<times> string" where
  "rate_key r = (rate_Provider r, rate_Base r, rate_Quote r)"

subsection \<open>Quotes\<close>

definition quote_by_id :: "string \<Rightarrow> 'd book \<Rightarrow> 'd quote option" where
  "quote_by_id qid b = find (\<lambda>q. q_ID q = qid) (bk_quotes b)"

definition quote_by_key :: "string \<Rightarrow> 'd book \<Rightarrow> 'd quote option" where
  "quote_by_key key b = find (\<lambda>q. q_IdempotencyKey q = key) (bk_quotes b)"

definition quote_taken :: "'d quote \<Rightarrow> 'd book \<Rightarrow> bool" where
  "quote_taken q b \<longleftrightarrow>
     list_ex (\<lambda>p. q_ID p = q_ID q \<or> q_IdempotencyKey p = q_IdempotencyKey q) (bk_quotes b)"

definition acceptable :: "string \<Rightarrow> time \<Rightarrow> 'd quote \<Rightarrow> bool" where
  "acceptable qid t q \<longleftrightarrow> q_ID q = qid \<and> q_AcceptedAt q = None \<and> t < q_ExpiresAt q"

definition spec_GetQuoteByID :: "'d stored_form \<Rightarrow> string \<Rightarrow> 'd book \<Rightarrow> 'd quote res \<Rightarrow> 'd book \<Rightarrow> bool" where
  "spec_GetQuoteByID F qid b r b' \<longleftrightarrow> b' = b \<and>
     (case r of Ok q \<Rightarrow> quote_by_id (sf_id F qid) b = Some q
      | Err e \<Rightarrow> infra e \<or>
          quote_by_id (sf_id F qid) b = None \<and> e = NotFound ''Quote not found'' [(''quoteId'', DStr qid)]
      | Panic p \<Rightarrow> False)"

definition spec_GetQuoteByIdempotencyKey :: "string \<Rightarrow> 'd book \<Rightarrow> 'd quote option res \<Rightarrow> 'd book \<Rightarrow> bool" where
  "spec_GetQuoteByIdempotencyKey key b r b' \<longleftrightarrow> b' = b \<and>
     (case r of Ok found \<Rightarrow> found = quote_by_key key b | Err e \<Rightarrow> infra e | Panic p \<Rightarrow> False)"

definition spec_CreateQuote ::
  "'d stored_form \<Rightarrow> ('d quote \<Rightarrow> 'd quote) \<Rightarrow> 'd quote \<Rightarrow> 'd book \<Rightarrow> 'd quote res \<Rightarrow> 'd book \<Rightarrow> bool" where
  "spec_CreateQuote F echo q b r b' \<longleftrightarrow>
     (case r of
        Ok q' \<Rightarrow> q' = echo q \<and> \<not> quote_taken (stored_quote F q) b \<and>
          b' = b\<lparr>bk_quotes := bk_quotes b @ [stored_quote F q]\<rparr>
      | Err e \<Rightarrow> b' = b \<and> (infra e \<or>
          quote_taken (stored_quote F q) b \<and>
          e = Conflict ''Quote idempotency key already exists''
                [(''idempotencyKey'', DStr (q_IdempotencyKey q))])
      | Panic p \<Rightarrow> False)"

definition spec_MarkQuoteAccepted ::
  "'d stored_form \<Rightarrow> string \<Rightarrow> time \<Rightarrow> 'd book \<Rightarrow> unit res \<Rightarrow> 'd book \<Rightarrow> bool" where
  "spec_MarkQuoteAccepted F qid t b r b' \<longleftrightarrow>
     (case r of
        Ok _ \<Rightarrow> list_ex (acceptable (sf_id F qid) (sf_time F t)) (bk_quotes b) \<and>
          b' = b\<lparr>bk_quotes := update_where (acceptable (sf_id F qid) (sf_time F t))
                     (\<lambda>q. q\<lparr>q_AcceptedAt := Some (sf_time F t)\<rparr>) (bk_quotes b)\<rparr>
      | Err e \<Rightarrow> b' = b \<and> (infra e \<or>
          \<not> list_ex (acceptable (sf_id F qid) (sf_time F t)) (bk_quotes b) \<and>
          e = Conflict ''Quote already accepted or expired'' [(''quoteId'', DStr qid)])
      | Panic p \<Rightarrow> False)"

subsection \<open>Conversions\<close>

definition conv_by_id :: "string \<Rightarrow> 'd book \<Rightarrow> 'd conversion option" where
  "conv_by_id cid b = find (\<lambda>c. c_ID c = cid) (bk_convs b)"

definition conv_by_key :: "string \<Rightarrow> 'd book \<Rightarrow> 'd conversion option" where
  "conv_by_key key b = find (\<lambda>c. c_IdempotencyKey c = key) (bk_convs b)"

definition conv_taken :: "'d conversion \<Rightarrow> 'd book \<Rightarrow> bool" where
  "conv_taken c b \<longleftrightarrow>
     list_ex (\<lambda>d. c_ID d = c_ID c \<or> c_QuoteID d = c_QuoteID c \<or>
                  c_IdempotencyKey d = c_IdempotencyKey c) (bk_convs b)"

definition spec_GetConversionByID :: "'d stored_form \<Rightarrow> string \<Rightarrow> 'd book \<Rightarrow> 'd conversion res \<Rightarrow> 'd book \<Rightarrow> bool" where
  "spec_GetConversionByID F cid b r b' \<longleftrightarrow> b' = b \<and>
     (case r of Ok c \<Rightarrow> conv_by_id (sf_id F cid) b = Some c
      | Err e \<Rightarrow> infra e \<or>
          conv_by_id (sf_id F cid) b = None \<and> e = NotFound ''Conversion not found'' [(''conversionId'', DStr cid)]
      | Panic p \<Rightarrow> False)"

definition spec_GetConversionByIdempotencyKey ::
  "string \<Rightarrow> 'd book \<Rightarrow> 'd conversion option res \<Rightarrow> 'd book \<Rightarrow> bool" where
  "spec_GetConversionByIdempotencyKey key b r b' \<longleftrightarrow> b' = b \<and>
     (case r of Ok found \<Rightarrow> found = conv_by_key key b | Err e \<Rightarrow> infra e | Panic p \<Rightarrow> False)"

definition spec_CreateConversion ::
  "'d stored_form \<Rightarrow> ('d conversion \<Rightarrow> 'd conversion) \<Rightarrow> 'd conversion \<Rightarrow> 'd book \<Rightarrow> 'd conversion res \<Rightarrow>
   'd book \<Rightarrow> bool" where
  "spec_CreateConversion F echo c b r b' \<longleftrightarrow>
     (case r of
        Ok c' \<Rightarrow> c' = echo c \<and> \<not> conv_taken (stored_conversion F c) b \<and>
          quote_by_id (sf_id F (c_QuoteID c)) b \<noteq> None \<and>
          b' = b\<lparr>bk_convs := bk_convs b @ [stored_conversion F c]\<rparr>
      | Err e \<Rightarrow> b' = b \<and> (infra e \<or> conv_taken (stored_conversion F c) b \<and>
          e = Conflict ''Conversion already exists for quote or idempotency key''
                [(''quoteId'', DStr (c_QuoteID c)), (''idempotencyKey'', DStr (c_IdempotencyKey c))])
      | Panic p \<Rightarrow> False)"

text \<open>
  Saving a conversion replaces its row; the object mapper keeps the column \<open>updated_at\<close> itself,
  so the time stored (\<open>t\<close>) need not be the one of the aggregate.
\<close>

definition spec_UpdateConversion ::
  "'d stored_form \<Rightarrow> ('d conversion \<Rightarrow> 'd conversion) \<Rightarrow> 'd conversion \<Rightarrow> 'd book \<Rightarrow> 'd conversion res \<Rightarrow>
   'd book \<Rightarrow> bool" where
  "spec_UpdateConversion F echo c b r b' \<longleftrightarrow>
     (case r of
        Ok c' \<Rightarrow> (\<exists>c1 t. (c1 = c \<or> c1 = c\<lparr>c_UpdatedAt := t\<rparr>) \<and> c' = echo c1 \<and>
          (if conv_by_id (sf_id F (c_ID c)) b = None
           then \<not> conv_taken (stored_conversion F c) b \<and>
                quote_by_id (sf_id F (c_QuoteID c)) b \<noteq> None \<and>
                b' = b\<lparr>bk_convs := bk_convs b @ [stored_conversion F c1]\<rparr>
           else b' = b\<lparr>bk_convs := update_where (\<lambda>d. c_ID d = sf_id F (c_ID c))
                          (\<lambda>_. stored_conversion F c1) (bk_convs b)\<rparr>))
      | Err e \<Rightarrow> b' = b \<and> (infra e \<or>
          e = NotFound ''Conversion not found'' [(''conversionId'', DStr (c_ID c))])
      | Panic p \<Rightarrow> False)"

subsection \<open>Inbox and outbox\<close>

definition seen :: "inbox_message \<Rightarrow> 'd book \<Rightarrow> bool" where
  "seen m b \<longleftrightarrow> list_ex (\<lambda>n. inbox_key n = inbox_key m) (bk_inbox b)"

definition spec_StoreIfAbsent ::
  "'d stored_form \<Rightarrow> inbox_message \<Rightarrow> 'd book \<Rightarrow> bool res \<Rightarrow> 'd book \<Rightarrow> bool" where
  "spec_StoreIfAbsent F m b r b' \<longleftrightarrow>
     (case r of
        Ok stored \<Rightarrow> Validate_inbox m = Ok () \<and> stored = (\<not> seen (stored_message F m) b) \<and>
          (if stored
           then conv_by_id (sf_id F (m_ConversionID m)) b \<noteq> None \<and>
                b' = b\<lparr>bk_inbox := bk_inbox b @ [stored_message F m]\<rparr>
           else b' = b)
      | Err e \<Rightarrow> b' = b \<and> (infra e \<or> Validate_inbox m = Err e)
      | Panic p \<Rightarrow> False)"

definition event_exists :: "string \<Rightarrow> 'd book \<Rightarrow> bool" where
  "event_exists eid b \<longleftrightarrow> list_ex (\<lambda>e. e_ID e = eid) (bk_outbox b)"

definition spec_Enqueue :: "'d stored_form \<Rightarrow> outbox_event \<Rightarrow> 'd book \<Rightarrow> unit res \<Rightarrow> 'd book \<Rightarrow> bool" where
  "spec_Enqueue F e b r b' \<longleftrightarrow>
     (case r of
        Ok _ \<Rightarrow> \<not> event_exists (sf_id F (e_ID e)) b \<and>
          b' = b\<lparr>bk_outbox := bk_outbox b @ [stored_event F e]\<rparr>
      | Err err \<Rightarrow> b' = b \<and> infra err
      | Panic p \<Rightarrow> False)"

text \<open>
  A batch of at most \<open>limit\<close> unpublished events in order of creation: nothing left out was
  created before something in the batch, and the batch is full or holds every pending event.
\<close>

definition pending_batch :: "nat \<Rightarrow> outbox_event list \<Rightarrow> outbox_event list \<Rightarrow> bool" where
  "pending_batch limit all es \<longleftrightarrow>
     sorted (map e_CreatedAt es) \<and>
     (\<exists>rest. mset (es @ rest) = mset (filter (\<lambda>e. e_PublishedAt e = None) all) \<and>
        (\<forall>e \<in> set es. \<forall>f \<in> set rest. e_CreatedAt e \<le> e_CreatedAt f) \<and>
        length es = min limit (length (filter (\<lambda>e. e_PublishedAt e = None) all)))"

definition spec_ListPending :: "int \<Rightarrow> 'd book \<Rightarrow> outbox_event list res \<Rightarrow> 'd book \<Rightarrow> bool" where
  "spec_ListPending limit b r b' \<longleftrightarrow> b' = b \<and>
     (case r of Ok es \<Rightarrow> pending_batch (nat (if limit \<le> 0 then 100 else limit)) (bk_outbox b) es
      | Err e \<Rightarrow> infra e | Panic p \<Rightarrow> False)"

definition spec_MarkPublished ::
  "'d stored_form \<Rightarrow> string \<Rightarrow> time \<Rightarrow> 'd book \<Rightarrow> unit res \<Rightarrow> 'd book \<Rightarrow> bool" where
  "spec_MarkPublished F eid t b r b' \<longleftrightarrow>
     (case r of
        Ok _ \<Rightarrow> event_exists (sf_id F eid) b \<and>
          b' = b\<lparr>bk_outbox := update_where (\<lambda>e. e_ID e = sf_id F eid)
                     (\<lambda>e. e\<lparr>e_PublishedAt := Some (sf_time F t), e_LastError := None,
                            e_PublishAttempts := e_PublishAttempts e + 1\<rparr>) (bk_outbox b)\<rparr>
      | Err e \<Rightarrow> b' = b \<and> (infra e \<or> \<not> event_exists (sf_id F eid) b \<and>
          e = NotFound ''Outbox event not found'' [(''eventId'', DStr eid)])
      | Panic p \<Rightarrow> False)"

definition spec_MarkPublishFailed ::
  "'d stored_form \<Rightarrow> string \<Rightarrow> string \<Rightarrow> 'd book \<Rightarrow> unit res \<Rightarrow> 'd book \<Rightarrow> bool" where
  "spec_MarkPublishFailed F eid lastError b r b' \<longleftrightarrow>
     (case r of
        Ok _ \<Rightarrow> event_exists (sf_id F eid) b \<and>
          b' = b\<lparr>bk_outbox := update_where (\<lambda>e. e_ID e = sf_id F eid)
                     (\<lambda>e. e\<lparr>e_LastError := Some lastError,
                            e_PublishAttempts := e_PublishAttempts e + 1\<rparr>) (bk_outbox b)\<rparr>
      | Err e \<Rightarrow> b' = b \<and> (infra e \<or> \<not> event_exists (sf_id F eid) b \<and>
          e = NotFound ''Outbox event not found'' [(''eventId'', DStr eid)])
      | Panic p \<Rightarrow> False)"

subsection \<open>Reference rates\<close>

definition upsert_rate :: "'d exchange_rate \<Rightarrow> 'd exchange_rate list \<Rightarrow> 'd exchange_rate list" where
  "upsert_rate r rs =
     (if list_ex (\<lambda>x. rate_key x = rate_key r) rs
      then update_where (\<lambda>x. rate_key x = rate_key r) (\<lambda>_. r) rs
      else rs @ [r])"

definition spec_UpsertRates ::
  "'d decimal_lib \<Rightarrow> 'd stored_form \<Rightarrow> 'd exchange_rate list \<Rightarrow> 'd book \<Rightarrow> unit res \<Rightarrow> 'd book \<Rightarrow> bool" where
  "spec_UpsertRates D F rates b r b' \<longleftrightarrow>
     (case r of
        Ok _ \<Rightarrow> (\<forall>x \<in> set rates. Validate_rate D x = Ok ()) \<and> distinct (map (rate_key \<circ> stored_rate F) rates) \<and>
          b' = b\<lparr>bk_rates := fold upsert_rate (map (stored_rate F) rates) (bk_rates b)\<rparr>
      | Err e \<Rightarrow> b' = b \<and> (infra e \<or> (\<exists>x \<in> set rates. Validate_rate D x = Err e))
      | Panic p \<Rightarrow> False)"

definition requested :: "string \<Rightarrow> string list \<Rightarrow> 'd exchange_rate \<Rightarrow> bool" where
  "requested base quotes r \<longleftrightarrow>
     rate_Provider r = ProviderFrankfurter \<and> rate_Base r = base \<and> rate_Quote r \<in> set quotes"

definition spec_ListLatestRates ::
  "string \<Rightarrow> string list \<Rightarrow> 'd book \<Rightarrow> 'd exchange_rate list res \<Rightarrow> 'd book \<Rightarrow> bool" where
  "spec_ListLatestRates base quotes b r b' \<longleftrightarrow> b' = b \<and>
     (case r of Ok rs \<Rightarrow> mset rs = mset (filter (requested base quotes) (bk_rates b))
      | Err e \<Rightarrow> infra e | Panic p \<Rightarrow> False)"

text \<open>What the unique constraints keep true of the book.\<close>

definition book_ok :: "'d book \<Rightarrow> bool" where
  "book_ok b \<longleftrightarrow>
     distinct (map rate_key (bk_rates b)) \<and>
     distinct (map q_ID (bk_quotes b)) \<and> distinct (map q_IdempotencyKey (bk_quotes b)) \<and>
     distinct (map c_ID (bk_convs b)) \<and> distinct (map c_QuoteID (bk_convs b)) \<and>
     distinct (map c_IdempotencyKey (bk_convs b)) \<and>
     distinct (map inbox_key (bk_inbox b)) \<and> distinct (map e_ID (bk_outbox b))"

named_theorems port_specs

declare spec_GetQuoteByID_def [port_specs] spec_GetQuoteByIdempotencyKey_def [port_specs]
  spec_CreateQuote_def [port_specs] spec_MarkQuoteAccepted_def [port_specs]
  spec_GetConversionByID_def [port_specs] spec_GetConversionByIdempotencyKey_def [port_specs]
  spec_CreateConversion_def [port_specs] spec_UpdateConversion_def [port_specs]
  spec_StoreIfAbsent_def [port_specs] spec_Enqueue_def [port_specs]
  spec_ListPending_def [port_specs] spec_MarkPublished_def [port_specs]
  spec_MarkPublishFailed_def [port_specs] spec_UpsertRates_def [port_specs]
  spec_ListLatestRates_def [port_specs]

section \<open>The contract of the persistence ports\<close>

text \<open>
  \<open>saved s\<close> is the book at the start of the open transaction, if one is open. The store's
  own methods and those it hands to a transaction are the same functions over the world.
\<close>

locale fx_ports =
  fixes D :: "'d decimal_lib"
    and F :: "'d stored_form"
    and echo_quote :: "'d quote \<Rightarrow> 'd quote"
    and echo_conversion :: "'d conversion \<Rightarrow> 'd conversion"
    and U :: "('s, 'd) unit_of_work"
    and book :: "'s \<Rightarrow> 'd book"
    and saved :: "'s \<Rightarrow> 'd book option"
    and ok :: "'s \<Rightarrow> bool"
  assumes UpsertRates: "\<forall>r \<in> set rates. rate_currencies r \<Longrightarrow>
      refines book saved ok (rr_UpsertRates (tx_Rates (uow_Repos U)) rates) (spec_UpsertRates D F rates)"
    and ListLatestRates: "supported base \<Longrightarrow> \<forall>c \<in> set quotes. supported c \<Longrightarrow> refines book saved ok
      (rr_ListLatestRates (tx_Rates (uow_Repos U)) base quotes) (spec_ListLatestRates base quotes)"
    and GetQuoteByID: "refines book saved ok
      (qr_GetQuoteByID (tx_Quotes (uow_Repos U)) qid) (spec_GetQuoteByID F qid)"
    and GetQuoteByIdempotencyKey: "refines book saved ok
      (qr_GetQuoteByIdempotencyKey (tx_Quotes (uow_Repos U)) key) (spec_GetQuoteByIdempotencyKey key)"
    and CreateQuote: "quote_currencies q \<Longrightarrow> refines book saved ok
      (qr_CreateQuote (tx_Quotes (uow_Repos U)) q) (spec_CreateQuote F echo_quote q)"
    and MarkQuoteAccepted: "refines book saved ok
      (qr_MarkQuoteAccepted (tx_Quotes (uow_Repos U)) qid t) (spec_MarkQuoteAccepted F qid t)"
    and GetConversionByID: "refines book saved ok
      (cr_GetConversionByID (tx_Conversions (uow_Repos U)) cid) (spec_GetConversionByID F cid)"
    and GetConversionByIdempotencyKey: "refines book saved ok
      (cr_GetConversionByIdempotencyKey (tx_Conversions (uow_Repos U)) key)
      (spec_GetConversionByIdempotencyKey key)"
    and CreateConversion: "conversion_currencies c \<Longrightarrow> refines book saved ok
      (cr_CreateConversion (tx_Conversions (uow_Repos U)) c) (spec_CreateConversion F echo_conversion c)"
    and UpdateConversion: "conversion_currencies c \<Longrightarrow> refines book saved ok
      (cr_UpdateConversion (tx_Conversions (uow_Repos U)) c) (spec_UpdateConversion F echo_conversion c)"
    and StoreIfAbsent: "refines book saved ok
      (ir_StoreIfAbsent (tx_WebhookInbox (uow_Repos U)) m) (spec_StoreIfAbsent F m)"
    and Enqueue: "refines book saved ok (or_Enqueue (tx_Outbox (uow_Repos U)) e) (spec_Enqueue F e)"
    and ListPending: "refines book saved ok
      (or_ListPending (tx_Outbox (uow_Repos U)) limit) (spec_ListPending limit)"
    and MarkPublished: "refines book saved ok
      (or_MarkPublished (tx_Outbox (uow_Repos U)) eid t) (spec_MarkPublished F eid t)"
    and MarkPublishFailed: "refines book saved ok
      (or_MarkPublishFailed (tx_Outbox (uow_Repos U)) eid text) (spec_MarkPublishFailed F eid text)"
    and Begin: "ok s \<Longrightarrow> saved s = None \<Longrightarrow> uow_Begin U s = (r, s') \<Longrightarrow>
      ok s' \<and> book s' = book s \<and>
      (case r of Ok _ \<Rightarrow> saved s' = Some (book s) | Err e \<Rightarrow> saved s' = None \<and> infra e | Panic p \<Rightarrow> False)"
    and Commit: "ok s \<Longrightarrow> saved s = Some b \<Longrightarrow> uow_Commit U s = (r, s') \<Longrightarrow>
      ok s' \<and> saved s' = None \<and>
      (case r of Ok _ \<Rightarrow> book s' = book s | Err e \<Rightarrow> book s' = b \<and> infra e | Panic p \<Rightarrow> False)"
    and Rollback: "ok s \<Longrightarrow> saved s = Some b \<Longrightarrow>
      ok (uow_Rollback U s) \<and> saved (uow_Rollback U s) = None \<and> book (uow_Rollback U s) = b"
    and book_ok: "ok s \<Longrightarrow> book_ok (book s)"
    and stored_currencies: "ok s \<Longrightarrow>
      (\<forall>q \<in> set (bk_quotes (book s)). quote_currencies q) \<and>
      (\<forall>c \<in> set (bk_convs (book s)). conversion_currencies c)"
    and stored_ids: "ok s \<Longrightarrow>
      (\<forall>q \<in> set (bk_quotes (book s)). sf_id F (q_ID q) = q_ID q) \<and>
      (\<forall>c \<in> set (bk_convs (book s)). sf_id F (c_ID c) = c_ID c \<and> sf_id F (c_QuoteID c) = c_QuoteID c) \<and>
      (\<forall>e \<in> set (bk_outbox (book s)). sf_id F (e_ID e) = e_ID e)"
    and sf_id_idem: "sf_id F (sf_id F i) = sf_id F i"
    and sf_text_short: "length v \<le> n \<Longrightarrow> sf_text F n v = v"
    and sf_time_idem: "sf_time F (sf_time F t) = sf_time F t"
    and sf_rate_idem: "sf_rate F (sf_rate F d) = sf_rate F d"
begin

text \<open>
  A transaction as a whole: what its body achieved if it commits, nothing at all if the body
  fails or panics or the commit fails.
\<close>

lemma WithinTransaction_cases:
  assumes "ok s" "saved s = None" "WithinTransaction U fn s = (r, t)"
    and body: "\<And>s1. ok s1 \<Longrightarrow> saved s1 = Some (book s) \<Longrightarrow> book s1 = book s \<Longrightarrow>
      ok (snd (fn (uow_Repos U) s1)) \<and> saved (snd (fn (uow_Repos U) s1)) = Some (book s)"
  shows "ok t \<and> saved t = None \<and>
    (case r of
       Ok x \<Rightarrow> (\<exists>s1 s2. ok s1 \<and> saved s1 = Some (book s) \<and> book s1 = book s \<and>
                 fn (uow_Repos U) s1 = (Ok x, s2) \<and> book t = book s2)
     | Err e \<Rightarrow> book t = book s \<and> (infra e \<or>
                 (\<exists>s1 s2. ok s1 \<and> saved s1 = Some (book s) \<and> book s1 = book s \<and>
                    fn (uow_Repos U) s1 = (Err e, s2)))
     | Panic p \<Rightarrow> book t = book s \<and>
                 (\<exists>s1 s2. ok s1 \<and> saved s1 = Some (book s) \<and> book s1 = book s \<and>
                    fn (uow_Repos U) s1 = (Panic p, s2)))"
proof -
  obtain r0 s1 where begin': "uow_Begin U s = (r0, s1)" by fastforce
  note B = Begin [OF assms(1,2) begin']
  show ?thesis
  proof (cases r0)
    case (Ok u)
    with B have s1: "ok s1" "saved s1 = Some (book s)" "book s1 = book s" by auto
    obtain r1 s2 where fn: "fn (uow_Repos U) s1 = (r1, s2)" by fastforce
    with body [OF s1] have s2: "ok s2" "saved s2 = Some (book s)" by auto
    show ?thesis
    proof (cases r1)
      case (Ok x)
      obtain rc s3 where commit: "uow_Commit U s2 = (rc, s3)" by fastforce
      note C = Commit [OF s2 commit]
      have run: "(r, t) = (case rc of Ok _ \<Rightarrow> (Ok x, s3) | Err e \<Rightarrow> (Err e, s3) | Panic p \<Rightarrow> (Panic p, s3))"
        using assms(3) begin' fn commit \<open>r0 = Ok u\<close> Ok
        by (simp add: WithinTransaction_def ret_def bind_def split: result.splits)
      show ?thesis
      proof (cases rc)
        case (Ok v)
        with run C have "r = Ok x" "ok t" "saved t = None" "book t = book s2" by auto
        with s1 fn \<open>r1 = Ok x\<close> show ?thesis by simp blast
      next
        case (Err e)
        with run C show ?thesis by simp
      next
        case (Panic p)
        with C show ?thesis by simp
      qed
    next
      case (Err e)
      with assms(3) begin' fn \<open>r0 = Ok u\<close> have "r = Err e" "t = uow_Rollback U s2"
        by (simp_all add: WithinTransaction_def)
      with Rollback [OF s2] s1 fn Err show ?thesis by simp blast
    next
      case (Panic p)
      with assms(3) begin' fn \<open>r0 = Ok u\<close> have "r = Panic p" "t = uow_Rollback U s2"
        by (simp_all add: WithinTransaction_def)
      with Rollback [OF s2] s1 fn Panic show ?thesis by simp blast
    qed
  next
    case (Err e)
    with B assms(3) begin' show ?thesis by (auto simp: WithinTransaction_def bind_def)
  next
    case (Panic p)
    with B show ?thesis by simp
  qed
qed

end

section \<open>The environment of the use cases\<close>

text \<open>
  The ports that do not write the book: the clock, the telemetry, the rate provider, the
  publisher, and the source of identifiers (\<open>ulid.Make\<close>) and wall-clock reads.
\<close>

record ('s, 'd) environment =
  env_Clock :: "'s clock"
  env_Telemetry :: "'s telemetry"
  env_Provider :: "('s, 'd) rate_provider"
  env_Publisher :: "'s event_publisher"
  env_ULID :: "'s \<Rightarrow> string \<times> 's"
  env_WallClock :: "'s \<Rightarrow> time \<times> 's"

locale fx_env = fx_ports D F echo_quote echo_conversion U book saved ok
  for D :: "'d decimal_lib" and F echo_quote echo_conversion
    and U :: "('s, 'd) unit_of_work" and book saved ok +
  fixes E :: "('s, 'd) environment"
  assumes Clock_frame: "ok s \<Longrightarrow> ck_Now (env_Clock E) s = (t, s') \<Longrightarrow>
      ok s' \<and> saved s' = saved s \<and> book s' = book s"
    and ULID_frame: "ok s \<Longrightarrow> env_ULID E s = (i, s') \<Longrightarrow>
      ok s' \<and> saved s' = saved s \<and> book s' = book s"
    and WallClock_frame: "ok s \<Longrightarrow> env_WallClock E s = (t, s') \<Longrightarrow>
      ok s' \<and> saved s' = saved s \<and> book s' = book s"
    and StartSpan_frame: "ok s \<Longrightarrow> tm_StartSpan (env_Telemetry E) name s = (n, s') \<Longrightarrow>
      ok s' \<and> saved s' = saved s \<and> book s' = book s"
    and Finish_frame: "ok s \<Longrightarrow> tm_Finish (env_Telemetry E) n err s = s' \<Longrightarrow>
      ok s' \<and> saved s' = saved s \<and> book s' = book s"
    and Record_frame: "ok s \<Longrightarrow>
      f \<in> {tm_RecordInboundRequest (env_Telemetry E) tr op out dur,
           tm_RecordWebhookDuplicate (env_Telemetry E) prov,
           tm_RecordWebhookAccepted (env_Telemetry E) prov,
           tm_RecordOutboxPublished (env_Telemetry E) ty,
           tm_RecordOutboxPublishFailure (env_Telemetry E) ty} \<Longrightarrow>
      ok (f s) \<and> saved (f s) = saved s \<and> book (f s) = book s"
    and Provider_frame: "ok s \<Longrightarrow> rp_GetReferenceRates (env_Provider E) base quotes s = (rp, s') \<Longrightarrow>
      ok s' \<and> saved s' = saved s \<and> book s' = book s \<and>
      (case rp of Ok rates \<Rightarrow> (\<forall>x \<in> set rates. rate_currencies x) | Err e \<Rightarrow> True | Panic p \<Rightarrow> False)"
    and Publish_frame: "ok s \<Longrightarrow> ep_Publish (env_Publisher E) ev s = (ru, s') \<Longrightarrow>
      ok s' \<and> saved s' = saved s \<and> book s' = book s \<and> \<not> is_panic ru"
begin

lemmas frames = Clock_frame ULID_frame WallClock_frame StartSpan_frame Finish_frame

end

end
