(* ===== verification/Triples.thy ===== *)
theory Triples
  imports Ports
begin

text \<open>
  Reasoning about composed calls through the book: \<open>triple view snap ok S P c Q\<close> says that
  from a state with the snapshot \<open>S\<close> whose book satisfies \<open>P\<close>, the call \<open>c\<close> ends in a state
  with the same snapshot whose result and book satisfy \<open>Q\<close>. The rules compute the strongest
  postcondition from the ports' specifications, so that a use case's proof applies one rule
  per call of the code and closes the remaining implication over books with \<open>auto\<close>.
\<close>

definition triple ::
  "('s \<Rightarrow> 'v) \<Rightarrow> ('s \<Rightarrow> 'v option) \<Rightarrow> ('s \<Rightarrow> bool) \<Rightarrow> 'v option \<Rightarrow> ('v \<Rightarrow> bool) \<Rightarrow>
   ('e, 's, 'a) call \<Rightarrow> (('e, 'a) result \<Rightarrow> 'v \<Rightarrow> bool) \<Rightarrow> bool" where
  "triple view snap ok S P c Q \<longleftrightarrow>
     (\<forall>s r t. ok s \<and> snap s = S \<and> P (view s) \<and> c s = (r, t) \<longrightarrow>
        ok t \<and> snap t = S \<and> Q r (view t))"

lemma tripleI:
  "(\<And>s r t. ok s \<Longrightarrow> snap s = S \<Longrightarrow> P (view s) \<Longrightarrow> c s = (r, t) \<Longrightarrow>
     ok t \<and> snap t = S \<and> Q r (view t)) \<Longrightarrow> triple view snap ok S P c Q"
  by (auto simp: triple_def)

lemma tripleD:
  "triple view snap ok S P c Q \<Longrightarrow> ok s \<Longrightarrow> snap s = S \<Longrightarrow> P (view s) \<Longrightarrow> c s = (r, t) \<Longrightarrow>
     ok t \<and> snap t = S \<and> Q r (view t)"
  unfolding triple_def by blast

lemma triple_post:
  "triple view snap ok S P c Q \<Longrightarrow> (\<And>r b. Q r b \<Longrightarrow> Q' r b) \<Longrightarrow> triple view snap ok S P c Q'"
  unfolding triple_def by blast

lemma triple_pre:
  "triple view snap ok S P' c Q \<Longrightarrow> (\<And>b. P b \<Longrightarrow> P' b) \<Longrightarrow> triple view snap ok S P c Q"
  unfolding triple_def by blast

text \<open>What the representation invariant says of the book may be used at any point.\<close>

lemma triple_inv:
  assumes "\<And>s. ok s \<Longrightarrow> I (view s)"
    and "triple view snap ok S (\<lambda>b. P b \<and> I b) c Q"
  shows "triple view snap ok S P c Q"
  using assms unfolding triple_def by blast

lemma triple_exists:
  "(\<And>x. triple view snap ok S (P x) c Q) \<Longrightarrow> triple view snap ok S (\<lambda>b. \<exists>x. P x b) c Q"
  unfolding triple_def by blast

lemma triple_assume:
  "(A \<Longrightarrow> triple view snap ok S P c Q) \<Longrightarrow> triple view snap ok S (\<lambda>b. A \<and> P b) c Q"
  unfolding triple_def by blast

text \<open>\<open>refines\<close> is the triple that fixes the book before the call.\<close>

lemma triple_refines:
  "refines view snap ok c spec \<Longrightarrow>
   triple view snap ok S P c (\<lambda>r b'. \<exists>b. P b \<and> spec b r b')"
  unfolding triple_def refines_def by blast

lemma triple_of_book:
  assumes "\<And>b. triple view snap ok S (\<lambda>x. x = b) c (spec b)"
  shows "ok s \<Longrightarrow> snap s = S \<Longrightarrow> c s = (r, t) \<Longrightarrow> ok t \<and> snap t = S \<and> spec (view s) r (view t)"
  using assms unfolding triple_def by blast

text \<open>
  A call may also start from a book that satisfies a condition; the specification then holds
  from such books.
\<close>

lemma triple_refines_if:
  assumes "\<And>b. P b \<Longrightarrow> A" and "A \<Longrightarrow> refines view snap ok c spec"
  shows "triple view snap ok S P c (\<lambda>r b'. \<exists>b. P b \<and> spec b r b')"
  using assms unfolding triple_def refines_def by blast

lemma triple_ret: "triple view snap ok S P (ret x) (\<lambda>r b. P b \<and> r = Ok x)"
  by (auto simp: triple_def ret_def)

lemma triple_throw: "triple view snap ok S P (throw e) (\<lambda>r b. P b \<and> r = Err e)"
  by (auto simp: triple_def throw_def)

lemma triple_lift: "triple view snap ok S P (lift v) (\<lambda>r b. P b \<and> v = r)"
  by (auto simp: triple_def lift_def)

lemma triple_bind:
  assumes "triple view snap ok S P m R"
    and "\<And>x. triple view snap ok S (R (Ok x)) (f x) Q"
    and "\<And>e b. R (Err e) b \<Longrightarrow> Q (Err e) b"
    and "\<And>p b. R (Panic p) b \<Longrightarrow> Q (Panic p) b"
  shows "triple view snap ok S P (bind m f) Q"
proof (rule tripleI)
  fix s r t
  assume s: "ok s" "snap s = S" "P (view s)" and run: "bind m f s = (r, t)"
  obtain r1 s1 where m: "m s = (r1, s1)" by fastforce
  from tripleD [OF assms(1) s m] have s1: "ok s1" "snap s1 = S" "R r1 (view s1)" by auto
  show "ok t \<and> snap t = S \<and> Q r (view t)"
  proof (cases r1)
    case (Ok x)
    with m run have "f x s1 = (r, t)" by simp
    with s1 Ok assms(2) [of x] show ?thesis unfolding triple_def by blast
  next
    case (Err e)
    with m run s1 assms(3) show ?thesis by auto
  next
    case (Panic p)
    with m run s1 assms(4) show ?thesis by auto
  qed
qed

text \<open>A read that leaves the book alone.\<close>

lemma triple_get:
  assumes "\<And>s x t. ok s \<Longrightarrow> g s = (x, t) \<Longrightarrow> ok t \<and> snap t = snap s \<and> view t = view s"
    and "\<And>x. triple view snap ok S P (f x) Q"
  shows "triple view snap ok S P (get_with g f) Q"
proof (rule tripleI)
  fix s r t
  assume s: "ok s" "snap s = S" "P (view s)" and run: "get_with g f s = (r, t)"
  obtain x s1 where g: "g s = (x, s1)" by fastforce
  with run have "f x s1 = (r, t)" by (simp add: get_with_def)
  with assms(1) [OF s(1) g] s assms(2) [of x] show "ok t \<and> snap t = S \<and> Q r (view t)"
    unfolding triple_def by metis
qed

text \<open>A state change that leaves the book alone, before the rest of the call.\<close>

definition perform :: "('s \<Rightarrow> 's) \<Rightarrow> ('e, 's, unit) call" where
  "perform g s = (Ok (), g s)"

declare perform_def [io_defs]

lemma triple_perform:
  assumes "\<And>s. ok s \<Longrightarrow> ok (g s) \<and> snap (g s) = snap s \<and> view (g s) = view s"
  shows "triple view snap ok S P (perform g) (\<lambda>r b. P b \<and> r = Ok ())"
  using assms by (auto simp: triple_def perform_def)

text \<open>
  The span around every use case: \<open>ctx, finish := StartSpan(ctx, name); defer finish(nil)\<close>,
  and \<open>finish(err)\<close> before each return of an error.
\<close>

definition with_span :: "'s telemetry \<Rightarrow> string \<Rightarrow> ('s, 'a) io \<Rightarrow> ('s, 'a) io" where
  "with_span T name body s =
     (case tm_StartSpan T name s of
        (n, s1) \<Rightarrow>
          (case body s1 of
             (Ok x, s2) \<Rightarrow> (Ok x, tm_Finish T n None s2)
           | (Err e, s2) \<Rightarrow> (Err e, tm_Finish T n None (tm_Finish T n (Some e) s2))
           | (Panic p, s2) \<Rightarrow> (Panic p, tm_Finish T n None s2)))"

text \<open>What a provider keeps true of its book.\<close>

definition book_inv :: "'d stored_form \<Rightarrow> 'd book \<Rightarrow> bool" where
  "book_inv F b \<longleftrightarrow> book_ok b \<and>
     (\<forall>q \<in> set (bk_quotes b). sf_id F (q_ID q) = q_ID q) \<and>
     (\<forall>c \<in> set (bk_convs b). sf_id F (c_ID c) = c_ID c \<and> sf_id F (c_QuoteID c) = c_QuoteID c) \<and>
     (\<forall>e \<in> set (bk_outbox b). sf_id F (e_ID e) = e_ID e) \<and>
     (\<forall>q \<in> set (bk_quotes b). quote_currencies q) \<and>
     (\<forall>c \<in> set (bk_convs b). conversion_currencies c)"

context fx_env begin

lemma ok_book_inv: "ok s \<Longrightarrow> book_inv F (book s)"
  using book_ok stored_currencies stored_ids by (simp add: book_inv_def)

lemma triple_book_inv:
  "triple book saved ok S (\<lambda>b. P b \<and> book_inv F b) c Q \<Longrightarrow> triple book saved ok S P c Q"
  by (rule triple_inv) (rule ok_book_inv)

lemma triple_span:
  assumes "triple book saved ok S P body Q"
  shows "triple book saved ok S P (with_span (env_Telemetry E) name body) Q"
proof (rule tripleI)
  fix s r t
  assume s: "ok s" "saved s = S" "P (book s)"
    and run: "with_span (env_Telemetry E) name body s = (r, t)"
  obtain n s1 where start: "tm_StartSpan (env_Telemetry E) name s = (n, s1)" by fastforce
  obtain r2 s2 where body: "body s1 = (r2, s2)" by fastforce
  from StartSpan_frame [OF s(1) start] s have s1: "ok s1" "saved s1 = S" "P (book s1)" by auto
  from tripleD [OF assms s1 body] have s2: "ok s2" "saved s2 = S" "Q r2 (book s2)" by auto
  have fin: "ok u \<Longrightarrow> ok (tm_Finish (env_Telemetry E) n err u) \<and>
      saved (tm_Finish (env_Telemetry E) n err u) = saved u \<and>
      book (tm_Finish (env_Telemetry E) n err u) = book u" for u err
    using Finish_frame by blast
  show "ok t \<and> saved t = S \<and> Q r (book t)"
    using run start body s2 fin by (cases r2) (auto simp: with_span_def)
qed

lemma triple_transaction:
  assumes "\<And>b. triple book saved ok (Some b) (\<lambda>x. x = b) (fn (uow_Repos U)) (Q b)"
  shows "triple book saved ok None P (WithinTransaction U fn)
    (\<lambda>r b'. \<exists>b. P b \<and>
       (case r of Ok x \<Rightarrow> Q b (Ok x) b'
        | Err e \<Rightarrow> b' = b \<and> (infra e \<or> (\<exists>b1. Q b (Err e) b1))
        | Panic p \<Rightarrow> b' = b \<and> (\<exists>b1. Q b (Panic p) b1)))"
proof (rule tripleI)
  fix s r t
  assume s: "ok s" "saved s = None" "P (book s)" and run: "WithinTransaction U fn s = (r, t)"
  have "ok s1 \<Longrightarrow> saved s1 = Some (book s) \<Longrightarrow> book s1 = book s \<Longrightarrow>
      ok (snd (fn (uow_Repos U) s1)) \<and> saved (snd (fn (uow_Repos U) s1)) = Some (book s) \<and>
      Q (book s) (fst (fn (uow_Repos U) s1)) (book (snd (fn (uow_Repos U) s1)))" for s1
    using assms [of "book s"] unfolding triple_def
    by (metis surjective_pairing)
  note body = this
  from WithinTransaction_cases [OF s(1,2) run] body
  show "ok t \<and> saved t = None \<and> (\<exists>b. P b \<and>
       (case r of Ok x \<Rightarrow> Q b (Ok x) (book t)
        | Err e \<Rightarrow> book t = b \<and> (infra e \<or> (\<exists>b1. Q b (Err e) b1))
        | Panic p \<Rightarrow> book t = b \<and> (\<exists>b1. Q b (Panic p) b1)))"
    using s(3) by (cases r; simp; metis fst_conv snd_conv)
qed

text \<open>The rules for the ports, one per operation, for a proof to apply in the code's order.\<close>

lemmas port_triples =
  triple_refines [OF GetQuoteByID]
  triple_refines [OF GetQuoteByIdempotencyKey] triple_refines [OF MarkQuoteAccepted]
  triple_refines [OF GetConversionByID] triple_refines [OF GetConversionByIdempotencyKey]
  triple_refines [OF StoreIfAbsent] triple_refines [OF Enqueue] triple_refines [OF ListPending]
  triple_refines [OF MarkPublished] triple_refines [OF MarkPublishFailed]

lemma triple_clock:
  "(\<And>t. triple book saved ok S P (f t) Q) \<Longrightarrow>
   triple book saved ok S P (get_with (ck_Now (env_Clock E)) f) Q"
  by (rule triple_get) (use Clock_frame in blast)

lemma triple_ulid:
  "(\<And>i. triple book saved ok S P (f i) Q) \<Longrightarrow>
   triple book saved ok S P (get_with (env_ULID E) f) Q"
  by (rule triple_get) (use ULID_frame in blast)

lemma triple_wallclock:
  "(\<And>t. triple book saved ok S P (f t) Q) \<Longrightarrow>
   triple book saved ok S P (get_with (env_WallClock E) f) Q"
  by (rule triple_get) (use WallClock_frame in blast)

lemma triple_counter:
  assumes "g \<in> {tm_RecordInboundRequest (env_Telemetry E) tr op out dur,
           tm_RecordWebhookDuplicate (env_Telemetry E) prov,
           tm_RecordWebhookAccepted (env_Telemetry E) prov,
           tm_RecordOutboxPublished (env_Telemetry E) ty,
           tm_RecordOutboxPublishFailure (env_Telemetry E) ty}"
  shows "triple book saved ok S P (perform g) (\<lambda>r b. P b \<and> r = Ok ())"
  by (rule triple_perform) (use Record_frame assms in blast)

lemma triple_provider:
  "triple book saved ok S P (rp_GetReferenceRates (env_Provider E) base quotes)
     (\<lambda>r b. P b \<and> (case r of Ok rates \<Rightarrow> (\<forall>x \<in> set rates. rate_currencies x)
                  | Err e \<Rightarrow> True | Panic p \<Rightarrow> False))"
  by (rule tripleI) (use Provider_frame in fastforce)

lemma triple_publish:
  "triple book saved ok S P (ep_Publish (env_Publisher E) ev) (\<lambda>r b. P b \<and> \<not> is_panic r)"
  by (rule tripleI) (use Publish_frame in fastforce)

lemmas env_triples = triple_clock triple_ulid triple_wallclock triple_span

end

end
