(* ===== verification/Payloads.thy ===== *)
theory Payloads
  imports Triples "HOL-Library.Char_ord" "HOL-Library.List_Lexorder"
begin

text \<open>
  The JSON text of an outbox payload: \<open>marshalPayload\<close> of \<open>internal/usecase/common.go\<close> on a
  map of strings, written as the standard library's \<open>encoding/json\<close> does (keys sorted,
  control characters, quotes and the HTML characters escaped, bytes that are not UTF-8
  replaced).
\<close>

section \<open>JSON strings\<close>

definition hex_digit :: "nat \<Rightarrow> char" where
  "hex_digit n = ''0123456789abcdef'' ! (n mod 16)"

definition is_cont :: "char \<Rightarrow> bool" where
  "is_cont c \<longleftrightarrow> 128 \<le> (of_char c :: nat) \<and> (of_char c :: nat) < 192"

text \<open>The length of the UTF-8 sequence at the head of a string, 0 if there is none.\<close>

fun utf8_len :: "string \<Rightarrow> nat" where
  "utf8_len [] = 0"
| "utf8_len (c # cs) =
     (let n = (of_char c :: nat)
      in if n < 128 then 1
         else if 194 \<le> n \<and> n < 224 then (if length cs \<ge> 1 \<and> is_cont (cs ! 0) then 2 else 0)
         else if 224 \<le> n \<and> n < 240
         then (if length cs \<ge> 2 \<and> is_cont (cs ! 0) \<and> is_cont (cs ! 1) \<and>
                  (n = 224 \<longrightarrow> 160 \<le> (of_char (cs ! 0) :: nat)) \<and>
                  (n = 237 \<longrightarrow> (of_char (cs ! 0) :: nat) < 160) then 3 else 0)
         else if 240 \<le> n \<and> n < 245
         then (if length cs \<ge> 3 \<and> is_cont (cs ! 0) \<and> is_cont (cs ! 1) \<and> is_cont (cs ! 2) \<and>
                  (n = 240 \<longrightarrow> 144 \<le> (of_char (cs ! 0) :: nat)) \<and>
                  (n = 244 \<longrightarrow> (of_char (cs ! 0) :: nat) < 144) then 4 else 0)
         else 0)"

definition json_escape :: "char \<Rightarrow> string" where
  "json_escape c =
     (if c = CHR 0x22 then [CHR 0x5C, CHR 0x22]
      else if c = CHR 0x5C then [CHR 0x5C, CHR 0x5C]
      else if c = CHR 0x08 then [CHR 0x5C, CHR ''b'']
      else if c = CHR 0x0C then [CHR 0x5C, CHR ''f'']
      else if c = CHR 0x0A then [CHR 0x5C, CHR ''n'']
      else if c = CHR 0x0D then [CHR 0x5C, CHR ''r'']
      else if c = CHR 0x09 then [CHR 0x5C, CHR ''t'']
      else if (of_char c :: nat) < 32 \<or> c \<in> {CHR ''<'', CHR ''>'', CHR ''&''}
      then CHR 0x5C # ''u00'' @ [hex_digit (of_char c div 16), hex_digit (of_char c)]
      else [c])"

function json_chars :: "string \<Rightarrow> string" where
  "json_chars s =
     (if s = [] then []
      else let n = utf8_len s
           in if n = 0 then CHR 0x5C # ''ufffd'' @ json_chars (tl s)
              else if n = 1 then json_escape (hd s) @ json_chars (tl s)
              else if take n s = [CHR 0xE2, CHR 0x80, CHR 0xA8]
              then CHR 0x5C # ''u2028'' @ json_chars (drop n s)
              else if take n s = [CHR 0xE2, CHR 0x80, CHR 0xA9]
              then CHR 0x5C # ''u2029'' @ json_chars (drop n s)
              else take n s @ json_chars (drop n s))"
  by pat_completeness auto
termination
  by (relation "measure length") auto

declare json_chars.simps [simp del]

lemma json_chars_Nil [simp]: "json_chars [] = []"
  by (subst json_chars.simps) simp

lemma json_chars_plain:
  assumes "(of_char c :: nat) < 128"
  shows "json_chars (c # s) = json_escape c @ json_chars s"
  using assms by (subst json_chars.simps) simp

definition json_string :: "string \<Rightarrow> string" where
  "json_string s = CHR 0x22 # json_chars s @ [CHR 0x22]"

section \<open>Payload maps\<close>

definition json_object :: "(string \<times> string) list \<Rightarrow> string" where
  "json_object kvs =
     ''{'' @ join_with '','' (map (\<lambda>(k, v). json_string k @ '':'' @ v) kvs) @ ''}''"

text \<open>
  The map the use cases pass is given as its entries; \<open>json.Marshal\<close> writes them in the order
  of their keys. Marshalling strings cannot fail, so \<open>marshalPayload\<close>'s panic is not reached.
\<close>

definition marshalPayload :: "(string \<times> string) list \<Rightarrow> string" where
  "marshalPayload value =
     json_object (map (\<lambda>(k, v). (k, json_string v)) (sort_key fst value))"

text \<open>The order of the map's entries does not matter: its keys are distinct.\<close>

lemma marshalPayload_order:
  assumes "mset xs = mset ys" "distinct (map fst xs)"
  shows "marshalPayload xs = marshalPayload ys"
proof -
  have "inj_on fst (set xs)" using assms(2) by (simp add: distinct_map)
  moreover have "set ys = set xs" using assms(1) by (metis set_mset_mset)
  ultimately have "sort_key fst xs = sort_key fst ys"
    using assms(1) properties_for_sort_key
    by (metis mset_sort sorted_sort_key sort_key_inj_key_eq)
  then show ?thesis by (simp add: marshalPayload_def)
qed

text \<open>
  No raw control character, quote or HTML character of a value survives in a payload: what a
  value contributes stays inside its quotes.
\<close>

definition json_safe :: "char \<Rightarrow> bool" where
  "json_safe c \<longleftrightarrow> 32 \<le> (of_char c :: nat) \<and> c \<notin> {CHR ''<'', CHR ''>'', CHR ''&''}"

lemma hex_digit_safe: "json_safe (hex_digit n)"
proof -
  have "hex_digit n \<in> set ''0123456789abcdef''"
    unfolding hex_digit_def by (rule nth_mem) simp
  then show ?thesis by (auto simp: json_safe_def)
qed

lemma json_safe_literals:
  "json_safe (CHR 0x5C)" "json_safe (CHR 0x22)" "json_safe (CHR ''b'')" "json_safe (CHR ''f'')"
  "json_safe (CHR ''n'')" "json_safe (CHR ''r'')" "json_safe (CHR ''t'')" "json_safe (CHR ''u'')"
  "json_safe (CHR ''0'')" "json_safe (CHR ''d'')" "json_safe (CHR ''2'')" "json_safe (CHR ''8'')"
  "json_safe (CHR ''9'')"
  by (simp_all add: json_safe_def)

lemma json_escape_safe: "list_all json_safe (json_escape c)"
proof (cases "(of_char c :: nat) < 32 \<or> c \<in> {CHR ''<'', CHR ''>'', CHR ''&''}")
  case True
  then show ?thesis
    unfolding json_escape_def by (simp only: if_True split: if_split) (simp add: json_safe_literals hex_digit_safe)
next
  case False
  then have "json_safe c" unfolding json_safe_def by simp
  with False show ?thesis
    unfolding json_escape_def by (simp only: if_False split: if_split) (simp add: json_safe_literals)
qed

lemma utf8_len_bounds: "utf8_len s \<le> length s"
  by (cases s) (auto simp: Let_def)

lemma utf8_len_parts:
  assumes "utf8_len (c # cs) = Suc n" "n \<noteq> 0"
  shows "194 \<le> (of_char c :: nat) \<and> n \<le> length cs \<and> (\<forall>i < n. is_cont (cs ! i))"
proof -
  have split: "(\<forall>i < Suc k. P i) \<longleftrightarrow> (\<forall>i < k. P i) \<and> P k" for P :: "nat \<Rightarrow> bool" and k
    by (auto simp: less_Suc_eq)
  from assms have "n = 1 \<or> n = 2 \<or> n = 3"
    by (auto simp: Let_def split: if_splits)
  with assms show ?thesis
    by (elim disjE) (simp_all add: Let_def numeral_eq_Suc split split: if_splits)
qed

lemma utf8_tail_safe:
  assumes "1 < utf8_len s"
  shows "list_all json_safe (take (utf8_len s) s)"
proof (cases s)
  case Nil
  with assms show ?thesis by simp
next
  case (Cons c cs)
  have cont: "is_cont x \<Longrightarrow> json_safe x" for x
    by (auto simp: is_cont_def json_safe_def)
  have high: "194 \<le> (of_char x :: nat) \<Longrightarrow> json_safe x" for x
    by (auto simp: json_safe_def)
  obtain n where n: "utf8_len (c # cs) = Suc n" "n \<noteq> 0"
    using assms Cons by (metis One_nat_def less_irrefl less_nat_zero_code not0_implies_Suc)
  from utf8_len_parts [OF n] have "json_safe c" "\<forall>x \<in> set (take n cs). json_safe x"
    using cont high by (simp, metis in_set_conv_nth length_take min.absorb2 nth_take)
  with n Cons show ?thesis by (simp add: list_all_iff del: utf8_len.simps)
qed

lemma json_chars_safe: "list_all json_safe (json_chars s)"
proof (induction s rule: json_chars.induct)
  case (1 s)
  let ?n = "utf8_len s"
  have safe: "list_all json_safe (CHR 0x5C # ''ufffd'')" "list_all json_safe (CHR 0x5C # ''u2028'')"
    "list_all json_safe (CHR 0x5C # ''u2029'')"
    by (simp_all add: json_safe_literals)
  consider "s = []" | "s \<noteq> []" "?n = 0" | "s \<noteq> []" "?n = 1" | "s \<noteq> []" "1 < ?n" by linarith
  then show ?case
  proof cases
    case 1
    then show ?thesis by simp
  next
    case 2
    have "json_chars s = CHR 0x5C # ''ufffd'' @ json_chars (tl s)"
      using 2 by (subst json_chars.simps) simp
    with "1.IH"(1) [OF 2(1) refl 2(2)] safe(1) show ?thesis by simp
  next
    case 3
    have "json_chars s = json_escape (hd s) @ json_chars (tl s)"
      using 3 by (subst json_chars.simps) simp
    with "1.IH"(2) [OF 3(1) refl _ 3(2)] 3 json_escape_safe show ?thesis by simp
  next
    case 4
    then have n: "?n \<noteq> 0" "?n \<noteq> 1" by simp_all
    have eq: "json_chars s =
        (if take ?n s = [CHR 0xE2, CHR 0x80, CHR 0xA8] then CHR 0x5C # ''u2028''
         else if take ?n s = [CHR 0xE2, CHR 0x80, CHR 0xA9] then CHR 0x5C # ''u2029''
         else take ?n s) @ json_chars (drop ?n s)"
      using 4 by (subst json_chars.simps) (simp add: Let_def)
    have "list_all json_safe (json_chars (drop ?n s))"
      using "1.IH"(3-5) [OF 4(1) refl n] by blast
    with eq safe utf8_tail_safe [OF 4(2)] show ?thesis by simp
  qed
qed

end
