(* ===== verification/Usecase_Rates.thy ===== *)
theory Usecase_Rates
  imports Payloads
begin

text \<open>
  \<open>internal/usecase/common.go\<close> and \<open>internal/usecase/rates.go\<close>: reference rates read from
  the store or fetched from the provider and stored, put in the order the caller asked for.
  The specification \<open>spec_ensure\<close> says what \<open>ensureReferenceRates\<close> does to the book; it is
  proved from the ports' contract alone.
\<close>

section \<open>common.go\<close>

text \<open>The zero value of an exchange rate, in the slots \<open>sortRates\<close> never fills.\<close>

definition zero_rate :: "'d decimal_lib \<Rightarrow> 'd exchange_rate" where
  "zero_rate D =
     \<lparr>rate_Base = [], rate_Quote = [], rate_Provider = [], rate_Rate = dec_Zero D,
      rate_ObservedAt = 0, rate_FetchedAt = 0\<rparr>"

text \<open>The map from a quote currency to its index: a later duplicate overwrites an earlier one.\<close>

definition index_by_quote :: "string list \<Rightarrow> (string \<times> nat) list" where
  "index_by_quote quotes = rev (zip quotes [0..<length quotes])"

text \<open>A currency that is not a key reads as index 0; an index outside the slice panics.\<close>

fun place_rates ::
  "(string \<times> nat) list \<Rightarrow> 'd exchange_rate list \<Rightarrow> 'd exchange_rate list \<Rightarrow> 'd exchange_rate list res"
where
  "place_rates m [] ordered = Ok ordered"
| "place_rates m (r # rates) ordered =
     (let i = (case map_of m (rate_Quote r) of Some i \<Rightarrow> i | None \<Rightarrow> 0)
      in if i < length ordered then place_rates m rates (ordered[i := r])
         else Panic ''index out of range'')"

definition sortRates ::
  "'d decimal_lib \<Rightarrow> 'd exchange_rate list \<Rightarrow> string list \<Rightarrow> 'd exchange_rate list res" where
  "sortRates D rates quotes =
     place_rates (index_by_quote quotes) rates (replicate (length rates) (zero_rate D))"

definition ensureReferenceRates ::
  "'d decimal_lib \<Rightarrow> ('s, 'd) rate_repository \<Rightarrow> ('s, 'd) rate_provider \<Rightarrow> string \<Rightarrow> string list \<Rightarrow>
   ('s, 'd exchange_rate list) io" where
  "ensureReferenceRates D repository provider base quotes =
     bind (rr_ListLatestRates repository base quotes) (\<lambda>rates.
       if length rates = length quotes then lift (sortRates D rates quotes)
       else
         bind (rp_GetReferenceRates provider base quotes) (\<lambda>fetched.
         bind (rr_UpsertRates repository fetched) (\<lambda>_.
         bind (rr_ListLatestRates repository base quotes) (\<lambda>rates.
           if length rates \<noteq> length quotes
           then throw (Internal ''Reference rates are incomplete after sync''
                  [(''base'', DStr base), (''quoteCount'', DInt (int (length quotes))),
                   (''returnedRate'', DInt (int (length rates)))])
           else lift (sortRates D rates quotes)))))"

text \<open>\<open>newOutboxEvent\<close>; the caller draws the identifier (\<open>newULID\<close>).\<close>

definition newOutboxEvent ::
  "string \<Rightarrow> string \<Rightarrow> string \<Rightarrow> string \<Rightarrow> (string \<times> string) list \<Rightarrow> time \<Rightarrow> outbox_event" where
  "newOutboxEvent ulid aggregateType aggregateID eventType payload now =
     \<lparr>e_ID = ulid, e_AggregateType = aggregateType, e_AggregateID = aggregateID,
      e_EventType = eventType, e_Payload = marshalPayload payload, e_CreatedAt = now,
      e_PublishedAt = None, e_PublishAttempts = 0, e_LastError = None\<rparr>"

section \<open>rates.go\<close>

record ('s, 'd) SyncReferenceRatesUsecase =
  sr_repository :: "('s, 'd) rate_repository"
  sr_provider :: "('s, 'd) rate_provider"
  sr_telemetry :: "'s telemetry"

definition SyncReferenceRates_Execute ::
  "'d decimal_lib \<Rightarrow> ('s, 'd) SyncReferenceRatesUsecase \<Rightarrow> string \<Rightarrow> string list \<Rightarrow>
   ('s, 'd exchange_rate list) io" where
  "SyncReferenceRates_Execute D u base quotes =
     with_span (sr_telemetry u) ''usecase.sync_reference_rates''
       (bind (rp_GetReferenceRates (sr_provider u) base quotes) (\<lambda>rates.
        bind (rr_UpsertRates (sr_repository u) rates) (\<lambda>_.
          lift (sortRates D rates quotes))))"

record ('s, 'd) GetReferenceRatesUsecase =
  gr_repository :: "('s, 'd) rate_repository"
  gr_provider :: "('s, 'd) rate_provider"
  gr_telemetry :: "'s telemetry"

definition GetReferenceRates_Execute ::
  "'d decimal_lib \<Rightarrow> ('s, 'd) GetReferenceRatesUsecase \<Rightarrow> string \<Rightarrow> string list \<Rightarrow>
   ('s, 'd exchange_rate list) io" where
  "GetReferenceRates_Execute D u base quotes =
     with_span (gr_telemetry u) ''usecase.get_reference_rates''
       (ensureReferenceRates D (gr_repository u) (gr_provider u) base quotes)"

section \<open>The order of the rates\<close>

lemma map_of_index_by_quote:
  assumes "distinct quotes" "i < length quotes"
  shows "map_of (index_by_quote quotes) (quotes ! i) = Some i"
proof -
  have "distinct (map fst (index_by_quote quotes))"
    using assms(1) by (simp add: index_by_quote_def rev_map [symmetric])
  moreover have "(quotes ! i, i) \<in> set (index_by_quote quotes)"
    using assms(2) by (auto simp: index_by_quote_def in_set_zip)
  ultimately show ?thesis by (rule map_of_is_SomeI)
qed

lemma place_rates_Ok:
  assumes "distinct quotes" "length ordered = length quotes"
    and "distinct (map rate_Quote rates)" "rate_Quote ` set rates \<subseteq> set quotes"
  shows "\<exists>out. place_rates (index_by_quote quotes) rates ordered = Ok out \<and>
    length out = length quotes \<and>
    (\<forall>i < length quotes.
       (\<forall>r \<in> set rates. rate_Quote r = quotes ! i \<longrightarrow> out ! i = r) \<and>
       (quotes ! i \<notin> rate_Quote ` set rates \<longrightarrow> out ! i = ordered ! i))"
  using assms(2-)
proof (induction rates arbitrary: ordered)
  case Nil
  then show ?case by simp
next
  case (Cons r rates)
  then obtain k where k: "k < length quotes" "quotes ! k = rate_Quote r"
    by (auto simp: in_set_conv_nth)
  have idx: "map_of (index_by_quote quotes) (rate_Quote r) = Some k"
    using map_of_index_by_quote [OF assms(1) k(1)] k(2) by simp
  have "length (ordered[k := r]) = length quotes" "distinct (map rate_Quote rates)"
    "rate_Quote ` set rates \<subseteq> set quotes"
    using Cons.prems by simp_all
  from Cons.IH [OF this] obtain out where
    out: "place_rates (index_by_quote quotes) rates (ordered[k := r]) = Ok out"
      "length out = length quotes"
      "\<forall>i < length quotes.
         (\<forall>r' \<in> set rates. rate_Quote r' = quotes ! i \<longrightarrow> out ! i = r') \<and>
         (quotes ! i \<notin> rate_Quote ` set rates \<longrightarrow> out ! i = ordered[k := r] ! i)"
    by blast
  have "rate_Quote r \<notin> rate_Quote ` set rates" using Cons.prems(2) by auto
  with out(3) k Cons.prems(1) have k_r: "out ! k = r" by simp
  have only_k: "i = k" if "i < length quotes" "quotes ! i = rate_Quote r" for i
    using that k nth_eq_iff_index_eq [OF assms(1), of i k] by simp
  have "(\<forall>r' \<in> set (r # rates). rate_Quote r' = quotes ! i \<longrightarrow> out ! i = r') \<and>
      (quotes ! i \<notin> rate_Quote ` set (r # rates) \<longrightarrow> out ! i = ordered ! i)"
    if i: "i < length quotes" for i
  proof (cases "i = k")
    case True
    with k_r k \<open>rate_Quote r \<notin> rate_Quote ` set rates\<close> show ?thesis by (auto simp: image_iff)
  next
    case False
    with only_k i have "quotes ! i \<noteq> rate_Quote r" by blast
    with out(3) i False show ?thesis by auto
  qed
  moreover have "place_rates (index_by_quote quotes) (r # rates) ordered = Ok out"
    using idx k(1) Cons.prems(1) out(1) by simp
  ultimately show ?case using out(2) by blast
qed

text \<open>
  \<open>sortRates\<close> on exactly one rate per requested currency: a rearrangement of the rates into
  the order of the request.
\<close>

lemma sortRates_Ok:
  assumes "length rates = length quotes" "distinct (map rate_Quote rates)"
    and "rate_Quote ` set rates \<subseteq> set quotes"
  shows "\<exists>out. sortRates D rates quotes = Ok out \<and> map rate_Quote out = quotes \<and> mset out = mset rates"
proof -
  have len: "card (set (map rate_Quote rates)) = length quotes"
    using assms(1,2) by (metis distinct_card length_map)
  then have all: "rate_Quote ` set rates = set quotes"
    using assms(3) by (metis card_length card_subset_eq dual_order.antisym finite_set card_mono list.set_map)
  then have dist: "distinct quotes"
    using len by (metis card_distinct list.set_map)
  from place_rates_Ok [OF dist _ assms(2,3), of "replicate (length rates) (zero_rate D)"] assms(1)
  obtain out where out: "sortRates D rates quotes = Ok out" "length out = length quotes"
    "\<forall>i < length quotes. \<forall>r \<in> set rates. rate_Quote r = quotes ! i \<longrightarrow> out ! i = r"
    unfolding sortRates_def by auto
  have nth: "out ! i \<in> set rates \<and> rate_Quote (out ! i) = quotes ! i" if "i < length quotes" for i
  proof -
    from that all have "quotes ! i \<in> rate_Quote ` set rates" by simp
    with that out(3) show ?thesis by force
  qed
  then have map: "map rate_Quote out = quotes"
    using out(2) by (simp add: list_eq_iff_nth_eq)
  then have "distinct out" using dist by (metis distinct_map)
  moreover have "distinct rates" using assms(2) by (simp add: distinct_map)
  moreover have "set out \<subseteq> set rates" using nth out(2) by (auto simp: in_set_conv_nth)
  ultimately have "set out = set rates"
    using out(2) assms(1) by (metis card_subset_eq distinct_card finite_set)
  with \<open>distinct out\<close> \<open>distinct rates\<close> have "mset out = mset rates"
    by (simp add: set_eq_iff_mset_eq_distinct)
  with map out(1) show ?thesis by blast
qed

section \<open>What ensureReferenceRates does to the book\<close>

text \<open>
  \<open>b'\<close> is \<open>b\<close> with some valid fetched rates stored (possibly none); nothing else changed.
\<close>

definition rates_synced :: "'d decimal_lib \<Rightarrow> 'd stored_form \<Rightarrow> 'd book \<Rightarrow> 'd book \<Rightarrow> bool" where
  "rates_synced D F b b' \<longleftrightarrow>
     (\<exists>fetched. (\<forall>x \<in> set fetched. Validate_rate D x = Ok ()) \<and>
        b' = b\<lparr>bk_rates := fold upsert_rate (map (stored_rate F) fetched) (bk_rates b)\<rparr>)"

lemma rates_synced_refl [simp]: "rates_synced D F b b"
  unfolding rates_synced_def by (rule exI [of _ "[]"]) simp

lemma rates_synced_frame:
  "rates_synced D F b b' \<Longrightarrow>
     bk_quotes b' = bk_quotes b \<and> bk_convs b' = bk_convs b \<and>
     bk_inbox b' = bk_inbox b \<and> bk_outbox b' = bk_outbox b"
  by (auto simp: rates_synced_def)

definition rates_complete :: "string \<Rightarrow> string list \<Rightarrow> 'd book \<Rightarrow> bool" where
  "rates_complete base quotes b \<longleftrightarrow>
     length (filter (requested base quotes) (bk_rates b)) = length quotes"

definition spec_ensure ::
  "'d decimal_lib \<Rightarrow> 'd stored_form \<Rightarrow> string \<Rightarrow> string list \<Rightarrow> 'd book \<Rightarrow> 'd exchange_rate list res \<Rightarrow>
   'd book \<Rightarrow> bool" where
  "spec_ensure D F base quotes b r b' \<longleftrightarrow>
     rates_synced D F b b' \<and> (rates_complete base quotes b \<longrightarrow> b' = b) \<and>
     (case r of
        Ok rs \<Rightarrow> rates_complete base quotes b' \<and> map rate_Quote rs = quotes \<and>
          (\<forall>x \<in> set rs. x \<in> set (bk_rates b') \<and> requested base quotes x)
      | Err e \<Rightarrow> True
      | Panic p \<Rightarrow> False)"

lemma requested_distinct:
  assumes "book_ok b"
  shows "distinct (map rate_Quote (filter (requested base quotes) (bk_rates b)))"
proof -
  have "distinct (map rate_key (filter (requested base quotes) (bk_rates b)))"
    using assms by (auto simp: book_ok_def distinct_map inj_on_def)
  then show ?thesis
    by (auto simp: distinct_map inj_on_def rate_key_def requested_def)
qed

lemma sort_listed:
  assumes "book_ok b" "mset rates = mset (filter (requested base quotes) (bk_rates b))"
    and "length rates = length quotes"
  shows "\<exists>out. sortRates D rates quotes = Ok out \<and> map rate_Quote out = quotes \<and>
    (\<forall>x \<in> set out. x \<in> set (bk_rates b) \<and> requested base quotes x)"
proof -
  from assms(2) have set: "set rates = {x \<in> set (bk_rates b). requested base quotes x}"
    by (metis set_filter set_mset_mset)
  have "mset (map rate_Quote rates) = mset (map rate_Quote (filter (requested base quotes) (bk_rates b)))"
    using assms(2) by simp
  then have "distinct (map rate_Quote rates)"
    using requested_distinct [OF assms(1)] mset_eq_imp_distinct_iff by blast
  moreover have "rate_Quote ` set rates \<subseteq> set quotes"
    unfolding set by (auto simp: requested_def)
  ultimately obtain out where "sortRates D rates quotes = Ok out" "map rate_Quote out = quotes"
    "mset out = mset rates"
    using sortRates_Ok [OF assms(3)] by blast
  then show ?thesis using set by (metis (mono_tags, lifting) mem_Collect_eq set_mset_mset)
qed

text \<open>A request that names a currency twice is never complete.\<close>

lemma complete_distinct:
  assumes "book_ok b" "rates_complete base quotes b"
  shows "distinct quotes"
proof -
  let ?rs = "filter (requested base quotes) (bk_rates b)"
  have "distinct (map rate_Quote ?rs)" by (rule requested_distinct [OF assms(1)])
  moreover have "length ?rs = length quotes" using assms(2) by (simp add: rates_complete_def)
  moreover have "rate_Quote ` set ?rs \<subseteq> set quotes" by (auto simp: requested_def)
  ultimately obtain out :: "'a exchange_rate list" where
    "map rate_Quote out = quotes" "mset out = mset ?rs"
    using sortRates_Ok by blast
  then show ?thesis
    using \<open>distinct (map rate_Quote ?rs)\<close> by (metis mset_eq_imp_distinct_iff mset_map)
qed

text \<open>The specification at a sorted answer.\<close>

lemma sort_spec:
  assumes "book_ok b'" "mset rates = mset (filter (requested base quotes) (bk_rates b'))"
    and "length rates = length quotes" "rates_synced D F b b'"
    and "rates_complete base quotes b \<Longrightarrow> b' = b"
  shows "spec_ensure D F base quotes b (sortRates D rates quotes) b'"
proof -
  have "rates_complete base quotes b'"
    using assms(2,3) unfolding rates_complete_def by (metis mset_eq_length)
  moreover obtain out where "sortRates D rates quotes = Ok out" "map rate_Quote out = quotes"
    "\<forall>x \<in> set out. x \<in> set (bk_rates b') \<and> requested base quotes x"
    using sort_listed [OF assms(1-3)] by blast
  ultimately show ?thesis using assms(4,5) by (simp add: spec_ensure_def)
qed

lemma listed_complete:
  assumes "spec_ListLatestRates base quotes b (Ok rs) b'"
  shows "b' = b \<and> mset rs = mset (filter (requested base quotes) (bk_rates b)) \<and>
    (rates_complete base quotes b \<longleftrightarrow> length rs = length quotes)"
proof -
  from assms have "b' = b" and listed: "mset rs = mset (filter (requested base quotes) (bk_rates b))"
    by (simp_all add: spec_ListLatestRates_def)
  with mset_eq_length [OF listed] show ?thesis by (simp add: rates_complete_def)
qed

lemma upsert_synced:
  assumes "spec_UpsertRates D F fetched b r b'"
  shows "rates_synced D F b b' \<and> (\<forall>p. r \<noteq> Panic p)"
proof (cases r)
  case (Ok u)
  with assms show ?thesis unfolding spec_UpsertRates_def rates_synced_def by (simp, blast)
qed (use assms in \<open>simp_all add: spec_UpsertRates_def\<close>)

context fx_env begin

lemma triple_upsert:
  "\<forall>x \<in> set rates. rate_currencies x \<Longrightarrow>
   triple book saved ok S P (rr_UpsertRates (tx_Rates (uow_Repos U)) rates)
     (\<lambda>r b'. \<exists>b. P b \<and> spec_UpsertRates D F rates b r b')"
  by (rule triple_refines [OF UpsertRates])

text \<open>Sorting what the store has just listed.\<close>

lemma triple_sort:
  assumes "\<And>b'. P b' \<Longrightarrow> length rates = length quotes \<and>
      mset rates = mset (filter (requested base quotes) (bk_rates b')) \<and>
      (\<exists>b. P0 b \<and> rates_synced D F b b' \<and> (rates_complete base quotes b \<longrightarrow> b' = b))"
  shows "triple book saved ok S P (lift (sortRates D rates quotes))
    (\<lambda>r b'. \<exists>b. P0 b \<and> spec_ensure D F base quotes b r b')"
proof (rule triple_book_inv, rule triple_post [OF triple_lift])
  fix r b'
  assume "(P b' \<and> book_inv F b') \<and> sortRates D rates quotes = r"
  with assms [of b'] show "\<exists>b. P0 b \<and> spec_ensure D F base quotes b r b'"
    using sort_spec [of b' rates base quotes D F] unfolding book_inv_def by blast
qed

lemma triple_list:
  "supported base \<Longrightarrow> \<forall>c \<in> set quotes. supported c \<Longrightarrow>
   triple book saved ok S P (rr_ListLatestRates (tx_Rates (uow_Repos U)) base quotes)
     (\<lambda>r b'. \<exists>b. P b \<and> spec_ListLatestRates base quotes b r b')"
  by (rule triple_refines [OF ListLatestRates])

lemma triple_ensure:
  assumes codes: "supported base" "\<forall>c \<in> set quotes. supported c"
  shows "triple book saved ok S P
     (ensureReferenceRates D (tx_Rates (uow_Repos U)) (env_Provider E) base quotes)
     (\<lambda>r b'. \<exists>b. P b \<and> spec_ensure D F base quotes b r b')"
proof -
  let ?Q = "\<lambda>r b'. \<exists>b. P b \<and> spec_ensure D F base quotes b r b'"
  have relist: "triple book saved ok S
      (\<lambda>b'. \<exists>b. P b \<and> rates_synced D F b b' \<and> \<not> rates_complete base quotes b)
      (bind (rr_ListLatestRates (tx_Rates (uow_Repos U)) base quotes) (\<lambda>rates.
        if length rates \<noteq> length quotes then throw (e rates)
        else lift (sortRates D rates quotes))) ?Q" for e
  proof (rule triple_bind [OF triple_list [OF codes]])
    fix rates :: "'d exchange_rate list"
    show "triple book saved ok S
        (\<lambda>b'. \<exists>b. (\<exists>b0. P b0 \<and> rates_synced D F b0 b \<and> \<not> rates_complete base quotes b0) \<and>
           spec_ListLatestRates base quotes b (Ok rates) b')
        (if length rates \<noteq> length quotes then throw (e rates) else lift (sortRates D rates quotes)) ?Q"
    proof (cases "length rates = length quotes")
      case True
      then show ?thesis
        by (simp only: simp_thms if_True if_False, intro triple_sort) (auto dest!: listed_complete)
    next
      case False
      show ?thesis
        using False by (simp only: simp_thms if_True, intro triple_post [OF triple_throw])
          (auto simp: spec_ensure_def dest!: listed_complete)
    qed
  qed (auto simp: spec_ListLatestRates_def spec_ensure_def)
  show ?thesis
    unfolding ensureReferenceRates_def
  proof (rule triple_bind [OF triple_list [OF codes]], goal_cases)
    case (1 rates)
    show ?case
    proof (cases "length rates = length quotes")
      case True
      then show ?thesis
        by (simp only: simp_thms if_True, intro triple_sort) (auto dest!: listed_complete)
    next
      case False
      have fetch: "triple book saved ok S (\<lambda>b. P b \<and> \<not> rates_complete base quotes b)
          (bind (rp_GetReferenceRates (env_Provider E) base quotes) (\<lambda>fetched.
           bind (rr_UpsertRates (tx_Rates (uow_Repos U)) fetched) (\<lambda>_.
           bind (rr_ListLatestRates (tx_Rates (uow_Repos U)) base quotes) (\<lambda>rates.
             if length rates \<noteq> length quotes then throw (e rates)
             else lift (sortRates D rates quotes))))) ?Q" for e
      proof (rule triple_bind [OF triple_provider], goal_cases)
        case (1 fetched)
        have "triple book saved ok S
            (\<lambda>b. (\<forall>x \<in> set fetched. rate_currencies x) \<and> P b \<and> \<not> rates_complete base quotes b)
            (bind (rr_UpsertRates (tx_Rates (uow_Repos U)) fetched) (\<lambda>_.
             bind (rr_ListLatestRates (tx_Rates (uow_Repos U)) base quotes) (\<lambda>rates.
               if length rates \<noteq> length quotes then throw (e rates)
               else lift (sortRates D rates quotes)))) ?Q"
        proof (rule triple_assume, rule triple_bind [OF triple_upsert], assumption, goal_cases)
          case (1 u)
          show ?case by (rule triple_pre [OF relist]) (auto dest: upsert_synced)
        qed (auto simp: spec_ensure_def dest!: upsert_synced)
        then show ?case by (rule triple_pre) simp
      qed (auto simp: spec_ensure_def)
      show ?thesis
        using False by (simp only: simp_thms if_False, intro triple_pre [OF fetch])
          (auto dest!: listed_complete)
    qed
  qed (auto simp: spec_ListLatestRates_def spec_ensure_def)
qed

text \<open>\<open>GetReferenceRates\<close> against its specification, and \<open>SyncReferenceRates\<close>' effect.\<close>

lemma triple_GetReferenceRates:
  assumes "gr_repository u = tx_Rates (uow_Repos U)" "gr_provider u = env_Provider E"
    and "gr_telemetry u = env_Telemetry E"
    and codes: "supported base" "\<forall>c \<in> set quotes. supported c"
  shows "triple book saved ok S P (GetReferenceRates_Execute D u base quotes)
    (\<lambda>r b'. \<exists>b. P b \<and> spec_ensure D F base quotes b r b')"
  unfolding GetReferenceRates_Execute_def assms(1-3) by (rule triple_span [OF triple_ensure [OF codes]])

lemma triple_SyncReferenceRates:
  assumes "sr_repository u = tx_Rates (uow_Repos U)" "sr_provider u = env_Provider E"
    and "sr_telemetry u = env_Telemetry E"
  shows "triple book saved ok S P (SyncReferenceRates_Execute D u base quotes)
    (\<lambda>r b'. \<exists>b. P b \<and> rates_synced D F b b')"
  unfolding SyncReferenceRates_Execute_def assms
proof (rule triple_span, rule triple_bind [OF triple_provider], goal_cases)
  case (1 fetched)
  have "triple book saved ok S (\<lambda>b. (\<forall>x \<in> set fetched. rate_currencies x) \<and> P b)
      (bind (rr_UpsertRates (tx_Rates (uow_Repos U)) fetched) (\<lambda>_. lift (sortRates D fetched quotes)))
      (\<lambda>r b'. \<exists>b. P b \<and> rates_synced D F b b')"
  proof (rule triple_assume, rule triple_bind [OF triple_upsert], assumption, goal_cases)
    case (1 u)
    show ?case by (rule triple_post [OF triple_lift]) (auto dest: upsert_synced)
  qed (auto dest: upsert_synced)
  then show ?case by (rule triple_pre) simp
qed auto

end

end
