(* ===== verification/Usecase_Quotes.thy ===== *)
theory Usecase_Quotes
  imports Usecase_Rates
begin

text \<open>
  \<open>internal/usecase/quotes.go\<close>: creating a quote and accepting it. Each \<open>Execute\<close> is the
  code's call sequence over the ports; \<open>spec_create_quote\<close> and \<open>spec_accept_quote\<close> say what
  it does to the book on every branch, and are proved from the ports' contract.
\<close>

section \<open>CreateQuoteUsecase\<close>

record ('s, 'd) CreateQuoteUsecase =
  cq_repository :: "('s, 'd) quote_repository"
  cq_rateRepo :: "('s, 'd) rate_repository"
  cq_provider :: "('s, 'd) rate_provider"
  cq_clock :: "'s clock"
  cq_telemetry :: "'s telemetry"
  cq_quoteTTL :: duration
  cq_feeBPS :: int
  cq_minFee :: money

text \<open>\<open>rates[0]\<close> panics on an empty slice.\<close>

definition first_rate :: "'d exchange_rate list \<Rightarrow> 'd exchange_rate res" where
  "first_rate rates = (case rates of [] \<Rightarrow> Panic ''index out of range'' | r # _ \<Rightarrow> Ok r)"

definition CreateQuote_Execute ::
  "'d decimal_lib \<Rightarrow> ('s \<Rightarrow> string \<times> 's) \<Rightarrow> ('s, 'd) CreateQuoteUsecase \<Rightarrow> string \<Rightarrow> money \<Rightarrow> string \<Rightarrow>
   ('s, 'd quote) io" where
  "CreateQuote_Execute D newULID u idempotencyKey baseAmount quoteCurrency =
     with_span (cq_telemetry u) ''usecase.create_quote''
       (bind (qr_GetQuoteByIdempotencyKey (cq_repository u) idempotencyKey) (\<lambda>existing.
        case existing of
          Some q \<Rightarrow> ret q
        | None \<Rightarrow>
            bind (ensureReferenceRates D (cq_rateRepo u) (cq_provider u) (Currency baseAmount)
                    [quoteCurrency]) (\<lambda>rates.
            get_with newULID (\<lambda>ulid.
            bind (lift (first_rate rates)) (\<lambda>rate.
            get_with (ck_Now (cq_clock u)) (\<lambda>now.
            bind (lift (New_quote D ulid idempotencyKey baseAmount quoteCurrency rate
                    (cq_feeBPS u) (cq_minFee u) now (cq_quoteTTL u))) (\<lambda>created.
              qr_CreateQuote (cq_repository u) created)))))))"

section \<open>AcceptQuoteUsecase\<close>

record ('s, 'd) AcceptQuoteUsecase =
  aq_quotes :: "('s, 'd) quote_repository"
  aq_conversions :: "('s, 'd) conversion_repository"
  aq_unitOfWork :: "('s, 'd) unit_of_work"
  aq_clock :: "'s clock"
  aq_telemetry :: "'s telemetry"

definition conversion_created :: "string \<Rightarrow> 'd conversion \<Rightarrow> time \<Rightarrow> outbox_event" where
  "conversion_created ulid c now =
     newOutboxEvent ulid ''conversion'' (c_ID c) ''conversion.created''
       [(''conversionId'', c_ID c), (''quoteId'', c_QuoteID c), (''status'', c_Status c)] now"

text \<open>The function \<open>AcceptQuote\<close> runs in the transaction; it yields the variable \<open>created\<close>.\<close>

definition AcceptQuote_tx ::
  "('s \<Rightarrow> string \<times> 's) \<Rightarrow> string \<Rightarrow> string \<Rightarrow> string \<Rightarrow> string \<Rightarrow> time \<Rightarrow>
   ('s, 'd) transaction_repositories \<Rightarrow> ('s, 'd conversion) io" where
  "AcceptQuote_tx newULID idempotencyKey quoteID paymentProvider transferProvider now repos =
     bind (qr_GetQuoteByID (tx_Quotes repos) quoteID) (\<lambda>sourceQuote.
     bind (lift (CanAccept sourceQuote now)) (\<lambda>_.
     get_with newULID (\<lambda>ulid.
     bind (lift (FromQuote ulid idempotencyKey sourceQuote paymentProvider transferProvider now)) (\<lambda>created.
     bind (cr_CreateConversion (tx_Conversions repos) created) (\<lambda>_.
     bind (qr_MarkQuoteAccepted (tx_Quotes repos) quoteID now) (\<lambda>_.
     get_with newULID (\<lambda>ulid.
     bind (or_Enqueue (tx_Outbox repos) (conversion_created ulid created now)) (\<lambda>_.
       ret created))))))))"

definition AcceptQuote_Execute ::
  "('s \<Rightarrow> string \<times> 's) \<Rightarrow> ('s, 'd) AcceptQuoteUsecase \<Rightarrow> string \<Rightarrow> string \<Rightarrow> string \<Rightarrow> string \<Rightarrow>
   ('s, 'd conversion) io" where
  "AcceptQuote_Execute newULID u idempotencyKey quoteID paymentProvider transferProvider =
     with_span (aq_telemetry u) ''usecase.accept_quote''
       (bind (cr_GetConversionByIdempotencyKey (aq_conversions u) idempotencyKey) (\<lambda>existing.
        case existing of
          Some c \<Rightarrow> ret c
        | None \<Rightarrow>
            get_with (ck_Now (aq_clock u)) (\<lambda>now.
              WithinTransaction (aq_unitOfWork u)
                (AcceptQuote_tx newULID idempotencyKey quoteID paymentProvider transferProvider now))))"

section \<open>What creating a quote does to the book\<close>

text \<open>
  A key that is known returns its quote and changes nothing. Otherwise an answer means one
  quote built from a stored rate was added; an error leaves everything but the rates alone.
\<close>

definition spec_create_quote ::
  "'d decimal_lib \<Rightarrow> 'd stored_form \<Rightarrow> ('d quote \<Rightarrow> 'd quote) \<Rightarrow> int \<Rightarrow> money \<Rightarrow> duration \<Rightarrow>
   string \<Rightarrow> money \<Rightarrow> string \<Rightarrow> 'd book \<Rightarrow> 'd quote res \<Rightarrow> 'd book \<Rightarrow> bool" where
  "spec_create_quote D F echo bps minFee ttl key base target b r b' \<longleftrightarrow>
     (case quote_by_key key b of
        Some q \<Rightarrow> b' = b \<and> (r = Ok q \<or> (\<exists>e. r = Err e \<and> infra e))
      | None \<Rightarrow>
          (case r of
             Ok q' \<Rightarrow> \<exists>q rate qid now b1.
               rates_synced D F b b1 \<and> rate \<in> set (bk_rates b1) \<and>
               requested (Currency base) [target] rate \<and>
               New_quote D qid key base target rate bps minFee now ttl = Ok q \<and> q' = echo q \<and>
               b' = b1\<lparr>bk_quotes := bk_quotes b @ [stored_quote F q]\<rparr>
           | Err e \<Rightarrow> rates_synced D F b b'
           | Panic p \<Rightarrow> False))"

context fx_env begin

lemma triple_create:
  "quote_currencies q \<Longrightarrow>
   triple book saved ok S P (qr_CreateQuote (tx_Quotes (uow_Repos U)) q)
     (\<lambda>r b'. \<exists>b. P b \<and> spec_CreateQuote F echo_quote q b r b')"
  by (rule triple_refines [OF CreateQuote])

lemma quote_wf_currencies: "quote_wf q \<Longrightarrow> quote_currencies q"
  by (simp add: quote_wf_def quote_currencies_def)

lemma triple_create_new:
  assumes "\<And>b'. P b' \<Longrightarrow> \<exists>b. P0 b \<and> quote_by_key key b = None \<and> rates_synced D F b b' \<and>
      rate \<in> set (bk_rates b') \<and> requested (Currency base) [target] rate"
  shows "triple book saved ok S P
    (bind (lift (New_quote D qid key base target rate bps minFee now ttl)) (\<lambda>created.
       qr_CreateQuote (tx_Quotes (uow_Repos U)) created))
    (\<lambda>r b'. \<exists>b. P0 b \<and> spec_create_quote D F echo_quote bps minFee ttl key base target b r b')"
proof (rule triple_bind [OF triple_lift], goal_cases)
  case (1 q)
  show ?case
  proof (rule triple_pre [where P' = "\<lambda>b. New_quote D qid key base target rate bps minFee now ttl = Ok q \<and> P b"],
      rule triple_assume)
    assume new: "New_quote D qid key base target rate bps minFee now ttl = Ok q"
    show "triple book saved ok S P (qr_CreateQuote (tx_Quotes (uow_Repos U)) q)
        (\<lambda>r b'. \<exists>b. P0 b \<and> spec_create_quote D F echo_quote bps minFee ttl key base target b r b')"
    proof (rule triple_post [OF triple_create [OF quote_wf_currencies [OF New_quote_wf [OF new]]]])
      fix r b'
      assume "\<exists>b. P b \<and> spec_CreateQuote F echo_quote q b r b'"
      then obtain b1 b where b1: "P b1" "spec_CreateQuote F echo_quote q b1 r b'"
        and b: "P0 b" "quote_by_key key b = None" "rates_synced D F b b1"
          "rate \<in> set (bk_rates b1)" "requested (Currency base) [target] rate"
        using assms by blast
      have "bk_quotes b1 = bk_quotes b" using rates_synced_frame [OF b(3)] by simp
      with b b1 new show "\<exists>b. P0 b \<and> spec_create_quote D F echo_quote bps minFee ttl key base target b r b'"
        by (intro exI [of _ b]) (cases r; simp add: spec_create_quote_def spec_CreateQuote_def; metis)
    qed
  qed auto
next
  case (2 e b)
  then have "P b" by simp
  with assms show ?case by (force simp: spec_create_quote_def)
next
  case (3 p b)
  then show ?case using New_quote_no_panic by metis
qed

lemma triple_CreateQuote:
  assumes "cq_repository u = tx_Quotes (uow_Repos U)" "cq_rateRepo u = tx_Rates (uow_Repos U)"
    and "cq_provider u = env_Provider E" "cq_clock u = env_Clock E" "cq_telemetry u = env_Telemetry E"
    and codes: "supported (Currency base)" "supported target"
  shows "triple book saved ok S P (CreateQuote_Execute D (env_ULID E) u key base target)
    (\<lambda>r b'. \<exists>b. P b \<and>
       spec_create_quote D F echo_quote (cq_feeBPS u) (cq_minFee u) (cq_quoteTTL u) key base target b r b')"
  unfolding CreateQuote_Execute_def assms(1-5)
proof (rule triple_span, rule triple_bind [OF triple_refines [OF GetQuoteByIdempotencyKey]], goal_cases)
  case (1 existing)
  show ?case
  proof (cases existing)
    case (Some q)
    then show ?thesis
      by (simp, intro triple_post [OF triple_ret])
        (auto simp: spec_GetQuoteByIdempotencyKey_def spec_create_quote_def split: option.splits)
  next
    case None
    show ?thesis
      unfolding None option.case
    proof (rule triple_bind [OF triple_ensure [OF codes(1)]], goal_cases)
      case 1
      show ?case using codes(2) by simp
    next
      case (2 rates)
      show ?case
      proof (rule triple_ulid, rule triple_bind [OF triple_lift], goal_cases)
        case (1 i rate)
        show ?case
          by (rule triple_clock, rule triple_create_new)
            (auto simp: spec_GetQuoteByIdempotencyKey_def spec_ensure_def first_rate_def split: list.splits)
      qed (auto simp: spec_GetQuoteByIdempotencyKey_def spec_ensure_def first_rate_def split: list.splits)
    qed (auto simp: spec_GetQuoteByIdempotencyKey_def spec_ensure_def spec_create_quote_def)
  qed
qed (auto simp: spec_GetQuoteByIdempotencyKey_def spec_create_quote_def split: option.splits)

end

section \<open>What accepting a quote does to the book\<close>

definition accepted_book ::
  "'d stored_form \<Rightarrow> 'd conversion \<Rightarrow> string \<Rightarrow> time \<Rightarrow> 'd book \<Rightarrow> 'd book" where
  "accepted_book F c eid now b =
     b\<lparr>bk_convs := bk_convs b @ [stored_conversion F c],
       bk_quotes := update_where (acceptable (c_QuoteID c) (sf_time F now))
                      (\<lambda>q. q\<lparr>q_AcceptedAt := Some (sf_time F now)\<rparr>) (bk_quotes b),
       bk_outbox := bk_outbox b @ [stored_event F (conversion_created eid c now)]\<rparr>"

text \<open>Why accepting can be refused.\<close>

definition accept_refused ::
  "'d stored_form \<Rightarrow> string \<Rightarrow> string \<Rightarrow> string \<Rightarrow> string \<Rightarrow> 'd book \<Rightarrow> go_error \<Rightarrow> bool" where
  "accept_refused F key qid pay tra b e \<longleftrightarrow>
     quote_by_id (sf_id F qid) b = None \<and> e = NotFound ''Quote not found'' [(''quoteId'', DStr qid)] \<or>
     (\<exists>q now. quote_by_id (sf_id F qid) b = Some q \<and> CanAccept q now = Err e) \<or>
     (\<exists>q cid now. quote_by_id (sf_id F qid) b = Some q \<and> FromQuote cid key q pay tra now = Err e) \<or>
     (\<exists>c. c_QuoteID c = sf_id F qid \<and> c_IdempotencyKey c = key \<and> conv_taken (stored_conversion F c) b \<and>
        e = Conflict ''Conversion already exists for quote or idempotency key''
              [(''quoteId'', DStr (sf_id F qid)), (''idempotencyKey'', DStr key)]) \<or>
     (\<exists>t. \<not> list_ex (acceptable (sf_id F qid) (sf_time F t)) (bk_quotes b) \<and>
        e = Conflict ''Quote already accepted or expired'' [(''quoteId'', DStr qid)])"

definition spec_accept_quote ::
  "'d stored_form \<Rightarrow> string \<Rightarrow> string \<Rightarrow> string \<Rightarrow> string \<Rightarrow> 'd book \<Rightarrow> 'd conversion res \<Rightarrow> 'd book \<Rightarrow> bool"
where
  "spec_accept_quote F key qid pay tra b r b' \<longleftrightarrow>
     (case conv_by_key key b of
        Some c \<Rightarrow> b' = b \<and> (r = Ok c \<or> (\<exists>e. r = Err e \<and> infra e))
      | None \<Rightarrow>
          (case r of
             Ok c \<Rightarrow> \<exists>q cid eid now.
               quote_by_id (sf_id F qid) b = Some q \<and> FromQuote cid key q pay tra now = Ok c \<and>
               \<not> conv_taken (stored_conversion F c) b \<and> list_ex (acceptable (sf_id F qid) (sf_time F now)) (bk_quotes b) \<and>
               b' = accepted_book F c eid now b
           | Err e \<Rightarrow> b' = b \<and> (infra e \<or> accept_refused F key qid pay tra b e)
           | Panic p \<Rightarrow> False))"

text \<open>The transaction's body, before it is committed or rolled back.\<close>

definition spec_accept_tx ::
  "'d stored_form \<Rightarrow> string \<Rightarrow> string \<Rightarrow> string \<Rightarrow> string \<Rightarrow> time \<Rightarrow> 'd book \<Rightarrow> 'd conversion res \<Rightarrow> 'd book \<Rightarrow> bool"
where
  "spec_accept_tx F key qid pay tra now b r b' \<longleftrightarrow>
     (case r of
        Ok c \<Rightarrow> \<exists>q cid eid.
          quote_by_id (sf_id F qid) b = Some q \<and> FromQuote cid key q pay tra now = Ok c \<and>
          \<not> conv_taken (stored_conversion F c) b \<and> list_ex (acceptable (sf_id F qid) (sf_time F now)) (bk_quotes b) \<and>
          b' = accepted_book F c eid now b
      | Err e \<Rightarrow> infra e \<or> accept_refused F key qid pay tra b e
      | Panic p \<Rightarrow> False)"

lemma quote_by_id_ID: "quote_by_id qid b = Some q \<Longrightarrow> q_ID q = qid \<and> q \<in> set (bk_quotes b)"
  by (auto simp: quote_by_id_def dest: find_SomeD)

lemma FromQuote_currencies:
  "quote_currencies q \<Longrightarrow> FromQuote cid key q pay tra now = Ok c \<Longrightarrow> conversion_currencies c"
  by (auto simp: FromQuote_Ok quote_currencies_def conversion_currencies_def)

context fx_env begin

lemma triple_create_conversion:
  "conversion_currencies c \<Longrightarrow>
   triple book saved ok S P (cr_CreateConversion (tx_Conversions (uow_Repos U)) c)
     (\<lambda>r b'. \<exists>b. P b \<and> spec_CreateConversion F echo_conversion c b r b')"
  by (rule triple_refines [OF CreateConversion])

text \<open>The three writes, once the quote is found and the conversion built.\<close>

lemma triple_accept_writes:
  assumes "quote_by_id (sf_id F qid) b = Some q" "FromQuote cid key q pay tra now = Ok c" "conversion_currencies c"
  shows "triple book saved ok S (\<lambda>x. x = b)
    (bind (cr_CreateConversion (tx_Conversions (uow_Repos U)) c) (\<lambda>_.
     bind (qr_MarkQuoteAccepted (tx_Quotes (uow_Repos U)) qid now) (\<lambda>_.
     get_with (env_ULID E) (\<lambda>ulid.
     bind (or_Enqueue (tx_Outbox (uow_Repos U)) (conversion_created ulid c now)) (\<lambda>_.
       ret c)))))
    (spec_accept_tx F key qid pay tra now b)"
proof -
  from assms(1,2) have c: "c_QuoteID c = sf_id F qid" "c_IdempotencyKey c = key"
    by (auto simp: FromQuote_Ok dest: quote_by_id_ID)
  show ?thesis
  proof (rule triple_bind [OF triple_create_conversion [OF assms(3)]], goal_cases)
    case (1 c')
    show ?case
    proof (rule triple_bind [OF triple_refines [OF MarkQuoteAccepted]], goal_cases)
      case (1 u)
      show ?case
      proof (rule triple_ulid, rule triple_bind [OF triple_refines [OF Enqueue]], goal_cases)
        case (1 i v)
        show ?case
          by (rule triple_post [OF triple_ret])
            (use assms c in \<open>auto simp: port_specs spec_accept_tx_def accepted_book_def\<close>)
      qed (auto simp: port_specs spec_accept_tx_def)
    qed (use c in \<open>auto simp: port_specs spec_accept_tx_def accept_refused_def\<close>)
  qed (use c in \<open>auto simp: port_specs spec_accept_tx_def accept_refused_def\<close>)
qed

lemma triple_accept_tx:
  "triple book saved ok S (\<lambda>x. x = b)
     (AcceptQuote_tx (env_ULID E) key qid pay tra now (uow_Repos U))
     (spec_accept_tx F key qid pay tra now b)"
  unfolding AcceptQuote_tx_def
proof (rule triple_book_inv, rule triple_bind [OF triple_refines [OF GetQuoteByID]], goal_cases)
  case (1 q)
  show ?case
  proof (rule triple_bind [OF triple_lift], goal_cases)
    case (1 u)
    show ?case
    proof (rule triple_ulid, rule triple_bind [OF triple_lift], goal_cases)
      case (1 i c)
      show ?case
      proof (rule triple_pre [where P' = "\<lambda>x. (quote_by_id (sf_id F qid) b = Some q \<and>
            FromQuote i key q pay tra now = Ok c \<and> conversion_currencies c) \<and> x = b"],
          rule triple_assume)
        assume "quote_by_id (sf_id F qid) b = Some q \<and> FromQuote i key q pay tra now = Ok c \<and> conversion_currencies c"
        then show "triple book saved ok S (\<lambda>x. x = b)
            (bind (cr_CreateConversion (tx_Conversions (uow_Repos U)) c) (\<lambda>_.
             bind (qr_MarkQuoteAccepted (tx_Quotes (uow_Repos U)) qid now) (\<lambda>_.
             get_with (env_ULID E) (\<lambda>ulid.
             bind (or_Enqueue (tx_Outbox (uow_Repos U)) (conversion_created ulid c now)) (\<lambda>_.
               ret c))))) (spec_accept_tx F key qid pay tra now b)"
          using triple_accept_writes by blast
      qed (auto simp: spec_GetQuoteByID_def book_inv_def
            dest: quote_by_id_ID intro!: FromQuote_currencies)
    qed (auto simp: spec_GetQuoteByID_def spec_accept_tx_def accept_refused_def)
  qed (auto simp: spec_GetQuoteByID_def spec_accept_tx_def accept_refused_def)
qed (auto simp: spec_GetQuoteByID_def spec_accept_tx_def accept_refused_def)

lemma triple_AcceptQuote:
  assumes "aq_conversions u = tx_Conversions (uow_Repos U)" "aq_unitOfWork u = U"
    and "aq_clock u = env_Clock E" "aq_telemetry u = env_Telemetry E"
  shows "triple book saved ok None P (AcceptQuote_Execute (env_ULID E) u key qid pay tra)
    (\<lambda>r b'. \<exists>b. P b \<and> spec_accept_quote F key qid pay tra b r b')"
  unfolding AcceptQuote_Execute_def assms
proof (rule triple_span, rule triple_bind [OF triple_refines [OF GetConversionByIdempotencyKey]], goal_cases)
  case (1 existing)
  show ?case
  proof (cases existing)
    case (Some c)
    then show ?thesis
      by (simp, intro triple_post [OF triple_ret])
        (auto simp: spec_GetConversionByIdempotencyKey_def spec_accept_quote_def split: option.splits)
  next
    case None
    show ?thesis
      unfolding None option.case
    proof (rule triple_clock)
      fix now
      show "triple book saved ok None
          (\<lambda>b'. \<exists>b. P b \<and> spec_GetConversionByIdempotencyKey key b (Ok None) b')
          (WithinTransaction U (AcceptQuote_tx (env_ULID E) key qid pay tra now))
          (\<lambda>r b'. \<exists>b. P b \<and> spec_accept_quote F key qid pay tra b r b')"
      proof (rule triple_post, rule triple_transaction [where Q = "spec_accept_tx F key qid pay tra now"],
          rule triple_accept_tx, goal_cases)
        case (1 r b')
        then obtain b where "P b" "conv_by_key key b = None"
          "case r of Ok x \<Rightarrow> spec_accept_tx F key qid pay tra now b (Ok x) b'
           | Err e \<Rightarrow> b' = b \<and> (infra e \<or> (\<exists>b1. spec_accept_tx F key qid pay tra now b (Err e) b1))
           | Panic p \<Rightarrow> b' = b \<and> (\<exists>b1. spec_accept_tx F key qid pay tra now b (Panic p) b1)"
          by (auto simp: spec_GetConversionByIdempotencyKey_def)
        then show ?case
          by (intro exI [of _ b]) (cases r; auto simp: spec_accept_quote_def spec_accept_tx_def)
      qed
    qed
  qed
qed (auto simp: spec_GetConversionByIdempotencyKey_def spec_accept_quote_def split: option.splits)

end

end
