(* ===== verification/Usecase_Webhooks.thy ===== *)
theory Usecase_Webhooks
  imports Usecase_Quotes
begin

text \<open>
  \<open>internal/usecase/webhooks.go\<close> and \<open>internal/usecase/conversions.go\<close>: provider events
  applied at most once, and the conversion query. \<open>spec_webhook\<close> is the specification the
  two handlers share; each is proved to implement it with its own topic switch.
\<close>

record ('s, 'd) HandlePaymentWebhookUsecase =
  hp_conversions :: "('s, 'd) conversion_repository"
  hp_unitOfWork :: "('s, 'd) unit_of_work"
  hp_clock :: "'s clock"
  hp_telemetry :: "'s telemetry"

record ('s, 'd) HandleTransferWebhookUsecase =
  ht_conversions :: "('s, 'd) conversion_repository"
  ht_unitOfWork :: "('s, 'd) unit_of_work"
  ht_clock :: "'s clock"
  ht_telemetry :: "'s telemetry"

definition webhook_message :: "string \<Rightarrow> provider_event \<Rightarrow> time \<Rightarrow> inbox_message" where
  "webhook_message ulid event now =
     \<lparr>m_ID = ulid, m_Provider = ev_Provider event, m_Topic = ev_Topic event,
      m_ExternalEventID = ev_ExternalEventID event, m_ConversionID = ev_ConversionID event,
      m_ExternalRef = ev_ExternalReference event, m_Payload = ev_Payload event,
      m_ReceivedAt = now, m_ProcessedAt = Some now\<rparr>"

definition event_reference :: "provider_event \<Rightarrow> string" where
  "event_reference event = (case ev_ExternalReference event of None \<Rightarrow> [] | Some ref \<Rightarrow> ref)"

definition conversion_changed :: "string \<Rightarrow> provider_event \<Rightarrow> 'd conversion \<Rightarrow> time \<Rightarrow> outbox_event" where
  "conversion_changed ulid event c now =
     newOutboxEvent ulid ''conversion'' (c_ID c) (''conversion.'' @ c_Status c)
       [(''conversionId'', c_ID c), (''status'', c_Status c), (''provider'', ev_Provider event)] now"

section \<open>The topic switches\<close>

definition payment_update :: "provider_event \<Rightarrow> 'd conversion \<Rightarrow> time \<Rightarrow> 'd conversion res" where
  "payment_update event current now =
     (if ev_Topic event = ''payment.succeeded''
      then AdvanceForPayment current (event_reference event) now
      else if ev_Topic event = ''payment.failed''
      then Ok (FailPayment current ''payment.failed'' (event_reference event) now)
      else Err (Validation ''Unsupported payment webhook topic'' [(''topic'', DStr (ev_Topic event))]))"

definition transfer_update :: "provider_event \<Rightarrow> 'd conversion \<Rightarrow> time \<Rightarrow> 'd conversion res" where
  "transfer_update event current now =
     (if ev_Topic event = ''transfer.completed''
      then CompleteTransfer current (event_reference event) now
      else if ev_Topic event = ''transfer.failed''
      then Ok (FailTransfer current ''transfer.failed'' (event_reference event) now)
      else Err (Validation ''Unsupported transfer webhook topic'' [(''topic'', DStr (ev_Topic event))]))"

section \<open>The handlers\<close>

text \<open>The function run in the transaction; it yields the variables \<open>updated\<close> and \<open>duplicate\<close>.\<close>

definition HandlePaymentWebhook_tx ::
  "('s \<Rightarrow> string \<times> 's) \<Rightarrow> provider_event \<Rightarrow> time \<Rightarrow> ('s, 'd) transaction_repositories \<Rightarrow>
   ('s, 'd conversion \<times> bool) io" where
  "HandlePaymentWebhook_tx newULID event now repos =
     get_with newULID (\<lambda>ulid.
     bind (ir_StoreIfAbsent (tx_WebhookInbox repos) (webhook_message ulid event now)) (\<lambda>stored.
       if \<not> stored
       then bind (cr_GetConversionByID (tx_Conversions repos) (ev_ConversionID event)) (\<lambda>updated.
              ret (updated, True))
       else
         bind (cr_GetConversionByID (tx_Conversions repos) (ev_ConversionID event)) (\<lambda>current.
         bind (lift (payment_update event current now)) (\<lambda>updated.
         bind (cr_UpdateConversion (tx_Conversions repos) updated) (\<lambda>_.
         get_with newULID (\<lambda>ulid.
         bind (or_Enqueue (tx_Outbox repos) (conversion_changed ulid event updated now)) (\<lambda>_.
           ret (updated, False))))))))"

definition HandlePaymentWebhook_Execute ::
  "('s \<Rightarrow> string \<times> 's) \<Rightarrow> ('s, 'd) HandlePaymentWebhookUsecase \<Rightarrow> provider_event \<Rightarrow>
   ('s, 'd conversion \<times> bool) io" where
  "HandlePaymentWebhook_Execute newULID u event =
     with_span (hp_telemetry u) ''usecase.handle_payment_webhook''
       (get_with (ck_Now (hp_clock u)) (\<lambda>now.
        bind (WithinTransaction (hp_unitOfWork u) (HandlePaymentWebhook_tx newULID event now))
          (\<lambda>(updated, duplicate).
        bind (perform (if duplicate
               then tm_RecordWebhookDuplicate (hp_telemetry u) (ev_Provider event)
               else tm_RecordWebhookAccepted (hp_telemetry u) (ev_Provider event))) (\<lambda>_.
          ret (updated, duplicate)))))"

definition HandleTransferWebhook_tx ::
  "('s \<Rightarrow> string \<times> 's) \<Rightarrow> provider_event \<Rightarrow> time \<Rightarrow> ('s, 'd) transaction_repositories \<Rightarrow>
   ('s, 'd conversion \<times> bool) io" where
  "HandleTransferWebhook_tx newULID event now repos =
     get_with newULID (\<lambda>ulid.
     bind (ir_StoreIfAbsent (tx_WebhookInbox repos) (webhook_message ulid event now)) (\<lambda>stored.
       if \<not> stored
       then bind (cr_GetConversionByID (tx_Conversions repos) (ev_ConversionID event)) (\<lambda>updated.
              ret (updated, True))
       else
         bind (cr_GetConversionByID (tx_Conversions repos) (ev_ConversionID event)) (\<lambda>current.
         bind (lift (transfer_update event current now)) (\<lambda>updated.
         bind (cr_UpdateConversion (tx_Conversions repos) updated) (\<lambda>_.
         get_with newULID (\<lambda>ulid.
         bind (or_Enqueue (tx_Outbox repos) (conversion_changed ulid event updated now)) (\<lambda>_.
           ret (updated, False))))))))"

definition HandleTransferWebhook_Execute ::
  "('s \<Rightarrow> string \<times> 's) \<Rightarrow> ('s, 'd) HandleTransferWebhookUsecase \<Rightarrow> provider_event \<Rightarrow>
   ('s, 'd conversion \<times> bool) io" where
  "HandleTransferWebhook_Execute newULID u event =
     with_span (ht_telemetry u) ''usecase.handle_transfer_webhook''
       (get_with (ck_Now (ht_clock u)) (\<lambda>now.
        bind (WithinTransaction (ht_unitOfWork u) (HandleTransferWebhook_tx newULID event now))
          (\<lambda>(updated, duplicate).
        bind (perform (if duplicate
               then tm_RecordWebhookDuplicate (ht_telemetry u) (ev_Provider event)
               else tm_RecordWebhookAccepted (ht_telemetry u) (ev_Provider event))) (\<lambda>_.
          ret (updated, duplicate)))))"

section \<open>conversions.go\<close>

record ('s, 'd) GetConversionUsecase =
  gc_repository :: "('s, 'd) conversion_repository"
  gc_telemetry :: "'s telemetry"

definition GetConversion_Execute ::
  "('s, 'd) GetConversionUsecase \<Rightarrow> string \<Rightarrow> ('s, 'd conversion) io" where
  "GetConversion_Execute u conversionID =
     with_span (gc_telemetry u) ''usecase.get_conversion''
       (cr_GetConversionByID (gc_repository u) conversionID)"

section \<open>The shared specification\<close>

text \<open>
  The book after an event was applied: \<open>c\<close> is the updated conversion, \<open>c1\<close> the form the store
  kept, which may differ in the time of the update.
\<close>

definition webhook_book ::
  "'d stored_form \<Rightarrow> string \<Rightarrow> string \<Rightarrow> provider_event \<Rightarrow> 'd conversion \<Rightarrow> 'd conversion \<Rightarrow> time \<Rightarrow> 'd book \<Rightarrow> 'd book"
where
  "webhook_book F mid eid event c c1 now b =
     b\<lparr>bk_inbox := bk_inbox b @ [stored_message F (webhook_message mid event now)],
       bk_convs := update_where (\<lambda>d. c_ID d = sf_id F (ev_ConversionID event))
                     (\<lambda>_. stored_conversion F c1) (bk_convs b),
       bk_outbox := bk_outbox b @ [stored_event F (conversion_changed eid event c now)]\<rparr>"

definition event_seen :: "'d stored_form \<Rightarrow> provider_event \<Rightarrow> 'd book \<Rightarrow> bool" where
  "event_seen F event b \<longleftrightarrow>
     list_ex (\<lambda>m. inbox_key m =
                (sf_text F 32 (ev_Provider event), sf_text F 128 (ev_ExternalEventID event))) (bk_inbox b)"

definition webhook_refused ::
  "'d stored_form \<Rightarrow> (provider_event \<Rightarrow> 'd conversion \<Rightarrow> time \<Rightarrow> 'd conversion res) \<Rightarrow> provider_event \<Rightarrow> 'd book \<Rightarrow> go_error \<Rightarrow> bool"
where
  "webhook_refused F update event b e \<longleftrightarrow>
     infra e \<or>
     (\<exists>mid now. Validate_inbox (webhook_message mid event now) = Err e) \<or>
     e = NotFound ''Conversion not found'' [(''conversionId'', DStr (ev_ConversionID event))] \<or>
     e = NotFound ''Conversion not found'' [(''conversionId'', DStr (sf_id F (ev_ConversionID event)))] \<or>
     (\<exists>current now. conv_by_id (sf_id F (ev_ConversionID event)) b = Some current \<and> update event current now = Err e)"

definition spec_webhook ::
  "'d stored_form \<Rightarrow> (provider_event \<Rightarrow> 'd conversion \<Rightarrow> time \<Rightarrow> 'd conversion res) \<Rightarrow> provider_event \<Rightarrow>
   'd book \<Rightarrow> ('d conversion \<times> bool) res \<Rightarrow> 'd book \<Rightarrow> bool" where
  "spec_webhook F update event b r b' \<longleftrightarrow>
     (case r of
        Ok (c, duplicate) \<Rightarrow>
          duplicate = event_seen F event b \<and>
          (if duplicate then conv_by_id (sf_id F (ev_ConversionID event)) b = Some c \<and> b' = b
           else \<exists>current mid eid now c1 t.
             conv_by_id (sf_id F (ev_ConversionID event)) b = Some current \<and> update event current now = Ok c \<and>
             (c1 = c \<or> c1 = c\<lparr>c_UpdatedAt := t\<rparr>) \<and> b' = webhook_book F mid eid event c c1 now b)
      | Err e \<Rightarrow> b' = b \<and> webhook_refused F update event b e
      | Panic p \<Rightarrow> False)"

text \<open>What the two topic switches have in common.\<close>

definition update_keeps_terms ::
  "(provider_event \<Rightarrow> 'd conversion \<Rightarrow> time \<Rightarrow> 'd conversion res) \<Rightarrow> bool" where
  "update_keeps_terms update \<longleftrightarrow>
     (\<forall>event current now. (\<forall>p. update event current now \<noteq> Panic p) \<and>
        (\<forall>c. update event current now = Ok c \<longrightarrow> conversion_step current c))"

lemma payment_update_keeps: "update_keeps_terms payment_update"
  by (auto simp: update_keeps_terms_def payment_update_def intro: advance fail_payment)

lemma transfer_update_keeps: "update_keeps_terms transfer_update"
  by (auto simp: update_keeps_terms_def transfer_update_def intro: complete fail_transfer)

lemma conversion_step_ids:
  assumes "conversion_step c c'"
  shows "c_ID c' = c_ID c" "conversion_currencies c' = conversion_currencies c"
  using step_terms [OF assms] by (simp_all add: terms_of_def conversion_currencies_def)

lemma webhook_message_key [simp]:
  "inbox_key (stored_message F (webhook_message mid event now)) =
     (sf_text F 32 (ev_Provider event), sf_text F 128 (ev_ExternalEventID event))"
  "m_ConversionID (webhook_message mid event now) = ev_ConversionID event"
  by (simp_all add: webhook_message_def inbox_key_def stored_message_def)

lemma seen_event: "seen (stored_message F (webhook_message mid event now)) b \<longleftrightarrow> event_seen F event b"
  by (simp add: seen_def event_seen_def)

lemma conv_by_id_frame [simp]:
  "conv_by_id i (b\<lparr>bk_inbox := x\<rparr>) = conv_by_id i b"
  "conv_by_id i (b\<lparr>bk_outbox := y\<rparr>) = conv_by_id i b"
  by (simp_all add: conv_by_id_def)

text \<open>Saving a conversion that is stored replaces its row.\<close>

lemma update_existing:
  assumes "spec_UpdateConversion F echo c b (Ok c') b'" "conv_by_id (sf_id F (c_ID c)) b \<noteq> None"
  shows "\<exists>c1 t. (c1 = c \<or> c1 = c\<lparr>c_UpdatedAt := t\<rparr>) \<and>
    b' = b\<lparr>bk_convs := update_where (\<lambda>d. c_ID d = sf_id F (c_ID c)) (\<lambda>_. stored_conversion F c1) (bk_convs b)\<rparr>"
  using assms unfolding spec_UpdateConversion_def result.case by (simp only: if_False) blast

lemma conv_by_id_ID: "conv_by_id cid b = Some c \<Longrightarrow> c_ID c = cid \<and> c \<in> set (bk_convs b)"
  by (auto simp: conv_by_id_def dest: find_SomeD)

text \<open>The code's two transaction bodies, as one with the switch as its parameter.\<close>

definition webhook_tx ::
  "(provider_event \<Rightarrow> 'd conversion \<Rightarrow> time \<Rightarrow> 'd conversion res) \<Rightarrow> ('s \<Rightarrow> string \<times> 's) \<Rightarrow>
   provider_event \<Rightarrow> time \<Rightarrow> ('s, 'd) transaction_repositories \<Rightarrow> ('s, 'd conversion \<times> bool) io" where
  "webhook_tx update newULID event now repos =
     get_with newULID (\<lambda>ulid.
     bind (ir_StoreIfAbsent (tx_WebhookInbox repos) (webhook_message ulid event now)) (\<lambda>stored.
       if \<not> stored
       then bind (cr_GetConversionByID (tx_Conversions repos) (ev_ConversionID event)) (\<lambda>updated.
              ret (updated, True))
       else
         bind (cr_GetConversionByID (tx_Conversions repos) (ev_ConversionID event)) (\<lambda>current.
         bind (lift (update event current now)) (\<lambda>updated.
         bind (cr_UpdateConversion (tx_Conversions repos) updated) (\<lambda>_.
         get_with newULID (\<lambda>ulid.
         bind (or_Enqueue (tx_Outbox repos) (conversion_changed ulid event updated now)) (\<lambda>_.
           ret (updated, False))))))))"

lemma webhook_tx_instances:
  "HandlePaymentWebhook_tx = webhook_tx payment_update"
  "HandleTransferWebhook_tx = webhook_tx transfer_update"
  by (intro ext, simp add: HandlePaymentWebhook_tx_def HandleTransferWebhook_tx_def webhook_tx_def)+

text \<open>The transaction's body, before it is committed or rolled back.\<close>

definition webhook_tx_spec ::
  "'d stored_form \<Rightarrow> (provider_event \<Rightarrow> 'd conversion \<Rightarrow> time \<Rightarrow> 'd conversion res) \<Rightarrow> provider_event \<Rightarrow> time \<Rightarrow> 'd book \<Rightarrow>
   ('d conversion \<times> bool) res \<Rightarrow> 'd book \<Rightarrow> bool" where
  "webhook_tx_spec F update event now b r b' \<longleftrightarrow>
     (case r of
        Ok (c, duplicate) \<Rightarrow> spec_webhook F update event b r b'
      | Err e \<Rightarrow> webhook_refused F update event b e
      | Panic p \<Rightarrow> False)"

context fx_env begin

lemma triple_update_conversion:
  "conversion_currencies c \<Longrightarrow>
   triple book saved ok S P (cr_UpdateConversion (tx_Conversions (uow_Repos U)) c)
     (\<lambda>r b'. \<exists>b. P b \<and> spec_UpdateConversion F echo_conversion c b r b')"
  by (rule triple_refines [OF UpdateConversion])

text \<open>The writes, once the event is new and the transition allowed.\<close>

lemma triple_webhook_writes:
  assumes "conv_by_id (sf_id F (ev_ConversionID event)) b = Some current" "update event current now = Ok c"
    and "update_keeps_terms update" "conversion_currencies c" "\<not> event_seen F event b"
  shows "triple book saved ok S
    (\<lambda>x. x = b\<lparr>bk_inbox := bk_inbox b @ [stored_message F (webhook_message mid event now)]\<rparr>)
    (bind (cr_UpdateConversion (tx_Conversions (uow_Repos U)) c) (\<lambda>_.
     get_with (env_ULID E) (\<lambda>ulid.
     bind (or_Enqueue (tx_Outbox (uow_Repos U)) (conversion_changed ulid event c now)) (\<lambda>_.
       ret (c, False)))))
    (webhook_tx_spec F update event now b)"
proof -
  have "conversion_step current c" using assms(2,3) by (simp add: update_keeps_terms_def)
  with conv_by_id_ID [OF assms(1)] have cid: "c_ID c = sf_id F (ev_ConversionID event)"
    by (simp add: conversion_step_ids)
  let ?b1 = "b\<lparr>bk_inbox := bk_inbox b @ [stored_message F (webhook_message mid event now)]\<rparr>"
  show ?thesis
  proof (rule triple_bind [OF triple_update_conversion [OF assms(4)]], goal_cases)
    case (1 c')
    show ?case
    proof (rule triple_ulid, rule triple_bind [OF triple_refines [OF Enqueue]], goal_cases)
      case (1 i v)
      show ?case
      proof (rule triple_post [OF triple_ret])
        fix r :: "('d conversion \<times> bool) res" and b'
        assume "(\<exists>b2. (\<exists>b1. b1 = ?b1 \<and> spec_UpdateConversion F echo_conversion c b1 (Ok c') b2) \<and>
            spec_Enqueue F (conversion_changed i event c now) b2 (Ok v) b') \<and> r = Ok (c, False)"
        then obtain b2 where upd: "spec_UpdateConversion F echo_conversion c ?b1 (Ok c') b2"
          and enq: "b' = b2\<lparr>bk_outbox := bk_outbox b2 @ [stored_event F (conversion_changed i event c now)]\<rparr>"
          and r: "r = Ok (c, False)"
          by (auto simp: spec_Enqueue_def)
        have "conv_by_id (sf_id F (c_ID c)) ?b1 \<noteq> None" using assms(1) cid by (simp add: sf_id_idem)
        from update_existing [OF upd this] obtain c1 t where "c1 = c \<or> c1 = c\<lparr>c_UpdatedAt := t\<rparr>"
          "b2 = ?b1\<lparr>bk_convs := update_where (\<lambda>d. c_ID d = sf_id F (ev_ConversionID event))
                      (\<lambda>_. stored_conversion F c1) (bk_convs b)\<rparr>"
          using cid by (auto simp: sf_id_idem)
        with enq have "b' = webhook_book F mid i event c c1 now b" by (simp add: webhook_book_def)
        with \<open>c1 = c \<or> c1 = c\<lparr>c_UpdatedAt := t\<rparr>\<close> r assms(1,2,5)
        show "webhook_tx_spec F update event now b r b'"
          unfolding webhook_tx_spec_def spec_webhook_def by (simp, blast)
      qed
    qed (auto simp: spec_Enqueue_def webhook_tx_spec_def webhook_refused_def)
  qed (use cid in \<open>auto simp: spec_UpdateConversion_def webhook_tx_spec_def webhook_refused_def\<close>)
qed

lemma triple_webhook_tx:
  assumes "update_keeps_terms update"
  shows "triple book saved ok S (\<lambda>x. x = b) (webhook_tx update (env_ULID E) event now (uow_Repos U))
    (webhook_tx_spec F update event now b)"
  unfolding webhook_tx_def
proof (rule triple_ulid, rule triple_book_inv, rule triple_bind [OF triple_refines [OF StoreIfAbsent]], goal_cases)
  case (1 mid stored)
  let ?pre = "\<lambda>b'. \<exists>x. (x = b \<and> book_inv F x) \<and> spec_StoreIfAbsent F (webhook_message mid event now) x (Ok stored) b'"
  show ?case
  proof (cases stored)
    case False
    then show ?thesis
    proof (simp only: simp_thms if_True, intro triple_bind [OF triple_refines [OF GetConversionByID]], goal_cases)
      case (1 c)
      show ?case
        by (rule triple_post [OF triple_ret])
          (auto simp: spec_StoreIfAbsent_def spec_GetConversionByID_def webhook_tx_spec_def
            spec_webhook_def seen_event)
    qed (auto simp: spec_StoreIfAbsent_def spec_GetConversionByID_def webhook_tx_spec_def webhook_refused_def)
  next
    case True
    let ?b1 = "b\<lparr>bk_inbox := bk_inbox b @ [stored_message F (webhook_message mid event now)]\<rparr>"
    from True show ?thesis
    proof (simp only: simp_thms if_False, intro triple_bind [OF triple_refines [OF GetConversionByID]], goal_cases)
      case (1 current)
      show ?case
      proof (rule triple_bind [OF triple_lift], goal_cases)
        case (1 c)
        show ?case
        proof (rule triple_pre [where P' = "\<lambda>x. (conv_by_id (sf_id F (ev_ConversionID event)) b = Some current \<and>
              update event current now = Ok c \<and> conversion_currencies c \<and> \<not> event_seen F event b) \<and> x = ?b1"],
            rule triple_assume)
          assume "conv_by_id (sf_id F (ev_ConversionID event)) b = Some current \<and>
              update event current now = Ok c \<and> conversion_currencies c \<and> \<not> event_seen F event b"
          then show "triple book saved ok S (\<lambda>x. x = ?b1)
              (bind (cr_UpdateConversion (tx_Conversions (uow_Repos U)) c) (\<lambda>_.
               get_with (env_ULID E) (\<lambda>ulid.
               bind (or_Enqueue (tx_Outbox (uow_Repos U)) (conversion_changed ulid event c now)) (\<lambda>_.
                 ret (c, False))))) (webhook_tx_spec F update event now b)"
            using triple_webhook_writes assms by blast
        next
          fix x
          assume "(\<exists>b'. (\<exists>xa. (xa = b \<and> book_inv F xa) \<and>
                spec_StoreIfAbsent F (webhook_message mid event now) xa (Ok True) b') \<and>
              spec_GetConversionByID F (ev_ConversionID event) b' (Ok current) x) \<and>
            update event current now = Ok c"
          then have b: "x = ?b1" "conv_by_id (sf_id F (ev_ConversionID event)) b = Some current"
            "\<not> event_seen F event b" "book_inv F b" "update event current now = Ok c"
            by (auto simp: spec_StoreIfAbsent_def spec_GetConversionByID_def seen_event conv_by_id_def)
          then have "conversion_step current c" using assms by (simp add: update_keeps_terms_def)
          with b conv_by_id_ID [OF b(2)] have "conversion_currencies c"
            by (simp add: conversion_step_ids book_inv_def)
          with b show "(conv_by_id (sf_id F (ev_ConversionID event)) b = Some current \<and>
              update event current now = Ok c \<and> conversion_currencies c \<and> \<not> event_seen F event b) \<and> x = ?b1"
            by simp
        qed
      next
        case (2 e x)
        then show ?case
          by (auto simp: spec_StoreIfAbsent_def spec_GetConversionByID_def webhook_tx_spec_def
              webhook_refused_def conv_by_id_def)
      next
        case (3 p x)
        with assms show ?case by (auto simp: update_keeps_terms_def)
      qed
    qed (auto simp: spec_StoreIfAbsent_def spec_GetConversionByID_def webhook_tx_spec_def webhook_refused_def)
  qed
qed (auto simp: spec_StoreIfAbsent_def webhook_tx_spec_def webhook_refused_def)

lemma triple_webhook:
  assumes "update_keeps_terms update"
  shows "triple book saved ok None P
    (WithinTransaction U (webhook_tx update (env_ULID E) event now))
    (\<lambda>r b'. \<exists>b. P b \<and> spec_webhook F update event b r b')"
proof (rule triple_post, rule triple_transaction [where Q = "webhook_tx_spec F update event now"],
    rule triple_webhook_tx [OF assms], goal_cases)
  case (1 r b')
  then obtain b where "P b"
    "case r of Ok x \<Rightarrow> webhook_tx_spec F update event now b (Ok x) b'
     | Err e \<Rightarrow> b' = b \<and> (infra e \<or> (\<exists>b1. webhook_tx_spec F update event now b (Err e) b1))
     | Panic p \<Rightarrow> b' = b \<and> (\<exists>b1. webhook_tx_spec F update event now b (Panic p) b1)"
    by auto
  then show ?case
    by (intro exI [of _ b])
      (cases r; auto simp: webhook_tx_spec_def spec_webhook_def webhook_refused_def split: prod.splits)
qed

lemma triple_record_webhook:
  "triple book saved ok S P
     (bind (perform (if dup then tm_RecordWebhookDuplicate (env_Telemetry E) prov
              else tm_RecordWebhookAccepted (env_Telemetry E) prov)) (\<lambda>_. ret (c, dup)))
     (\<lambda>r b. P b \<and> r = Ok (c, dup))"
proof (rule triple_bind,
    rule triple_counter [where prov = prov and tr = "[]" and op = "[]" and out = "[]" and dur = 0 and ty = "[]"],
    goal_cases)
  case 1
  show ?case by (cases dup) simp_all
next
  case (2 u)
  show ?case by (rule triple_post [OF triple_ret]) simp
qed auto

lemma triple_HandlePaymentWebhook:
  assumes "hp_unitOfWork u = U" "hp_clock u = env_Clock E" "hp_telemetry u = env_Telemetry E"
  shows "triple book saved ok None P (HandlePaymentWebhook_Execute (env_ULID E) u event)
    (\<lambda>r b'. \<exists>b. P b \<and> spec_webhook F payment_update event b r b')"
  unfolding HandlePaymentWebhook_Execute_def assms webhook_tx_instances
proof (rule triple_span, rule triple_clock, rule triple_bind [OF triple_webhook [OF payment_update_keeps]], goal_cases)
  case (1 now x)
  show ?case
    by (cases x) (simp only: prod.case, rule triple_post [OF triple_record_webhook], auto)
qed auto

lemma triple_HandleTransferWebhook:
  assumes "ht_unitOfWork u = U" "ht_clock u = env_Clock E" "ht_telemetry u = env_Telemetry E"
  shows "triple book saved ok None P (HandleTransferWebhook_Execute (env_ULID E) u event)
    (\<lambda>r b'. \<exists>b. P b \<and> spec_webhook F transfer_update event b r b')"
  unfolding HandleTransferWebhook_Execute_def assms webhook_tx_instances
proof (rule triple_span, rule triple_clock, rule triple_bind [OF triple_webhook [OF transfer_update_keeps]], goal_cases)
  case (1 now x)
  show ?case
    by (cases x) (simp only: prod.case, rule triple_post [OF triple_record_webhook], auto)
qed auto

lemma triple_GetConversion:
  assumes "gc_repository u = tx_Conversions (uow_Repos U)" "gc_telemetry u = env_Telemetry E"
  shows "triple book saved ok S P (GetConversion_Execute u cid)
    (\<lambda>r b'. \<exists>b. P b \<and> spec_GetConversionByID F cid b r b')"
  unfolding GetConversion_Execute_def assms
  by (rule triple_span [OF triple_refines [OF GetConversionByID]])

end

end
