(* ===== verification/Usecase_Outbox.thy ===== *)
theory Usecase_Outbox
  imports Usecase_Webhooks
begin

text \<open>
  \<open>internal/usecase/outbox.go\<close>: one pass over the pending outbox events. The specification
  \<open>spec_publish\<close> accounts for every event of the batch: each gets one outcome, recorded in
  the book and in the counts the caller sees.
\<close>

record PublishOutboxResult =
  pr_Processed :: int
  pr_Published :: int
  pr_Failed :: int

record 's PublishOutboxUsecase =
  po_repository :: "'s outbox_repository"
  po_publisher :: "'s event_publisher"
  po_telemetry :: "'s telemetry"

text \<open>\<open>if err := m(); err != nil { ... } ...\<close>: both outcomes are handled, a panic is not.\<close>

definition attempt ::
  "('e, 's, 'a) call \<Rightarrow> ('a \<Rightarrow> ('e, 's, 'b) call) \<Rightarrow> ('e \<Rightarrow> ('e, 's, 'b) call) \<Rightarrow> ('e, 's, 'b) call" where
  "attempt m f g s =
     (case m s of (Ok x, s') \<Rightarrow> f x s' | (Err e, s') \<Rightarrow> g e s' | (Panic p, s') \<Rightarrow> (Panic p, s'))"

definition PublishOutbox_step ::
  "('s \<Rightarrow> time \<times> 's) \<Rightarrow> 's PublishOutboxUsecase \<Rightarrow> outbox_event \<Rightarrow> PublishOutboxResult \<Rightarrow>
   ('s, PublishOutboxResult) io" where
  "PublishOutbox_step wallClock u event result =
     attempt (ep_Publish (po_publisher u) event)
       (\<lambda>_. bind (perform (tm_RecordOutboxPublished (po_telemetry u) (e_EventType event))) (\<lambda>_.
            get_with wallClock (\<lambda>now.
            bind (or_MarkPublished (po_repository u) (e_ID event) now) (\<lambda>_.
              ret (result\<lparr>pr_Published := pr_Published result + 1\<rparr>)))))
       (\<lambda>err. bind (perform (tm_RecordOutboxPublishFailure (po_telemetry u) (e_EventType event))) (\<lambda>_.
            bind (or_MarkPublishFailed (po_repository u) (e_ID event) (error_text err)) (\<lambda>_.
              ret (result\<lparr>pr_Failed := pr_Failed result + 1\<rparr>))))"

definition PublishOutbox_Execute ::
  "('s \<Rightarrow> time \<times> 's) \<Rightarrow> 's PublishOutboxUsecase \<Rightarrow> int \<Rightarrow> ('s, PublishOutboxResult) io" where
  "PublishOutbox_Execute wallClock u limit =
     with_span (po_telemetry u) ''usecase.publish_outbox''
       (bind (or_ListPending (po_repository u) limit) (\<lambda>events.
          for_each (PublishOutbox_step wallClock u) events
            \<lparr>pr_Processed = int (length events), pr_Published = 0, pr_Failed = 0\<rparr>))"

section \<open>The specification\<close>

datatype outcome = Delivered time | Undelivered string

fun is_delivered :: "outcome \<Rightarrow> bool" where
  "is_delivered (Delivered t) = True"
| "is_delivered (Undelivered text) = False"

fun mark_event :: "'d stored_form \<Rightarrow> outcome \<Rightarrow> outbox_event \<Rightarrow> outbox_event" where
  "mark_event F (Delivered t) e =
     e\<lparr>e_PublishedAt := Some (sf_time F t), e_LastError := None,
       e_PublishAttempts := e_PublishAttempts e + 1\<rparr>"
| "mark_event F (Undelivered text) e =
     e\<lparr>e_LastError := Some text, e_PublishAttempts := e_PublishAttempts e + 1\<rparr>"

fun apply_outcome :: "'d stored_form \<Rightarrow> outbox_event \<times> outcome \<Rightarrow> 'd book \<Rightarrow> 'd book" where
  "apply_outcome F (e, oc) b =
     b\<lparr>bk_outbox := update_where (\<lambda>x. e_ID x = e_ID e) (mark_event F oc) (bk_outbox b)\<rparr>"

text \<open>\<open>ocs\<close> are the outcomes reached: all of the batch's if the pass ends normally.\<close>

definition published_batch ::
  "'d stored_form \<Rightarrow> outbox_event list \<Rightarrow> PublishOutboxResult \<Rightarrow> 'd book \<Rightarrow> PublishOutboxResult res \<Rightarrow> 'd book \<Rightarrow> bool"
where
  "published_batch F es acc b r b' \<longleftrightarrow>
     (\<exists>ocs. length ocs \<le> length es \<and> b' = fold (apply_outcome F) (zip es ocs) b \<and>
        (case r of
           Ok res \<Rightarrow> length ocs = length es \<and>
             res = \<lparr>pr_Processed = pr_Processed acc,
                    pr_Published = pr_Published acc + int (length (filter is_delivered ocs)),
                    pr_Failed = pr_Failed acc + int (length (filter (\<lambda>oc. \<not> is_delivered oc) ocs))\<rparr>
         | Err e \<Rightarrow> infra e
         | Panic p \<Rightarrow> False))"

definition spec_publish ::
  "'d stored_form \<Rightarrow> int \<Rightarrow> 'd book \<Rightarrow> PublishOutboxResult res \<Rightarrow> 'd book \<Rightarrow> bool" where
  "spec_publish F limit b r b' \<longleftrightarrow>
     (\<exists>e. r = Err e \<and> infra e \<and> b' = b) \<or>
     (\<exists>es. pending_batch (nat (if limit \<le> 0 then 100 else limit)) (bk_outbox b) es \<and>
        published_batch F es \<lparr>pr_Processed = int (length es), pr_Published = 0, pr_Failed = 0\<rparr> b r b')"

text \<open>One event: its outcome is recorded, or the store failed and the pass stops.\<close>

definition step_post :: "'d stored_form \<Rightarrow> outbox_event \<Rightarrow> PublishOutboxResult \<Rightarrow> 'd book \<Rightarrow> PublishOutboxResult res \<Rightarrow> 'd book \<Rightarrow> bool"
where
  "step_post F e acc b r b' \<longleftrightarrow>
     (case r of
        Ok acc' \<Rightarrow> \<exists>oc. b' = apply_outcome F (e, oc) b \<and>
          acc' = (if is_delivered oc then acc\<lparr>pr_Published := pr_Published acc + 1\<rparr>
                  else acc\<lparr>pr_Failed := pr_Failed acc + 1\<rparr>)
      | Err err \<Rightarrow> b' = b \<and> infra err
      | Panic p \<Rightarrow> False)"

lemma event_exists_iff: "event_exists i b \<longleftrightarrow> i \<in> set (map e_ID (bk_outbox b))"
  by (auto simp: event_exists_def list_ex_iff image_iff; metis)

lemma mark_event_ID [simp]: "e_ID (mark_event F oc e) = e_ID e"
  by (cases oc) auto

lemma apply_outcome_ids: "map e_ID (bk_outbox (apply_outcome F p b)) = map e_ID (bk_outbox b)"
  by (cases p) (simp add: map_update_where)

lemma apply_outcome_frame:
  "bk_rates (apply_outcome F p b) = bk_rates b" "bk_quotes (apply_outcome F p b) = bk_quotes b"
  "bk_convs (apply_outcome F p b) = bk_convs b" "bk_inbox (apply_outcome F p b) = bk_inbox b"
  by (cases p, simp)+

lemma pending_batch_members:
  "pending_batch n all es \<Longrightarrow> e \<in> set es \<Longrightarrow> e \<in> set all \<and> e_PublishedAt e = None"
proof -
  assume "pending_batch n all es" "e \<in> set es"
  then obtain rest where "mset (es @ rest) = mset (filter (\<lambda>e. e_PublishedAt e = None) all)"
    by (auto simp: pending_batch_def)
  then have "set (es @ rest) = set (filter (\<lambda>e. e_PublishedAt e = None) all)"
    by (metis set_mset_mset)
  with \<open>e \<in> set es\<close> show ?thesis by auto
qed

lemma published_batch_cons:
  assumes "published_batch F es acc' (apply_outcome F (e, oc) b) r b'"
    and "acc' = (if is_delivered oc then acc\<lparr>pr_Published := pr_Published acc + 1\<rparr>
                 else acc\<lparr>pr_Failed := pr_Failed acc + 1\<rparr>)"
  shows "published_batch F (e # es) acc b r b'"
proof -
  from assms(1) obtain ocs where "length ocs \<le> length es"
    "b' = fold (apply_outcome F) (zip es ocs) (apply_outcome F (e, oc) b)"
    and r: "case r of
       Ok res \<Rightarrow> length ocs = length es \<and>
         res = \<lparr>pr_Processed = pr_Processed acc',
                pr_Published = pr_Published acc' + int (length (filter is_delivered ocs)),
                pr_Failed = pr_Failed acc' + int (length (filter (\<lambda>oc. \<not> is_delivered oc) ocs))\<rparr>
     | Err e \<Rightarrow> infra e | Panic p \<Rightarrow> False"
    unfolding published_batch_def by blast
  with assms(2) show ?thesis
    unfolding published_batch_def by (intro exI [of _ "oc # ocs"]) (auto split: result.splits)
qed

context fx_env begin

lemma triple_attempt:
  assumes "triple book saved ok S P m R"
    and "\<And>x. triple book saved ok S (R (Ok x)) (f x) Q"
    and "\<And>e. triple book saved ok S (R (Err e)) (g e) Q"
    and "\<And>p b. R (Panic p) b \<Longrightarrow> Q (Panic p) b"
  shows "triple book saved ok S P (attempt m f g) Q"
proof (rule tripleI)
  fix s r t
  assume s: "ok s" "saved s = S" "P (book s)" and run: "attempt m f g s = (r, t)"
  obtain r1 s1 where m: "m s = (r1, s1)" by fastforce
  from tripleD [OF assms(1) s m] have s1: "ok s1" "saved s1 = S" "R r1 (book s1)" by auto
  show "ok t \<and> saved t = S \<and> Q r (book t)"
  proof (cases r1)
    case (Ok x)
    with m run have "f x s1 = (r, t)" by (simp add: attempt_def)
    with s1 Ok assms(2) [of x] show ?thesis unfolding triple_def by blast
  next
    case (Err e)
    with m run have "g e s1 = (r, t)" by (simp add: attempt_def)
    with s1 Err assms(3) [of e] show ?thesis unfolding triple_def by blast
  next
    case (Panic p)
    with m run s1 assms(4) show ?thesis by (auto simp: attempt_def)
  qed
qed

lemma triple_publish_step:
  assumes "po_repository u = tx_Outbox (uow_Repos U)" "po_publisher u = env_Publisher E"
    and "po_telemetry u = env_Telemetry E" "event_exists (e_ID e) b" "sf_id F (e_ID e) = e_ID e"
  shows "triple book saved ok S (\<lambda>x. x = b) (PublishOutbox_step (env_WallClock E) u e acc)
    (step_post F e acc b)"
  unfolding PublishOutbox_step_def assms(1-3)
proof (rule triple_attempt [OF triple_publish], goal_cases)
  case (1 v)
  show ?case
  proof (rule triple_bind, rule triple_counter [where prov = "[]" and tr = "[]" and op = "[]" and out = "[]"
        and dur = 0 and ty = "e_EventType e"], simp, goal_cases)
    case (1 w)
    show ?case
    proof (rule triple_wallclock, rule triple_bind [OF triple_refines [OF MarkPublished]], goal_cases)
      case (1 now x)
      show ?case
        by (rule triple_post [OF triple_ret])
          (use assms(5) in \<open>auto simp: spec_MarkPublished_def step_post_def fun_eq_iff update_where_def
            intro!: exI [of _ "Delivered now"]\<close>)
    qed (use assms(4,5) in \<open>auto simp: spec_MarkPublished_def step_post_def\<close>)
  qed auto
next
  case (2 err)
  show ?case
  proof (rule triple_bind, rule triple_counter [where prov = "[]" and tr = "[]" and op = "[]" and out = "[]"
        and dur = 0 and ty = "e_EventType e"], simp, goal_cases)
    case (1 w)
    show ?case
    proof (rule triple_bind [OF triple_refines [OF MarkPublishFailed]], goal_cases)
      case (1 x)
      show ?case
        by (rule triple_post [OF triple_ret])
          (use assms(5) in \<open>auto simp: spec_MarkPublishFailed_def step_post_def fun_eq_iff update_where_def
            intro!: exI [of _ "Undelivered (error_text err)"]\<close>)
    qed (use assms(4,5) in \<open>auto simp: spec_MarkPublishFailed_def step_post_def\<close>)
  qed auto
qed auto

lemma triple_publish_loop:
  assumes "po_repository u = tx_Outbox (uow_Repos U)" "po_publisher u = env_Publisher E"
    and "po_telemetry u = env_Telemetry E" "\<forall>e \<in> set es. event_exists (e_ID e) b \<and> sf_id F (e_ID e) = e_ID e"
  shows "triple book saved ok S (\<lambda>x. x = b) (for_each (PublishOutbox_step (env_WallClock E) u) es acc)
    (published_batch F es acc b)"
  using assms(4)
proof (induction es arbitrary: b acc)
  case Nil
  show ?case
    unfolding for_each.simps
    by (rule triple_post [OF triple_ret]) (auto simp: published_batch_def)
next
  case (Cons e es)
  then have e: "event_exists (e_ID e) b" "sf_id F (e_ID e) = e_ID e" by simp_all
  show ?case
    unfolding for_each.simps
  proof (rule triple_bind [OF triple_publish_step [OF assms(1-3) e]], goal_cases)
    case (1 acc')
    have "triple book saved ok S (\<lambda>b'. \<exists>oc. b' = apply_outcome F (e, oc) b \<and>
          acc' = (if is_delivered oc then acc\<lparr>pr_Published := pr_Published acc + 1\<rparr>
                  else acc\<lparr>pr_Failed := pr_Failed acc + 1\<rparr>))
        (for_each (PublishOutbox_step (env_WallClock E) u) es acc') (published_batch F (e # es) acc b)"
    proof (rule triple_exists)
      fix oc
      let ?b = "apply_outcome F (e, oc) b"
      have "\<forall>e' \<in> set es. event_exists (e_ID e') ?b \<and> sf_id F (e_ID e') = e_ID e'"
      proof
        fix e' assume "e' \<in> set es"
        with Cons.prems show "event_exists (e_ID e') ?b \<and> sf_id F (e_ID e') = e_ID e'"
          by (simp only: event_exists_iff apply_outcome_ids set_simps) blast
      qed
      note IH = Cons.IH [OF this]
      show "triple book saved ok S (\<lambda>b'. b' = ?b \<and>
          acc' = (if is_delivered oc then acc\<lparr>pr_Published := pr_Published acc + 1\<rparr>
                  else acc\<lparr>pr_Failed := pr_Failed acc + 1\<rparr>))
          (for_each (PublishOutbox_step (env_WallClock E) u) es acc') (published_batch F (e # es) acc b)"
      proof (rule triple_pre [where P' = "\<lambda>b'. acc' = (if is_delivered oc then acc\<lparr>pr_Published := pr_Published acc + 1\<rparr>
                  else acc\<lparr>pr_Failed := pr_Failed acc + 1\<rparr>) \<and> b' = ?b"], rule triple_assume)
        assume "acc' = (if is_delivered oc then acc\<lparr>pr_Published := pr_Published acc + 1\<rparr>
                  else acc\<lparr>pr_Failed := pr_Failed acc + 1\<rparr>)"
        then show "triple book saved ok S (\<lambda>b'. b' = ?b)
            (for_each (PublishOutbox_step (env_WallClock E) u) es acc') (published_batch F (e # es) acc b)"
          by (intro triple_post [OF IH]) (rule published_batch_cons)
      qed simp
    qed
    then show ?case by (rule triple_pre) (simp add: step_post_def)
  next
    case (2 err b')
    then show ?case by (auto simp: step_post_def published_batch_def intro!: exI [of _ "[]"])
  qed (simp add: step_post_def)
qed

lemma triple_PublishOutbox:
  assumes "po_repository u = tx_Outbox (uow_Repos U)" "po_publisher u = env_Publisher E"
    and "po_telemetry u = env_Telemetry E"
  shows "triple book saved ok S (\<lambda>x. x = b) (PublishOutbox_Execute (env_WallClock E) u limit)
    (spec_publish F limit b)"
  unfolding PublishOutbox_Execute_def assms
proof (rule triple_span, rule triple_book_inv, rule triple_bind [OF triple_refines [OF ListPending]], goal_cases)
  case (1 es)
  show ?case
  proof (rule triple_pre [where P' = "\<lambda>b'. (pending_batch (nat (if limit \<le> 0 then 100 else limit)) (bk_outbox b) es \<and>
          book_inv F b) \<and> b' = b"], rule triple_assume)
    assume "pending_batch (nat (if limit \<le> 0 then 100 else limit)) (bk_outbox b) es \<and> book_inv F b"
    then have batch: "pending_batch (nat (if limit \<le> 0 then 100 else limit)) (bk_outbox b) es"
      and "\<forall>e \<in> set es. event_exists (e_ID e) b \<and> sf_id F (e_ID e) = e_ID e"
      by (auto simp: event_exists_def list_ex_iff book_inv_def dest: pending_batch_members)
    note this(2)
    note loop = triple_publish_loop [OF assms this]
    show "triple book saved ok S (\<lambda>b'. b' = b)
        (for_each (PublishOutbox_step (env_WallClock E) u) es
          \<lparr>pr_Processed = int (length es), pr_Published = 0, pr_Failed = 0\<rparr>) (spec_publish F limit b)"
      by (rule triple_post [OF loop]) (use batch in \<open>auto simp: spec_publish_def\<close>)
  qed (auto simp: spec_ListPending_def)
qed (auto simp: spec_ListPending_def spec_publish_def)

end

end
