(* ===== verification/Sql.thy ===== *)
theory Sql
  imports Usecase_Outbox
begin

text \<open>
  The database under the store: the rows of the five tables of
  \<open>migrations/00001_create_fx_core.sql\<close> (the model structs of \<open>store.go\<close>), the statements the
  store sends through its object mapper as the fields of the parameter \<open>sql\<close>, and the locale
  \<open>sql_engine\<close> that states what PostgreSQL and the mapper document of them: what each
  statement does to the tables, the primary keys, unique constraints and references the
  migration declares, the column types, and transactions.
\<close>

section \<open>Rows\<close>

record reference_rate_row =
  rm_BaseCurrency :: string
  rm_QuoteCurrency :: string
  rm_Provider :: string
  rm_Rate :: string
  rm_ObservedAt :: time
  rm_FetchedAt :: time
  rm_UpdatedAt :: time

record quote_row =
  qm_ID :: string
  qm_IdempotencyKey :: string
  qm_BaseCurrency :: string
  qm_BaseMinorUnits :: int
  qm_QuoteCurrency :: string
  qm_QuoteMinorUnits :: int
  qm_FeeMinorUnits :: int
  qm_TotalDebitMinor :: int
  qm_Rate :: string
  qm_RateProvider :: string
  qm_ExpiresAt :: time
  qm_AcceptedAt :: "time option"
  qm_CreatedAt :: time

record conversion_row =
  cm_ID :: string
  cm_QuoteID :: string
  cm_IdempotencyKey :: string
  cm_BaseCurrency :: string
  cm_BaseMinorUnits :: int
  cm_QuoteCurrency :: string
  cm_QuoteMinorUnits :: int
  cm_FeeMinorUnits :: int
  cm_TotalDebitMinor :: int
  cm_Rate :: string
  cm_RateProvider :: string
  cm_PaymentProvider :: string
  cm_TransferProvider :: string
  cm_Status :: string
  cm_ExternalPaymentID :: "string option"
  cm_ExternalTransferID :: "string option"
  cm_FailureReason :: "string option"
  cm_CreatedAt :: time
  cm_UpdatedAt :: time

record inbox_row =
  wm_ID :: string
  wm_Provider :: string
  wm_Topic :: string
  wm_ExternalEventID :: string
  wm_ConversionID :: string
  wm_ExternalRef :: "string option"
  wm_Payload :: string
  wm_ReceivedAt :: time
  wm_ProcessedAt :: "time option"

record event_row =
  om_ID :: string
  om_AggregateType :: string
  om_AggregateID :: string
  om_EventType :: string
  om_Payload :: string
  om_PublishAttempts :: int
  om_LastError :: "string option"
  om_CreatedAt :: time
  om_PublishedAt :: "time option"

record database =
  db_rates :: "reference_rate_row list"
  db_quotes :: "quote_row list"
  db_convs :: "conversion_row list"
  db_inbox :: "inbox_row list"
  db_events :: "event_row list"

text \<open>
  Errors of a statement: no row for a \<open>First\<close>, an error the server reports with its SQLSTATE
  code, or a failure of the connection.
\<close>

datatype sql_error = RecordNotFound | PgError string | DriverError string

fun sql_cause :: "sql_error \<Rightarrow> go_error" where
  "sql_cause RecordNotFound = PlainError ''record not found''"
| "sql_cause (PgError code) = PlainError (''ERROR (SQLSTATE '' @ code @ '')'')"
| "sql_cause (DriverError text) = PlainError text"

section \<open>Column types\<close>

record columns =
  col_char :: "nat \<Rightarrow> string \<Rightarrow> string"
  col_varchar :: "nat \<Rightarrow> string \<Rightarrow> string"
  col_numeric :: "string \<Rightarrow> string"
  col_time :: "time \<Rightarrow> time"
  col_json :: "string \<Rightarrow> string"

definition col_rate_row :: "columns \<Rightarrow> reference_rate_row \<Rightarrow> reference_rate_row" where
  "col_rate_row C m =
     m\<lparr>rm_BaseCurrency := col_char C 3 (rm_BaseCurrency m),
       rm_QuoteCurrency := col_char C 3 (rm_QuoteCurrency m),
       rm_Provider := col_varchar C 32 (rm_Provider m), rm_Rate := col_numeric C (rm_Rate m),
       rm_ObservedAt := col_time C (rm_ObservedAt m), rm_FetchedAt := col_time C (rm_FetchedAt m),
       rm_UpdatedAt := col_time C (rm_UpdatedAt m)\<rparr>"

definition col_quote_row :: "columns \<Rightarrow> quote_row \<Rightarrow> quote_row" where
  "col_quote_row C m =
     m\<lparr>qm_ID := col_char C 26 (qm_ID m), qm_IdempotencyKey := col_varchar C 128 (qm_IdempotencyKey m),
       qm_BaseCurrency := col_char C 3 (qm_BaseCurrency m),
       qm_QuoteCurrency := col_char C 3 (qm_QuoteCurrency m),
       qm_Rate := col_numeric C (qm_Rate m), qm_RateProvider := col_varchar C 32 (qm_RateProvider m),
       qm_ExpiresAt := col_time C (qm_ExpiresAt m),
       qm_AcceptedAt := map_option (col_time C) (qm_AcceptedAt m),
       qm_CreatedAt := col_time C (qm_CreatedAt m)\<rparr>"

definition col_conversion_row :: "columns \<Rightarrow> conversion_row \<Rightarrow> conversion_row" where
  "col_conversion_row C m =
     m\<lparr>cm_ID := col_char C 26 (cm_ID m), cm_QuoteID := col_char C 26 (cm_QuoteID m),
       cm_IdempotencyKey := col_varchar C 128 (cm_IdempotencyKey m),
       cm_BaseCurrency := col_char C 3 (cm_BaseCurrency m),
       cm_QuoteCurrency := col_char C 3 (cm_QuoteCurrency m),
       cm_Rate := col_numeric C (cm_Rate m), cm_RateProvider := col_varchar C 32 (cm_RateProvider m),
       cm_PaymentProvider := col_varchar C 32 (cm_PaymentProvider m),
       cm_TransferProvider := col_varchar C 32 (cm_TransferProvider m),
       cm_Status := col_varchar C 32 (cm_Status m),
       cm_ExternalPaymentID := map_option (col_varchar C 128) (cm_ExternalPaymentID m),
       cm_ExternalTransferID := map_option (col_varchar C 128) (cm_ExternalTransferID m),
       cm_CreatedAt := col_time C (cm_CreatedAt m), cm_UpdatedAt := col_time C (cm_UpdatedAt m)\<rparr>"

definition col_inbox_row :: "columns \<Rightarrow> inbox_row \<Rightarrow> inbox_row" where
  "col_inbox_row C m =
     m\<lparr>wm_ID := col_char C 26 (wm_ID m), wm_Provider := col_varchar C 32 (wm_Provider m),
       wm_Topic := col_varchar C 64 (wm_Topic m),
       wm_ExternalEventID := col_varchar C 128 (wm_ExternalEventID m),
       wm_ConversionID := col_char C 26 (wm_ConversionID m),
       wm_ExternalRef := map_option (col_varchar C 128) (wm_ExternalRef m),
       wm_Payload := col_json C (wm_Payload m), wm_ReceivedAt := col_time C (wm_ReceivedAt m),
       wm_ProcessedAt := map_option (col_time C) (wm_ProcessedAt m)\<rparr>"

definition col_event_row :: "columns \<Rightarrow> event_row \<Rightarrow> event_row" where
  "col_event_row C m =
     m\<lparr>om_ID := col_char C 26 (om_ID m), om_AggregateType := col_varchar C 64 (om_AggregateType m),
       om_AggregateID := col_char C 26 (om_AggregateID m),
       om_EventType := col_varchar C 64 (om_EventType m), om_Payload := col_json C (om_Payload m),
       om_CreatedAt := col_time C (om_CreatedAt m),
       om_PublishedAt := map_option (col_time C) (om_PublishedAt m)\<rparr>"

section \<open>Statements\<close>

text \<open>
  One field per statement of the store; an update or a conditional insert yields the number of
  rows affected, a save also the model as the mapper leaves it.
\<close>

record 's sql =
  sql_upsert_rates :: "reference_rate_row list \<Rightarrow> (sql_error, 's, unit) call"
  sql_find_rates :: "string \<Rightarrow> string \<Rightarrow> string list \<Rightarrow> (sql_error, 's, reference_rate_row list) call"
  sql_first_quote_by_id :: "string \<Rightarrow> (sql_error, 's, quote_row) call"
  sql_first_quote_by_key :: "string \<Rightarrow> (sql_error, 's, quote_row) call"
  sql_create_quote :: "quote_row \<Rightarrow> (sql_error, 's, unit) call"
  sql_accept_quote :: "string \<Rightarrow> time \<Rightarrow> (sql_error, 's, int) call"
  sql_first_conversion_by_id :: "string \<Rightarrow> (sql_error, 's, conversion_row) call"
  sql_first_conversion_by_key :: "string \<Rightarrow> (sql_error, 's, conversion_row) call"
  sql_create_conversion :: "conversion_row \<Rightarrow> (sql_error, 's, unit) call"
  sql_save_conversion :: "conversion_row \<Rightarrow> (sql_error, 's, int \<times> conversion_row) call"
  sql_create_inbox :: "inbox_row \<Rightarrow> (sql_error, 's, int) call"
  sql_create_event :: "event_row \<Rightarrow> (sql_error, 's, unit) call"
  sql_find_pending :: "int \<Rightarrow> (sql_error, 's, event_row list) call"
  sql_update_published :: "string \<Rightarrow> time \<Rightarrow> (sql_error, 's, int) call"
  sql_update_failed :: "string \<Rightarrow> string \<Rightarrow> (sql_error, 's, int) call"
  sql_begin :: "(sql_error, 's, unit) call"
  sql_commit :: "(sql_error, 's, unit) call"
  sql_rollback :: "'s \<Rightarrow> 's"

definition unique_violation :: "sql_error \<Rightarrow> bool" where
  "unique_violation e \<longleftrightarrow> e = PgError ''23505''"

text \<open>Keys and conditions of the statements over rows.\<close>

definition rate_row_key :: "reference_rate_row \<Rightarrow> string \<times> string \<times> string" where
  "rate_row_key m = (rm_Provider m, rm_BaseCurrency m, rm_QuoteCurrency m)"

definition upsert_rate_row :: "reference_rate_row \<Rightarrow> reference_rate_row list \<Rightarrow> reference_rate_row list" where
  "upsert_rate_row m ms =
     (if list_ex (\<lambda>x. rate_row_key x = rate_row_key m) ms
      then update_where (\<lambda>x. rate_row_key x = rate_row_key m) (\<lambda>_. m) ms
      else ms @ [m])"

definition quote_row_taken :: "quote_row \<Rightarrow> database \<Rightarrow> bool" where
  "quote_row_taken m d \<longleftrightarrow>
     list_ex (\<lambda>x. qm_ID x = qm_ID m \<or> qm_IdempotencyKey x = qm_IdempotencyKey m) (db_quotes d)"

definition quote_row_open :: "string \<Rightarrow> time \<Rightarrow> quote_row \<Rightarrow> bool" where
  "quote_row_open qid t m \<longleftrightarrow> qm_ID m = qid \<and> qm_AcceptedAt m = None \<and> t < qm_ExpiresAt m"

definition quote_row_exists :: "string \<Rightarrow> database \<Rightarrow> bool" where
  "quote_row_exists qid d \<longleftrightarrow> list_ex (\<lambda>m. qm_ID m = qid) (db_quotes d)"

definition conversion_row_taken :: "conversion_row \<Rightarrow> database \<Rightarrow> bool" where
  "conversion_row_taken m d \<longleftrightarrow>
     list_ex (\<lambda>x. cm_ID x = cm_ID m \<or> cm_QuoteID x = cm_QuoteID m \<or>
                  cm_IdempotencyKey x = cm_IdempotencyKey m) (db_convs d)"

definition conversion_row_exists :: "string \<Rightarrow> database \<Rightarrow> bool" where
  "conversion_row_exists cid d \<longleftrightarrow> list_ex (\<lambda>m. cm_ID m = cid) (db_convs d)"

definition inbox_row_key :: "inbox_row \<Rightarrow> string \<times> string" where
  "inbox_row_key m = (wm_Provider m, wm_ExternalEventID m)"

definition inbox_row_seen :: "inbox_row \<Rightarrow> database \<Rightarrow> bool" where
  "inbox_row_seen m d \<longleftrightarrow> list_ex (\<lambda>x. inbox_row_key x = inbox_row_key m) (db_inbox d)"

definition event_row_exists :: "string \<Rightarrow> database \<Rightarrow> bool" where
  "event_row_exists eid d \<longleftrightarrow> list_ex (\<lambda>m. om_ID m = eid) (db_events d)"

definition pending_rows :: "nat \<Rightarrow> event_row list \<Rightarrow> event_row list \<Rightarrow> bool" where
  "pending_rows limit all ms \<longleftrightarrow>
     sorted (map om_CreatedAt ms) \<and>
     (\<exists>rest. mset (ms @ rest) = mset (filter (\<lambda>m. om_PublishedAt m = None) all) \<and>
        (\<forall>m \<in> set ms. \<forall>n \<in> set rest. om_CreatedAt m \<le> om_CreatedAt n) \<and>
        length ms = min limit (length (filter (\<lambda>m. om_PublishedAt m = None) all)))"

section \<open>What the statements do\<close>

text \<open>
  A statement that fails leaves the tables as they were. \<open>reads\<close> and \<open>writes\<close> are the two
  shapes: the answer of a query, the new tables of an update.
\<close>

definition reads :: "(database \<Rightarrow> 'a \<Rightarrow> bool) \<Rightarrow> database \<Rightarrow> (sql_error, 'a) result \<Rightarrow> database \<Rightarrow> bool" where
  "reads A d r d' \<longleftrightarrow> d' = d \<and> (case r of Ok x \<Rightarrow> A d x | Err e \<Rightarrow> True | Panic p \<Rightarrow> False)"

definition reads_first :: "(database \<Rightarrow> 'a option) \<Rightarrow> database \<Rightarrow> (sql_error, 'a) result \<Rightarrow> database \<Rightarrow> bool" where
  "reads_first A d r d' \<longleftrightarrow> d' = d \<and>
     (case r of Ok x \<Rightarrow> A d = Some x | Err e \<Rightarrow> e = RecordNotFound \<longrightarrow> A d = None | Panic p \<Rightarrow> False)"

definition writes ::
  "(database \<Rightarrow> 'a \<Rightarrow> database \<Rightarrow> bool) \<Rightarrow> database \<Rightarrow> (sql_error, 'a) result \<Rightarrow> database \<Rightarrow> bool" where
  "writes A d r d' \<longleftrightarrow> (case r of Ok x \<Rightarrow> A d x d' | Err e \<Rightarrow> d' = d | Panic p \<Rightarrow> False)"

definition inserts ::
  "(database \<Rightarrow> bool) \<Rightarrow> (database \<Rightarrow> bool) \<Rightarrow> (database \<Rightarrow> database) \<Rightarrow> database \<Rightarrow> (sql_error, unit) result \<Rightarrow>
   database \<Rightarrow> bool" where
  "inserts taken refs upd d r d' \<longleftrightarrow>
     (case r of Ok _ \<Rightarrow> \<not> taken d \<and> refs d \<and> d' = upd d
      | Err e \<Rightarrow> d' = d \<and> (unique_violation e \<longrightarrow> taken d)
      | Panic p \<Rightarrow> False)"

named_theorems sql_specs

declare reads_def [sql_specs] reads_first_def [sql_specs] writes_def [sql_specs] inserts_def [sql_specs]

locale sql_engine =
  fixes D :: "'d decimal_lib"
    and C :: columns
    and E :: "'s sql"
    and view :: "'s \<Rightarrow> database"
    and snap :: "'s \<Rightarrow> database option"
    and okE :: "'s \<Rightarrow> bool"
  assumes upsert_rates: "refines view snap okE (sql_upsert_rates E ms)
      (writes (\<lambda>d _ d'. distinct (map (rate_row_key \<circ> col_rate_row C) ms) \<and>
         d' = d\<lparr>db_rates := fold upsert_rate_row (map (col_rate_row C) ms) (db_rates d)\<rparr>))"
    and find_rates: "refines view snap okE (sql_find_rates E prov base quotes)
      (reads (\<lambda>d xs. mset xs = mset (filter (\<lambda>m. rm_Provider m = prov \<and>
         rm_BaseCurrency m = col_char C 3 base \<and> rm_QuoteCurrency m \<in> col_char C 3 ` set quotes) (db_rates d))))"
    and first_quote_by_id: "refines view snap okE (sql_first_quote_by_id E qid)
      (reads_first (\<lambda>d. find (\<lambda>m. qm_ID m = col_char C 26 qid) (db_quotes d)))"
    and first_quote_by_key: "refines view snap okE (sql_first_quote_by_key E key)
      (reads_first (\<lambda>d. find (\<lambda>m. qm_IdempotencyKey m = key) (db_quotes d)))"
    and create_quote: "refines view snap okE (sql_create_quote E q)
      (inserts (quote_row_taken (col_quote_row C q)) (\<lambda>_. True)
         (\<lambda>d. d\<lparr>db_quotes := db_quotes d @ [col_quote_row C q]\<rparr>))"
    and accept_quote: "refines view snap okE (sql_accept_quote E qid tm)
      (writes (\<lambda>d n d'.
         n = int (length (filter (quote_row_open (col_char C 26 qid) (col_time C tm)) (db_quotes d))) \<and>
         d' = d\<lparr>db_quotes := update_where (quote_row_open (col_char C 26 qid) (col_time C tm))
                  (\<lambda>m. m\<lparr>qm_AcceptedAt := Some (col_time C tm)\<rparr>) (db_quotes d)\<rparr>))"
    and first_conversion_by_id: "refines view snap okE (sql_first_conversion_by_id E cid)
      (reads_first (\<lambda>d. find (\<lambda>m. cm_ID m = col_char C 26 cid) (db_convs d)))"
    and first_conversion_by_key: "refines view snap okE (sql_first_conversion_by_key E key)
      (reads_first (\<lambda>d. find (\<lambda>m. cm_IdempotencyKey m = key) (db_convs d)))"
    and create_conversion: "refines view snap okE (sql_create_conversion E c)
      (inserts (conversion_row_taken (col_conversion_row C c)) (quote_row_exists (col_char C 26 (cm_QuoteID c)))
         (\<lambda>d. d\<lparr>db_convs := db_convs d @ [col_conversion_row C c]\<rparr>))"
    and save_conversion: "refines view snap okE (sql_save_conversion E c)
      (writes (\<lambda>d (n, c') d'. n = 1 \<and> (\<exists>t. c' = c \<or> c' = c\<lparr>cm_UpdatedAt := t\<rparr>) \<and>
         (if conversion_row_exists (col_char C 26 (cm_ID c)) d
          then quote_row_exists (col_char C 26 (cm_QuoteID c)) d \<and>
               (\<forall>x \<in> set (db_convs d). cm_ID x \<noteq> col_char C 26 (cm_ID c) \<longrightarrow>
                  cm_QuoteID x \<noteq> cm_QuoteID (col_conversion_row C c) \<and>
                  cm_IdempotencyKey x \<noteq> cm_IdempotencyKey (col_conversion_row C c)) \<and>
               d' = d\<lparr>db_convs := update_where (\<lambda>m. cm_ID m = col_char C 26 (cm_ID c))
                        (\<lambda>_. col_conversion_row C c') (db_convs d)\<rparr>
          else quote_row_exists (col_char C 26 (cm_QuoteID c)) d \<and>
               \<not> conversion_row_taken (col_conversion_row C c) d \<and>
               d' = d\<lparr>db_convs := db_convs d @ [col_conversion_row C c']\<rparr>)))"
    and create_inbox: "refines view snap okE (sql_create_inbox E m)
      (writes (\<lambda>d n d'.
         if inbox_row_seen (col_inbox_row C m) d then n = 0 \<and> d' = d
         else n = 1 \<and> conversion_row_exists (col_char C 26 (wm_ConversionID m)) d \<and>
              d' = d\<lparr>db_inbox := db_inbox d @ [col_inbox_row C m]\<rparr>))"
    and create_event: "refines view snap okE (sql_create_event E ev)
      (inserts (event_row_exists (col_char C 26 (om_ID ev))) (\<lambda>_. True)
         (\<lambda>d. d\<lparr>db_events := db_events d @ [col_event_row C ev]\<rparr>))"
    and find_pending: "0 < limit \<Longrightarrow> refines view snap okE (sql_find_pending E limit)
      (reads (\<lambda>d xs. pending_rows (nat limit) (db_events d) xs))"
    and update_published: "refines view snap okE (sql_update_published E eid tm)
      (writes (\<lambda>d n d'.
         n = int (length (filter (\<lambda>m. om_ID m = col_char C 26 eid) (db_events d))) \<and>
         d' = d\<lparr>db_events := update_where (\<lambda>m. om_ID m = col_char C 26 eid)
                  (\<lambda>m. m\<lparr>om_PublishedAt := Some (col_time C tm), om_LastError := None,
                         om_PublishAttempts := om_PublishAttempts m + 1\<rparr>) (db_events d)\<rparr>))"
    and update_failed: "refines view snap okE (sql_update_failed E eid text)
      (writes (\<lambda>d n d'.
         n = int (length (filter (\<lambda>m. om_ID m = col_char C 26 eid) (db_events d))) \<and>
         d' = d\<lparr>db_events := update_where (\<lambda>m. om_ID m = col_char C 26 eid)
                  (\<lambda>m. m\<lparr>om_LastError := Some text,
                         om_PublishAttempts := om_PublishAttempts m + 1\<rparr>) (db_events d)\<rparr>))"
    and begin_tx: "okE s \<Longrightarrow> snap s = None \<Longrightarrow> sql_begin E s = (r, s') \<Longrightarrow>
      okE s' \<and> view s' = view s \<and>
      (case r of Ok _ \<Rightarrow> snap s' = Some (view s) | Err e \<Rightarrow> snap s' = None | Panic p \<Rightarrow> False)"
    and commit_tx: "okE s \<Longrightarrow> snap s = Some d0 \<Longrightarrow> sql_commit E s = (r, s') \<Longrightarrow>
      okE s' \<and> snap s' = None \<and>
      (case r of Ok _ \<Rightarrow> view s' = view s | Err e \<Rightarrow> view s' = d0 | Panic p \<Rightarrow> False)"
    and rollback_tx: "okE s \<Longrightarrow> snap s = Some d0 \<Longrightarrow>
      okE (sql_rollback E s) \<and> snap (sql_rollback E s) = None \<and> view (sql_rollback E s) = d0"
    and string_readable: "dec_NewFromString D (dec_String D d) \<noteq> None"
    and numeric_readable: "dec_NewFromString D (col_numeric C (dec_String D d)) \<noteq> None"
    and numeric_stable: "dec_NewFromString D (col_numeric C (dec_String D d)) = Some d' \<Longrightarrow>
      dec_NewFromString D (col_numeric C (dec_String D d')) = Some d'"
    and col_char_exact: "length v = n \<Longrightarrow> last v \<noteq> CHR '' '' \<Longrightarrow> col_char C n v = v"
    and col_char_idem: "col_char C n (col_char C n v) = col_char C n v"
    and col_varchar_short: "length v \<le> n \<Longrightarrow> col_varchar C n v = v"
    and col_time_idem: "col_time C (col_time C t) = col_time C t"

end
