(* ===== verification/Store.thy ===== *)
theory Store
  imports Sql
begin

text \<open>
  \<open>internal/adapter/outbound/postgres/store.go\<close>: the store's methods over the statements of
  \<open>Sql\<close>, the conversions between rows and domain values, and the wiring of one store as every
  repository and the unit of work.
\<close>

record 's logger =
  lg_Error :: "string \<Rightarrow> sql_error \<Rightarrow> 's \<Rightarrow> 's"

record 's store =
  st_db :: "'s sql"
  st_logger :: "'s logger"

text \<open>A statement whose error the method inspects.\<close>

definition on_error ::
  "(sql_error, 's, 'a) call \<Rightarrow> (sql_error \<Rightarrow> ('s, 'b) io) \<Rightarrow> ('a \<Rightarrow> ('s, 'b) io) \<Rightarrow> ('s, 'b) io" where
  "on_error m h f s =
     (case m s of (Ok x, s') \<Rightarrow> f x s' | (Err e, s') \<Rightarrow> h e s' | (Panic p, s') \<Rightarrow> (Panic p, s'))"

definition internalError :: "'s store \<Rightarrow> string \<Rightarrow> sql_error \<Rightarrow> ('s, 'b) io" where
  "internalError st message err =
     bind (perform (lg_Error (st_logger st) message err)) (\<lambda>_.
       throw (WithCause (Internal message [(''reason'', DStr ''PostgresError'')]) (sql_cause err)))"

definition isUniqueViolation :: "sql_error \<Rightarrow> bool" where
  "isUniqueViolation err = (case err of PgError code \<Rightarrow> code = ''23505'' | _ \<Rightarrow> False)"

section \<open>Rows and domain values\<close>

definition quoteModelFromDomain :: "'d decimal_lib \<Rightarrow> 'd quote \<Rightarrow> quote_row" where
  "quoteModelFromDomain D q =
     \<lparr>qm_ID = q_ID q, qm_IdempotencyKey = q_IdempotencyKey q,
      qm_BaseCurrency = Currency (q_BaseAmount q), qm_BaseMinorUnits = MinorUnits (q_BaseAmount q),
      qm_QuoteCurrency = Currency (q_QuoteAmount q), qm_QuoteMinorUnits = MinorUnits (q_QuoteAmount q),
      qm_FeeMinorUnits = MinorUnits (q_FeeAmount q),
      qm_TotalDebitMinor = MinorUnits (q_TotalDebitAmount q),
      qm_Rate = dec_String D (q_Rate q), qm_RateProvider = q_RateProvider q,
      qm_ExpiresAt = q_ExpiresAt q, qm_AcceptedAt = q_AcceptedAt q, qm_CreatedAt = q_CreatedAt q\<rparr>"

definition quote_toDomain :: "'d decimal_lib \<Rightarrow> quote_row \<Rightarrow> 'd quote res" where
  "quote_toDomain D m =
     (case dec_NewFromString D (qm_Rate m) of
        None \<Rightarrow> Err (WithCause (Internal ''Stored quote rate is invalid'' [])
                       (PlainError ''can't convert to decimal''))
      | Some rate \<Rightarrow>
          bind_result (MustCurrency (qm_BaseCurrency m)) (\<lambda>baseCurrency.
          bind_result (MustCurrency (qm_QuoteCurrency m)) (\<lambda>quoteCurrency.
          bind_result (MustMoney baseCurrency (qm_BaseMinorUnits m)) (\<lambda>baseAmount.
          bind_result (MustMoney quoteCurrency (qm_QuoteMinorUnits m)) (\<lambda>quoteAmount.
          bind_result (MustMoney baseCurrency (qm_FeeMinorUnits m)) (\<lambda>feeAmount.
          bind_result (MustMoney baseCurrency (qm_TotalDebitMinor m)) (\<lambda>totalDebitAmount.
            Ok \<lparr>q_ID = qm_ID m, q_IdempotencyKey = qm_IdempotencyKey m, q_BaseAmount = baseAmount,
                q_QuoteAmount = quoteAmount, q_FeeAmount = feeAmount,
                q_TotalDebitAmount = totalDebitAmount, q_Rate = rate,
                q_RateProvider = qm_RateProvider m, q_ExpiresAt = qm_ExpiresAt m,
                q_AcceptedAt = qm_AcceptedAt m, q_CreatedAt = qm_CreatedAt m\<rparr>)))))))"

definition conversionModelFromDomain :: "'d decimal_lib \<Rightarrow> 'd conversion \<Rightarrow> conversion_row" where
  "conversionModelFromDomain D c =
     \<lparr>cm_ID = c_ID c, cm_QuoteID = c_QuoteID c, cm_IdempotencyKey = c_IdempotencyKey c,
      cm_BaseCurrency = Currency (c_BaseAmount c), cm_BaseMinorUnits = MinorUnits (c_BaseAmount c),
      cm_QuoteCurrency = Currency (c_QuoteAmount c), cm_QuoteMinorUnits = MinorUnits (c_QuoteAmount c),
      cm_FeeMinorUnits = MinorUnits (c_FeeAmount c),
      cm_TotalDebitMinor = MinorUnits (c_TotalDebitAmount c),
      cm_Rate = dec_String D (c_Rate c), cm_RateProvider = c_RateProvider c,
      cm_PaymentProvider = c_PaymentProvider c, cm_TransferProvider = c_TransferProvider c,
      cm_Status = c_Status c, cm_ExternalPaymentID = c_ExternalPaymentID c,
      cm_ExternalTransferID = c_ExternalTransferID c, cm_FailureReason = c_FailureReason c,
      cm_CreatedAt = c_CreatedAt c, cm_UpdatedAt = c_UpdatedAt c\<rparr>"

definition conversion_toDomain :: "'d decimal_lib \<Rightarrow> conversion_row \<Rightarrow> 'd conversion res" where
  "conversion_toDomain D m =
     (case dec_NewFromString D (cm_Rate m) of
        None \<Rightarrow> Err (WithCause (Internal ''Stored conversion rate is invalid'' [])
                       (PlainError ''can't convert to decimal''))
      | Some rate \<Rightarrow>
          bind_result (MustCurrency (cm_BaseCurrency m)) (\<lambda>baseCurrency.
          bind_result (MustCurrency (cm_QuoteCurrency m)) (\<lambda>quoteCurrency.
          bind_result (MustMoney baseCurrency (cm_BaseMinorUnits m)) (\<lambda>baseAmount.
          bind_result (MustMoney quoteCurrency (cm_QuoteMinorUnits m)) (\<lambda>quoteAmount.
          bind_result (MustMoney baseCurrency (cm_FeeMinorUnits m)) (\<lambda>feeAmount.
          bind_result (MustMoney baseCurrency (cm_TotalDebitMinor m)) (\<lambda>totalDebitAmount.
            Ok \<lparr>c_ID = cm_ID m, c_QuoteID = cm_QuoteID m, c_IdempotencyKey = cm_IdempotencyKey m,
                c_BaseAmount = baseAmount, c_QuoteAmount = quoteAmount, c_FeeAmount = feeAmount,
                c_TotalDebitAmount = totalDebitAmount, c_Rate = rate,
                c_RateProvider = cm_RateProvider m, c_PaymentProvider = cm_PaymentProvider m,
                c_TransferProvider = cm_TransferProvider m, c_Status = cm_Status m,
                c_ExternalPaymentID = cm_ExternalPaymentID m,
                c_ExternalTransferID = cm_ExternalTransferID m,
                c_FailureReason = cm_FailureReason m,
                c_CreatedAt = cm_CreatedAt m, c_UpdatedAt = cm_UpdatedAt m\<rparr>)))))))"

definition webhookModelFromDomain :: "inbox_message \<Rightarrow> inbox_row" where
  "webhookModelFromDomain m =
     \<lparr>wm_ID = m_ID m, wm_Provider = m_Provider m, wm_Topic = m_Topic m,
      wm_ExternalEventID = m_ExternalEventID m, wm_ConversionID = m_ConversionID m,
      wm_ExternalRef = m_ExternalRef m, wm_Payload = m_Payload m,
      wm_ReceivedAt = m_ReceivedAt m, wm_ProcessedAt = m_ProcessedAt m\<rparr>"

definition outboxModelFromDomain :: "outbox_event \<Rightarrow> event_row" where
  "outboxModelFromDomain e =
     \<lparr>om_ID = e_ID e, om_AggregateType = e_AggregateType e, om_AggregateID = e_AggregateID e,
      om_EventType = e_EventType e, om_Payload = e_Payload e,
      om_PublishAttempts = e_PublishAttempts e, om_LastError = e_LastError e,
      om_CreatedAt = e_CreatedAt e, om_PublishedAt = e_PublishedAt e\<rparr>"

definition event_toDomain :: "event_row \<Rightarrow> outbox_event res" where
  "event_toDomain m =
     Ok \<lparr>e_ID = om_ID m, e_AggregateType = om_AggregateType m, e_AggregateID = om_AggregateID m,
         e_EventType = om_EventType m, e_Payload = om_Payload m, e_CreatedAt = om_CreatedAt m,
         e_PublishedAt = om_PublishedAt m, e_PublishAttempts = om_PublishAttempts m,
         e_LastError = om_LastError m\<rparr>"

definition rate_toDomain :: "'d decimal_lib \<Rightarrow> reference_rate_row \<Rightarrow> 'd exchange_rate res" where
  "rate_toDomain D m =
     (case dec_NewFromString D (rm_Rate m) of
        None \<Rightarrow> Err (WithCause (Internal ''Stored reference rate is invalid'' [])
                       (PlainError ''can't convert to decimal''))
      | Some rate \<Rightarrow>
          bind_result (MustCurrency (rm_BaseCurrency m)) (\<lambda>base.
          bind_result (MustCurrency (rm_QuoteCurrency m)) (\<lambda>quote.
            Ok \<lparr>rate_Base = base, rate_Quote = quote, rate_Provider = rm_Provider m,
                rate_Rate = rate, rate_ObservedAt = rm_ObservedAt m,
                rate_FetchedAt = rm_FetchedAt m\<rparr>)))"

section \<open>The methods\<close>

text \<open>The loop of \<open>UpsertRates\<close>: validate, read the clock, append.\<close>

fun rate_models ::
  "'d decimal_lib \<Rightarrow> ('s \<Rightarrow> time \<times> 's) \<Rightarrow> 'd exchange_rate list \<Rightarrow> ('s, reference_rate_row list) io" where
  "rate_models D wallClock [] = ret []"
| "rate_models D wallClock (rate # rates) =
     bind (lift (Validate_rate D rate)) (\<lambda>_.
     get_with wallClock (\<lambda>now.
     bind (rate_models D wallClock rates) (\<lambda>models.
       ret (\<lparr>rm_BaseCurrency = rate_Base rate, rm_QuoteCurrency = rate_Quote rate,
             rm_Provider = rate_Provider rate, rm_Rate = dec_String D (rate_Rate rate),
             rm_ObservedAt = rate_ObservedAt rate, rm_FetchedAt = rate_FetchedAt rate,
             rm_UpdatedAt = now\<rparr> # models))))"

definition UpsertRates ::
  "'d decimal_lib \<Rightarrow> ('s \<Rightarrow> time \<times> 's) \<Rightarrow> 's store \<Rightarrow> 'd exchange_rate list \<Rightarrow> ('s, unit) io" where
  "UpsertRates D wallClock st rates =
     bind (rate_models D wallClock rates) (\<lambda>models.
       if length models = 0 then ret ()
       else on_error (sql_upsert_rates (st_db st) models)
              (internalError st ''Failed to upsert reference rates'') ret)"

definition ListLatestRates ::
  "'d decimal_lib \<Rightarrow> 's store \<Rightarrow> string \<Rightarrow> string list \<Rightarrow> ('s, 'd exchange_rate list) io" where
  "ListLatestRates D st base quotes =
     (if length quotes = 0 then ret []
      else on_error (sql_find_rates (st_db st) ProviderFrankfurter base quotes)
             (internalError st ''Failed to list reference rates'')
             (\<lambda>models. lift (map_until (rate_toDomain D) models)))"

definition GetQuoteByID :: "'d decimal_lib \<Rightarrow> 's store \<Rightarrow> string \<Rightarrow> ('s, 'd quote) io" where
  "GetQuoteByID D st qid =
     on_error (sql_first_quote_by_id (st_db st) qid)
       (\<lambda>err. if err = RecordNotFound
              then throw (NotFound ''Quote not found'' [(''quoteId'', DStr qid)])
              else internalError st ''Failed to load quote'' err)
       (\<lambda>model. lift (quote_toDomain D model))"

definition GetQuoteByIdempotencyKey ::
  "'d decimal_lib \<Rightarrow> 's store \<Rightarrow> string \<Rightarrow> ('s, 'd quote option) io" where
  "GetQuoteByIdempotencyKey D st key =
     on_error (sql_first_quote_by_key (st_db st) key)
       (\<lambda>err. if err = RecordNotFound then ret None
              else internalError st ''Failed to load quote by idempotency key'' err)
       (\<lambda>model. lift (map_result Some (quote_toDomain D model)))"

definition CreateQuote :: "'d decimal_lib \<Rightarrow> 's store \<Rightarrow> 'd quote \<Rightarrow> ('s, 'd quote) io" where
  "CreateQuote D st value =
     on_error (sql_create_quote (st_db st) (quoteModelFromDomain D value))
       (\<lambda>err. if isUniqueViolation err
              then throw (Conflict ''Quote idempotency key already exists''
                     [(''idempotencyKey'', DStr (q_IdempotencyKey value))])
              else internalError st ''Failed to create quote'' err)
       (\<lambda>_. lift (quote_toDomain D (quoteModelFromDomain D value)))"

definition MarkQuoteAccepted :: "'s store \<Rightarrow> string \<Rightarrow> time \<Rightarrow> ('s, unit) io" where
  "MarkQuoteAccepted st quoteID acceptedAt =
     on_error (sql_accept_quote (st_db st) quoteID acceptedAt)
       (internalError st ''Failed to mark quote accepted'')
       (\<lambda>rowsAffected.
          if rowsAffected = 0
          then throw (Conflict ''Quote already accepted or expired'' [(''quoteId'', DStr quoteID)])
          else ret ())"

definition GetConversionByID :: "'d decimal_lib \<Rightarrow> 's store \<Rightarrow> string \<Rightarrow> ('s, 'd conversion) io" where
  "GetConversionByID D st cid =
     on_error (sql_first_conversion_by_id (st_db st) cid)
       (\<lambda>err. if err = RecordNotFound
              then throw (NotFound ''Conversion not found'' [(''conversionId'', DStr cid)])
              else internalError st ''Failed to load conversion'' err)
       (\<lambda>model. lift (conversion_toDomain D model))"

definition GetConversionByIdempotencyKey ::
  "'d decimal_lib \<Rightarrow> 's store \<Rightarrow> string \<Rightarrow> ('s, 'd conversion option) io" where
  "GetConversionByIdempotencyKey D st key =
     on_error (sql_first_conversion_by_key (st_db st) key)
       (\<lambda>err. if err = RecordNotFound then ret None
              else internalError st ''Failed to load conversion by idempotency key'' err)
       (\<lambda>model. lift (map_result Some (conversion_toDomain D model)))"

definition CreateConversion :: "'d decimal_lib \<Rightarrow> 's store \<Rightarrow> 'd conversion \<Rightarrow> ('s, 'd conversion) io" where
  "CreateConversion D st value =
     on_error (sql_create_conversion (st_db st) (conversionModelFromDomain D value))
       (\<lambda>err. if isUniqueViolation err
              then throw (Conflict ''Conversion already exists for quote or idempotency key''
                     [(''quoteId'', DStr (c_QuoteID value)),
                      (''idempotencyKey'', DStr (c_IdempotencyKey value))])
              else internalError st ''Failed to create conversion'' err)
       (\<lambda>_. lift (conversion_toDomain D (conversionModelFromDomain D value)))"

text \<open>\<open>Save\<close> hands back the model with the fields the mapper maintains.\<close>

definition UpdateConversion :: "'d decimal_lib \<Rightarrow> 's store \<Rightarrow> 'd conversion \<Rightarrow> ('s, 'd conversion) io" where
  "UpdateConversion D st value =
     on_error (sql_save_conversion (st_db st) (conversionModelFromDomain D value))
       (internalError st ''Failed to update conversion'')
       (\<lambda>(rowsAffected, model).
          if rowsAffected = 0
          then throw (NotFound ''Conversion not found'' [(''conversionId'', DStr (c_ID value))])
          else lift (conversion_toDomain D model))"

definition StoreIfAbsent :: "'s store \<Rightarrow> inbox_message \<Rightarrow> ('s, bool) io" where
  "StoreIfAbsent st message =
     bind (lift (Validate_inbox message)) (\<lambda>_.
       on_error (sql_create_inbox (st_db st) (webhookModelFromDomain message))
         (internalError st ''Failed to store webhook inbox message'')
         (\<lambda>rowsAffected. ret (rowsAffected > 0)))"

definition Enqueue :: "'s store \<Rightarrow> outbox_event \<Rightarrow> ('s, unit) io" where
  "Enqueue st event =
     on_error (sql_create_event (st_db st) (outboxModelFromDomain event))
       (internalError st ''Failed to enqueue outbox event'') ret"

definition ListPending :: "'s store \<Rightarrow> int \<Rightarrow> ('s, outbox_event list) io" where
  "ListPending st limit =
     on_error (sql_find_pending (st_db st) (if limit \<le> 0 then 100 else limit))
       (internalError st ''Failed to list pending outbox events'')
       (\<lambda>models. lift (map_until event_toDomain models))"

definition MarkPublished :: "'s store \<Rightarrow> string \<Rightarrow> time \<Rightarrow> ('s, unit) io" where
  "MarkPublished st eventID publishedAt =
     on_error (sql_update_published (st_db st) eventID publishedAt)
       (internalError st ''Failed to mark outbox event published'')
       (\<lambda>rowsAffected.
          if rowsAffected = 0
          then throw (NotFound ''Outbox event not found'' [(''eventId'', DStr eventID)])
          else ret ())"

definition MarkPublishFailed :: "'s store \<Rightarrow> string \<Rightarrow> string \<Rightarrow> ('s, unit) io" where
  "MarkPublishFailed st eventID lastError =
     on_error (sql_update_failed (st_db st) eventID lastError)
       (internalError st ''Failed to mark outbox publish failure'')
       (\<lambda>rowsAffected.
          if rowsAffected = 0
          then throw (NotFound ''Outbox event not found'' [(''eventId'', DStr eventID)])
          else ret ())"

section \<open>The store as the ports\<close>

definition rate_repository_of ::
  "'d decimal_lib \<Rightarrow> ('s \<Rightarrow> time \<times> 's) \<Rightarrow> 's store \<Rightarrow> ('s, 'd) rate_repository" where
  "rate_repository_of D wallClock st =
     \<lparr>rr_UpsertRates = UpsertRates D wallClock st, rr_ListLatestRates = ListLatestRates D st\<rparr>"

definition quote_repository_of :: "'d decimal_lib \<Rightarrow> 's store \<Rightarrow> ('s, 'd) quote_repository" where
  "quote_repository_of D st =
     \<lparr>qr_GetQuoteByID = GetQuoteByID D st,
      qr_GetQuoteByIdempotencyKey = GetQuoteByIdempotencyKey D st,
      qr_CreateQuote = CreateQuote D st, qr_MarkQuoteAccepted = MarkQuoteAccepted st\<rparr>"

definition conversion_repository_of :: "'d decimal_lib \<Rightarrow> 's store \<Rightarrow> ('s, 'd) conversion_repository" where
  "conversion_repository_of D st =
     \<lparr>cr_GetConversionByID = GetConversionByID D st,
      cr_GetConversionByIdempotencyKey = GetConversionByIdempotencyKey D st,
      cr_CreateConversion = CreateConversion D st, cr_UpdateConversion = UpdateConversion D st\<rparr>"

definition outbox_repository_of :: "'s store \<Rightarrow> 's outbox_repository" where
  "outbox_repository_of st =
     \<lparr>or_Enqueue = Enqueue st, or_ListPending = ListPending st,
      or_MarkPublished = MarkPublished st, or_MarkPublishFailed = MarkPublishFailed st\<rparr>"

text \<open>
  \<open>WithinTransaction\<close> of the store: the mapper's transaction around the function, with a
  store over the transaction as every repository. The errors of begin and commit reach the
  caller as they are.
\<close>

definition store_repositories ::
  "'d decimal_lib \<Rightarrow> ('s \<Rightarrow> time \<times> 's) \<Rightarrow> 's store \<Rightarrow> ('s, 'd) transaction_repositories" where
  "store_repositories D wallClock st =
     \<lparr>tx_Rates = rate_repository_of D wallClock st, tx_Quotes = quote_repository_of D st,
      tx_Conversions = conversion_repository_of D st,
      tx_WebhookInbox = \<lparr>ir_StoreIfAbsent = StoreIfAbsent st\<rparr>,
      tx_Outbox = outbox_repository_of st\<rparr>"

definition store_unit_of_work ::
  "'d decimal_lib \<Rightarrow> ('s \<Rightarrow> time \<times> 's) \<Rightarrow> 's store \<Rightarrow> ('s, 'd) unit_of_work" where
  "store_unit_of_work D wallClock st =
     \<lparr>uow_Begin = on_error (sql_begin (st_db st)) (\<lambda>e. throw (sql_cause e)) ret,
      uow_Commit = on_error (sql_commit (st_db st)) (\<lambda>e. throw (sql_cause e)) ret,
      uow_Rollback = sql_rollback (st_db st),
      uow_Repos = store_repositories D wallClock st\<rparr>"

named_theorems store_wiring

declare rate_repository_of_def [store_wiring] quote_repository_of_def [store_wiring]
  conversion_repository_of_def [store_wiring] outbox_repository_of_def [store_wiring]
  store_repositories_def [store_wiring] store_unit_of_work_def [store_wiring]

end
