(* ===== verification/Store_Contract.thy ===== *)
theory Store_Contract
  imports Store
begin

text \<open>
  The store keeps the contract of the persistence ports: \<open>book_of\<close> reads the tables as a
  book, \<open>db_ok\<close> is what the statements keep true of the tables, and every method is shown to
  refine its specification in \<open>Ports\<close> from what \<open>sql_engine\<close> says of its one statement. The
  result is the sublocale at the end: an engine that keeps \<open>sql_engine\<close> makes the store a
  provider of \<open>fx_ports\<close>.
\<close>

section \<open>Reading tables as a book\<close>

definition readable :: "'d decimal_lib \<Rightarrow> string \<Rightarrow> bool" where
  "readable D text \<longleftrightarrow> dec_NewFromString D text \<noteq> None"

definition read_decimal :: "'d decimal_lib \<Rightarrow> string \<Rightarrow> 'd" where
  "read_decimal D text = (case dec_NewFromString D text of Some d \<Rightarrow> d | None \<Rightarrow> dec_Zero D)"

definition quote_of :: "'d decimal_lib \<Rightarrow> quote_row \<Rightarrow> 'd quote" where
  "quote_of D m =
     \<lparr>q_ID = qm_ID m, q_IdempotencyKey = qm_IdempotencyKey m,
      q_BaseAmount = \<lparr>Currency = qm_BaseCurrency m, MinorUnits = qm_BaseMinorUnits m\<rparr>,
      q_QuoteAmount = \<lparr>Currency = qm_QuoteCurrency m, MinorUnits = qm_QuoteMinorUnits m\<rparr>,
      q_FeeAmount = \<lparr>Currency = qm_BaseCurrency m, MinorUnits = qm_FeeMinorUnits m\<rparr>,
      q_TotalDebitAmount = \<lparr>Currency = qm_BaseCurrency m, MinorUnits = qm_TotalDebitMinor m\<rparr>,
      q_Rate = read_decimal D (qm_Rate m), q_RateProvider = qm_RateProvider m,
      q_ExpiresAt = qm_ExpiresAt m, q_AcceptedAt = qm_AcceptedAt m, q_CreatedAt = qm_CreatedAt m\<rparr>"

definition conversion_of :: "'d decimal_lib \<Rightarrow> conversion_row \<Rightarrow> 'd conversion" where
  "conversion_of D m =
     \<lparr>c_ID = cm_ID m, c_QuoteID = cm_QuoteID m, c_IdempotencyKey = cm_IdempotencyKey m,
      c_BaseAmount = \<lparr>Currency = cm_BaseCurrency m, MinorUnits = cm_BaseMinorUnits m\<rparr>,
      c_QuoteAmount = \<lparr>Currency = cm_QuoteCurrency m, MinorUnits = cm_QuoteMinorUnits m\<rparr>,
      c_FeeAmount = \<lparr>Currency = cm_BaseCurrency m, MinorUnits = cm_FeeMinorUnits m\<rparr>,
      c_TotalDebitAmount = \<lparr>Currency = cm_BaseCurrency m, MinorUnits = cm_TotalDebitMinor m\<rparr>,
      c_Rate = read_decimal D (cm_Rate m), c_RateProvider = cm_RateProvider m,
      c_PaymentProvider = cm_PaymentProvider m, c_TransferProvider = cm_TransferProvider m,
      c_Status = cm_Status m, c_ExternalPaymentID = cm_ExternalPaymentID m,
      c_ExternalTransferID = cm_ExternalTransferID m, c_FailureReason = cm_FailureReason m,
      c_CreatedAt = cm_CreatedAt m, c_UpdatedAt = cm_UpdatedAt m\<rparr>"

definition rate_of :: "'d decimal_lib \<Rightarrow> reference_rate_row \<Rightarrow> 'd exchange_rate" where
  "rate_of D m =
     \<lparr>rate_Base = rm_BaseCurrency m, rate_Quote = rm_QuoteCurrency m, rate_Provider = rm_Provider m,
      rate_Rate = read_decimal D (rm_Rate m), rate_ObservedAt = rm_ObservedAt m,
      rate_FetchedAt = rm_FetchedAt m\<rparr>"

definition message_of :: "inbox_row \<Rightarrow> inbox_message" where
  "message_of m =
     \<lparr>m_ID = wm_ID m, m_Provider = wm_Provider m, m_Topic = wm_Topic m,
      m_ExternalEventID = wm_ExternalEventID m, m_ConversionID = wm_ConversionID m,
      m_ExternalRef = wm_ExternalRef m, m_Payload = wm_Payload m,
      m_ReceivedAt = wm_ReceivedAt m, m_ProcessedAt = wm_ProcessedAt m\<rparr>"

definition event_of :: "event_row \<Rightarrow> outbox_event" where
  "event_of m =
     \<lparr>e_ID = om_ID m, e_AggregateType = om_AggregateType m, e_AggregateID = om_AggregateID m,
      e_EventType = om_EventType m, e_Payload = om_Payload m, e_CreatedAt = om_CreatedAt m,
      e_PublishedAt = om_PublishedAt m, e_PublishAttempts = om_PublishAttempts m,
      e_LastError = om_LastError m\<rparr>"

definition book_of :: "'d decimal_lib \<Rightarrow> database \<Rightarrow> 'd book" where
  "book_of D d =
     \<lparr>bk_rates = map (rate_of D) (db_rates d), bk_quotes = map (quote_of D) (db_quotes d),
      bk_convs = map (conversion_of D) (db_convs d), bk_inbox = map message_of (db_inbox d),
      bk_outbox = map event_of (db_events d)\<rparr>"

definition stored_form_of :: "'d decimal_lib \<Rightarrow> columns \<Rightarrow> 'd stored_form" where
  "stored_form_of D C =
     \<lparr>sf_rate = (\<lambda>d. read_decimal D (col_numeric C (dec_String D d))), sf_time = col_time C,
      sf_json = col_json C, sf_id = col_char C 26, sf_text = col_varchar C\<rparr>"

text \<open>What a create hands back: the domain value read again from the model that was sent.\<close>

definition echo_quote_of :: "'d decimal_lib \<Rightarrow> 'd quote \<Rightarrow> 'd quote" where
  "echo_quote_of D q = quote_of D (quoteModelFromDomain D q)"

definition echo_conversion_of :: "'d decimal_lib \<Rightarrow> 'd conversion \<Rightarrow> 'd conversion" where
  "echo_conversion_of D c = conversion_of D (conversionModelFromDomain D c)"

section \<open>What the statements keep true\<close>

definition rate_row_ok :: "'d decimal_lib \<Rightarrow> reference_rate_row \<Rightarrow> bool" where
  "rate_row_ok D m \<longleftrightarrow>
     supported (rm_BaseCurrency m) \<and> supported (rm_QuoteCurrency m) \<and> readable D (rm_Rate m)"

definition quote_row_ok :: "'d decimal_lib \<Rightarrow> columns \<Rightarrow> quote_row \<Rightarrow> bool" where
  "quote_row_ok D C m \<longleftrightarrow>
     supported (qm_BaseCurrency m) \<and> supported (qm_QuoteCurrency m) \<and> readable D (qm_Rate m) \<and>
     col_char C 26 (qm_ID m) = qm_ID m"

definition conversion_row_ok :: "'d decimal_lib \<Rightarrow> columns \<Rightarrow> conversion_row \<Rightarrow> bool" where
  "conversion_row_ok D C m \<longleftrightarrow>
     supported (cm_BaseCurrency m) \<and> supported (cm_QuoteCurrency m) \<and> readable D (cm_Rate m) \<and>
     col_char C 26 (cm_ID m) = cm_ID m \<and> col_char C 26 (cm_QuoteID m) = cm_QuoteID m"

definition db_ok :: "'d decimal_lib \<Rightarrow> columns \<Rightarrow> database \<Rightarrow> bool" where
  "db_ok D C d \<longleftrightarrow>
     (\<forall>m \<in> set (db_rates d). rate_row_ok D m) \<and> distinct (map rate_row_key (db_rates d)) \<and>
     (\<forall>m \<in> set (db_quotes d). quote_row_ok D C m) \<and>
     distinct (map qm_ID (db_quotes d)) \<and> distinct (map qm_IdempotencyKey (db_quotes d)) \<and>
     (\<forall>m \<in> set (db_convs d). conversion_row_ok D C m) \<and>
     distinct (map cm_ID (db_convs d)) \<and> distinct (map cm_QuoteID (db_convs d)) \<and>
     distinct (map cm_IdempotencyKey (db_convs d)) \<and>
     distinct (map inbox_row_key (db_inbox d)) \<and>
     (\<forall>m \<in> set (db_events d). col_char C 26 (om_ID m) = om_ID m) \<and>
     distinct (map om_ID (db_events d))"

definition store_ok ::
  "'d decimal_lib \<Rightarrow> columns \<Rightarrow> ('s \<Rightarrow> database) \<Rightarrow> ('s \<Rightarrow> database option) \<Rightarrow> ('s \<Rightarrow> bool) \<Rightarrow> 's \<Rightarrow> bool" where
  "store_ok D C view snap okE s \<longleftrightarrow>
     okE s \<and> db_ok D C (view s) \<and> (\<forall>d. snap s = Some d \<longrightarrow> db_ok D C d)"

section \<open>Rows read back\<close>

lemma read_decimal_readable: "readable D text \<Longrightarrow> dec_NewFromString D text = Some (read_decimal D text)"
  by (auto simp: readable_def read_decimal_def)

lemma quote_toDomain_ok: "quote_row_ok D C m \<Longrightarrow> quote_toDomain D m = Ok (quote_of D m)"
  by (simp add: quote_toDomain_def quote_row_ok_def read_decimal_readable quote_of_def)

lemma conversion_toDomain_ok: "conversion_row_ok D C m \<Longrightarrow> conversion_toDomain D m = Ok (conversion_of D m)"
  by (simp add: conversion_toDomain_def conversion_row_ok_def read_decimal_readable conversion_of_def)

lemma rate_toDomain_ok: "rate_row_ok D m \<Longrightarrow> rate_toDomain D m = Ok (rate_of D m)"
  by (simp add: rate_toDomain_def rate_row_ok_def read_decimal_readable rate_of_def)

lemma event_toDomain_ok: "event_toDomain m = Ok (event_of m)"
  by (simp add: event_toDomain_def event_of_def)

lemma quote_of_fields [simp]:
  "q_ID (quote_of D m) = qm_ID m" "q_IdempotencyKey (quote_of D m) = qm_IdempotencyKey m"
  "q_AcceptedAt (quote_of D m) = qm_AcceptedAt m" "q_ExpiresAt (quote_of D m) = qm_ExpiresAt m"
  by (simp_all add: quote_of_def)

lemma conversion_of_fields [simp]:
  "c_ID (conversion_of D m) = cm_ID m" "c_QuoteID (conversion_of D m) = cm_QuoteID m"
  "c_IdempotencyKey (conversion_of D m) = cm_IdempotencyKey m"
  by (simp_all add: conversion_of_def)

lemma rate_of_fields [simp]:
  "rate_Provider (rate_of D m) = rm_Provider m" "rate_Base (rate_of D m) = rm_BaseCurrency m"
  "rate_Quote (rate_of D m) = rm_QuoteCurrency m" "rate_key (rate_of D m) = rate_row_key m"
  by (simp_all add: rate_of_def rate_key_def rate_row_key_def)

lemma message_of_fields [simp]: "inbox_key (message_of m) = inbox_row_key m"
  by (simp add: message_of_def inbox_key_def inbox_row_key_def)

lemma event_of_fields [simp]:
  "e_ID (event_of m) = om_ID m" "e_PublishedAt (event_of m) = om_PublishedAt m"
  "e_CreatedAt (event_of m) = om_CreatedAt m"
  by (simp_all add: event_of_def)

lemma book_of_fields [simp]:
  "bk_rates (book_of D d) = map (rate_of D) (db_rates d)"
  "bk_quotes (book_of D d) = map (quote_of D) (db_quotes d)"
  "bk_convs (book_of D d) = map (conversion_of D) (db_convs d)"
  "bk_inbox (book_of D d) = map message_of (db_inbox d)"
  "bk_outbox (book_of D d) = map event_of (db_events d)"
  by (simp_all add: book_of_def)

lemma book_of_updates:
  "book_of D (d\<lparr>db_rates := x1\<rparr>) = (book_of D d)\<lparr>bk_rates := map (rate_of D) x1\<rparr>"
  "book_of D (d\<lparr>db_quotes := x2\<rparr>) = (book_of D d)\<lparr>bk_quotes := map (quote_of D) x2\<rparr>"
  "book_of D (d\<lparr>db_convs := x3\<rparr>) = (book_of D d)\<lparr>bk_convs := map (conversion_of D) x3\<rparr>"
  "book_of D (d\<lparr>db_inbox := x4\<rparr>) = (book_of D d)\<lparr>bk_inbox := map message_of x4\<rparr>"
  "book_of D (d\<lparr>db_events := x5\<rparr>) = (book_of D d)\<lparr>bk_outbox := map event_of x5\<rparr>"
  by (simp_all add: book_of_def)

lemma supported_code: "supported c \<Longrightarrow> length c = 3 \<and> last c \<noteq> CHR '' ''"
  by (auto simp: supported_iff)

lemma map_update_where_comm:
  assumes "\<And>x. P x = Q (g x)" "\<And>x. Q (g x) \<Longrightarrow> g (f x) = h (g x)"
  shows "map g (update_where P f xs) = update_where Q h (map g xs)"
  using assms by (induction xs) (auto simp: update_where_def)

lemma length_filter_0: "length (filter P xs) = 0 \<longleftrightarrow> \<not> list_ex P xs"
  by (induction xs) auto

lemma book_of_ok: "db_ok D C d \<Longrightarrow> book_ok (book_of D d)"
  by (simp add: db_ok_def book_ok_def comp_def)

lemma list_ex_map: "list_ex P (map f xs) = list_ex (\<lambda>x. P (f x)) xs"
  by (induction xs) auto

lemma taken_iff:
  "quote_taken q (book_of D d) \<longleftrightarrow>
     list_ex (\<lambda>x. qm_ID x = q_ID q \<or> qm_IdempotencyKey x = q_IdempotencyKey q) (db_quotes d)"
  "conv_taken c (book_of D d) \<longleftrightarrow>
     list_ex (\<lambda>x. cm_ID x = c_ID c \<or> cm_QuoteID x = c_QuoteID c \<or>
                  cm_IdempotencyKey x = c_IdempotencyKey c) (db_convs d)"
  "seen m (book_of D d) \<longleftrightarrow> list_ex (\<lambda>x. inbox_row_key x = inbox_key m) (db_inbox d)"
  "event_exists i (book_of D d) \<longleftrightarrow> event_row_exists i d"
  "quote_by_id i (book_of D d) = None \<longleftrightarrow> \<not> quote_row_exists i d"
  "conv_by_id i (book_of D d) = None \<longleftrightarrow> \<not> conversion_row_exists i d"
  by (simp_all add: quote_taken_def conv_taken_def seen_def event_exists_def event_row_exists_def
      quote_by_id_def conv_by_id_def quote_row_exists_def conversion_row_exists_def list_ex_map
      find_None_iff list_ex_iff)

lemma find_map_of:
  "quote_by_id i (book_of D d) = map_option (quote_of D) (find (\<lambda>m. qm_ID m = i) (db_quotes d))"
  "quote_by_key k (book_of D d) = map_option (quote_of D) (find (\<lambda>m. qm_IdempotencyKey m = k) (db_quotes d))"
  "conv_by_id i (book_of D d) = map_option (conversion_of D) (find (\<lambda>m. cm_ID m = i) (db_convs d))"
  "conv_by_key k (book_of D d) =
     map_option (conversion_of D) (find (\<lambda>m. cm_IdempotencyKey m = k) (db_convs d))"
  by (simp_all add: quote_by_id_def quote_by_key_def conv_by_id_def conv_by_key_def find_map comp_def)

lemma fold_upsert_of:
  "map (rate_of D) (fold upsert_rate_row ms rows) =
     fold upsert_rate (map (rate_of D) ms) (map (rate_of D) rows)"
proof (induction ms arbitrary: rows)
  case Nil
  then show ?case by simp
next
  case (Cons m ms)
  have "map (rate_of D) (upsert_rate_row m rows) = upsert_rate (rate_of D m) (map (rate_of D) rows)"
    by (auto simp: upsert_rate_row_def upsert_rate_def list_ex_map intro!: map_update_where_comm)
  with Cons.IH show ?case by simp
qed

lemma distinct_upsert:
  "distinct (map rate_row_key rows) \<Longrightarrow> distinct (map rate_row_key (fold upsert_rate_row ms rows))"
proof (induction ms arbitrary: rows)
  case (Cons m ms)
  have "map rate_row_key (update_where (\<lambda>x. rate_row_key x = rate_row_key m) (\<lambda>_. m) rows) =
      map rate_row_key rows"
    by (rule map_update_where) simp
  with Cons.prems have "distinct (map rate_row_key (upsert_rate_row m rows))"
    unfolding upsert_rate_row_def by (auto simp: list_ex_iff)
  then show ?case using Cons.IH by simp
qed simp

lemma set_upsert: "set (fold upsert_rate_row ms rows) \<subseteq> set ms \<union> set rows"
proof (induction ms arbitrary: rows)
  case (Cons m ms)
  have "set (upsert_rate_row m rows) \<subseteq> insert m (set rows)"
    by (auto simp: upsert_rate_row_def set_update_where)
  with Cons.IH [of "upsert_rate_row m rows"] show ?case by auto
qed simp


lemma distinct_replace:
  assumes "distinct (map k xs)" "distinct (map f xs)" "\<forall>y \<in> set xs. k y \<noteq> a \<longrightarrow> f y \<noteq> f x"
  shows "distinct (map f (update_where (\<lambda>y. k y = a) (\<lambda>_. x) xs))"
  using assms
proof (induction xs)
  case (Cons y ys)
  show ?case
  proof (cases "k y = a")
    case True
    then have "update_where (\<lambda>y. k y = a) (\<lambda>_. x) ys = ys"
      using Cons.prems(1) by (intro update_where_none) (auto simp: list_ex_iff, metis image_eqI)
    moreover have "f x \<notin> f ` set ys"
      using Cons.prems(1,3) True by (auto simp: image_iff, metis)
    ultimately show ?thesis using True Cons.prems(2) by (simp add: update_where_def)
  next
    case False
    with Cons.prems(2,3) have "f y \<notin> f ` set (update_where (\<lambda>y. k y = a) (\<lambda>_. x) ys)"
      by (auto simp: set_update_where)
    moreover have "update_where (\<lambda>y. k y = a) (\<lambda>_. x) (y # ys) = y # update_where (\<lambda>y. k y = a) (\<lambda>_. x) ys"
      using False by (simp add: update_where_def)
    moreover have "distinct (map f (update_where (\<lambda>y. k y = a) (\<lambda>_. x) ys))"
      using Cons by simp
    ultimately show ?thesis by simp
  qed
qed (simp add: update_where_def)

text \<open>The row \<open>UpsertRates\<close> builds for a rate.\<close>

definition rate_model :: "'d decimal_lib \<Rightarrow> 'd exchange_rate \<Rightarrow> time \<Rightarrow> reference_rate_row" where
  "rate_model D rate now =
     \<lparr>rm_BaseCurrency = rate_Base rate, rm_QuoteCurrency = rate_Quote rate,
      rm_Provider = rate_Provider rate, rm_Rate = dec_String D (rate_Rate rate),
      rm_ObservedAt = rate_ObservedAt rate, rm_FetchedAt = rate_FetchedAt rate, rm_UpdatedAt = now\<rparr>"

section \<open>The methods refine the ports' specifications\<close>

locale store_over_sql = sql_engine D C E view snap okE
  for D :: "'d decimal_lib" and C and E :: "'s sql" and view snap okE +
  fixes L :: "'s logger" and wallClock :: "'s \<Rightarrow> time \<times> 's"
  assumes log_frame: "okE s \<Longrightarrow> okE (lg_Error L message err s) \<and>
      view (lg_Error L message err s) = view s \<and> snap (lg_Error L message err s) = snap s"
    and clock_frame: "okE s \<Longrightarrow> wallClock s = (tm, s') \<Longrightarrow> okE s' \<and> view s' = view s \<and> snap s' = snap s"
begin

lemma infra_internal [simp]: "infra (WithCause (Internal message dets) e)"
  by (simp add: infra_def Internal_def)

lemma infra_cause [simp]: "infra (sql_cause e)"
  by (cases e) (simp_all add: infra_def as_app_error_def)

text \<open>
  A method that sends one statement and handles its error: the statement's effect on the rows
  decides, on each of its outcomes, what the method returns and what became of the book.
\<close>

lemma refines_on_error:
  assumes "refines view snap okE m R"
    and "\<And>d x d'. db_ok D C d \<Longrightarrow> R d (Ok x) d' \<Longrightarrow>
      db_ok D C d' \<and> (\<exists>r. f x = lift r \<and> spec (book_of D d) r (book_of D d'))"
    and "\<And>d e d'. db_ok D C d \<Longrightarrow> R d (Err e) d' \<Longrightarrow>
      d' = d \<and> ((\<exists>r. h e = lift r \<and> spec (book_of D d) r (book_of D d)) \<or>
        (\<exists>message. h e = internalError \<lparr>st_db = E, st_logger = L\<rparr> message e \<and>
           (\<forall>err. infra err \<longrightarrow> spec (book_of D d) (Err err) (book_of D d))))"
    and "\<And>d p d'. R d (Panic p) d' \<Longrightarrow> False"
  shows "refines (\<lambda>s. book_of D (view s)) (\<lambda>s. map_option (book_of D) (snap s))
    (store_ok D C view snap okE) (on_error m h f) spec"
proof (rule refinesI)
  fix s r t
  assume ok: "store_ok D C view snap okE s" and run: "on_error m h f s = (r, t)"
  then have db: "okE s" "db_ok D C (view s)" "\<forall>d. snap s = Some d \<longrightarrow> db_ok D C d"
    by (simp_all add: store_ok_def)
  obtain r1 s1 where m: "m s = (r1, s1)" by fastforce
  note m' = refinesD [OF assms(1) m db(1)]
  show "store_ok D C view snap okE t \<and> map_option (book_of D) (snap t) = map_option (book_of D) (snap s) \<and>
      spec (book_of D (view s)) r (book_of D (view t))"
  proof (cases r1)
    case (Ok x)
    with run m have run: "f x s1 = (r, t)" by (simp add: on_error_def)
    from assms(2) [OF db(2)] m'(3) Ok obtain r0 where
      r0: "db_ok D C (view s1)" "f x = lift r0" "spec (book_of D (view s)) r0 (book_of D (view s1))"
      by blast
    from run r0(2) have "r = r0" "t = s1" by (simp_all add: lift_def)
    with r0 m' db show ?thesis by (simp add: store_ok_def)
  next
    case (Err e)
    with run m have run: "h e s1 = (r, t)" by (simp add: on_error_def)
    from assms(3) [OF db(2)] m'(3) Err have same: "view s1 = view s"
      and cases: "(\<exists>r. h e = lift r \<and> spec (book_of D (view s)) r (book_of D (view s))) \<or>
        (\<exists>message. h e = internalError \<lparr>st_db = E, st_logger = L\<rparr> message e \<and>
           (\<forall>err. infra err \<longrightarrow> spec (book_of D (view s)) (Err err) (book_of D (view s))))"
      by blast+
    from cases show ?thesis
    proof
      assume "\<exists>r. h e = lift r \<and> spec (book_of D (view s)) r (book_of D (view s))"
      with run have "t = s1" "spec (book_of D (view s)) r (book_of D (view s))"
        by (auto simp: lift_def)
      with same m' db show ?thesis by (simp add: store_ok_def)
    next
      assume "\<exists>message. h e = internalError \<lparr>st_db = E, st_logger = L\<rparr> message e \<and>
           (\<forall>err. infra err \<longrightarrow> spec (book_of D (view s)) (Err err) (book_of D (view s)))"
      then obtain message where
        "h e = internalError \<lparr>st_db = E, st_logger = L\<rparr> message e"
        "\<forall>err. infra err \<longrightarrow> spec (book_of D (view s)) (Err err) (book_of D (view s))"
        by blast
      moreover from this run have "t = lg_Error L message e s1" "\<exists>err. r = Err err \<and> infra err"
        by (auto simp: internalError_def bind_def perform_def throw_def)
      ultimately show ?thesis
        using log_frame [of s1 message e] same m' db by (auto simp: store_ok_def)
    qed
  next
    case (Panic p)
    with assms(4) m'(3) show ?thesis by blast
  qed
qed

lemma lift_inject [simp]: "lift a = lift b \<longleftrightarrow> a = b"
  by (auto simp: fun_eq_iff lift_def)

lemma lift_forms: "ret x = lift (Ok x)" "throw e = lift (Err e)"
  by (simp_all add: fun_eq_iff io_defs)

lemma numeric_ok: "readable D (col_numeric C (dec_String D d))"
  using numeric_readable by (simp add: readable_def)

lemma col_char_supported: "supported c \<Longrightarrow> col_char C 3 c = c"
  using supported_code col_char_exact by blast

lemma quote_row_stored:
  assumes "quote_currencies q"
  shows "quote_of D (col_quote_row C (quoteModelFromDomain D q)) = stored_quote (stored_form_of D C) q"
    and "quote_row_ok D C (col_quote_row C (quoteModelFromDomain D q))"
  using assms
  by (cases q; cases "q_BaseAmount q"; cases "q_QuoteAmount q"; cases "q_FeeAmount q";
      cases "q_TotalDebitAmount q";
      simp add: quote_of_def col_quote_row_def quoteModelFromDomain_def stored_quote_def
        stored_form_of_def quote_currencies_def col_char_supported quote_row_ok_def numeric_ok
        col_char_idem)+

lemma conversion_row_stored:
  assumes "conversion_currencies c"
  shows "conversion_of D (col_conversion_row C (conversionModelFromDomain D c)) =
      stored_conversion (stored_form_of D C) c"
    and "conversion_row_ok D C (col_conversion_row C (conversionModelFromDomain D c))"
  using assms
  by (cases c; cases "c_BaseAmount c"; cases "c_QuoteAmount c"; cases "c_FeeAmount c";
      cases "c_TotalDebitAmount c";
      simp add: conversion_of_def col_conversion_row_def conversionModelFromDomain_def
        stored_conversion_def stored_form_of_def conversion_currencies_def col_char_supported
        conversion_row_ok_def numeric_ok col_char_idem)+

lemma quote_echo:
  assumes "quote_currencies q"
  shows "quote_toDomain D (quoteModelFromDomain D q) = Ok (echo_quote_of D q)"
  using assms string_readable
  by (simp add: quote_toDomain_def quoteModelFromDomain_def echo_quote_of_def quote_of_def
      quote_currencies_def read_decimal_def split: option.splits)

lemma conversion_echo:
  assumes "conversion_currencies c"
  shows "conversion_toDomain D (conversionModelFromDomain D c) = Ok (echo_conversion_of D c)"
  using assms string_readable
  by (simp add: conversion_toDomain_def conversionModelFromDomain_def echo_conversion_of_def
      conversion_of_def conversion_currencies_def read_decimal_def split: option.splits)

text \<open>Every method, in the order of the source.\<close>

lemma refines_lift:
  assumes "\<And>b. spec b r b"
  shows "refines (\<lambda>s. book_of D (view s)) (\<lambda>s. map_option (book_of D) (snap s))
    (store_ok D C view snap okE) (lift r) spec"
  using assms by (auto simp: refines_def lift_def)

lemma refines_ListLatestRates:
  assumes "supported base" "\<forall>c \<in> set quotes. supported c"
  shows "refines (\<lambda>s. book_of D (view s)) (\<lambda>s. map_option (book_of D) (snap s)) (store_ok D C view snap okE)
     (ListLatestRates D \<lparr>st_db = E, st_logger = L\<rparr> base quotes) (spec_ListLatestRates base quotes)"
proof (cases "length quotes = 0")
  case True
  then show ?thesis
    by (simp add: ListLatestRates_def lift_forms, intro refines_lift)
      (simp add: spec_ListLatestRates_def requested_def)
next
  case False
  have codes: "col_char C 3 base = base" "col_char C 3 ` set quotes = set quotes"
    using assms col_char_supported by (simp_all add: image_cong)
  show ?thesis
    unfolding ListLatestRates_def if_not_P [OF False] store.select_convs
  proof (rule refines_on_error [OF find_rates], goal_cases)
    case (1 d ms d')
    let ?P = "\<lambda>m. rm_Provider m = ProviderFrankfurter \<and> rm_BaseCurrency m = base \<and> rm_QuoteCurrency m \<in> set quotes"
    from 1 have d': "d' = d" and ms: "mset ms = mset (filter ?P (db_rates d))"
      by (auto simp: sql_specs codes)
    from ms have "set ms \<subseteq> set (db_rates d)" by (metis filter_is_subset set_mset_mset)
    with 1(1) have "\<And>m. m \<in> set ms \<Longrightarrow> rate_toDomain D m = Ok (rate_of D m)"
      by (auto simp: db_ok_def intro!: rate_toDomain_ok)
    then have "map_until (rate_toDomain D) ms = Ok (map (rate_of D) ms)" by (rule map_until_all_Ok)
    moreover have "filter (requested base quotes) (map (rate_of D) (db_rates d)) =
        map (rate_of D) (filter ?P (db_rates d))"
      by (simp add: filter_map comp_def requested_def)
    then have "mset (map (rate_of D) ms) = mset (filter (requested base quotes) (map (rate_of D) (db_rates d)))"
      using ms by (simp only: mset_map)
    ultimately show ?case
      using 1(1) d' by (auto simp: spec_ListLatestRates_def)
  next
    case (2 d e d')
    then show ?case by (auto simp: sql_specs spec_ListLatestRates_def)
  qed (auto simp: sql_specs)
qed

lemma refines_GetQuoteByID:
  "refines (\<lambda>s. book_of D (view s)) (\<lambda>s. map_option (book_of D) (snap s)) (store_ok D C view snap okE)
     (GetQuoteByID D \<lparr>st_db = E, st_logger = L\<rparr> qid) (spec_GetQuoteByID (stored_form_of D C) qid)"
  unfolding GetQuoteByID_def store.select_convs
proof (rule refines_on_error [OF first_quote_by_id], goal_cases)
  case (1 d m d')
  then have "quote_row_ok D C m" by (auto simp: sql_specs db_ok_def dest: find_SomeD)
  with 1 show ?case
    by (auto simp: sql_specs quote_toDomain_ok spec_GetQuoteByID_def find_map_of stored_form_of_def)
next
  case (2 d e d')
  then show ?case
    by (auto simp: sql_specs lift_forms spec_GetQuoteByID_def find_map_of stored_form_of_def)
qed (auto simp: sql_specs)

lemma refines_GetQuoteByIdempotencyKey:
  "refines (\<lambda>s. book_of D (view s)) (\<lambda>s. map_option (book_of D) (snap s)) (store_ok D C view snap okE)
     (GetQuoteByIdempotencyKey D \<lparr>st_db = E, st_logger = L\<rparr> key) (spec_GetQuoteByIdempotencyKey key)"
  unfolding GetQuoteByIdempotencyKey_def store.select_convs
proof (rule refines_on_error [OF first_quote_by_key], goal_cases)
  case (1 d m d')
  then have "quote_row_ok D C m" by (auto simp: sql_specs db_ok_def dest: find_SomeD)
  with 1 show ?case
    by (auto simp: sql_specs quote_toDomain_ok spec_GetQuoteByIdempotencyKey_def find_map_of)
next
  case (2 d e d')
  then show ?case
    by (auto simp: sql_specs lift_forms spec_GetQuoteByIdempotencyKey_def find_map_of)
qed (auto simp: sql_specs)

lemma refines_CreateQuote:
  assumes "quote_currencies q"
  shows "refines (\<lambda>s. book_of D (view s)) (\<lambda>s. map_option (book_of D) (snap s)) (store_ok D C view snap okE)
     (CreateQuote D \<lparr>st_db = E, st_logger = L\<rparr> q)
     (spec_CreateQuote (stored_form_of D C) (echo_quote_of D) q)"
  unfolding CreateQuote_def store.select_convs quote_echo [OF assms]
proof (rule refines_on_error [OF create_quote], goal_cases)
  case (1 d u d')
  let ?m = "col_quote_row C (quoteModelFromDomain D q)"
  from 1 have fresh: "\<not> quote_row_taken ?m d" and d': "d' = d\<lparr>db_quotes := db_quotes d @ [?m]\<rparr>"
    by (auto simp: sql_specs)
  from fresh have "\<not> quote_taken (stored_quote (stored_form_of D C) q) (book_of D d)"
    unfolding taken_iff quote_row_taken_def quote_row_stored(1) [OF assms, symmetric] by simp
  moreover have "db_ok D C d'"
    using 1(1) fresh quote_row_stored(2) [OF assms] unfolding d' db_ok_def quote_row_taken_def
    by (auto simp: list_ex_iff)
  ultimately show ?case
    by (auto simp: spec_CreateQuote_def d' book_of_updates quote_row_stored(1) [OF assms])
next
  case (2 d e d')
  have "quote_row_taken (col_quote_row C (quoteModelFromDomain D q)) d \<Longrightarrow>
      quote_taken (stored_quote (stored_form_of D C) q) (book_of D d)"
    unfolding taken_iff quote_row_taken_def quote_row_stored(1) [OF assms, symmetric] by simp
  with 2 show ?case
    by (auto simp: sql_specs lift_forms spec_CreateQuote_def isUniqueViolation_def unique_violation_def
        split: sql_error.splits)
qed (auto simp: sql_specs)

lemma refines_MarkQuoteAccepted:
  "refines (\<lambda>s. book_of D (view s)) (\<lambda>s. map_option (book_of D) (snap s)) (store_ok D C view snap okE)
     (MarkQuoteAccepted \<lparr>st_db = E, st_logger = L\<rparr> qid tm) (spec_MarkQuoteAccepted (stored_form_of D C) qid tm)"
  unfolding MarkQuoteAccepted_def store.select_convs
proof (rule refines_on_error [OF accept_quote], goal_cases)
  case (1 d n d')
  let ?P = "quote_row_open (col_char C 26 qid) (col_time C tm)"
  let ?Q = "acceptable (col_char C 26 qid) (col_time C tm)"
  from 1 have n: "n = int (length (filter ?P (db_quotes d)))"
    and d': "d' = d\<lparr>db_quotes := update_where ?P (\<lambda>m. m\<lparr>qm_AcceptedAt := Some (col_time C tm)\<rparr>) (db_quotes d)\<rparr>"
    by (auto simp: sql_specs)
  have PQ: "?P m = ?Q (quote_of D m)" for m
    by (simp add: quote_row_open_def acceptable_def)
  have ex: "list_ex ?Q (map (quote_of D) (db_quotes d)) \<longleftrightarrow> n \<noteq> 0"
    using length_filter_0 [of ?P "db_quotes d"] by (simp add: n list_ex_map PQ [symmetric])
  have db: "db_ok D C d'"
    using 1(1) unfolding d' db_ok_def
    by (auto simp: map_update_where set_update_where quote_row_ok_def)
  have upd: "book_of D d' = (book_of D d)\<lparr>bk_quotes := update_where ?Q
      (\<lambda>q. q\<lparr>q_AcceptedAt := Some (col_time C tm)\<rparr>) (map (quote_of D) (db_quotes d))\<rparr>"
    unfolding d' book_of_updates
    by (subst map_update_where_comm [where Q = ?Q and h = "\<lambda>q. q\<lparr>q_AcceptedAt := Some (col_time C tm)\<rparr>"])
      (simp_all add: PQ, simp add: quote_of_def)
  show ?case
  proof (cases "n = 0")
    case True
    with n have "d' = d"
      unfolding d' using length_filter_0 [of ?P "db_quotes d"] by (simp add: update_where_none)
    with True ex show ?thesis
      using 1(1) by (auto simp: lift_forms spec_MarkQuoteAccepted_def stored_form_of_def)
  next
    case False
    with ex upd db show ?thesis
      by (auto simp: lift_forms spec_MarkQuoteAccepted_def stored_form_of_def)
  qed
next
  case (2 d e d')
  then show ?case by (auto simp: sql_specs spec_MarkQuoteAccepted_def)
qed (auto simp: sql_specs)

lemma refines_GetConversionByID:
  "refines (\<lambda>s. book_of D (view s)) (\<lambda>s. map_option (book_of D) (snap s)) (store_ok D C view snap okE)
     (GetConversionByID D \<lparr>st_db = E, st_logger = L\<rparr> cid) (spec_GetConversionByID (stored_form_of D C) cid)"
  unfolding GetConversionByID_def store.select_convs
proof (rule refines_on_error [OF first_conversion_by_id], goal_cases)
  case (1 d m d')
  then have "conversion_row_ok D C m" by (auto simp: sql_specs db_ok_def dest: find_SomeD)
  with 1 show ?case
    by (auto simp: sql_specs conversion_toDomain_ok spec_GetConversionByID_def find_map_of stored_form_of_def)
next
  case (2 d e d')
  then show ?case
    by (auto simp: sql_specs lift_forms spec_GetConversionByID_def find_map_of stored_form_of_def)
qed (auto simp: sql_specs)

lemma refines_GetConversionByIdempotencyKey:
  "refines (\<lambda>s. book_of D (view s)) (\<lambda>s. map_option (book_of D) (snap s)) (store_ok D C view snap okE)
     (GetConversionByIdempotencyKey D \<lparr>st_db = E, st_logger = L\<rparr> key)
     (spec_GetConversionByIdempotencyKey key)"
  unfolding GetConversionByIdempotencyKey_def store.select_convs
proof (rule refines_on_error [OF first_conversion_by_key], goal_cases)
  case (1 d m d')
  then have "conversion_row_ok D C m" by (auto simp: sql_specs db_ok_def dest: find_SomeD)
  with 1 show ?case
    by (auto simp: sql_specs conversion_toDomain_ok spec_GetConversionByIdempotencyKey_def find_map_of)
next
  case (2 d e d')
  then show ?case
    by (auto simp: sql_specs lift_forms spec_GetConversionByIdempotencyKey_def find_map_of)
qed (auto simp: sql_specs)

lemma conversion_taken_of:
  assumes "conversion_currencies c"
  shows "conv_taken (stored_conversion (stored_form_of D C) c) (book_of D d) \<longleftrightarrow>
    conversion_row_taken (col_conversion_row C (conversionModelFromDomain D c)) d"
  unfolding taken_iff conversion_row_taken_def conversion_row_stored(1) [OF assms, symmetric] by simp

lemma conversion_row_ids:
  "cm_ID (col_conversion_row C (conversionModelFromDomain D c)) = sf_id (stored_form_of D C) (c_ID c)"
  "cm_ID (conversionModelFromDomain D c) = c_ID c"
  "cm_QuoteID (conversionModelFromDomain D c) = c_QuoteID c"
  by (simp_all add: col_conversion_row_def conversionModelFromDomain_def stored_form_of_def)

lemma sf_id_of: "sf_id (stored_form_of D C) = col_char C 26"
  by (simp add: stored_form_of_def)

lemma refines_CreateConversion:
  assumes "conversion_currencies c"
  shows "refines (\<lambda>s. book_of D (view s)) (\<lambda>s. map_option (book_of D) (snap s)) (store_ok D C view snap okE)
     (CreateConversion D \<lparr>st_db = E, st_logger = L\<rparr> c)
     (spec_CreateConversion (stored_form_of D C) (echo_conversion_of D) c)"
  unfolding CreateConversion_def store.select_convs conversion_echo [OF assms]
proof (rule refines_on_error [OF create_conversion], goal_cases)
  case (1 d u d')
  let ?m = "col_conversion_row C (conversionModelFromDomain D c)"
  from 1 have fresh: "\<not> conversion_row_taken ?m d"
    and parent: "quote_row_exists (col_char C 26 (c_QuoteID c)) d"
    and d': "d' = d\<lparr>db_convs := db_convs d @ [?m]\<rparr>"
    by (auto simp: sql_specs conversion_row_ids)
  have "db_ok D C d'"
    using 1(1) fresh conversion_row_stored(2) [OF assms] unfolding d' db_ok_def conversion_row_taken_def
    by (auto simp: list_ex_iff)
  with fresh parent show ?case
    by (auto simp: spec_CreateConversion_def d' book_of_updates conversion_row_stored(1) [OF assms]
        conversion_taken_of [OF assms] taken_iff(5) sf_id_of simp del: not_None_eq)
next
  case (2 d e d')
  then show ?case
    by (auto simp: sql_specs lift_forms spec_CreateConversion_def isUniqueViolation_def unique_violation_def
        conversion_taken_of [OF assms] split: sql_error.splits)
qed (auto simp: sql_specs)

lemma refines_UpdateConversion:
  assumes "conversion_currencies c"
  shows "refines (\<lambda>s. book_of D (view s)) (\<lambda>s. map_option (book_of D) (snap s)) (store_ok D C view snap okE)
     (UpdateConversion D \<lparr>st_db = E, st_logger = L\<rparr> c)
     (spec_UpdateConversion (stored_form_of D C) (echo_conversion_of D) c)"
  unfolding UpdateConversion_def store.select_convs
proof (rule refines_on_error [OF save_conversion], goal_cases)
  case (1 d x d')
  obtain n m where x: "x = (n, m)" by fastforce
  let ?id = "col_char C 26 (c_ID c)" and ?qid = "col_char C 26 (c_QuoteID c)"
  let ?m = "col_conversion_row C (conversionModelFromDomain D c)"
  from 1 x obtain tm where n: "n = 1"
    and m: "m = conversionModelFromDomain D c \<or> m = (conversionModelFromDomain D c)\<lparr>cm_UpdatedAt := tm\<rparr>"
    and eff: "if conversion_row_exists ?id d
       then quote_row_exists ?qid d \<and>
            (\<forall>x \<in> set (db_convs d). cm_ID x \<noteq> ?id \<longrightarrow>
               cm_QuoteID x \<noteq> cm_QuoteID ?m \<and> cm_IdempotencyKey x \<noteq> cm_IdempotencyKey ?m) \<and>
            d' = d\<lparr>db_convs := update_where (\<lambda>m. cm_ID m = ?id) (\<lambda>_. col_conversion_row C m) (db_convs d)\<rparr>
       else quote_row_exists ?qid d \<and> \<not> conversion_row_taken ?m d \<and>
            d' = d\<lparr>db_convs := db_convs d @ [col_conversion_row C m]\<rparr>"
    unfolding x writes_def result.case prod.case conversion_row_ids by blast
  define c1 where "c1 = (if m = conversionModelFromDomain D c then c else c\<lparr>c_UpdatedAt := tm\<rparr>)"
  have c1: "c1 = c \<or> c1 = c\<lparr>c_UpdatedAt := tm\<rparr>" "m = conversionModelFromDomain D c1"
    using m by (auto simp: c1_def conversionModelFromDomain_def)
  have cur: "conversion_currencies c1"
    using c1(1) assms by (auto simp: conversion_currencies_def)
  have keys: "cm_ID (col_conversion_row C m) = ?id" "cm_QuoteID (col_conversion_row C m) = cm_QuoteID ?m"
    "cm_IdempotencyKey (col_conversion_row C m) = cm_IdempotencyKey ?m"
    using m by (auto simp: col_conversion_row_def conversionModelFromDomain_def)
  note row = conversion_row_stored [OF cur, folded c1(2)]
  have run: "(case x of (rowsAffected, model) \<Rightarrow>
        if rowsAffected = 0
        then throw (NotFound ''Conversion not found'' [(''conversionId'', DStr (c_ID c))])
        else lift (conversion_toDomain D model)) = lift (Ok (echo_conversion_of D c1))"
    unfolding x n by (simp add: c1(2) conversion_echo [OF cur])
  show ?case
  proof (cases "conversion_row_exists ?id d")
    case True
    with eff have others: "\<forall>x \<in> set (db_convs d). cm_ID x \<noteq> ?id \<longrightarrow>
        cm_QuoteID x \<noteq> cm_QuoteID ?m \<and> cm_IdempotencyKey x \<noteq> cm_IdempotencyKey ?m"
      and d': "d' = d\<lparr>db_convs := update_where (\<lambda>m. cm_ID m = ?id) (\<lambda>_. col_conversion_row C m) (db_convs d)\<rparr>"
      by simp_all
    have dist: "distinct (map cm_ID (db_convs d))" "distinct (map cm_QuoteID (db_convs d))"
      "distinct (map cm_IdempotencyKey (db_convs d))"
      using 1(1) by (simp_all add: db_ok_def)
    have "db_ok D C d'"
      using 1(1) distinct_replace [OF dist(1) dist(1), of ?id "col_conversion_row C m"]
        distinct_replace [OF dist(1) dist(2), of ?id "col_conversion_row C m"]
        distinct_replace [OF dist(1) dist(3), of ?id "col_conversion_row C m"] others row(2)
      unfolding d' db_ok_def by (auto simp: keys set_update_where)
    moreover have "map (conversion_of D) (update_where (\<lambda>m. cm_ID m = ?id) (\<lambda>_. col_conversion_row C m) (db_convs d)) =
        update_where (\<lambda>c. c_ID c = ?id) (\<lambda>_. stored_conversion (stored_form_of D C) c1) (map (conversion_of D) (db_convs d))"
      by (rule map_update_where_comm) (simp_all add: row(1))
    ultimately have "spec_UpdateConversion (stored_form_of D C) (echo_conversion_of D) c (book_of D d)
        (Ok (echo_conversion_of D c1)) (book_of D d')"
      unfolding spec_UpdateConversion_def result.case d' book_of_updates sf_id_of taken_iff(6)
      using c1(1) True by (intro exI [of _ c1] exI [of _ tm]) simp
    with run \<open>db_ok D C d'\<close> show ?thesis by auto
  next
    case False
    with eff have fresh: "quote_row_exists ?qid d" "\<not> conversion_row_taken ?m d"
      and d': "d' = d\<lparr>db_convs := db_convs d @ [col_conversion_row C m]\<rparr>"
      by simp_all
    have "\<not> conversion_row_taken (col_conversion_row C m) d"
      using fresh(2) keys by (auto simp: conversion_row_taken_def conversion_row_ids sf_id_of list_ex_iff)
    then have "db_ok D C d'"
      using 1(1) row(2) unfolding d' db_ok_def conversion_row_taken_def by (auto simp: list_ex_iff)
    moreover have "spec_UpdateConversion (stored_form_of D C) (echo_conversion_of D) c (book_of D d)
        (Ok (echo_conversion_of D c1)) (book_of D d')"
      unfolding spec_UpdateConversion_def result.case d' book_of_updates sf_id_of taken_iff(5,6)
        conversion_taken_of [OF assms]
      using c1(1) False fresh row(1) by (intro exI [of _ c1] exI [of _ tm]) simp
    ultimately show ?thesis using run by auto
  qed
next
  case (2 d e d')
  then show ?case by (auto simp: sql_specs spec_UpdateConversion_def)
qed (auto simp: sql_specs)

lemma message_row_stored:
  "message_of (col_inbox_row C (webhookModelFromDomain m)) = stored_message (stored_form_of D C) m"
  "inbox_row_key (col_inbox_row C (webhookModelFromDomain m)) =
     inbox_key (stored_message (stored_form_of D C) m)"
  "wm_ConversionID (webhookModelFromDomain m) = m_ConversionID m"
  by (cases m; simp add: message_of_def col_inbox_row_def webhookModelFromDomain_def stored_message_def
      stored_form_of_def inbox_row_key_def inbox_key_def)+

lemma event_row_stored:
  "event_of (col_event_row C (outboxModelFromDomain e)) = stored_event (stored_form_of D C) e"
  "om_ID (col_event_row C (outboxModelFromDomain e)) = col_char C 26 (e_ID e)"
  "om_ID (outboxModelFromDomain e) = e_ID e"
  by (cases e; simp add: event_of_def col_event_row_def outboxModelFromDomain_def stored_event_def
      stored_form_of_def)+

text \<open>A call after a check of its arguments that reads nothing.\<close>

lemma refines_checked:
  assumes "\<And>u. v = Ok u \<Longrightarrow> refines vw sn okS m spec"
    and "\<And>e b. v = Err e \<Longrightarrow> spec b (Err e) b" and "\<And>p. v \<noteq> Panic p"
  shows "refines vw sn okS (bind (lift v) (\<lambda>_. m)) spec"
proof (cases v)
  case (Ok u)
  have "bind (lift v) (\<lambda>_. m) = m" by (simp add: fun_eq_iff bind_def lift_def Ok)
  with assms(1) [OF Ok] show ?thesis by simp
next
  case (Err e)
  have "bind (lift v) (\<lambda>_. m) = lift (Err e)" by (simp add: fun_eq_iff bind_def lift_def Err)
  with assms(2) [OF Err] show ?thesis by (auto simp: refines_def lift_def)
next
  case (Panic p)
  with assms(3) show ?thesis by blast
qed

lemma refines_StoreIfAbsent:
  "refines (\<lambda>s. book_of D (view s)) (\<lambda>s. map_option (book_of D) (snap s)) (store_ok D C view snap okE)
     (StoreIfAbsent \<lparr>st_db = E, st_logger = L\<rparr> m) (spec_StoreIfAbsent (stored_form_of D C) m)"
  unfolding StoreIfAbsent_def store.select_convs
proof (rule refines_checked, goal_cases)
  case (1 u)
  show ?case
  proof (rule refines_on_error [OF create_inbox], goal_cases)
    case (1 d n d')
    let ?m = "col_inbox_row C (webhookModelFromDomain m)"
    have seen: "seen (stored_message (stored_form_of D C) m) (book_of D d) \<longleftrightarrow> inbox_row_seen ?m d"
      unfolding taken_iff inbox_row_seen_def message_row_stored(2) by simp
    show ?case
    proof (cases "inbox_row_seen ?m d")
      case True
      with 1 have "n = 0" "d' = d" by (simp_all add: writes_def)
      with True seen 1(1) \<open>Validate_inbox m = Ok u\<close> show ?thesis
        by (auto simp: lift_forms spec_StoreIfAbsent_def)
    next
      case False
      with 1 have n: "n = 1" and parent: "conversion_row_exists (col_char C 26 (m_ConversionID m)) d"
        and d': "d' = d\<lparr>db_inbox := db_inbox d @ [?m]\<rparr>"
        by (simp_all add: writes_def message_row_stored)
      have "db_ok D C d'"
        using 1(1) False unfolding d' db_ok_def inbox_row_seen_def by (auto simp: list_ex_iff)
      with n parent False seen \<open>Validate_inbox m = Ok u\<close> show ?thesis
        by (auto simp: lift_forms spec_StoreIfAbsent_def d' book_of_updates message_row_stored(1)
            taken_iff(6) sf_id_of simp del: not_None_eq)
    qed
  next
    case (2 d e d')
    then show ?case by (auto simp: sql_specs spec_StoreIfAbsent_def)
  qed (auto simp: sql_specs)
qed (auto simp: spec_StoreIfAbsent_def)

lemma refines_Enqueue:
  "refines (\<lambda>s. book_of D (view s)) (\<lambda>s. map_option (book_of D) (snap s)) (store_ok D C view snap okE)
     (Enqueue \<lparr>st_db = E, st_logger = L\<rparr> e) (spec_Enqueue (stored_form_of D C) e)"
  unfolding Enqueue_def store.select_convs
proof (rule refines_on_error [OF create_event], goal_cases)
  case (1 d u d')
  let ?m = "col_event_row C (outboxModelFromDomain e)"
  from 1 have fresh: "\<not> event_row_exists (col_char C 26 (e_ID e)) d"
    and d': "d' = d\<lparr>db_events := db_events d @ [?m]\<rparr>"
    by (auto simp: inserts_def event_row_stored)
  have "db_ok D C d'"
    using 1(1) fresh unfolding d' db_ok_def event_row_exists_def
    by (auto simp: list_ex_iff event_row_stored col_char_idem)
  with fresh show ?case
    by (auto simp: lift_forms spec_Enqueue_def d' book_of_updates event_row_stored(1) taken_iff(4) sf_id_of)
next
  case (2 d err d')
  then show ?case by (auto simp: sql_specs spec_Enqueue_def)
qed (auto simp: sql_specs)

lemma pending_rows_of:
  assumes "pending_rows n all ms"
  shows "pending_batch n (map event_of all) (map event_of ms)"
proof -
  have filter_of: "filter (\<lambda>e. e_PublishedAt e = None) (map event_of all) =
      map event_of (filter (\<lambda>m. om_PublishedAt m = None) all)"
    by (simp add: filter_map comp_def)
  from assms obtain rest where rest: "sorted (map om_CreatedAt ms)"
    "mset (ms @ rest) = mset (filter (\<lambda>m. om_PublishedAt m = None) all)"
    "\<forall>m \<in> set ms. \<forall>k \<in> set rest. om_CreatedAt m \<le> om_CreatedAt k"
    "length ms = min n (length (filter (\<lambda>m. om_PublishedAt m = None) all))"
    by (auto simp: pending_rows_def)
  have "mset (map event_of (ms @ rest)) = mset (map event_of (filter (\<lambda>m. om_PublishedAt m = None) all))"
    using rest(2) by (simp only: mset_map)
  then have "mset (map event_of ms @ map event_of rest) =
      mset (filter (\<lambda>e. e_PublishedAt e = None) (map event_of all))"
    unfolding filter_of by (simp only: map_append)
  moreover have "sorted (map e_CreatedAt (map event_of ms))" using rest(1) by (simp add: comp_def)
  ultimately show ?thesis
    unfolding pending_batch_def using rest(3,4) filter_of
    by (intro conjI exI [of _ "map event_of rest"]) (simp_all only: length_map, auto)
qed

lemma refines_ListPending:
  "refines (\<lambda>s. book_of D (view s)) (\<lambda>s. map_option (book_of D) (snap s)) (store_ok D C view snap okE)
     (ListPending \<lparr>st_db = E, st_logger = L\<rparr> limit) (spec_ListPending limit)"
proof -
  let ?n = "if limit \<le> 0 then 100 else limit"
  have "0 < ?n" by simp
  note stmt = find_pending [OF this]
  show ?thesis
    unfolding ListPending_def store.select_convs
  proof (rule refines_on_error [OF stmt], goal_cases)
    case (1 d ms d')
    then have "pending_batch (nat ?n) (map event_of (db_events d)) (map event_of ms)" "d' = d"
      using pending_rows_of by (auto simp: reads_def)
    moreover have "map_until event_toDomain ms = Ok (map event_of ms)"
      by (rule map_until_all_Ok) (rule event_toDomain_ok)
    ultimately show ?case using 1(1) by (auto simp: spec_ListPending_def)
  next
    case (2 d e d')
    then show ?case by (auto simp: sql_specs spec_ListPending_def)
  qed (auto simp: sql_specs)
qed

text \<open>The two updates of an event by its identifier.\<close>

lemma mark_event_rows:
  assumes "db_ok D C d" "d' = d\<lparr>db_events := update_where (\<lambda>m. om_ID m = i) f (db_events d)\<rparr>"
    and "\<And>m. om_ID (f m) = om_ID m" "\<And>m. event_of (f m) = h (event_of m)"
  shows "db_ok D C d'"
    and "book_of D d' = (book_of D d)\<lparr>bk_outbox := update_where (\<lambda>e. e_ID e = i) h (map event_of (db_events d))\<rparr>"
proof -
  show "db_ok D C d'"
    using assms(1) unfolding assms(2) db_ok_def
    by (auto simp: map_update_where set_update_where assms(3))
  have "map event_of (update_where (\<lambda>m. om_ID m = i) f (db_events d)) =
      update_where (\<lambda>e. e_ID e = i) h (map event_of (db_events d))"
    by (rule map_update_where_comm) (simp_all add: assms(4))
  then show "book_of D d' = (book_of D d)\<lparr>bk_outbox := update_where (\<lambda>e. e_ID e = i) h (map event_of (db_events d))\<rparr>"
    unfolding assms(2) book_of_updates by simp
qed

lemma refines_MarkPublished:
  "refines (\<lambda>s. book_of D (view s)) (\<lambda>s. map_option (book_of D) (snap s)) (store_ok D C view snap okE)
     (MarkPublished \<lparr>st_db = E, st_logger = L\<rparr> eid tm) (spec_MarkPublished (stored_form_of D C) eid tm)"
  unfolding MarkPublished_def store.select_convs
proof (rule refines_on_error [OF update_published], goal_cases)
  case (1 d n d')
  let ?f = "\<lambda>m. m\<lparr>om_PublishedAt := Some (col_time C tm), om_LastError := None,
                  om_PublishAttempts := om_PublishAttempts m + 1\<rparr>"
  let ?h = "\<lambda>e. e\<lparr>e_PublishedAt := Some (col_time C tm), e_LastError := None,
                  e_PublishAttempts := e_PublishAttempts e + 1\<rparr>"
  from 1 have n: "n = int (length (filter (\<lambda>m. om_ID m = col_char C 26 eid) (db_events d)))"
    and d': "d' = d\<lparr>db_events := update_where (\<lambda>m. om_ID m = col_char C 26 eid) ?f (db_events d)\<rparr>"
    by (simp_all add: writes_def)
  have n0: "n = 0 \<longleftrightarrow> \<not> event_row_exists (col_char C 26 eid) d"
    unfolding n event_row_exists_def using length_filter_0 [of "\<lambda>m. om_ID m = col_char C 26 eid"] by simp
  have f: "om_ID (?f m) = om_ID m" "event_of (?f m) = ?h (event_of m)" for m
    by (simp_all add: event_of_def)
  note upd = mark_event_rows [of _ _ _ ?f ?h, OF 1(1) d' f]
  show ?case
  proof (cases "n = 0")
    case True
    then have "d' = d"
      using n0 unfolding d' event_row_exists_def by (simp add: update_where_none)
    with True n0 1(1) show ?thesis
      by (auto simp: lift_forms spec_MarkPublished_def taken_iff(4) sf_id_of)
  next
    case False
    with upd n0 show ?thesis
      by (auto simp: lift_forms spec_MarkPublished_def taken_iff(4) stored_form_of_def)
  qed
next
  case (2 d e d')
  then show ?case by (auto simp: sql_specs spec_MarkPublished_def)
qed (auto simp: sql_specs)

lemma refines_MarkPublishFailed:
  "refines (\<lambda>s. book_of D (view s)) (\<lambda>s. map_option (book_of D) (snap s)) (store_ok D C view snap okE)
     (MarkPublishFailed \<lparr>st_db = E, st_logger = L\<rparr> eid text)
     (spec_MarkPublishFailed (stored_form_of D C) eid text)"
  unfolding MarkPublishFailed_def store.select_convs
proof (rule refines_on_error [OF update_failed], goal_cases)
  case (1 d n d')
  let ?f = "\<lambda>m. m\<lparr>om_LastError := Some text, om_PublishAttempts := om_PublishAttempts m + 1\<rparr>"
  let ?h = "\<lambda>e. e\<lparr>e_LastError := Some text, e_PublishAttempts := e_PublishAttempts e + 1\<rparr>"
  from 1 have n: "n = int (length (filter (\<lambda>m. om_ID m = col_char C 26 eid) (db_events d)))"
    and d': "d' = d\<lparr>db_events := update_where (\<lambda>m. om_ID m = col_char C 26 eid) ?f (db_events d)\<rparr>"
    by (simp_all add: writes_def)
  have n0: "n = 0 \<longleftrightarrow> \<not> event_row_exists (col_char C 26 eid) d"
    unfolding n event_row_exists_def using length_filter_0 [of "\<lambda>m. om_ID m = col_char C 26 eid"] by simp
  have f: "om_ID (?f m) = om_ID m" "event_of (?f m) = ?h (event_of m)" for m
    by (simp_all add: event_of_def)
  note upd = mark_event_rows [of _ _ _ ?f ?h, OF 1(1) d' f]
  show ?case
  proof (cases "n = 0")
    case True
    then have "d' = d"
      using n0 unfolding d' event_row_exists_def by (simp add: update_where_none)
    with True n0 1(1) show ?thesis
      by (auto simp: lift_forms spec_MarkPublishFailed_def taken_iff(4) sf_id_of)
  next
    case False
    with upd n0 show ?thesis
      by (auto simp: lift_forms spec_MarkPublishFailed_def taken_iff(4) stored_form_of_def)
  qed
next
  case (2 d e d')
  then show ?case by (auto simp: sql_specs spec_MarkPublishFailed_def)
qed (auto simp: sql_specs)

lemma rate_models_run:
  assumes "okE s" "rate_models D wallClock rates s = (r, t)"
  shows "okE t \<and> view t = view s \<and> snap t = snap s \<and>
    (case r of
       Ok ms \<Rightarrow> (\<forall>x \<in> set rates. Validate_rate D x = Ok ()) \<and>
         list_all2 (\<lambda>x m. \<exists>now. m = rate_model D x now) rates ms
     | Err e \<Rightarrow> \<exists>x \<in> set rates. Validate_rate D x = Err e
     | Panic p \<Rightarrow> False)"
  using assms
proof (induction rates arbitrary: s r t)
  case Nil
  then show ?case by (auto simp: ret_def)
next
  case (Cons x rates)
  show ?case
  proof (cases "Validate_rate D x")
    case (Ok u)
    obtain now s1 where clk: "wallClock s = (now, s1)" by fastforce
    obtain r2 t2 where rest: "rate_models D wallClock rates s1 = (r2, t2)" by fastforce
    note c = clock_frame [OF Cons.prems(1) clk]
    from Cons.IH [OF _ rest] c have IH: "okE t2" "view t2 = view s" "snap t2 = snap s"
      "case r2 of
       Ok ms \<Rightarrow> (\<forall>x \<in> set rates. Validate_rate D x = Ok ()) \<and>
         list_all2 (\<lambda>x m. \<exists>now. m = rate_model D x now) rates ms
     | Err e \<Rightarrow> \<exists>x \<in> set rates. Validate_rate D x = Err e
     | Panic p \<Rightarrow> False"
      by simp_all
    have run: "(r, t) = (case r2 of Ok ms \<Rightarrow> (Ok (rate_model D x now # ms), t2)
        | Err e \<Rightarrow> (Err e, t2) | Panic p \<Rightarrow> (Panic p, t2))"
      using Cons.prems(2) Ok clk rest
      by (cases r2) (auto simp: bind_def get_with_def lift_def ret_def rate_model_def)
    show ?thesis using run IH Ok by (cases r2) auto
  next
    case (Err e)
    with Cons.prems show ?thesis by (auto simp: bind_def lift_def)
  next
    case (Panic p)
    then show ?thesis by (auto simp: Validate_rate_def split: if_splits)
  qed
qed

text \<open>A call after one that leaves the tables alone and bears out \<open>A\<close>.\<close>

lemma refines_after:
  assumes "\<And>s r t. okE s \<Longrightarrow> m s = (r, t) \<Longrightarrow> okE t \<and> view t = view s \<and> snap t = snap s \<and> A r"
    and "\<And>x. A (Ok x) \<Longrightarrow> refines (\<lambda>s. book_of D (view s)) (\<lambda>s. map_option (book_of D) (snap s))
      (store_ok D C view snap okE) (f x) spec"
    and "\<And>e b. A (Err e) \<Longrightarrow> spec b (Err e) b" and "\<And>p. \<not> A (Panic p)"
  shows "refines (\<lambda>s. book_of D (view s)) (\<lambda>s. map_option (book_of D) (snap s))
    (store_ok D C view snap okE) (bind m f) spec"
proof (rule refinesI)
  fix s r t
  assume ok: "store_ok D C view snap okE s" and run: "bind m f s = (r, t)"
  obtain r1 s1 where m: "m s = (r1, s1)" by fastforce
  from assms(1) [OF _ m] ok have s1: "okE s1" "view s1 = view s" "snap s1 = snap s" "A r1"
    by (simp_all add: store_ok_def)
  with ok have ok1: "store_ok D C view snap okE s1" by (simp add: store_ok_def)
  show "store_ok D C view snap okE t \<and> map_option (book_of D) (snap t) = map_option (book_of D) (snap s) \<and>
      spec (book_of D (view s)) r (book_of D (view t))"
  proof (cases r1)
    case (Ok x)
    with run m have "f x s1 = (r, t)" by simp
    from refinesD [OF assms(2) this ok1] s1 Ok show ?thesis by simp
  next
    case (Err e)
    with run m have "r = Err e" "t = s1" by simp_all
    with assms(3) s1 ok1 Err show ?thesis by simp
  next
    case (Panic p)
    with assms(4) s1 show ?thesis by simp
  qed
qed

lemma rate_model_stored:
  assumes "rate_currencies x"
  shows "rate_of D (col_rate_row C (rate_model D x now)) = stored_rate (stored_form_of D C) x"
    and "rate_row_ok D (col_rate_row C (rate_model D x now))"
  using assms
  by (cases x; simp add: rate_of_def col_rate_row_def rate_model_def stored_rate_def stored_form_of_def
      rate_currencies_def col_char_supported rate_row_ok_def numeric_ok)+

lemma refines_UpsertRates:
  assumes "\<forall>r \<in> set rates. rate_currencies r"
  shows "refines (\<lambda>s. book_of D (view s)) (\<lambda>s. map_option (book_of D) (snap s)) (store_ok D C view snap okE)
     (UpsertRates D wallClock \<lparr>st_db = E, st_logger = L\<rparr> rates)
     (spec_UpsertRates D (stored_form_of D C) rates)"
  unfolding UpsertRates_def store.select_convs
proof (rule refines_after, rule rate_models_run, assumption, assumption, goal_cases)
  case (1 ms)
  then have valid: "\<forall>x \<in> set rates. Validate_rate D x = Ok ()"
    and ms: "list_all2 (\<lambda>x m. \<exists>now. m = rate_model D x now) rates ms"
    by simp_all
  from ms assms have rows: "map (rate_of D) (map (col_rate_row C) ms) = map (stored_rate (stored_form_of D C)) rates \<and>
      (\<forall>m \<in> set ms. rate_row_ok D (col_rate_row C m))"
    by (induction rule: list_all2_induct) (auto simp: rate_model_stored)
  show ?case
  proof (cases "length ms = 0")
    case True
    with ms have "rates = []" by simp
    with True show ?thesis by (simp add: lift_forms refines_lift spec_UpsertRates_def)
  next
    case False
    show ?thesis
      unfolding if_not_P [OF False]
    proof (rule refines_on_error [OF upsert_rates], goal_cases)
      case (1 d u d')
      then have dist: "distinct (map (rate_row_key \<circ> col_rate_row C) ms)"
        and d': "d' = d\<lparr>db_rates := fold upsert_rate_row (map (col_rate_row C) ms) (db_rates d)\<rparr>"
        by (auto simp: writes_def)
      have "map (rate_row_key \<circ> col_rate_row C) ms = map rate_key (map (rate_of D) (map (col_rate_row C) ms))"
        by (simp add: comp_def)
      with dist rows have "distinct (map (rate_key \<circ> stored_rate (stored_form_of D C)) rates)"
        by (simp add: comp_def)
      moreover have "db_ok D C d'"
        using 1(1) rows set_upsert [of "map (col_rate_row C) ms" "db_rates d"]
        unfolding d' db_ok_def by (auto simp: distinct_upsert)
      ultimately show ?case
        using valid rows by (auto simp: lift_forms spec_UpsertRates_def d' book_of_updates fold_upsert_of)
    next
      case (2 d e d')
      then show ?case by (auto simp: sql_specs spec_UpsertRates_def)
    qed (auto simp: sql_specs)
  qed
qed (auto simp: spec_UpsertRates_def)

text \<open>Transactions.\<close>

lemma store_begin:
  assumes "store_ok D C view snap okE s" "snap s = None"
    and "on_error (sql_begin E) (\<lambda>e. throw (sql_cause e)) ret s = (r, t)"
  shows "store_ok D C view snap okE t \<and> view t = view s \<and>
    (case r of Ok _ \<Rightarrow> snap t = Some (view s) | Err e \<Rightarrow> snap t = None \<and> infra e | Panic p \<Rightarrow> False)"
proof -
  obtain r1 s1 where m: "sql_begin E s = (r1, s1)" by fastforce
  from begin_tx [OF _ assms(2) m] assms(1,3) m show ?thesis
    by (cases r1) (auto simp: on_error_def store_ok_def throw_def ret_def)
qed

lemma store_commit:
  assumes "store_ok D C view snap okE s" "snap s = Some d0"
    and "on_error (sql_commit E) (\<lambda>e. throw (sql_cause e)) ret s = (r, t)"
  shows "store_ok D C view snap okE t \<and> snap t = None \<and>
    (case r of Ok _ \<Rightarrow> view t = view s | Err e \<Rightarrow> view t = d0 \<and> infra e | Panic p \<Rightarrow> False)"
proof -
  obtain r1 s1 where m: "sql_commit E s = (r1, s1)" by fastforce
  from commit_tx [OF _ assms(2) m] assms(1,2,3) m show ?thesis
    by (cases r1) (auto simp: on_error_def store_ok_def throw_def ret_def)
qed

lemma store_rollback:
  assumes "store_ok D C view snap okE s" "snap s = Some d0"
  shows "store_ok D C view snap okE (sql_rollback E s) \<and> snap (sql_rollback E s) = None \<and>
    view (sql_rollback E s) = d0"
  using rollback_tx [OF _ assms(2)] assms by (auto simp: store_ok_def)

lemma store_book_facts:
  assumes "store_ok D C view snap okE s"
  shows "book_ok (book_of D (view s))"
    and "(\<forall>q \<in> set (bk_quotes (book_of D (view s))). quote_currencies q) \<and>
      (\<forall>c \<in> set (bk_convs (book_of D (view s))). conversion_currencies c)"
    and "(\<forall>q \<in> set (bk_quotes (book_of D (view s))). col_char C 26 (q_ID q) = q_ID q) \<and>
      (\<forall>c \<in> set (bk_convs (book_of D (view s))). col_char C 26 (c_ID c) = c_ID c \<and>
         col_char C 26 (c_QuoteID c) = c_QuoteID c) \<and>
      (\<forall>e \<in> set (bk_outbox (book_of D (view s))). col_char C 26 (e_ID e) = e_ID e)"
proof -
  from assms have db: "db_ok D C (view s)" by (simp add: store_ok_def)
  then show "book_ok (book_of D (view s))" by (rule book_of_ok)
  from db show "(\<forall>q \<in> set (bk_quotes (book_of D (view s))). quote_currencies q) \<and>
      (\<forall>c \<in> set (bk_convs (book_of D (view s))). conversion_currencies c)"
    by (auto simp: db_ok_def quote_row_ok_def conversion_row_ok_def quote_currencies_def
        conversion_currencies_def quote_of_def conversion_of_def)
  from db show "(\<forall>q \<in> set (bk_quotes (book_of D (view s))). col_char C 26 (q_ID q) = q_ID q) \<and>
      (\<forall>c \<in> set (bk_convs (book_of D (view s))). col_char C 26 (c_ID c) = c_ID c \<and>
         col_char C 26 (c_QuoteID c) = c_QuoteID c) \<and>
      (\<forall>e \<in> set (bk_outbox (book_of D (view s))). col_char C 26 (e_ID e) = e_ID e)"
    by (auto simp: db_ok_def quote_row_ok_def conversion_row_ok_def)
qed

lemma stored_rate_stable:
  "sf_rate (stored_form_of D C) (sf_rate (stored_form_of D C) d) = sf_rate (stored_form_of D C) d"
  using numeric_readable [of d] numeric_stable [of d]
  by (auto simp: stored_form_of_def read_decimal_def)

end

sublocale store_over_sql \<subseteq> ports: fx_ports D "stored_form_of D C" "echo_quote_of D" "echo_conversion_of D"
  "store_unit_of_work D wallClock \<lparr>st_db = E, st_logger = L\<rparr>"
  "\<lambda>s. book_of D (view s)" "\<lambda>s. map_option (book_of D) (snap s)" "store_ok D C view snap okE"
proof (unfold_locales, goal_cases)
  case (1 rates) then show ?case by (simp add: store_wiring refines_UpsertRates)
next
  case (2 base quotes) then show ?case by (simp add: store_wiring refines_ListLatestRates)
next
  case (3 qid) show ?case by (simp add: store_wiring refines_GetQuoteByID)
next
  case (4 key) show ?case by (simp add: store_wiring refines_GetQuoteByIdempotencyKey)
next
  case (5 q) then show ?case by (simp add: store_wiring refines_CreateQuote)
next
  case (6 qid t) show ?case by (simp add: store_wiring refines_MarkQuoteAccepted)
next
  case (7 cid) show ?case by (simp add: store_wiring refines_GetConversionByID)
next
  case (8 key) show ?case by (simp add: store_wiring refines_GetConversionByIdempotencyKey)
next
  case (9 c) then show ?case by (simp add: store_wiring refines_CreateConversion)
next
  case (10 c) then show ?case by (simp add: store_wiring refines_UpdateConversion)
next
  case (11 m) show ?case by (simp add: store_wiring refines_StoreIfAbsent)
next
  case (12 e) show ?case by (simp add: store_wiring refines_Enqueue)
next
  case (13 limit) show ?case by (simp add: store_wiring refines_ListPending)
next
  case (14 eid t) show ?case by (simp add: store_wiring refines_MarkPublished)
next
  case (15 eid msg) show ?case by (simp add: store_wiring refines_MarkPublishFailed)
next
  case (16 s r s')
  then show ?case using store_begin [of s r s'] by (auto simp: store_wiring split: result.splits)
next
  case (17 s b r s')
  then obtain d0 where "snap s = Some d0" "b = book_of D d0" by auto
  with 17 store_commit [of s d0 r s'] show ?case by (auto simp: store_wiring split: result.splits)
next
  case (18 s b)
  then obtain d0 where "snap s = Some d0" "b = book_of D d0" by auto
  with 18 store_rollback [of s d0] show ?case by (auto simp: store_wiring)
next
  case (19 s) then show ?case by (rule store_book_facts)
next
  case (20 s) then show ?case by (rule store_book_facts)
next
  case (21 s) then show ?case unfolding sf_id_of by (rule store_book_facts)
next
  case (22 i) show ?case by (simp add: sf_id_of col_char_idem)
next
  case (23 v n) then show ?case by (simp add: stored_form_of_def col_varchar_short)
next
  case (24 t) show ?case by (simp add: stored_form_of_def col_time_idem)
next
  case (25 d) show ?case by (rule stored_rate_stable)
qed

end
