(* ===== verification/Calendar.thy ===== *)
theory Calendar
  imports Shared
begin

text \<open>
  Instants as text. A time is a number of nanoseconds since 1 January 1970 UTC; its text is that
  of the layout \<open>time.RFC3339Nano\<close> of the standard library, which the cursors of
  \<open>internal/keyset\<close> hold, and dates alone are read by the rate client. The calendar is the
  proleptic Gregorian one.
\<close>

section \<open>Days\<close>

definition leap_year :: "int \<Rightarrow> bool" where
  "leap_year y \<longleftrightarrow> y mod 4 = 0 \<and> (y mod 100 \<noteq> 0 \<or> y mod 400 = 0)"

definition days_in :: "int \<Rightarrow> int \<Rightarrow> int" where
  "days_in m y =
     (if m = 2 then (if leap_year y then 29 else 28) else if m \<in> {4, 6, 9, 11} then 30 else 31)"

text \<open>Days since 1 January 1970 of a date.\<close>

definition day_number :: "int \<Rightarrow> int \<Rightarrow> int \<Rightarrow> int" where
  "day_number y m d =
     (let z = y - 1;
          before = 365 * z + z div 4 - z div 100 + z div 400;
          months = sum_list (map (\<lambda>k. days_in k y) [1..m - 1])
      in before + months + d - 1 - 719162)"

text \<open>
  The year of a day, and the day's place in it: whole cycles of 400, 100 and 4 years are cut off;
  the last of a cycle's parts is a day longer.
\<close>

definition year_day :: "int \<Rightarrow> int \<times> int" where
  "year_day n =
     (let d = n + 719162;
          n400 = d div 146097; d = d mod 146097;
          n100 = min 3 (d div 36524); d = d - 36524 * n100;
          n4 = d div 1461; d = d mod 1461;
          n1 = min 3 (d div 365); d = d - 365 * n1
      in (400 * n400 + 100 * n100 + 4 * n4 + n1 + 1, d))"

fun month_day :: "int list \<Rightarrow> int \<Rightarrow> int \<Rightarrow> int \<times> int" where
  "month_day [] y d = (12, d + 1)"
| "month_day (m # ms) y d = (if d < days_in m y then (m, d + 1) else month_day ms y (d - days_in m y))"

definition civil :: "int \<Rightarrow> int \<times> int \<times> int" where
  "civil n = (case year_day n of (y, d) \<Rightarrow> (case month_day [1..12] y d of (m, day) \<Rightarrow> (y, m, day)))"

definition days_before :: "int \<Rightarrow> int" where
  "days_before y = 365 * (y - 1) + (y - 1) div 4 - (y - 1) div 100 + (y - 1) div 400 - 719162"

lemma days_before_cycles:
  assumes "0 \<le> n100" "n100 \<le> 3" "0 \<le> n4" "n4 \<le> 24" "0 \<le> n1" "n1 \<le> 3"
  shows "days_before (400 * n400 + 100 * n100 + 4 * n4 + n1 + 1) =
    146097 * n400 + 36524 * n100 + 1461 * n4 + 365 * n1 - 719162"
proof -
  let ?z = "400 * n400 + 100 * n100 + 4 * n4 + n1"
  have four: "?z div 4 = 100 * n400 + 25 * n100 + n4"
    by (rule int_div_pos_eq [where r = n1]) (use assms in simp_all)
  have hundred: "?z div 100 = 4 * n400 + n100"
    by (rule int_div_pos_eq [where r = "4 * n4 + n1"]) (use assms in simp_all)
  have fourhundred: "?z div 400 = n400"
    by (rule int_div_pos_eq [where r = "100 * n100 + 4 * n4 + n1"]) (use assms in simp_all)
  show ?thesis
    unfolding days_before_def add_diff_cancel_right' four hundred fourhundred by simp
qed

lemma year_day:
  assumes "year_day n = (y, d)"
  shows "n = days_before y + d" "0 \<le> d" "d < (if leap_year y then 366 else 365)"
proof -
  define e where "e = n + 719162"
  define n400 where "n400 = e div 146097"
  define r400 where "r400 = e mod 146097"
  define n100 where "n100 = min 3 (r400 div 36524)"
  define r100 where "r100 = r400 - 36524 * n100"
  define n4 where "n4 = r100 div 1461"
  define r4 where "r4 = r100 mod 1461"
  define n1 where "n1 = min 3 (r4 div 365)"
  have y: "y = 400 * n400 + 100 * n100 + 4 * n4 + n1 + 1" and d: "d = r4 - 365 * n1"
    using assms
    by (simp_all only: year_day_def Let_def e_def n400_def r400_def n100_def r100_def n4_def r4_def n1_def
        prod.inject)
  have e: "e = 146097 * n400 + r400" "0 \<le> r400" "r400 < 146097"
    by (simp_all add: n400_def r400_def)
  have h: "0 \<le> n100" "n100 \<le> 3" "0 \<le> r100" "r100 < 36525" "r100 = 36524 \<longrightarrow> n100 = 3"
    using e(2,3) unfolding n100_def r100_def by linarith+
  have f: "r100 = 1461 * n4 + r4" "0 \<le> r4" "r4 < 1461" "0 \<le> n4" "n4 \<le> 24"
    using h(3,4) unfolding n4_def r4_def by (simp, simp, simp, linarith, linarith)
  have o: "0 \<le> n1" "n1 \<le> 3" "0 \<le> d" "d \<le> 365" "d = 365 \<longrightarrow> n1 = 3 \<and> r4 = 1460"
    using f(2,3) unfolding d n1_def by linarith+
  show "n = days_before y + d"
    unfolding y days_before_cycles [OF h(1,2) f(4,5) o(1,2)]
    using e(1) f(1) by (simp add: d r100_def e_def)
  show "0 \<le> d" by (rule o(3))
  show "d < (if leap_year y then 366 else 365)"
  proof (cases "d = 365")
    case True
    with o(5) have n1: "n1 = 3" "r4 = 1460" by simp_all
    then have "n4 = 24 \<longrightarrow> n100 = 3" using f(1) h(5) by linarith
    moreover have "y = 4 * (100 * n400 + 25 * n100 + n4 + 1)" unfolding y n1 by simp
    then have "y mod 4 = 0" by simp
    moreover have "y mod 100 \<noteq> 0" if "n4 \<noteq> 24"
    proof -
      have "y mod 100 = 4 * n4 + 4"
        by (rule int_mod_pos_eq [where q = "4 * n400 + n100"]) (use that f(4,5) in \<open>simp_all add: y n1\<close>)
      with f(4) show ?thesis by simp
    qed
    moreover have "y mod 400 = 0" if "n4 = 24" "n100 = 3"
    proof -
      have "y = 400 * (n400 + 1)" unfolding y n1 that by simp
      then show ?thesis by simp
    qed
    ultimately have "leap_year y" unfolding leap_year_def by metis
    then show ?thesis using o(4) by simp
  next
    case False
    with o(4) show ?thesis by simp
  qed
qed

lemma month_day:
  "month_day [i..j] y d = (m, day) \<Longrightarrow> 0 \<le> d \<Longrightarrow> d < sum_list (map (\<lambda>k. days_in k y) [i..j]) \<Longrightarrow>
    i \<le> m \<and> m \<le> j \<and> 1 \<le> day \<and> day \<le> days_in m y \<and>
    d = sum_list (map (\<lambda>k. days_in k y) [i..m - 1]) + day - 1"
proof (induction i j arbitrary: d rule: upto.induct)
  case (1 i j)
  from "1.prems"(2,3) have ij: "i \<le> j" by (cases "i \<le> j") simp_all
  show ?case
  proof (cases "d < days_in i y")
    case True
    with "1.prems" ij show ?thesis by (auto simp: upto_rec1)
  next
    case False
    with "1.prems" ij have "month_day [i + 1..j] y (d - days_in i y) = (m, day)"
      "0 \<le> d - days_in i y" "d - days_in i y < sum_list (map (\<lambda>k. days_in k y) [i + 1..j])"
      by (simp_all add: upto_rec1)
    from "1.IH" [OF ij this] show ?thesis by (simp add: upto_rec1 [of i "m - 1"])
  qed
qed

lemma months_of_year: "sum_list (map (\<lambda>k. days_in k y) [1..12]) = (if leap_year y then 366 else 365)"
  by (simp add: upto_rec1 days_in_def)

lemma day_number_days_before:
  "day_number y m d = days_before y + sum_list (map (\<lambda>k. days_in k y) [1..m - 1]) + d - 1"
  by (simp add: day_number_def days_before_def Let_def)

text \<open>Every day has a date, and it is the day of its date.\<close>

lemma civil:
  assumes "civil n = (y, m, d)"
  shows "1 \<le> m" "m \<le> 12" "1 \<le> d" "d \<le> days_in m y" "day_number y m d = n"
proof -
  obtain yd where y: "year_day n = (y, yd)" and m: "month_day [1..12] y yd = (m, d)"
    using assms by (auto simp: civil_def split: prod.splits)
  note yd = year_day [OF y]
  from month_day [OF m yd(2)] yd(3) months_of_year [of y]
  have "1 \<le> m \<and> m \<le> 12 \<and> 1 \<le> d \<and> d \<le> days_in m y \<and>
      yd = sum_list (map (\<lambda>k. days_in k y) [1..m - 1]) + d - 1"
    by simp
  then show "1 \<le> m" "m \<le> 12" "1 \<le> d" "d \<le> days_in m y" "day_number y m d = n"
    using yd(1) by (simp_all add: day_number_days_before)
qed

lemma days_in_bound: "days_in m y \<le> 31"
  by (simp add: days_in_def)

section \<open>RFC 3339 text (time.RFC3339Nano)\<close>

definition pad :: "nat \<Rightarrow> nat \<Rightarrow> string" where
  "pad w n = (if n < 10 ^ w then show_padded w n else show_nat n)"

definition year_text :: "int \<Rightarrow> string" where
  "year_text y = (if y < 0 then CHR ''-'' # pad 4 (nat (- y)) else pad 4 (nat y))"

text \<open>Nanoseconds without their trailing zeros, left out when there are none.\<close>

definition fraction_text :: "nat \<Rightarrow> string" where
  "fraction_text ns =
     (if ns = 0 then []
      else CHR ''.'' # rev (dropWhile (\<lambda>c. c = CHR ''0'') (rev (show_padded 9 ns))))"

definition nanos_per_second :: nat where "nanos_per_second = 1000000000"
definition nanos_per_day :: int where "nanos_per_day = 86400000000000"

definition FormatRFC3339Nano :: "time \<Rightarrow> string" where
  "FormatRFC3339Nano t =
     (case civil (t div nanos_per_day) of
        (y, m, d) \<Rightarrow>
          (let ns = nat (t mod nanos_per_day); s = ns div nanos_per_second
           in year_text y @ ''-'' @ pad 2 (nat m) @ ''-'' @ pad 2 (nat d) @ ''T'' @
              pad 2 (s div 3600) @ '':'' @ pad 2 (s div 60 mod 60) @ '':'' @ pad 2 (s mod 60) @
              fraction_text (ns mod nanos_per_second) @ ''Z''))"

text \<open>
  \<open>time.Parse\<close>, element by element. A number has two digits; one digit is enough where the
  layout's element has one form only (the hour).
\<close>

definition is_digit :: "char \<Rightarrow> bool" where
  "is_digit c \<longleftrightarrow> digit_value c \<noteq> None"

fun getnum :: "bool \<Rightarrow> string \<Rightarrow> (nat \<times> string) option" where
  "getnum fixed (c # d # cs) =
     (case digit_value c of
        None \<Rightarrow> None
      | Some x \<Rightarrow>
          (case digit_value d of
             Some y \<Rightarrow> Some (10 * x + y, cs)
           | None \<Rightarrow> if fixed then None else Some (x, d # cs)))"
| "getnum fixed [c] = (if fixed then None else map_option (\<lambda>x. (x, [])) (digit_value c))"
| "getnum fixed [] = None"

fun literal :: "char \<Rightarrow> string \<Rightarrow> string option" where
  "literal c [] = None"
| "literal c (d # ds) = (if d = c then Some ds else None)"

definition parse_year :: "string \<Rightarrow> (nat \<times> string) option" where
  "parse_year s =
     (if length s < 4 then None else map_option (\<lambda>y. (y, drop 4 s)) (read_digits 0 (take 4 s)))"

text \<open>Digits after the ninth are read over.\<close>

fun parse_fraction :: "string \<Rightarrow> nat \<times> string" where
  "parse_fraction (c # d # cs) =
     (if (c = CHR ''.'' \<or> c = CHR '','') \<and> is_digit d
      then (let ds = takeWhile is_digit (d # cs); used = take 9 ds
            in (the (read_digits 0 used) * 10 ^ (9 - length used), drop (length ds) (d # cs)))
      else (0, c # d # cs))"
| "parse_fraction s = (0, s)"

text \<open>The offset from UTC in seconds.\<close>

definition parse_zone :: "string \<Rightarrow> (int \<times> string) option" where
  "parse_zone s =
     (if s \<noteq> [] \<and> hd s = CHR ''Z'' then Some (0, tl s)
      else if length s < 6 \<or> s ! 3 \<noteq> CHR '':'' then None
      else (case (getnum True (take 2 (tl s)), getnum True (take 2 (drop 4 s))) of
          (Some (hr, _), Some (mm, _)) \<Rightarrow>
            if hr > 24 \<or> mm > 60 then None
            else if hd s = CHR ''+'' then Some (int ((hr * 60 + mm) * 60), drop 6 s)
            else if hd s = CHR ''-'' then Some (- int ((hr * 60 + mm) * 60), drop 6 s)
            else None
        | _ \<Rightarrow> None))"

definition in_range :: "nat \<Rightarrow> nat \<Rightarrow> nat \<times> string \<Rightarrow> (nat \<times> string) option" where
  "in_range lo hi p = (if lo \<le> fst p \<and> fst p \<le> hi then Some p else None)"

definition parse_civil :: "string \<Rightarrow> (int \<times> string) option" where
  "parse_civil s =
     Option.bind (parse_year s) (\<lambda>(year, s).
     Option.bind (literal CHR ''-'' s) (\<lambda>s.
     Option.bind (Option.bind (getnum True s) (in_range 1 12)) (\<lambda>(month, s).
     Option.bind (literal CHR ''-'' s) (\<lambda>s.
     Option.bind (getnum True s) (\<lambda>(day, s).
       if 1 \<le> day \<and> int day \<le> days_in (int month) (int year)
       then Some (day_number (int year) (int month) (int day), s) else None)))))"

definition parse_clock :: "string \<Rightarrow> (nat \<times> string) option" where
  "parse_clock s =
     Option.bind (Option.bind (getnum False s) (in_range 0 23)) (\<lambda>(hour, s).
     Option.bind (literal CHR '':'' s) (\<lambda>s.
     Option.bind (Option.bind (getnum True s) (in_range 0 59)) (\<lambda>(minute, s).
     Option.bind (literal CHR '':'' s) (\<lambda>s.
     Option.bind (Option.bind (getnum True s) (in_range 0 59)) (\<lambda>(sec, s).
       (case parse_fraction s of
          (ns, s) \<Rightarrow> Some (((hour * 60 + minute) * 60 + sec) * nanos_per_second + ns, s)))))))"

definition ParseRFC3339Nano :: "string \<Rightarrow> (go_error, time) result" where
  "ParseRFC3339Nano value =
     (case Option.bind (parse_civil value) (\<lambda>(day, s).
           Option.bind (literal CHR ''T'' s) (\<lambda>s.
           Option.bind (parse_clock s) (\<lambda>(ns, s).
           Option.bind (parse_zone s) (\<lambda>(zone, s).
             if s = [] then Some (day * nanos_per_day + int ns - zone * int nanos_per_second) else None)))) of
        Some t \<Rightarrow> Ok t
      | None \<Rightarrow> Err (PlainError (''parsing time '' @ value)))"

subsection \<open>Reading back what was written\<close>

lemma pad_padded: "n < 10 ^ w \<Longrightarrow> pad w n = show_padded w n"
  by (simp add: pad_def)

lemma getnum_pad: "n < 100 \<Longrightarrow> getnum fixed (pad 2 n @ s) = Some (n, s)"
  by (simp add: pad_padded numeral_2_eq_2)

lemma parse_year_text: "0 \<le> y \<Longrightarrow> y < 10000 \<Longrightarrow> parse_year (year_text y @ s) = Some (nat y, s)"
  by (simp add: parse_year_def year_text_def pad_padded read_show_padded)

lemma show_padded_is_digits: "c \<in> set (show_padded k n) \<Longrightarrow> is_digit c"
  by (induction k arbitrary: n) (auto simp: is_digit_def)

lemma read_digits_zeros: "read_digits a (replicate k CHR ''0'') = Some (a * 10 ^ k)"
  by (induction k arbitrary: a) (simp_all add: digit_value_def upt_rec)

lemma stripped_zeros:
  fixes ds :: string
  assumes "ds = rev (dropWhile (\<lambda>c. c = CHR ''0'') (rev s))"
  shows "s = ds @ replicate (length s - length ds) CHR ''0''"
proof -
  define zs where "zs = takeWhile (\<lambda>c. c = CHR ''0'') (rev s)"
  have zs: "zs = replicate (length zs) CHR ''0''"
    by (rule replicate_eqI) (auto simp: zs_def dest: set_takeWhileD)
  have "s = rev (zs @ dropWhile (\<lambda>c. c = CHR ''0'') (rev s))"
    by (simp add: zs_def)
  then have s: "s = ds @ rev zs" by (simp add: assms)
  then have "length zs = length s - length ds" by simp
  with s zs show ?thesis by (metis rev_replicate)
qed

lemma parse_fraction_text:
  assumes "ns < nanos_per_second" "s = [] \<or> \<not> is_digit (hd s)" "s = [] \<or> hd s \<notin> {CHR ''.'', CHR '',''}"
  shows "parse_fraction (fraction_text ns @ s) = (ns, s)"
proof (cases "ns = 0")
  case True
  with assms(3) show ?thesis
    by (cases s rule: parse_fraction.cases) (auto simp: fraction_text_def)
next
  case False
  define ds where "ds = rev (dropWhile (\<lambda>c. c = CHR ''0'') (rev (show_padded 9 ns)))"
  have full: "show_padded 9 ns = ds @ replicate (9 - length ds) CHR ''0''"
    using stripped_zeros [OF ds_def] by simp
  have digits: "\<forall>c \<in> set ds. is_digit c"
    using full show_padded_is_digits [of _ 9 ns] by auto
  have len: "length ds \<le> 9"
    using arg_cong [OF full, of length] by simp
  have "read_digits 0 (ds @ replicate (9 - length ds) CHR ''0'') = Some ns"
    using assms(1) read_show_padded [of ns 9 0] full by (simp add: nanos_per_second_def)
  then obtain r where r: "read_digits 0 ds = Some r" "r * 10 ^ (9 - length ds) = ns"
    by (auto simp: read_digits_append read_digits_zeros split: option.splits)
  with False obtain c cs where c: "ds = c # cs" by (cases ds) auto
  have "takeWhile is_digit (ds @ s) = ds"
    using digits assms(2) by (cases s) (auto simp: takeWhile_append)
  then show ?thesis
    using False r len digits c by (cases cs) (auto simp: fraction_text_def ds_def [symmetric] Let_def)
qed

lemma parse_civil_text:
  assumes "civil n = (y, m, d)" "0 \<le> y" "y < 10000"
  shows "parse_civil (year_text y @ ''-'' @ pad 2 (nat m) @ ''-'' @ pad 2 (nat d) @ s) = Some (n, s)"
proof -
  note c = civil [OF assms(1)]
  have "nat m < 100" "nat d < 100" "1 \<le> nat m" "nat m \<le> 12" "1 \<le> nat d"
    using c(1-4) days_in_bound [of m y] by linarith+
  then show ?thesis
    using c assms(2,3) by (simp add: parse_civil_def parse_year_text getnum_pad in_range_def)
qed

lemma clock_parts: "(k div 3600 * 60 + k div 60 mod 60) * 60 + k mod 60 = (k :: nat)"
proof -
  have "k div 3600 = k div 60 div 60" by (simp add: div_mult2_eq [symmetric])
  then have "k div 3600 * 60 + k div 60 mod 60 = k div 60" by simp
  then show ?thesis by simp
qed

lemma parse_clock_text:
  assumes "n < 86400 * nanos_per_second" "s = [] \<or> \<not> is_digit (hd s)" "s = [] \<or> hd s \<notin> {CHR ''.'', CHR '',''}"
  shows "parse_clock (pad 2 (n div nanos_per_second div 3600) @ '':'' @
      pad 2 (n div nanos_per_second div 60 mod 60) @ '':'' @ pad 2 (n div nanos_per_second mod 60) @
      fraction_text (n mod nanos_per_second) @ s) = Some (n, s)"
proof -
  let ?s = "n div nanos_per_second"
  have "?s < 86400" using assms(1) by (simp add: less_mult_imp_div_less)
  then have hour: "?s div 3600 \<le> 23" by linarith
  have "(?s div 3600 * 60 + ?s div 60 mod 60) * 60 + ?s mod 60 = ?s" by (rule clock_parts)
  moreover have "?s mod 60 \<le> 59" "?s div 60 mod 60 \<le> 59" by simp_all
  moreover have "n mod nanos_per_second < nanos_per_second" by (simp add: nanos_per_second_def)
  ultimately show ?thesis
    using hour parse_fraction_text [OF _ assms(2,3), of "n mod nanos_per_second"]
    by (simp add: parse_clock_def getnum_pad in_range_def)
qed

definition text_year :: "time \<Rightarrow> int" where
  "text_year t = fst (civil (t div nanos_per_day))"

lemma rfc3339_again:
  assumes "0 \<le> text_year t" "text_year t < 10000"
  shows "ParseRFC3339Nano (FormatRFC3339Nano t) = Ok t"
proof -
  obtain y m d where c: "civil (t div nanos_per_day) = (y, m, d)" by (cases "civil (t div nanos_per_day)")
  with assms have y: "0 \<le> y" "y < 10000" by (simp_all add: text_year_def)
  let ?n = "nat (t mod nanos_per_day)"
  have n: "int ?n = t mod nanos_per_day" by (simp add: nanos_per_day_def)
  then have bound: "?n < 86400 * nanos_per_second" by (simp add: nanos_per_day_def nanos_per_second_def)
  have z: "''Z'' = [] \<or> \<not> is_digit (hd ''Z'')" "''Z'' = [] \<or> hd ''Z'' \<notin> {CHR ''.'', CHR '',''}"
    by (simp_all add: is_digit_def digit_value_def upt_rec)
  have "parse_zone ''Z'' = Some (0, [])" by (simp add: parse_zone_def)
  with parse_clock_text [OF bound z] parse_civil_text [OF c y] n
  show ?thesis
    by (simp add: FormatRFC3339Nano_def c ParseRFC3339Nano_def Let_def)
qed

lemma digits_ascii: "is_digit c \<Longrightarrow> (of_char c :: nat) < 128"
  by (auto simp: is_digit_def digit_value_def upt_rec split: if_splits)

lemma pad_ascii: "c \<in> set (pad w n) \<Longrightarrow> (of_char c :: nat) < 128"
  using set_show_nat [of n] show_padded_is_digits digits_ascii
  by (auto simp: pad_def split: if_splits)

lemma rfc3339_ascii: "c \<in> set (FormatRFC3339Nano t) \<Longrightarrow> (of_char c :: nat) < 128"
  using pad_ascii show_padded_is_digits [THEN digits_ascii]
  by (auto simp: FormatRFC3339Nano_def Let_def year_text_def fraction_text_def dest!: set_dropWhileD
      split: prod.splits if_splits)

end
