(* ===== verification/Outbound.thy ===== *)
theory Outbound
  imports Store_Contract Calendar
begin

text \<open>
  The outbound adapters other than the store: the Prometheus and tracing telemetry
  (\<open>internal/adapter/outbound/observability/telemetry.go\<close>), the client of the reference-rate
  service (\<open>frankfurter/client.go\<close>), the webhook signature check (\<open>webhooksigning/hmac.go\<close>)
  and the logging publisher (\<open>publisher/logging.go\<close>).
\<close>

section \<open>Telemetry (telemetry.go)\<close>

text \<open>
  A span records errors until it is ended; ending it again changes nothing. A counter vector
  is a count per list of label values, the histogram the durations observed per list.
\<close>

record span =
  sp_name :: string
  sp_errors :: "go_error list"
  sp_ended :: bool

record telemetry_state =
  tl_spans :: "span list"
  tl_inboundRequestCount :: "string list \<Rightarrow> nat"
  tl_inboundRequestDuration :: "string list \<Rightarrow> duration list"
  tl_webhookDuplicateCount :: "string list \<Rightarrow> nat"
  tl_webhookAcceptedCount :: "string list \<Rightarrow> nat"
  tl_outboxPublishedCount :: "string list \<Rightarrow> nat"
  tl_outboxPublishFailCount :: "string list \<Rightarrow> nat"

definition increment :: "string list \<Rightarrow> (string list \<Rightarrow> nat) \<Rightarrow> string list \<Rightarrow> nat" where
  "increment labels counter = counter(labels := counter labels + 1)"

definition observe :: "string list \<Rightarrow> duration \<Rightarrow> (string list \<Rightarrow> duration list) \<Rightarrow> string list \<Rightarrow> duration list" where
  "observe labels d hist = hist(labels := hist labels @ [d])"

definition end_span :: "go_error option \<Rightarrow> span \<Rightarrow> span" where
  "end_span err sp =
     (if sp_ended sp then sp
      else (case err of Some e \<Rightarrow> sp\<lparr>sp_errors := sp_errors sp @ [e], sp_ended := True\<rparr>
            | None \<Rightarrow> sp\<lparr>sp_ended := True\<rparr>))"

definition StartSpan :: "string \<Rightarrow> 'a telemetry_state_scheme \<Rightarrow> nat \<times> 'a telemetry_state_scheme" where
  "StartSpan name s =
     (length (tl_spans s),
      s\<lparr>tl_spans := tl_spans s @ [\<lparr>sp_name = name, sp_errors = [], sp_ended = False\<rparr>]\<rparr>)"

text \<open>The function \<open>StartSpan\<close> returns: \<open>RecordError\<close> for an error, then \<open>End\<close>.\<close>

definition FinishSpan :: "nat \<Rightarrow> go_error option \<Rightarrow> 'a telemetry_state_scheme \<Rightarrow> 'a telemetry_state_scheme" where
  "FinishSpan n err s =
     (if n < length (tl_spans s)
      then s\<lparr>tl_spans := (tl_spans s)[n := end_span err (tl_spans s ! n)]\<rparr> else s)"

definition RecordInboundRequest ::
  "string \<Rightarrow> string \<Rightarrow> string \<Rightarrow> duration \<Rightarrow> 'a telemetry_state_scheme \<Rightarrow> 'a telemetry_state_scheme" where
  "RecordInboundRequest transport operation outcome d s =
     s\<lparr>tl_inboundRequestCount := increment [transport, operation, outcome] (tl_inboundRequestCount s),
       tl_inboundRequestDuration := observe [transport, operation, outcome] d (tl_inboundRequestDuration s)\<rparr>"

definition RecordWebhookDuplicate :: "string \<Rightarrow> 'a telemetry_state_scheme \<Rightarrow> 'a telemetry_state_scheme" where
  "RecordWebhookDuplicate provider s =
     s\<lparr>tl_webhookDuplicateCount := increment [provider] (tl_webhookDuplicateCount s)\<rparr>"

definition RecordWebhookAccepted :: "string \<Rightarrow> 'a telemetry_state_scheme \<Rightarrow> 'a telemetry_state_scheme" where
  "RecordWebhookAccepted provider s =
     s\<lparr>tl_webhookAcceptedCount := increment [provider] (tl_webhookAcceptedCount s)\<rparr>"

definition RecordOutboxPublished :: "string \<Rightarrow> 'a telemetry_state_scheme \<Rightarrow> 'a telemetry_state_scheme" where
  "RecordOutboxPublished eventType s =
     s\<lparr>tl_outboxPublishedCount := increment [eventType] (tl_outboxPublishedCount s)\<rparr>"

definition RecordOutboxPublishFailure :: "string \<Rightarrow> 'a telemetry_state_scheme \<Rightarrow> 'a telemetry_state_scheme" where
  "RecordOutboxPublishFailure eventType s =
     s\<lparr>tl_outboxPublishFailCount := increment [eventType] (tl_outboxPublishFailCount s)\<rparr>"

definition prometheus_telemetry :: "'a telemetry_state_scheme telemetry" where
  "prometheus_telemetry =
     \<lparr>tm_StartSpan = StartSpan, tm_Finish = FinishSpan,
      tm_RecordInboundRequest = RecordInboundRequest,
      tm_RecordWebhookDuplicate = RecordWebhookDuplicate,
      tm_RecordWebhookAccepted = RecordWebhookAccepted,
      tm_RecordOutboxPublished = RecordOutboxPublished,
      tm_RecordOutboxPublishFailure = RecordOutboxPublishFailure\<rparr>"

text \<open>\<open>registerCollectors\<close>: in order, up to the first one the registry refuses.\<close>

fun registerCollectors :: "('c \<Rightarrow> ('s, unit) io) \<Rightarrow> 'c list \<Rightarrow> ('s, unit) io" where
  "registerCollectors register [] = ret ()"
| "registerCollectors register (c # cs) = bind (register c) (\<lambda>_. registerCollectors register cs)"

definition telemetry_collectors :: "string list" where
  "telemetry_collectors =
     [''fx_inbound_requests_total'', ''fx_inbound_request_duration_seconds'',
      ''fx_webhook_duplicate_total'', ''fx_webhook_accepted_total'',
      ''fx_outbox_published_total'', ''fx_outbox_publish_failed_total'']"

definition newTelemetry :: "(string \<Rightarrow> ('s, unit) io) \<Rightarrow> ('s, unit) io" where
  "newTelemetry register = registerCollectors register telemetry_collectors"

definition NewPrometheusStack :: "(string \<Rightarrow> ('s, unit) io) \<Rightarrow> ('s, unit) io" where
  "NewPrometheusStack register =
     bind (registerCollectors register [''go_collector'', ''process_collector'']) (\<lambda>_.
       newTelemetry register)"

text \<open>
  The span of a use case: it is ended when the call returns, with the error the call returned
  and no other, because the deferred second \<open>finish\<close> finds it ended.
\<close>

lemma with_span_records:
  assumes body: "\<And>s1. length (tl_spans s) < length (tl_spans s1) \<Longrightarrow>
      tl_spans s1 ! length (tl_spans s) = \<lparr>sp_name = name, sp_errors = [], sp_ended = False\<rparr> \<Longrightarrow>
      length (tl_spans s) < length (tl_spans (snd (body s1))) \<and>
      tl_spans (snd (body s1)) ! length (tl_spans s) = tl_spans s1 ! length (tl_spans s)"
    and run: "with_span prometheus_telemetry name body s = (r, t)"
  shows "length (tl_spans s) < length (tl_spans t) \<and>
    tl_spans t ! length (tl_spans s) =
      \<lparr>sp_name = name, sp_errors = (case r of Err e \<Rightarrow> [e] | _ \<Rightarrow> []), sp_ended = True\<rparr>"
proof -
  let ?n = "length (tl_spans s)"
  obtain s1 where start: "StartSpan name s = (?n, s1)" and s1: "?n < length (tl_spans s1)"
    "tl_spans s1 ! ?n = \<lparr>sp_name = name, sp_errors = [], sp_ended = False\<rparr>"
    by (simp add: StartSpan_def)
  obtain r2 s2 where run2: "body s1 = (r2, s2)" by fastforce
  from body [OF s1] run2 s1 have s2: "?n < length (tl_spans s2)"
    "tl_spans s2 ! ?n = \<lparr>sp_name = name, sp_errors = [], sp_ended = False\<rparr>"
    by simp_all
  show ?thesis
    using run start run2 s2
    by (cases r2) (auto simp: with_span_def prometheus_telemetry_def FinishSpan_def end_span_def)
qed

section \<open>The reference-rate client (client.go)\<close>

record 'd ratesResponseItem =
  ri_Date :: string
  ri_Base :: string
  ri_Quote :: string
  ri_Rate :: 'd

record http_response =
  hr_StatusCode :: int
  hr_Body :: string

text \<open>
  What the client uses of the libraries: the parsed form of a URL (what precedes the query and
  the query's values), the HTTP exchange, and the decoding of the two JSON bodies.
\<close>

record ('s, 'd) http_library =
  hl_ParseURL :: "string \<Rightarrow> (go_error, string \<times> (string \<times> string) list) result"
  hl_NewRequest :: "string \<Rightarrow> (go_error, string) result"
  hl_Do :: "string \<Rightarrow> ('s, http_response) io"
  hl_DecodeRates :: "string \<Rightarrow> (go_error, 'd ratesResponseItem list) result"
  hl_DecodeMessage :: "string \<Rightarrow> string"

record ('s, 'd) frankfurter_client =
  fc_baseURL :: string
  fc_providerFilter :: string
  fc_http :: "('s, 'd) http_library"

definition TrimRight_slash :: "string \<Rightarrow> string" where
  "TrimRight_slash s = rev (dropWhile (\<lambda>c. c = CHR ''/'') (rev s))"

definition NewClient :: "string \<Rightarrow> string \<Rightarrow> ('s, 'd) http_library \<Rightarrow> ('s, 'd) frankfurter_client" where
  "NewClient baseURL providerFilter http =
     \<lparr>fc_baseURL = TrimRight_slash baseURL, fc_providerFilter = TrimSpace providerFilter, fc_http = http\<rparr>"

text \<open>\<open>url.QueryEscape\<close>: letters, digits and \<open>-_.~\<close> stand for themselves, a blank becomes a plus.\<close>

definition unreserved :: "char \<Rightarrow> bool" where
  "unreserved c \<longleftrightarrow>
     c \<in> set ''ABCDEFGHIJKLMNOPQRSTUVWXYZabcdefghijklmnopqrstuvwxyz0123456789-_.~''"

definition upper_hex :: "nat \<Rightarrow> char" where
  "upper_hex n = ''0123456789ABCDEF'' ! (n mod 16)"

definition QueryEscape :: "string \<Rightarrow> string" where
  "QueryEscape s =
     concat (map (\<lambda>c. if unreserved c then [c] else if c = CHR '' '' then ''+''
                      else [CHR 0x25, upper_hex (of_char c div 16), upper_hex (of_char c)]) s)"

text \<open>\<open>url.Values\<close>: setting a key replaces its values; encoding sorts by key.\<close>

definition set_query :: "string \<Rightarrow> string \<Rightarrow> (string \<times> string) list \<Rightarrow> (string \<times> string) list" where
  "set_query k v q = filter (\<lambda>(k', _). k' \<noteq> k) q @ [(k, v)]"

definition encode_query :: "(string \<times> string) list \<Rightarrow> string" where
  "encode_query q =
     join_with ''&'' (map (\<lambda>(k, v). QueryEscape k @ ''='' @ QueryEscape v) (sort_key fst q))"

definition rates_url ::
  "('s, 'd) frankfurter_client \<Rightarrow> string \<Rightarrow> string list \<Rightarrow> string \<times> (string \<times> string) list \<Rightarrow> string" where
  "rates_url c base quotes parsed =
     (let query = set_query ''base'' base (snd parsed);
          query = set_query ''quotes'' (join_with '','' quotes) query;
          query = (if fc_providerFilter c \<noteq> [] then set_query ''providers'' (fc_providerFilter c) query
                   else query)
      in fst parsed @ ''?'' @ encode_query query)"

text \<open>\<open>time.Parse(time.DateOnly, _)\<close>: four, two and two digits of an existing day.\<close>

definition ParseDateOnly :: "string \<Rightarrow> (go_error, time) result" where
  "ParseDateOnly s =
     (let err = Err (PlainError (''parsing time '' @ s))
      in if length s \<noteq> 10 \<or> s ! 4 \<noteq> CHR ''-'' \<or> s ! 7 \<noteq> CHR ''-'' then err
         else (case (read_digits 0 (take 4 s), read_digits 0 (take 2 (drop 5 s)), read_digits 0 (drop 8 s)) of
             (Some y, Some m, Some d) \<Rightarrow>
               if 1 \<le> m \<and> m \<le> 12 \<and> 1 \<le> d \<and> int d \<le> days_in (int m) (int y)
               then Ok (day_number (int y) (int m) (int d) * 86400 * 1000000000) else err
           | _ \<Rightarrow> err))"

definition rate_item :: "time \<Rightarrow> 'd ratesResponseItem \<Rightarrow> 'd exchange_rate res" where
  "rate_item fetchedAt item =
     (case ParseDateOnly (ri_Date item) of
        Err err \<Rightarrow> Err (WithCause (Internal ''Provider returned an invalid reference rate date''
                     [(''provider'', DStr ProviderFrankfurter), (''value'', DStr (ri_Date item))]) err)
      | Panic p \<Rightarrow> Panic p
      | Ok observedAt \<Rightarrow>
          bind_result (ParseCurrency (ri_Base item)) (\<lambda>baseCurrency.
          bind_result (ParseCurrency (ri_Quote item)) (\<lambda>quoteCurrency.
            Ok \<lparr>rate_Base = baseCurrency, rate_Quote = quoteCurrency,
                rate_Provider = ProviderFrankfurter, rate_Rate = ri_Rate item,
                rate_ObservedAt = observedAt, rate_FetchedAt = fetchedAt\<rparr>)))"

definition unexpected_status :: "('s, 'd) frankfurter_client \<Rightarrow> http_response \<Rightarrow> go_error" where
  "unexpected_status c response =
     (let message = hl_DecodeMessage (fc_http c) (hr_Body response)
      in if hr_StatusCode response \<in> {400, 404, 422}
         then Validation ''Reference rate request was rejected by provider''
                [(''provider'', DStr ProviderFrankfurter), (''message'', DStr message),
                 (''status'', DInt (hr_StatusCode response))]
         else Internal ''Reference rate provider returned an unexpected response''
                [(''provider'', DStr ProviderFrankfurter), (''status'', DInt (hr_StatusCode response)),
                 (''message'', DStr message)])"

definition Client_GetReferenceRates ::
  "('s \<Rightarrow> time \<times> 's) \<Rightarrow> ('s, 'd) frankfurter_client \<Rightarrow> string \<Rightarrow> string list \<Rightarrow> ('s, 'd exchange_rate list) io"
where
  "Client_GetReferenceRates wallClock c base quotes =
     (if length quotes = 0 then ret []
      else (case hl_ParseURL (fc_http c) (fc_baseURL c @ ''/v2/rates'') of
          Err err \<Rightarrow> throw (WrapError (''parse frankfurter base url: '' @ error_text err) err)
        | Panic p \<Rightarrow> lift (Panic p)
        | Ok parsed \<Rightarrow>
            (case hl_NewRequest (fc_http c) (rates_url c base quotes parsed) of
               Err err \<Rightarrow> throw (WrapError (''create frankfurter request: '' @ error_text err) err)
             | Panic p \<Rightarrow> lift (Panic p)
             | Ok request \<Rightarrow>
                 attempt (hl_Do (fc_http c) request)
                   (\<lambda>response.
                     if hr_StatusCode response \<noteq> 200 then throw (unexpected_status c response)
                     else (case hl_DecodeRates (fc_http c) (hr_Body response) of
                         Err err \<Rightarrow> throw (WithCause (Internal ''Failed to decode reference rates''
                                      [(''provider'', DStr ProviderFrankfurter)]) err)
                       | Panic p \<Rightarrow> lift (Panic p)
                       | Ok payload \<Rightarrow>
                           get_with wallClock (\<lambda>fetchedAt. lift (map_until (rate_item fetchedAt) payload))))
                   (\<lambda>err. throw (WithCause (Internal ''Failed to fetch reference rates''
                            [(''provider'', DStr ProviderFrankfurter)]) err)))))"

lemma rate_item_Ok:
  "rate_item t item = Ok r \<Longrightarrow>
     rate_currencies r \<and> rate_Provider r = ProviderFrankfurter \<and> rate_Rate r = ri_Rate item \<and>
     rate_FetchedAt r = t"
  by (auto simp: rate_item_def rate_currencies_def bind_result_Ok ParseCurrency_Ok split: result.splits)

lemma ParseDateOnly_no_panic: "ParseDateOnly s \<noteq> Panic p"
  by (auto simp: ParseDateOnly_def Let_def split: option.splits)

lemma rate_item_no_panic: "rate_item t item \<noteq> Panic p"
proof
  assume "rate_item t item = Panic p"
  then show False
    using ParseDateOnly_no_panic [of "ri_Date item"]
    by (cases "ParseCurrency (ri_Base item)"; cases "ParseCurrency (ri_Quote item)")
      (auto simp: rate_item_def split: result.splits)
qed

lemma map_until_no_panic: "(\<And>x. f x \<noteq> Panic p) \<Longrightarrow> map_until f xs \<noteq> Panic p"
proof (induction xs)
  case (Cons x xs)
  then show ?case by (cases "f x"; cases "map_until f xs") auto
qed simp

text \<open>
  What a fetch preserves and what it can answer, for any \<open>P\<close> that the exchange and the clock
  preserve: the rates of an answer are in supported currencies, and there is no panic.
\<close>

lemma client_run:
  assumes do_http: "\<And>q s r t. P s \<Longrightarrow> hl_Do H q s = (r, t) \<Longrightarrow> P t \<and> \<not> is_panic r"
    and clock: "\<And>s x t. P s \<Longrightarrow> wallClock s = (x, t) \<Longrightarrow> P t"
    and decode: "\<And>b. \<not> is_panic (hl_DecodeRates H b)" "\<And>u. \<not> is_panic (hl_ParseURL H u)"
      "\<And>u. \<not> is_panic (hl_NewRequest H u)"
    and run: "P s" "Client_GetReferenceRates wallClock (NewClient u f H) base quotes s = (r, t)"
  shows "P t \<and> (case r of Ok rates \<Rightarrow> \<forall>x \<in> set rates. rate_currencies x | Err e \<Rightarrow> True | Panic p \<Rightarrow> False)"
proof -
  let ?c = "NewClient u f H"
  have http: "fc_http ?c = H" by (simp add: NewClient_def)
  have items: "case map_until (rate_item now) xs of
      Ok rates \<Rightarrow> \<forall>x \<in> set rates. rate_currencies x | Err e \<Rightarrow> True | Panic p \<Rightarrow> False"
    for now and xs :: "'b ratesResponseItem list"
  proof (cases "map_until (rate_item now) xs")
    case (Ok ys)
    then have all: "list_all2 (\<lambda>x y. rate_item now x = Ok y) xs ys" by (simp add: map_until_Ok_iff)
    have "rate_currencies y" if "y \<in> set ys" for y
    proof -
      from that obtain i where "i < length ys" "y = ys ! i" by (auto simp: in_set_conv_nth)
      with list_all2_nthD2 [OF all] have "rate_item now (xs ! i) = Ok y" by simp
      from rate_item_Ok [OF this] show ?thesis by simp
    qed
    with Ok show ?thesis by simp
  next
    case (Panic p)
    moreover have "map_until (rate_item now) xs \<noteq> Panic p"
      by (rule map_until_no_panic) (rule rate_item_no_panic)
    ultimately show ?thesis by simp
  qed simp
  show ?thesis
  proof (cases "length quotes = 0")
    case True
    with run show ?thesis by (auto simp: Client_GetReferenceRates_def ret_def)
  next
    case False
    note start = run(2) [unfolded Client_GetReferenceRates_def http if_not_P [OF False]]
    consider e where "(r, t) = (Err e, s)"
      | p where "hl_ParseURL H (fc_baseURL ?c @ ''/v2/rates'') = Panic p"
      | p q where "hl_NewRequest H q = Panic p"
      | q where "attempt (hl_Do H q)
          (\<lambda>response.
            if hr_StatusCode response \<noteq> 200 then throw (unexpected_status ?c response)
            else (case hl_DecodeRates H (hr_Body response) of
                Err err \<Rightarrow> throw (WithCause (Internal ''Failed to decode reference rates''
                             [(''provider'', DStr ProviderFrankfurter)]) err)
              | Panic p \<Rightarrow> lift (Panic p)
              | Ok payload \<Rightarrow>
                  get_with wallClock (\<lambda>fetchedAt. lift (map_until (rate_item fetchedAt) payload))))
          (\<lambda>err. throw (WithCause (Internal ''Failed to fetch reference rates''
                   [(''provider'', DStr ProviderFrankfurter)]) err)) s = (r, t)"
      using start by (auto simp: throw_def split: result.splits)
    then show ?thesis
    proof cases
      case (1 e)
      with run(1) show ?thesis by simp
    next
      case (2 p)
      with decode(2) [of "fc_baseURL ?c @ ''/v2/rates''"] show ?thesis by simp
    next
      case (3 p q)
      with decode(3) [of q] show ?thesis by simp
    next
      case (4 q)
      obtain r1 s1 where d: "hl_Do H q s = (r1, s1)" by fastforce
      note d' = do_http [OF run(1) d]
      show ?thesis
      proof (cases r1)
        case (Ok response)
        show ?thesis
        proof (cases "hr_StatusCode response = 200")
          case True
          note ok = 4 [unfolded attempt_def d prod.case Ok result.case True]
          show ?thesis
          proof (cases "hl_DecodeRates H (hr_Body response)")
            case (Ok payload)
            obtain now s2 where clk: "wallClock s1 = (now, s2)" by fastforce
            from clock [OF _ clk] d' have "P s2" by blast
            with ok clk Ok items [of now payload] show ?thesis
              by (auto simp: get_with_def lift_def)
          next
            case (Err e)
            with ok d' show ?thesis by (auto simp: throw_def)
          next
            case (Panic p)
            with decode(1) [of "hr_Body response"] show ?thesis by simp
          qed
        next
          case False
          with 4 d d' Ok show ?thesis by (auto simp: attempt_def throw_def)
        qed
      next
        case (Err e)
        with 4 d d' show ?thesis by (auto simp: attempt_def throw_def)
      next
        case (Panic p)
        with d' show ?thesis by simp
      qed
    qed
  qed
qed

section \<open>Webhook signatures (hmac.go)\<close>

text \<open>\<open>mac key message\<close> is HMAC-SHA256; the hash is a parameter of the model.\<close>

definition EncodeToString :: "string \<Rightarrow> string" where
  "EncodeToString bytes = concat (map (\<lambda>c. [hex_digit (of_char c div 16), hex_digit (of_char c)]) bytes)"

text \<open>\<open>subtle.ConstantTimeCompare\<close>: 1 on equal slices, 0 on others, in time that depends on the lengths only.\<close>

fun xor_bytes :: "string \<Rightarrow> string \<Rightarrow> bool" where
  "xor_bytes [] [] = False"
| "xor_bytes (c # cs) (d # ds) = (xor_bytes cs ds \<or> c \<noteq> d)"
| "xor_bytes cs ds = True"

definition ConstantTimeCompare :: "string \<Rightarrow> string \<Rightarrow> int" where
  "ConstantTimeCompare x y = (if length x \<noteq> length y then 0 else if xor_bytes x y then 0 else 1)"

definition Verify :: "(string \<Rightarrow> string \<Rightarrow> string) \<Rightarrow> string \<Rightarrow> string \<Rightarrow> string \<Rightarrow> unit res" where
  "Verify mac secret signature payload =
     (if secret = [] then Ok ()
      else if signature = [] then Err (Unauthorized ''Webhook signature is required'' [])
      else
        (let expected = EncodeToString (mac secret payload)
         in if ConstantTimeCompare expected signature \<noteq> 1
            then Err (Unauthorized ''Webhook signature is invalid'' []) else Ok ()))"

lemma xor_bytes_iff: "length x = length y \<Longrightarrow> xor_bytes x y \<longleftrightarrow> x \<noteq> y"
  by (induction x y rule: xor_bytes.induct) auto

lemma ConstantTimeCompare_iff: "ConstantTimeCompare x y = 1 \<longleftrightarrow> x = y"
  using xor_bytes_iff [of x y] by (auto simp: ConstantTimeCompare_def)

lemma Verify_Ok [io_inv]:
  "Verify mac secret signature payload = Ok u \<longleftrightarrow>
     secret = [] \<or> signature \<noteq> [] \<and> signature = EncodeToString (mac secret payload)"
  by (auto simp: Verify_def Let_def ConstantTimeCompare_iff)

lemma Verify_Err:
  "Verify mac secret signature payload = Err e \<Longrightarrow> app_code e = ErrorCodeUnauthorized \<and> is_app_error e"
  by (auto simp: Verify_def Let_def Unauthorized_def split: if_splits)

lemma Verify_no_panic [simp]: "Verify mac secret signature payload \<noteq> Panic p"
  by (simp add: Verify_def Let_def)

section \<open>The logging publisher (logging.go)\<close>

text \<open>Publishing writes one line to the log and never fails.\<close>

definition publish_fields :: "outbox_event \<Rightarrow> (string \<times> string) list" where
  "publish_fields event =
     [(''eventId'', e_ID event), (''aggregateType'', e_AggregateType event),
      (''aggregateId'', e_AggregateID event), (''eventType'', e_EventType event)]"

definition LoggingPublisher_Publish ::
  "(string \<Rightarrow> (string \<times> string) list \<Rightarrow> 's \<Rightarrow> 's) \<Rightarrow> outbox_event \<Rightarrow> ('s, unit) io" where
  "LoggingPublisher_Publish info event =
     perform (info ''publishing outbox event'' (publish_fields event))"

end
