(* ===== verification/Memory.thy ===== *)
theory Memory
  imports Outbound
begin

text \<open>
  The contracts hold together: an engine that keeps the five tables in memory, with a schedule
  of failing statements, a clock, a source of identifiers, a log, the telemetry's state and a
  script of answers from the rate service. It interprets \<open>sql_engine\<close>, and with it
  \<open>store_over_sql\<close>, \<open>fx_ports\<close> and \<open>fx_env\<close>, on the code's own store, client, publisher and
  telemetry; the witnesses evaluate the use cases and the transports on it.
\<close>

text \<open>What the program holds open: connection pools, database handles, network listeners.\<close>

datatype resource = Pool nat | DB nat | Listener nat

record world = telemetry_state +
  w_db :: database
  w_snap :: "database option"
  w_faults :: "bool list"
  w_now :: time
  w_tick :: duration
  w_seq :: nat
  w_log :: "(string \<times> (string \<times> string) list) list"
  w_answers :: "http_response option list"
  w_open :: "resource list"

section \<open>The engine\<close>

definition mem_columns :: columns where
  "mem_columns =
     \<lparr>col_char = (\<lambda>n v. let t = rev (dropWhile (\<lambda>c. c = CHR '' '') (rev v))
                       in t @ replicate (n - length t) (CHR '' '')),
      col_varchar = (\<lambda>n v. take n v),
      col_numeric = (\<lambda>v. v),
      col_time = (\<lambda>t. t div 1000 * 1000),
      col_json = (\<lambda>v. v)\<rparr>"

text \<open>A statement fails when the schedule says so, and otherwise does what it does.\<close>

definition statement ::
  "(world \<Rightarrow> (sql_error, 'a) result \<times> database) \<Rightarrow> (sql_error, world, 'a) call" where
  "statement op s =
     (case w_faults s of
        True # fs \<Rightarrow> (Err (DriverError ''connection reset''), s\<lparr>w_faults := fs\<rparr>)
      | fs \<Rightarrow> (case op s of (r, d) \<Rightarrow> (r, s\<lparr>w_db := d, w_faults := tl fs\<rparr>)))"

definition query :: "(database \<Rightarrow> 'a) \<Rightarrow> (sql_error, world, 'a) call" where
  "query f = statement (\<lambda>s. (Ok (f (w_db s)), w_db s))"

definition query_first :: "(database \<Rightarrow> 'a option) \<Rightarrow> (sql_error, world, 'a) call" where
  "query_first f =
     statement (\<lambda>s. (case f (w_db s) of Some x \<Rightarrow> Ok x | None \<Rightarrow> Err RecordNotFound, w_db s))"

definition insert_row ::
  "(database \<Rightarrow> bool) \<Rightarrow> (database \<Rightarrow> bool) \<Rightarrow> (database \<Rightarrow> database) \<Rightarrow> (sql_error, world, unit) call" where
  "insert_row taken refs upd =
     statement (\<lambda>s. let d = w_db s
       in if taken d then (Err (PgError ''23505''), d)
          else if \<not> refs d then (Err (PgError ''23503''), d) else (Ok (), upd d))"

definition mem_save :: "conversion_row \<Rightarrow> world \<Rightarrow> (sql_error, int \<times> conversion_row) result \<times> database" where
  "mem_save c s =
     (let d = w_db s; row = col_conversion_row mem_columns c;
          c' = c\<lparr>cm_UpdatedAt := w_now s\<rparr>; row' = col_conversion_row mem_columns c';
          others = filter (\<lambda>x. cm_ID x \<noteq> cm_ID row) (db_convs d)
      in if \<not> quote_row_exists (cm_QuoteID row) d then (Err (PgError ''23503''), d)
         else if list_ex (\<lambda>x. cm_QuoteID x = cm_QuoteID row \<or> cm_IdempotencyKey x = cm_IdempotencyKey row) others
         then (Err (PgError ''23505''), d)
         else (Ok (1, c'),
               d\<lparr>db_convs := (if conversion_row_exists (cm_ID row) d
                  then update_where (\<lambda>m. cm_ID m = cm_ID row) (\<lambda>_. row') (db_convs d)
                  else db_convs d @ [row'])\<rparr>))"

definition mem_create_inbox :: "inbox_row \<Rightarrow> world \<Rightarrow> (sql_error, int) result \<times> database" where
  "mem_create_inbox m s =
     (let d = w_db s; row = col_inbox_row mem_columns m
      in if inbox_row_seen row d then (Ok 0, d)
         else if list_ex (\<lambda>x. wm_ID x = wm_ID row) (db_inbox d) then (Err (PgError ''23505''), d)
         else if \<not> conversion_row_exists (wm_ConversionID row) d then (Err (PgError ''23503''), d)
         else (Ok 1, d\<lparr>db_inbox := db_inbox d @ [row]\<rparr>))"

definition mem_update_events ::
  "string \<Rightarrow> (event_row \<Rightarrow> event_row) \<Rightarrow> world \<Rightarrow> (sql_error, int) result \<times> database" where
  "mem_update_events eid f s =
     (let d = w_db s; i = col_char mem_columns 26 eid
      in (Ok (int (length (filter (\<lambda>m. om_ID m = i) (db_events d)))),
          d\<lparr>db_events := update_where (\<lambda>m. om_ID m = i) f (db_events d)\<rparr>))"

definition mem_sql :: "world sql" where
  "mem_sql =
     \<lparr>sql_upsert_rates = (\<lambda>ms. statement (\<lambda>s.
        let d = w_db s; rows = map (col_rate_row mem_columns) ms
        in if distinct (map rate_row_key rows)
           then (Ok (), d\<lparr>db_rates := fold upsert_rate_row rows (db_rates d)\<rparr>)
           else (Err (PgError ''21000''), d))),
      sql_find_rates = (\<lambda>prov base quotes. query (\<lambda>d.
        filter (\<lambda>m. rm_Provider m = prov \<and> rm_BaseCurrency m = col_char mem_columns 3 base \<and>
                    rm_QuoteCurrency m \<in> set (map (col_char mem_columns 3) quotes)) (db_rates d))),
      sql_first_quote_by_id = (\<lambda>qid. query_first (\<lambda>d.
        find (\<lambda>m. qm_ID m = col_char mem_columns 26 qid) (db_quotes d))),
      sql_first_quote_by_key = (\<lambda>key. query_first (\<lambda>d.
        find (\<lambda>m. qm_IdempotencyKey m = key) (db_quotes d))),
      sql_create_quote = (\<lambda>q. insert_row (quote_row_taken (col_quote_row mem_columns q)) (\<lambda>_. True)
        (\<lambda>d. d\<lparr>db_quotes := db_quotes d @ [col_quote_row mem_columns q]\<rparr>)),
      sql_accept_quote = (\<lambda>qid tm. statement (\<lambda>s.
        let d = w_db s; P = quote_row_open (col_char mem_columns 26 qid) (col_time mem_columns tm)
        in (Ok (int (length (filter P (db_quotes d)))),
            d\<lparr>db_quotes := update_where P (\<lambda>m. m\<lparr>qm_AcceptedAt := Some (col_time mem_columns tm)\<rparr>) (db_quotes d)\<rparr>))),
      sql_first_conversion_by_id = (\<lambda>cid. query_first (\<lambda>d.
        find (\<lambda>m. cm_ID m = col_char mem_columns 26 cid) (db_convs d))),
      sql_first_conversion_by_key = (\<lambda>key. query_first (\<lambda>d.
        find (\<lambda>m. cm_IdempotencyKey m = key) (db_convs d))),
      sql_create_conversion = (\<lambda>c. insert_row (conversion_row_taken (col_conversion_row mem_columns c))
        (quote_row_exists (col_char mem_columns 26 (cm_QuoteID c)))
        (\<lambda>d. d\<lparr>db_convs := db_convs d @ [col_conversion_row mem_columns c]\<rparr>)),
      sql_save_conversion = (\<lambda>c. statement (mem_save c)),
      sql_create_inbox = (\<lambda>m. statement (mem_create_inbox m)),
      sql_create_event = (\<lambda>ev. insert_row (event_row_exists (col_char mem_columns 26 (om_ID ev))) (\<lambda>_. True)
        (\<lambda>d. d\<lparr>db_events := db_events d @ [col_event_row mem_columns ev]\<rparr>)),
      sql_find_pending = (\<lambda>limit. query (\<lambda>d.
        take (nat limit) (sort_key om_CreatedAt (filter (\<lambda>m. om_PublishedAt m = None) (db_events d))))),
      sql_update_published = (\<lambda>eid tm. statement (mem_update_events eid
        (\<lambda>m. m\<lparr>om_PublishedAt := Some (col_time mem_columns tm), om_LastError := None,
               om_PublishAttempts := om_PublishAttempts m + 1\<rparr>))),
      sql_update_failed = (\<lambda>eid reason. statement (mem_update_events eid
        (\<lambda>m. m\<lparr>om_LastError := Some reason, om_PublishAttempts := om_PublishAttempts m + 1\<rparr>))),
      sql_begin = (\<lambda>s. case w_faults s of
          True # fs \<Rightarrow> (Err (DriverError ''connection reset''), s\<lparr>w_faults := fs\<rparr>)
        | fs \<Rightarrow> (Ok (), s\<lparr>w_snap := Some (w_db s), w_faults := tl fs\<rparr>)),
      sql_commit = (\<lambda>s. case w_faults s of
          True # fs \<Rightarrow> (Err (DriverError ''connection reset''),
            s\<lparr>w_db := (case w_snap s of Some d \<Rightarrow> d | None \<Rightarrow> w_db s), w_snap := None, w_faults := fs\<rparr>)
        | fs \<Rightarrow> (Ok (), s\<lparr>w_snap := None, w_faults := tl fs\<rparr>)),
      sql_rollback = (\<lambda>s.
        s\<lparr>w_db := (case w_snap s of Some d \<Rightarrow> d | None \<Rightarrow> w_db s), w_snap := None\<rparr>)\<rparr>"

section \<open>The environment\<close>

definition mem_now :: "world \<Rightarrow> time \<times> world" where
  "mem_now s = (w_now s, s\<lparr>w_now := w_now s + w_tick s\<rparr>)"

definition mem_ulid :: "world \<Rightarrow> string \<times> world" where
  "mem_ulid s = (show_padded 26 (w_seq s), s\<lparr>w_seq := w_seq s + 1\<rparr>)"

definition mem_info :: "string \<Rightarrow> (string \<times> string) list \<Rightarrow> world \<Rightarrow> world" where
  "mem_info message kvs s = s\<lparr>w_log := w_log s @ [(message, kvs)]\<rparr>"

definition mem_logger :: "world logger" where
  "mem_logger = \<lparr>lg_Error = (\<lambda>message err. mem_info message [])\<rparr>"

definition mem_store :: "world store" where
  "mem_store = \<lparr>st_db = mem_sql, st_logger = mem_logger\<rparr>"

text \<open>Answers of the rate service: rates as lines \<open>date base quote rate\<close> between semicolons.\<close>

definition mem_decode_line :: "string \<Rightarrow> (go_error, decimal ratesResponseItem) result" where
  "mem_decode_line line =
     (case split_on CHR '' '' line of
        [date, base, quote, rate] \<Rightarrow>
          (case dec_NewFromString decimals rate of
             Some d \<Rightarrow> Ok \<lparr>ri_Date = date, ri_Base = base, ri_Quote = quote, ri_Rate = d\<rparr>
           | None \<Rightarrow> Err (PlainError ''invalid rate''))
      | _ \<Rightarrow> Err (PlainError ''invalid line''))"

definition mem_http :: "(world, decimal) http_library" where
  "mem_http =
     \<lparr>hl_ParseURL = (\<lambda>u. Ok (u, [])), hl_NewRequest = Ok,
      hl_Do = (\<lambda>_ s. case w_answers s of
          Some a # as \<Rightarrow> (Ok a, s\<lparr>w_answers := as\<rparr>)
        | None # as \<Rightarrow> (Err (PlainError ''dial tcp: connection refused''), s\<lparr>w_answers := as\<rparr>)
        | [] \<Rightarrow> (Err (PlainError ''dial tcp: connection refused''), s)),
      hl_DecodeRates = (\<lambda>body. map_until mem_decode_line (if body = [] then [] else split_on CHR '';'' body)),
      hl_DecodeMessage = (\<lambda>body. body)\<rparr>"

definition mem_env :: "(world, decimal) environment" where
  "mem_env =
     \<lparr>env_Clock = \<lparr>ck_Now = mem_now\<rparr>, env_Telemetry = prometheus_telemetry,
      env_Provider = \<lparr>rp_GetReferenceRates =
        Client_GetReferenceRates mem_now (NewClient ''https://api.frankfurter.dev'' ''ecb'' mem_http)\<rparr>,
      env_Publisher = \<lparr>ep_Publish = LoggingPublisher_Publish mem_info\<rparr>,
      env_ULID = mem_ulid, env_WallClock = mem_now\<rparr>"

definition mem_uow :: "(world, decimal) unit_of_work" where
  "mem_uow = store_unit_of_work decimals mem_now mem_store"

section \<open>The engine keeps its contract\<close>

lemma refines_statement:
  assumes "\<And>s r d. op s = (r, d) \<Longrightarrow> spec (w_db s) r d"
    and "\<And>d. spec d (Err (DriverError ''connection reset'')) d"
  shows "refines w_db w_snap (\<lambda>_. True) (statement op) spec"
proof (rule refinesI)
  fix s r t
  assume run: "statement op s = (r, t)"
  obtain r1 d1 where op: "op s = (r1, d1)" by fastforce
  from run op assms(1) [OF op] assms(2) [of "w_db s"]
  show "True \<and> w_snap t = w_snap s \<and> spec (w_db s) r (w_db t)"
    by (auto simp: statement_def split: list.splits bool.splits)
qed

lemma refines_query:
  assumes "\<And>d. A d (f d)"
  shows "refines w_db w_snap (\<lambda>_. True) (query f) (reads A)"
  unfolding query_def by (rule refines_statement) (use assms in \<open>auto simp: reads_def\<close>)

lemma refines_query_first: "refines w_db w_snap (\<lambda>_. True) (query_first f) (reads_first f)"
  unfolding query_first_def
  by (rule refines_statement) (auto simp: reads_first_def split: option.splits)

lemma refines_insert: "refines w_db w_snap (\<lambda>_. True) (insert_row taken refs upd) (inserts taken refs upd)"
  unfolding insert_row_def
  by (rule refines_statement) (auto simp: inserts_def unique_violation_def Let_def split: if_splits)

lemma refines_update:
  assumes "\<And>s x d. op s = (Ok x, d) \<Longrightarrow> A (w_db s) x d" "\<And>s e d. op s = (Err e, d) \<Longrightarrow> d = w_db s"
    and "\<And>s p d. op s \<noteq> (Panic p, d)"
  shows "refines w_db w_snap (\<lambda>_. True) (statement op) (writes A)"
  by (rule refines_statement) (use assms in \<open>auto simp: writes_def split: result.splits\<close>)

lemma pending_rows_take:
  "pending_rows n all (take n (sort_key om_CreatedAt (filter (\<lambda>m. om_PublishedAt m = None) all)))"
proof -
  let ?s = "sort_key om_CreatedAt (filter (\<lambda>m. om_PublishedAt m = None) all)"
  have sorted: "sorted (map om_CreatedAt ?s)" by simp
  have "sorted (map om_CreatedAt (take n ?s))"
    using sorted by (metis sorted_wrt_take take_map)
  moreover have "mset (take n ?s @ drop n ?s) = mset (filter (\<lambda>m. om_PublishedAt m = None) all)"
    by simp
  moreover have "\<forall>m \<in> set (take n ?s). \<forall>k \<in> set (drop n ?s). om_CreatedAt m \<le> om_CreatedAt k"
  proof -
    have "sorted (map om_CreatedAt (take n ?s @ drop n ?s))" using sorted by simp
    then show ?thesis unfolding map_append sorted_append by auto
  qed
  moreover have "length (take n ?s) = min n (length (filter (\<lambda>m. om_PublishedAt m = None) all))"
    by simp
  ultimately show ?thesis unfolding pending_rows_def by blast
qed

lemma strip_zeros_again: "strip_zeros k c = (j, c') \<Longrightarrow> strip_zeros j c' = (j, c')"
  by (induction k c rule: strip_zeros.induct) (auto split: if_splits)

lemma decimal_string_again:
  assumes "decimal_parse (decimal_string d) = Some d'"
  shows "decimal_string d' = decimal_string d"
proof (cases d)
  case (Pair c e)
  show ?thesis
  proof (cases "0 \<le> e")
    case True
    with assms Pair have "d' = (c * 10 ^ nat e, 0)" by (simp add: decimal_parse_def read_fixed_text)
    with Pair True show ?thesis by simp
  next
    case False
    obtain k c' where k: "strip_zeros (nat (- e)) c = (k, c')" by fastforce
    with assms Pair False have "d' = (c', - int k)" by (simp add: decimal_parse_def read_fixed_text)
    with Pair False k strip_zeros_again [OF k] show ?thesis
      by (cases "k = 0") (simp_all del: strip_zeros.simps)
  qed
qed

lemma decimals_readable:
  "dec_NewFromString decimals (dec_String decimals d) \<noteq> None"
  "dec_NewFromString decimals (dec_String decimals d) = Some d' \<Longrightarrow>
     dec_NewFromString decimals (dec_String decimals d') = Some d'"
  using dec.NewFromString_String [of d] decimal_string_again [of d d']
  by (auto simp: decimals_def)

lemma mem_col_char:
  "length v = n \<Longrightarrow> last v \<noteq> CHR '' '' \<Longrightarrow> col_char mem_columns n v = v"
  "col_char mem_columns n (col_char mem_columns n v) = col_char mem_columns n v"
proof -
  have strip: "dropWhile P (replicate k a @ dropWhile P xs) = dropWhile P xs" if "P a" for P k a and xs :: string
    using that by (induction k) auto
  show "col_char mem_columns n (col_char mem_columns n v) = col_char mem_columns n v"
    by (simp add: mem_columns_def Let_def strip)
  assume "length v = n" "last v \<noteq> CHR '' ''"
  then show "col_char mem_columns n v = v"
    by (cases v rule: rev_cases) (auto simp: mem_columns_def Let_def)
qed

interpretation mem: sql_engine decimals mem_columns mem_sql w_db w_snap "\<lambda>_. True"
proof (unfold_locales, goal_cases)
  case (1 ms)
  show ?case
    unfolding mem_sql_def sql.select_convs
    by (rule refines_update) (auto simp: Let_def comp_def split: if_splits)
next
  case (2 prov base quotes)
  show ?case
    unfolding mem_sql_def sql.select_convs by (rule refines_query) simp
next
  case (3 qid) show ?case unfolding mem_sql_def sql.select_convs by (rule refines_query_first)
next
  case (4 key) show ?case unfolding mem_sql_def sql.select_convs by (rule refines_query_first)
next
  case (5 q) show ?case unfolding mem_sql_def sql.select_convs by (rule refines_insert)
next
  case (6 qid tm)
  show ?case
    unfolding mem_sql_def sql.select_convs by (rule refines_update) (auto simp: Let_def)
next
  case (7 cid) show ?case unfolding mem_sql_def sql.select_convs by (rule refines_query_first)
next
  case (8 key) show ?case unfolding mem_sql_def sql.select_convs by (rule refines_query_first)
next
  case (9 c) show ?case unfolding mem_sql_def sql.select_convs by (rule refines_insert)
next
  case (10 c)
  have ids: "cm_ID (col_conversion_row mem_columns c) = col_char mem_columns 26 (cm_ID c)"
    "cm_QuoteID (col_conversion_row mem_columns c) = col_char mem_columns 26 (cm_QuoteID c)"
    by (simp_all add: col_conversion_row_def)
  have taken: "conversion_row_taken (col_conversion_row mem_columns c) d \<longleftrightarrow>
      conversion_row_exists (col_char mem_columns 26 (cm_ID c)) d \<or>
      list_ex (\<lambda>x. cm_QuoteID x = cm_QuoteID (col_conversion_row mem_columns c) \<or>
          cm_IdempotencyKey x = cm_IdempotencyKey (col_conversion_row mem_columns c))
        (filter (\<lambda>x. cm_ID x \<noteq> col_char mem_columns 26 (cm_ID c)) (db_convs d))" for d
    by (auto simp: conversion_row_taken_def conversion_row_exists_def list_ex_iff ids)
  show ?case
    unfolding mem_sql_def sql.select_convs
  proof (rule refines_update, goal_cases)
    case (1 s x d)
    then show ?case
      unfolding mem_save_def Let_def ids
      by (auto simp: taken list_ex_iff ids(2) split: if_splits)
  qed (auto simp: mem_save_def Let_def split: if_splits)
next
  case (11 m)
  show ?case
    unfolding mem_sql_def sql.select_convs
    by (rule refines_update) (auto simp: mem_create_inbox_def Let_def col_inbox_row_def split: if_splits)
next
  case (12 ev) show ?case unfolding mem_sql_def sql.select_convs by (rule refines_insert)
next
  case (13 limit)
  show ?case unfolding mem_sql_def sql.select_convs by (rule refines_query) (rule pending_rows_take)
next
  case (14 eid tm)
  show ?case
    unfolding mem_sql_def sql.select_convs
    by (rule refines_update) (auto simp: mem_update_events_def Let_def)
next
  case (15 eid reason)
  show ?case
    unfolding mem_sql_def sql.select_convs
    by (rule refines_update) (auto simp: mem_update_events_def Let_def)
next
  case (16 s r s')
  then show ?case by (auto simp: mem_sql_def split: list.splits bool.splits)
next
  case (17 s d0 r s')
  then show ?case by (auto simp: mem_sql_def split: list.splits bool.splits)
next
  case (18 s d0)
  then show ?case by (simp add: mem_sql_def)
next
  case (19 d) show ?case by (rule decimals_readable)
next
  case (20 d) show ?case by (simp add: mem_columns_def decimals_readable)
next
  case (21 d d') then show ?case by (simp add: mem_columns_def decimals_readable(2))
next
  case (22 v n) then show ?case by (rule mem_col_char)
next
  case (23 n v) show ?case by (rule mem_col_char)
next
  case (24 v n) then show ?case by (simp add: mem_columns_def)
next
  case (25 t) show ?case by (simp add: mem_columns_def)
qed

interpretation mem_store: store_over_sql decimals mem_columns mem_sql w_db w_snap "\<lambda>_. True" mem_logger mem_now
  by unfold_locales (auto simp: mem_logger_def mem_info_def mem_now_def)

section \<open>The environment keeps the book\<close>

definition mem_book :: "world \<Rightarrow> decimal book" where
  "mem_book s = book_of decimals (w_db s)"

definition mem_saved :: "world \<Rightarrow> decimal book option" where
  "mem_saved s = map_option (book_of decimals) (w_snap s)"

definition mem_ok :: "world \<Rightarrow> bool" where
  "mem_ok s \<longleftrightarrow> store_ok decimals mem_columns w_db w_snap (\<lambda>_. True) s"

definition mem_form :: "decimal stored_form" where
  "mem_form = stored_form_of decimals mem_columns"

lemma mem_frame:
  assumes "w_db t = w_db s" "w_snap t = w_snap s" "mem_ok s"
  shows "mem_ok t \<and> mem_saved t = mem_saved s \<and> mem_book t = mem_book s"
  using assms by (simp add: mem_ok_def mem_saved_def mem_book_def store_ok_def)

lemma mem_client_frame:
  assumes "Client_GetReferenceRates mem_now (NewClient u f mem_http) base quotes s = (r, t)"
  shows "w_db t = w_db s \<and> w_snap t = w_snap s \<and>
    (case r of Ok rates \<Rightarrow> \<forall>x \<in> set rates. rate_currencies x | Err e \<Rightarrow> True | Panic p \<Rightarrow> False)"
proof -
  have decode: "\<not> is_panic (hl_DecodeRates mem_http body)" for body
  proof -
    have "map_until mem_decode_line xs \<noteq> Panic p" for xs p
      by (rule map_until_no_panic) (auto simp: mem_decode_line_def split: list.splits option.splits)
    then show ?thesis
      by (cases "hl_DecodeRates mem_http body") (auto simp: mem_http_def)
  qed
  have parse: "\<not> is_panic (hl_ParseURL mem_http x)" "\<not> is_panic (hl_NewRequest mem_http x)" for x
    by (simp_all add: mem_http_def)
  have "(w_db t = w_db s \<and> w_snap t = w_snap s) \<and>
      (case r of Ok rates \<Rightarrow> \<forall>x \<in> set rates. rate_currencies x | Err e \<Rightarrow> True | Panic p \<Rightarrow> False)"
    by (rule client_run [where P = "\<lambda>x. w_db x = w_db s \<and> w_snap x = w_snap s" and H = mem_http,
          OF _ _ decode parse _ assms])
      (auto simp: mem_http_def mem_now_def split: list.splits option.splits)
  then show ?thesis by simp
qed

lemma mem_ports:
  "fx_ports decimals mem_form (echo_quote_of decimals) (echo_conversion_of decimals) mem_uow
     mem_book mem_saved mem_ok"
  unfolding mem_form_def mem_uow_def mem_store_def mem_book_def mem_saved_def mem_ok_def
  by (rule mem_store.ports.fx_ports_axioms)

interpretation mem_world: fx_env decimals mem_form "echo_quote_of decimals" "echo_conversion_of decimals"
  mem_uow mem_book mem_saved mem_ok mem_env
proof (intro fx_env.intro mem_ports fx_env_axioms.intro, goal_cases)
  case (1 s t s')
  then show ?case by (intro mem_frame) (auto simp: mem_env_def mem_now_def)
next
  case (2 s i s')
  then show ?case by (intro mem_frame) (auto simp: mem_env_def mem_ulid_def)
next
  case (3 s t s')
  then show ?case by (intro mem_frame) (auto simp: mem_env_def mem_now_def)
next
  case (4 s name n s')
  then show ?case by (intro mem_frame) (auto simp: mem_env_def prometheus_telemetry_def StartSpan_def)
next
  case (5 s n err s')
  then show ?case by (intro mem_frame) (auto simp: mem_env_def prometheus_telemetry_def FinishSpan_def)
next
  case (6 s f tr op out dur prov ty)
  then show ?case
    by (intro mem_frame)
      (auto simp: mem_env_def prometheus_telemetry_def RecordInboundRequest_def RecordWebhookDuplicate_def
        RecordWebhookAccepted_def RecordOutboxPublished_def RecordOutboxPublishFailure_def)
next
  case (7 s base quotes r s')
  then have "Client_GetReferenceRates mem_now (NewClient ''https://api.frankfurter.dev'' ''ecb'' mem_http)
      base quotes s = (r, s')"
    by (simp add: mem_env_def)
  from mem_client_frame [OF this] mem_frame [of s' s] 7(1) show ?case by blast
next
  case (8 s ev r s')
  then have "r = Ok ()" "w_db s' = w_db s" "w_snap s' = w_snap s"
    by (auto simp: mem_env_def LoggingPublisher_Publish_def perform_def mem_info_def)
  with mem_frame [of s' s] 8(1) show ?case by simp
qed

end
