(* ===== verification/System.thy ===== *)
theory System
  imports Config
begin

text \<open>
  The use cases wired to the store as \<open>internal/app/runtime.go\<close> does (\<open>newProviders\<close>,
  \<open>newUsecases\<close>), and the system they make: every operation any transport can start, run one
  after the other from a state of the database. The locale \<open>fx_system\<close> collects what the
  third-party code under the system documents; the section after it proves what no sequence of
  operations breaks.
\<close>

section \<open>Wiring (runtime.go)\<close>

record ('s, 'd) provider_set =
  ps_RateProvider :: "('s, 'd) rate_provider"
  ps_EventPublisher :: "'s event_publisher"
  ps_PaymentWebhookSecret :: string
  ps_TransferWebhookSecret :: string

definition newProviders ::
  "('s \<Rightarrow> time \<times> 's) \<Rightarrow> ('s, 'd) http_library \<Rightarrow> (string \<Rightarrow> (string \<times> string) list \<Rightarrow> 's \<Rightarrow> 's) \<Rightarrow> config \<Rightarrow>
   ('s, 'd) provider_set" where
  "newProviders wallClock H info cfg =
     \<lparr>ps_RateProvider = \<lparr>rp_GetReferenceRates = Client_GetReferenceRates wallClock
        (NewClient (cfg_FrankfurterBaseURL cfg) (cfg_FrankfurterSource cfg) H)\<rparr>,
      ps_EventPublisher = \<lparr>ep_Publish = LoggingPublisher_Publish info\<rparr>,
      ps_PaymentWebhookSecret = cfg_PaymentWebhookSecret cfg,
      ps_TransferWebhookSecret = cfg_TransferWebhookSecret cfg\<rparr>"

record ('s, 'd) usecase_set =
  us_GetReferenceRates :: "('s, 'd) GetReferenceRatesUsecase"
  us_CreateQuote :: "('s, 'd) CreateQuoteUsecase"
  us_AcceptQuote :: "('s, 'd) AcceptQuoteUsecase"
  us_GetConversion :: "('s, 'd) GetConversionUsecase"
  us_HandlePaymentWebhook :: "('s, 'd) HandlePaymentWebhookUsecase"
  us_HandleTransferWebhook :: "('s, 'd) HandleTransferWebhookUsecase"

definition newUsecases ::
  "'d decimal_lib \<Rightarrow> ('s \<Rightarrow> time \<times> 's) \<Rightarrow> config \<Rightarrow> 's store \<Rightarrow> ('s, 'd) provider_set \<Rightarrow> 's telemetry \<Rightarrow>
   's clock \<Rightarrow> ('s, 'd) usecase_set res" where
  "newUsecases D wallClock cfg st providers telemetry clock =
     bind_result (MustMoney CurrencyKRW (cfg_FXMinFeeMinor cfg)) (\<lambda>minFee.
       Ok \<lparr>us_GetReferenceRates =
             \<lparr>gr_repository = rate_repository_of D wallClock st, gr_provider = ps_RateProvider providers,
              gr_telemetry = telemetry\<rparr>,
           us_CreateQuote =
             \<lparr>cq_repository = quote_repository_of D st, cq_rateRepo = rate_repository_of D wallClock st,
              cq_provider = ps_RateProvider providers, cq_clock = clock, cq_telemetry = telemetry,
              cq_quoteTTL = cfg_QuoteTTL cfg, cq_feeBPS = cfg_FXFeeBPS cfg, cq_minFee = minFee\<rparr>,
           us_AcceptQuote =
             \<lparr>aq_quotes = quote_repository_of D st, aq_conversions = conversion_repository_of D st,
              aq_unitOfWork = store_unit_of_work D wallClock st, aq_clock = clock,
              aq_telemetry = telemetry\<rparr>,
           us_GetConversion =
             \<lparr>gc_repository = conversion_repository_of D st, gc_telemetry = telemetry\<rparr>,
           us_HandlePaymentWebhook =
             \<lparr>hp_conversions = conversion_repository_of D st,
              hp_unitOfWork = store_unit_of_work D wallClock st, hp_clock = clock, hp_telemetry = telemetry\<rparr>,
           us_HandleTransferWebhook =
             \<lparr>ht_conversions = conversion_repository_of D st,
              ht_unitOfWork = store_unit_of_work D wallClock st, ht_clock = clock,
              ht_telemetry = telemetry\<rparr>\<rparr>)"

text \<open>The two use cases no transport starts: the rate synchronisation and the outbox pass.\<close>

definition sync_usecase ::
  "'d decimal_lib \<Rightarrow> ('s \<Rightarrow> time \<times> 's) \<Rightarrow> 's store \<Rightarrow> ('s, 'd) provider_set \<Rightarrow> 's telemetry \<Rightarrow>
   ('s, 'd) SyncReferenceRatesUsecase" where
  "sync_usecase D wallClock st providers telemetry =
     \<lparr>sr_repository = rate_repository_of D wallClock st, sr_provider = ps_RateProvider providers,
      sr_telemetry = telemetry\<rparr>"

definition outbox_usecase ::
  "'s store \<Rightarrow> ('s, 'd) provider_set \<Rightarrow> 's telemetry \<Rightarrow> 's PublishOutboxUsecase" where
  "outbox_usecase st providers telemetry =
     \<lparr>po_repository = outbox_repository_of st, po_publisher = ps_EventPublisher providers,
      po_telemetry = telemetry\<rparr>"

section \<open>The third-party code under the system\<close>

text \<open>
  The parameters in one record: decimals, the database through the mapper, the loggers, the
  wall clock, the HTTP client, the metrics library and the source of identifiers.
\<close>

record ('s, 'd) libraries =
  lib_decimal :: "'d decimal_lib"
  lib_sql :: "'s sql"
  lib_logger :: "'s logger"
  lib_now :: "'s \<Rightarrow> time \<times> 's"
  lib_http :: "('s, 'd) http_library"
  lib_info :: "string \<Rightarrow> (string \<times> string) list \<Rightarrow> 's \<Rightarrow> 's"
  lib_telemetry :: "'s telemetry"
  lib_ulid :: "'s \<Rightarrow> string \<times> 's"

definition system_store :: "('s, 'd) libraries \<Rightarrow> 's store" where
  "system_store X = \<lparr>st_db = lib_sql X, st_logger = lib_logger X\<rparr>"

definition system_providers :: "('s, 'd) libraries \<Rightarrow> config \<Rightarrow> ('s, 'd) provider_set" where
  "system_providers X cfg = newProviders (lib_now X) (lib_http X) (lib_info X) cfg"

definition system_usecases :: "('s, 'd) libraries \<Rightarrow> config \<Rightarrow> ('s, 'd) usecase_set res" where
  "system_usecases X cfg =
     newUsecases (lib_decimal X) (lib_now X) cfg (system_store X) (system_providers X cfg)
       (lib_telemetry X) \<lparr>ck_Now = lib_now X\<rparr>"

definition system_env :: "('s, 'd) libraries \<Rightarrow> config \<Rightarrow> ('s, 'd) environment" where
  "system_env X cfg =
     \<lparr>env_Clock = \<lparr>ck_Now = lib_now X\<rparr>, env_Telemetry = lib_telemetry X,
      env_Provider = ps_RateProvider (system_providers X cfg),
      env_Publisher = ps_EventPublisher (system_providers X cfg),
      env_ULID = lib_ulid X, env_WallClock = lib_now X\<rparr>"

definition system_uow :: "('s, 'd) libraries \<Rightarrow> ('s, 'd) unit_of_work" where
  "system_uow X = store_unit_of_work (lib_decimal X) (lib_now X) (system_store X)"

locale fx_system = store_over_sql "lib_decimal X" C "lib_sql X" view snap okE "lib_logger X" "lib_now X"
  for X :: "('s, 'd) libraries" and C and view :: "'s \<Rightarrow> database" and snap okE +
  fixes cfg :: config
  assumes http_frame: "okE s \<Longrightarrow> hl_Do (lib_http X) u s = (r, t) \<Longrightarrow>
      okE t \<and> view t = view s \<and> snap t = snap s \<and> \<not> is_panic r"
    and http_values: "\<not> is_panic (hl_DecodeRates (lib_http X) body)"
      "\<not> is_panic (hl_ParseURL (lib_http X) u)" "\<not> is_panic (hl_NewRequest (lib_http X) u)"
    and info_frame: "okE s \<Longrightarrow> okE (lib_info X message kvs s) \<and>
      view (lib_info X message kvs s) = view s \<and> snap (lib_info X message kvs s) = snap s"
    and ulid_frame: "okE s \<Longrightarrow> lib_ulid X s = (i, t) \<Longrightarrow> okE t \<and> view t = view s \<and> snap t = snap s"
    and start_frame: "okE s \<Longrightarrow> tm_StartSpan (lib_telemetry X) name s = (n, t) \<Longrightarrow>
      okE t \<and> view t = view s \<and> snap t = snap s"
    and finish_frame: "okE s \<Longrightarrow> tm_Finish (lib_telemetry X) n err s = t \<Longrightarrow>
      okE t \<and> view t = view s \<and> snap t = snap s"
    and counter_frame: "okE s \<Longrightarrow>
      g \<in> {tm_RecordInboundRequest (lib_telemetry X) tr op out dur,
           tm_RecordWebhookDuplicate (lib_telemetry X) prov, tm_RecordWebhookAccepted (lib_telemetry X) prov,
           tm_RecordOutboxPublished (lib_telemetry X) ty, tm_RecordOutboxPublishFailure (lib_telemetry X) ty} \<Longrightarrow>
      okE (g s) \<and> view (g s) = view s \<and> snap (g s) = snap s"
begin

lemma same_book:
  assumes "okE t \<and> view t = view s \<and> snap t = snap s" "store_ok (lib_decimal X) C view snap okE s"
  shows "store_ok (lib_decimal X) C view snap okE t \<and>
    map_option (book_of (lib_decimal X)) (snap t) = map_option (book_of (lib_decimal X)) (snap s) \<and>
    book_of (lib_decimal X) (view t) = book_of (lib_decimal X) (view s)"
  using assms by (simp add: store_ok_def)

lemma okE_of: "store_ok (lib_decimal X) C view snap okE s \<Longrightarrow> okE s"
  by (simp add: store_ok_def)

lemma system_ports:
  "fx_ports (lib_decimal X) (stored_form_of (lib_decimal X) C) (echo_quote_of (lib_decimal X))
     (echo_conversion_of (lib_decimal X)) (system_uow X)
     (\<lambda>s. book_of (lib_decimal X) (view s)) (\<lambda>s. map_option (book_of (lib_decimal X)) (snap s))
     (store_ok (lib_decimal X) C view snap okE)"
  unfolding system_uow_def system_store_def by (rule ports.fx_ports_axioms)

lemma fetch_frame:
  assumes "okE s" "rp_GetReferenceRates (env_Provider (system_env X cfg)) base quotes s = (r, t)"
  shows "(okE t \<and> view t = view s \<and> snap t = snap s) \<and>
    (case r of Ok rates \<Rightarrow> \<forall>x \<in> set rates. rate_currencies x | Err e \<Rightarrow> True | Panic p \<Rightarrow> False)"
proof (rule client_run [where P = "\<lambda>x. okE x \<and> view x = view s \<and> snap x = snap s" and s = s])
  show "Client_GetReferenceRates (lib_now X)
      (NewClient (cfg_FrankfurterBaseURL cfg) (cfg_FrankfurterSource cfg) (lib_http X)) base quotes s = (r, t)"
    using assms(2) by (simp add: system_env_def system_providers_def newProviders_def)
next
  show "okE s \<and> view s = view s \<and> snap s = snap s" using assms(1) by simp
next
  fix q s1 r1 t1
  assume "okE s1 \<and> view s1 = view s \<and> snap s1 = snap s" "hl_Do (lib_http X) q s1 = (r1, t1)"
  then show "(okE t1 \<and> view t1 = view s \<and> snap t1 = snap s) \<and> \<not> is_panic r1"
    using http_frame [of s1 q r1 t1] by simp
next
  fix s1 x t1
  assume "okE s1 \<and> view s1 = view s \<and> snap s1 = snap s" "lib_now X s1 = (x, t1)"
  then show "okE t1 \<and> view t1 = view s \<and> snap t1 = snap s"
    using clock_frame [of s1 x t1] by simp
qed (rule http_values)+

end

sublocale fx_system \<subseteq> env: fx_env "lib_decimal X" "stored_form_of (lib_decimal X) C"
  "echo_quote_of (lib_decimal X)" "echo_conversion_of (lib_decimal X)" "system_uow X"
  "\<lambda>s. book_of (lib_decimal X) (view s)" "\<lambda>s. map_option (book_of (lib_decimal X)) (snap s)"
  "store_ok (lib_decimal X) C view snap okE" "system_env X cfg"
proof (intro fx_env.intro system_ports fx_env_axioms.intro, goal_cases)
  case (1 s t s')
  have "lib_now X s = (t, s')" using 1(2) by (simp add: system_env_def)
  from same_book [OF clock_frame [OF okE_of [OF 1(1)] this] 1(1)] show ?case .
next
  case (2 s i s')
  have "lib_ulid X s = (i, s')" using 2(2) by (simp add: system_env_def)
  from same_book [OF ulid_frame [OF okE_of [OF 2(1)] this] 2(1)] show ?case .
next
  case (3 s t s')
  have "lib_now X s = (t, s')" using 3(2) by (simp add: system_env_def)
  from same_book [OF clock_frame [OF okE_of [OF 3(1)] this] 3(1)] show ?case .
next
  case (4 s name n s')
  have "tm_StartSpan (lib_telemetry X) name s = (n, s')" using 4(2) by (simp add: system_env_def)
  from same_book [OF start_frame [OF okE_of [OF 4(1)] this] 4(1)] show ?case .
next
  case (5 s n err s')
  have "tm_Finish (lib_telemetry X) n err s = s'" using 5(2) by (simp add: system_env_def)
  from same_book [OF finish_frame [OF okE_of [OF 5(1)] this] 5(1)] show ?case .
next
  case (6 s f tr op out dur prov ty)
  then show ?case
    by (intro same_book counter_frame [where tr = tr and op = op and out = out and dur = dur and
            prov = prov and ty = ty] okE_of) (simp_all add: system_env_def)
next
  case (7 s base quotes r s')
  with fetch_frame [OF okE_of [OF 7(1)] 7(2)] same_book [of s' s] show ?case by blast
next
  case (8 s ev r s')
  then have "r = Ok ()" "s' = lib_info X ''publishing outbox event'' (publish_fields ev) s"
    by (auto simp: system_env_def system_providers_def newProviders_def LoggingPublisher_Publish_def perform_def)
  with info_frame [OF okE_of [OF 8(1)]] same_book [of s' s] 8(1) show ?case by simp
qed

end
