(* ===== verification/Ledger.thy ===== *)
theory Ledger
  imports System
begin

text \<open>
  The invariant of the whole system: \<open>ledger_ok\<close> relates the quotes, conversions, received
  webhooks and outbox events of a book, and no operation breaks it. \<open>operation\<close> lists the
  calls a transport (or a scheduler) can make, \<open>run_operation\<close> runs one on the wired use
  cases, and \<open>system_run\<close> is any sequence of them.
\<close>

section \<open>Operations\<close>

datatype operation =
    GetRates string "string list"
  | NewQuote string money string
  | Accept string string string string
  | ReadConversion string
  | PaymentEvent provider_event
  | TransferEvent provider_event
  | SyncRates string "string list"
  | PublishPending int

text \<open>What the transports check before they start a use case: the currencies are parsed.\<close>

fun operation_ok :: "operation \<Rightarrow> bool" where
  "operation_ok (GetRates base quotes) \<longleftrightarrow> supported base \<and> (\<forall>c \<in> set quotes. supported c)"
| "operation_ok (NewQuote key base target) \<longleftrightarrow> supported (Currency base) \<and> supported target"
| "operation_ok op \<longleftrightarrow> True"

fun run_operation ::
  "('s, 'd) libraries \<Rightarrow> config \<Rightarrow> ('s, 'd) usecase_set \<Rightarrow> operation \<Rightarrow> 's \<Rightarrow> 's" where
  "run_operation X cfg us (GetRates base quotes) s =
     snd (GetReferenceRates_Execute (lib_decimal X) (us_GetReferenceRates us) base quotes s)"
| "run_operation X cfg us (NewQuote key base target) s =
     snd (CreateQuote_Execute (lib_decimal X) (lib_ulid X) (us_CreateQuote us) key base target s)"
| "run_operation X cfg us (Accept key qid pay tra) s =
     snd (AcceptQuote_Execute (lib_ulid X) (us_AcceptQuote us) key qid pay tra s)"
| "run_operation X cfg us (ReadConversion cid) s =
     snd (GetConversion_Execute (us_GetConversion us) cid s)"
| "run_operation X cfg us (PaymentEvent ev) s =
     snd (HandlePaymentWebhook_Execute (lib_ulid X) (us_HandlePaymentWebhook us) ev s)"
| "run_operation X cfg us (TransferEvent ev) s =
     snd (HandleTransferWebhook_Execute (lib_ulid X) (us_HandleTransferWebhook us) ev s)"
| "run_operation X cfg us (SyncRates base quotes) s =
     snd (SyncReferenceRates_Execute (lib_decimal X)
       (sync_usecase (lib_decimal X) (lib_now X) (system_store X) (system_providers X cfg) (lib_telemetry X))
       base quotes s)"
| "run_operation X cfg us (PublishPending limit) s =
     snd (PublishOutbox_Execute (lib_now X)
       (outbox_usecase (system_store X) (system_providers X cfg) (lib_telemetry X)) limit s)"

inductive system_run :: "(operation \<Rightarrow> 's \<Rightarrow> 's) \<Rightarrow> 's \<Rightarrow> 's \<Rightarrow> bool" for step where
  system_start: "system_run step s s"
| system_step: "system_run step s t \<Longrightarrow> operation_ok op \<Longrightarrow> system_run step s (step op t)"

inductive_cases system_run_cases: "system_run step s t"

section \<open>The invariant\<close>

text \<open>A conversion settles the quote it was made from, on the quote's terms.\<close>

definition settles :: "'d stored_form \<Rightarrow> 'd quote \<Rightarrow> 'd conversion \<Rightarrow> bool" where
  "settles F q c \<longleftrightarrow>
     c_QuoteID c = q_ID q \<and> q_AcceptedAt q \<noteq> None \<and>
     c_BaseAmount c = q_BaseAmount q \<and> c_QuoteAmount c = q_QuoteAmount q \<and>
     c_FeeAmount c = q_FeeAmount q \<and> c_TotalDebitAmount c = q_TotalDebitAmount q \<and>
     c_Rate c = sf_rate F (q_Rate q)"

definition live_statuses :: "string set" where
  "live_statuses = {StatusAwaitingPayment, StatusProcessing, StatusCompleted, StatusFailed}"

definition ledger_ok :: "'d stored_form \<Rightarrow> 'd book \<Rightarrow> bool" where
  "ledger_ok F b \<longleftrightarrow>
     (\<forall>q \<in> set (bk_quotes b). quote_wf q \<and> Currency (q_BaseAmount q) = CurrencyKRW) \<and>
     (\<forall>c \<in> set (bk_convs b). c_Status c \<in> live_statuses \<and> (\<exists>q \<in> set (bk_quotes b). settles F q c)) \<and>
     (\<forall>q \<in> set (bk_quotes b). q_AcceptedAt q \<noteq> None \<longrightarrow> (\<exists>c \<in> set (bk_convs b). c_QuoteID c = q_ID q)) \<and>
     (\<forall>m \<in> set (bk_inbox b). \<exists>c \<in> set (bk_convs b). c_ID c = m_ConversionID m) \<and>
     length (bk_outbox b) = length (bk_convs b) + length (bk_inbox b)"

lemma ledger_empty:
  "bk_quotes b = [] \<Longrightarrow> bk_convs b = [] \<Longrightarrow> bk_inbox b = [] \<Longrightarrow> bk_outbox b = [] \<Longrightarrow> ledger_ok F b"
  by (simp add: ledger_ok_def)

lemma ledger_rates:
  assumes "ledger_ok F b" "rates_synced D F b b'"
  shows "ledger_ok F b'"
  using assms(1) rates_synced_frame [OF assms(2)] by (simp add: ledger_ok_def)

lemma stored_quote_wf: "quote_wf q \<Longrightarrow> quote_wf (stored_quote F q)"
  by (simp add: quote_wf_def stored_quote_def)

lemma ledger_create:
  assumes "ledger_ok F b" "Currency minFee = CurrencyKRW"
    and "spec_create_quote D F echo bps minFee ttl key base target b r b'"
  shows "ledger_ok F b'"
proof (cases "quote_by_key key b")
  case (Some q)
  with assms show ?thesis by (simp add: spec_create_quote_def)
next
  case None
  show ?thesis
  proof (cases r)
    case (Ok q')
    with assms(3) None obtain q rate qid now b1 where
      b1: "rates_synced D F b b1" and q: "New_quote D qid key base target rate bps minFee now ttl = Ok q"
      and b': "b' = b1\<lparr>bk_quotes := bk_quotes b @ [stored_quote F q]\<rparr>"
      by (auto simp: spec_create_quote_def)
    note wf = stored_quote_wf [OF New_quote_wf [OF q], of F]
    have "Currency base = CurrencyKRW"
      using FeeFromBPS_OkD [OF New_quote_OkD(7) [OF q]] assms(2) by simp
    then have "Currency (q_BaseAmount (stored_quote F q)) = CurrencyKRW"
      using New_quote_OkD(11) [OF q] by (simp add: stored_quote_def)
    moreover have "q_AcceptedAt (stored_quote F q) = None"
      using New_quote_OkD(15) [OF q] by (simp add: stored_quote_def)
    ultimately show ?thesis
      using assms(1) rates_synced_frame [OF b1] wf unfolding b' ledger_ok_def by auto
  next
    case (Err e)
    with assms None show ?thesis by (auto simp: spec_create_quote_def intro: ledger_rates)
  next
    case (Panic p)
    with assms None show ?thesis by (simp add: spec_create_quote_def)
  qed
qed

context fx_env begin

lemma live_status_stored: "st \<in> live_statuses \<Longrightarrow> sf_text F 32 st = st"
  by (auto simp: live_statuses_def status_defs intro!: sf_text_short)

lemma ledger_accept:
  assumes inv: "ledger_ok F b" "book_inv F b" and spec: "spec_accept_quote F key qid pay tra b r b'"
  shows "ledger_ok F b'"
proof (cases "conv_by_key key b = None \<and> (\<exists>c. r = Ok c)")
  case False
  then have "b' = b"
    using spec by (auto simp: spec_accept_quote_def split: option.splits result.splits)
  with inv show ?thesis by simp
next
  case True
  with spec obtain c q cid eid now where
    q: "quote_by_id (sf_id F qid) b = Some q" and c: "FromQuote cid key q pay tra now = Ok c"
    and acc: "list_ex (acceptable (sf_id F qid) (sf_time F now)) (bk_quotes b)"
    and b': "b' = accepted_book F c eid now b"
    by (auto simp: spec_accept_quote_def)
  let ?P = "acceptable (c_QuoteID c) (sf_time F now)"
  let ?f = "\<lambda>q. q\<lparr>q_AcceptedAt := Some (sf_time F now)\<rparr>"
  have q': "q_ID q = sf_id F qid" "q \<in> set (bk_quotes b)" using quote_by_id_ID [OF q] by simp_all
  have cq: "c_QuoteID c = q_ID q" using c by (auto simp: FromQuote_Ok)
  have dist: "distinct (map q_ID (bk_quotes b))" using inv(2) by (simp add: book_inv_def book_ok_def)
  have Pq: "?P q"
  proof -
    from acc obtain p where p: "p \<in> set (bk_quotes b)" "acceptable (sf_id F qid) (sf_time F now) p"
      by (auto simp: list_ex_iff)
    then have "q_ID p = q_ID q" using q'(1) by (simp add: acceptable_def)
    with p(1) q'(2) dist have "p = q" by (simp add: distinct_map inj_on_def)
    with p(2) cq q'(1) show ?thesis by simp
  qed
  have quotes: "bk_quotes b' = update_where ?P ?f (bk_quotes b)"
    and convs: "bk_convs b' = bk_convs b @ [stored_conversion F c]"
    and rest: "bk_inbox b' = bk_inbox b" "length (bk_outbox b') = Suc (length (bk_outbox b))"
    by (simp_all add: b' accepted_book_def)
  have stored: "c_QuoteID (stored_conversion F c) = q_ID q"
    using inv(2) q'(2) by (auto simp: stored_conversion_def cq book_inv_def)
  have status: "c_Status (stored_conversion F c) \<in> live_statuses"
    using c live_status_stored [of StatusAwaitingPayment]
    by (auto simp: stored_conversion_def FromQuote_Ok live_statuses_def)
  have "settles F (?f q) (stored_conversion F c)"
    using c stored by (auto simp: settles_def stored_conversion_def FromQuote_Ok)
  moreover have "?f q \<in> set (bk_quotes b')"
    unfolding quotes set_update_where using q'(2) Pq by (auto simp: image_iff intro!: bexI [of _ q])
  moreover have "\<exists>p \<in> set (bk_quotes b'). settles F p d" if "d \<in> set (bk_convs b)" for d
  proof -
    from inv(1) that obtain p where p: "p \<in> set (bk_quotes b)" "settles F p d"
      by (auto simp: ledger_ok_def)
    then have "settles F (if ?P p then ?f p else p) d" by (simp add: settles_def)
    moreover have "(if ?P p then ?f p else p) \<in> set (bk_quotes b')"
      unfolding quotes set_update_where using p(1) by blast
    ultimately show ?thesis by blast
  qed
  moreover have "\<forall>p \<in> set (bk_quotes b'). quote_wf p \<and> Currency (q_BaseAmount p) = CurrencyKRW"
    using inv(1) unfolding quotes set_update_where by (auto simp: ledger_ok_def quote_wf_def)
  moreover have "\<exists>d \<in> set (bk_convs b'). c_QuoteID d = q_ID p"
    if "p \<in> set (bk_quotes b')" "q_AcceptedAt p \<noteq> None" for p
  proof -
    from that(1) obtain p0 where p0: "p0 \<in> set (bk_quotes b)" "p = (if ?P p0 then ?f p0 else p0)"
      unfolding quotes set_update_where by blast
    show ?thesis
    proof (cases "?P p0")
      case True
      then have "q_ID p = q_ID q" using p0(2) cq by (simp add: acceptable_def)
      with stored show ?thesis by (simp add: convs)
    next
      case False
      with inv(1) p0 that(2) show ?thesis by (auto simp: ledger_ok_def convs)
    qed
  qed
  ultimately show ?thesis
    using inv(1) status rest unfolding ledger_ok_def by (auto simp: convs)
qed

lemma ledger_webhook:
  assumes inv: "ledger_ok F b" "book_inv F b" and keeps: "update_keeps_terms update"
    and spec: "spec_webhook F update event b r b'"
  shows "ledger_ok F b'"
proof (cases "\<exists>c. r = Ok (c, False)")
  case False
  then have "b' = b" using spec by (auto simp: spec_webhook_def split: result.splits prod.splits if_splits)
  with inv show ?thesis by simp
next
  case True
  then obtain c where "r = Ok (c, False)" by blast
  with spec have "\<exists>current mid eid now c1 t.
      conv_by_id (sf_id F (ev_ConversionID event)) b = Some current \<and> update event current now = Ok c \<and>
      (c1 = c \<or> c1 = c\<lparr>c_UpdatedAt := t\<rparr>) \<and> b' = webhook_book F mid eid event c c1 now b"
    by (simp add: spec_webhook_def)
  then obtain current mid eid now c1 t where
    cur: "conv_by_id (sf_id F (ev_ConversionID event)) b = Some current"
    and upd: "update event current now = Ok c" and c1: "c1 = c \<or> c1 = c\<lparr>c_UpdatedAt := t\<rparr>"
    and b': "b' = webhook_book F mid eid event c c1 now b"
    by blast
  let ?i = "sf_id F (ev_ConversionID event)"
  let ?d = "stored_conversion F c1"
  have step: "conversion_step current c" using upd keeps by (simp add: update_keeps_terms_def)
  have cur': "c_ID current = ?i" "current \<in> set (bk_convs b)" using conv_by_id_ID [OF cur] by simp_all
  have terms: "terms_of c1 = terms_of current"
    using step_terms [OF step] c1 by (auto simp: terms_of_def)
  have ids: "sf_id F (c_ID current) = c_ID current" "sf_id F (c_QuoteID current) = c_QuoteID current"
    using inv(2) cur'(2) by (auto simp: book_inv_def)
  have d: "c_ID ?d = ?i" "c_QuoteID ?d = c_QuoteID current" "c_BaseAmount ?d = c_BaseAmount current"
    "c_QuoteAmount ?d = c_QuoteAmount current" "c_FeeAmount ?d = c_FeeAmount current"
    "c_TotalDebitAmount ?d = c_TotalDebitAmount current" "c_Rate ?d = sf_rate F (c_Rate current)"
    using terms ids cur'(1) by (simp_all add: terms_of_def stored_conversion_def sf_id_idem)
  have settled: "settles F q ?d" if "settles F q current" for q
    using that d by (simp add: settles_def sf_rate_idem)
  have status: "c_Status ?d \<in> live_statuses"
  proof -
    from inv(1) cur'(2) have "c_Status current \<in> live_statuses" by (auto simp: ledger_ok_def)
    with step_lifecycle [OF step] have "c_Status c \<in> live_statuses"
      by (auto simp: lifecycle_def live_statuses_def)
    with c1 live_status_stored show ?thesis by (auto simp: stored_conversion_def)
  qed
  have convs: "bk_convs b' = update_where (\<lambda>x. c_ID x = ?i) (\<lambda>_. ?d) (bk_convs b)"
    and rest: "bk_quotes b' = bk_quotes b" "length (bk_outbox b') = Suc (length (bk_outbox b))"
      "bk_inbox b' = bk_inbox b @ [stored_message F (webhook_message mid event now)]"
    by (simp_all add: b' webhook_book_def)
  have same: "c_QuoteID x = c_QuoteID current" if "x \<in> set (bk_convs b)" "c_ID x = ?i" for x
  proof -
    have "distinct (map c_ID (bk_convs b))" using inv(2) by (simp add: book_inv_def book_ok_def)
    with that cur' have "x = current" by (simp add: distinct_map inj_on_def)
    then show ?thesis by simp
  qed
  have quote_ids: "\<exists>y \<in> set (bk_convs b'). c_QuoteID y = c_QuoteID x \<and> c_ID y = c_ID x"
    if "x \<in> set (bk_convs b)" for x
    using that same d unfolding convs set_update_where by (cases "c_ID x = ?i") auto
  have convs_ok: "\<forall>x \<in> set (bk_convs b'). c_Status x \<in> live_statuses \<and> (\<exists>q \<in> set (bk_quotes b'). settles F q x)"
  proof
    fix x assume "x \<in> set (bk_convs b')"
    then obtain x0 where x0: "x0 \<in> set (bk_convs b)" "x = (if c_ID x0 = ?i then ?d else x0)"
      unfolding convs set_update_where by blast
    show "c_Status x \<in> live_statuses \<and> (\<exists>q \<in> set (bk_quotes b'). settles F q x)"
    proof (cases "c_ID x0 = ?i")
      case True
      moreover from inv(1) cur'(2) obtain q where "q \<in> set (bk_quotes b)" "settles F q current"
        by (auto simp: ledger_ok_def)
      ultimately show ?thesis using x0(2) status settled rest(1) by auto
    next
      case False
      with x0 inv(1) rest(1) show ?thesis by (auto simp: ledger_ok_def)
    qed
  qed
  have inbox_ok: "\<exists>c \<in> set (bk_convs b'). c_ID c = m_ConversionID m" if "m \<in> set (bk_inbox b')" for m
  proof (cases "m \<in> set (bk_inbox b)")
    case True
    with inv(1) obtain x where "x \<in> set (bk_convs b)" "c_ID x = m_ConversionID m"
      by (auto simp: ledger_ok_def)
    with quote_ids [of x] show ?thesis by metis
  next
    case False
    with that have "m_ConversionID m = c_ID current"
      using cur'(1) by (auto simp: rest(3) stored_message_def webhook_message_def)
    with quote_ids [OF cur'(2)] show ?thesis by metis
  qed
  have accepted_ok: "\<exists>c \<in> set (bk_convs b'). c_QuoteID c = q_ID q"
    if "q \<in> set (bk_quotes b')" "q_AcceptedAt q \<noteq> None" for q
  proof -
    from that rest(1) inv(1) obtain x where "x \<in> set (bk_convs b)" "c_QuoteID x = q_ID q"
      by (auto simp: ledger_ok_def)
    with quote_ids [of x] show ?thesis by metis
  qed
  have wf: "\<forall>q \<in> set (bk_quotes b'). quote_wf q \<and> Currency (q_BaseAmount q) = CurrencyKRW"
    using inv(1) rest(1) by (simp add: ledger_ok_def)
  have "length (bk_convs b') = length (bk_convs b)" by (simp add: convs)
  moreover have "length (bk_outbox b) = length (bk_convs b) + length (bk_inbox b)"
    using inv(1) by (simp add: ledger_ok_def)
  moreover have "length (bk_inbox b') = Suc (length (bk_inbox b))" by (simp add: rest(3))
  ultimately have "length (bk_outbox b') = length (bk_convs b') + length (bk_inbox b')"
    using rest(2) by linarith
  then show ?thesis
    unfolding ledger_ok_def using wf convs_ok inbox_ok accepted_ok by blast
qed

lemma ledger_publish:
  assumes "ledger_ok F b" "spec_publish F limit b r b'"
  shows "ledger_ok F b'"
proof -
  have len: "length (bk_outbox (fold (apply_outcome F) ps x)) = length (bk_outbox x) \<and>
      bk_quotes (fold (apply_outcome F) ps x) = bk_quotes x \<and>
      bk_convs (fold (apply_outcome F) ps x) = bk_convs x \<and>
      bk_inbox (fold (apply_outcome F) ps x) = bk_inbox x" for ps x
  proof (induction ps arbitrary: x)
    case (Cons p ps)
    have "length (bk_outbox (apply_outcome F p x)) = length (bk_outbox x)"
      using apply_outcome_ids [of F p x] by (metis length_map)
    with Cons.IH [of "apply_outcome F p x"] show ?case by (simp add: apply_outcome_frame)
  qed simp
  from assms(2) have "b' = b \<or> (\<exists>ps. b' = fold (apply_outcome F) ps b)"
    by (auto simp: spec_publish_def published_batch_def)
  then consider "b' = b" | ps where "b' = fold (apply_outcome F) ps b" by blast
  then show ?thesis
  proof cases
    case 2
    with assms(1) len [of ps b] show ?thesis by (simp add: ledger_ok_def)
  qed (use assms in simp)
qed

end

section \<open>No operation breaks it\<close>

abbreviation sys_form :: "('s, 'd) libraries \<Rightarrow> columns \<Rightarrow> 'd stored_form" where
  "sys_form X C \<equiv> stored_form_of (lib_decimal X) C"

abbreviation sys_book :: "('s, 'd) libraries \<Rightarrow> ('s \<Rightarrow> database) \<Rightarrow> 's \<Rightarrow> 'd book" where
  "sys_book X view s \<equiv> book_of (lib_decimal X) (view s)"

text \<open>
  A state between two requests: the mapper has no transaction open, the rows decode, and the
  ledger's invariant holds of the book they stand for.
\<close>

definition sound_state ::
  "'d decimal_lib \<Rightarrow> columns \<Rightarrow> ('s \<Rightarrow> database) \<Rightarrow> ('s \<Rightarrow> database option) \<Rightarrow> ('s \<Rightarrow> bool) \<Rightarrow> 's \<Rightarrow> bool" where
  "sound_state D C view snap okE s \<longleftrightarrow>
     store_ok D C view snap okE s \<and> snap s = None \<and> ledger_ok (stored_form_of D C) (book_of D (view s))"

context fx_system begin

lemma usecases_wired:
  assumes "system_usecases X cfg = Ok us"
  shows "us = \<lparr>us_GetReferenceRates =
      \<lparr>gr_repository = tx_Rates (uow_Repos (system_uow X)), gr_provider = env_Provider (system_env X cfg),
       gr_telemetry = env_Telemetry (system_env X cfg)\<rparr>,
    us_CreateQuote =
      \<lparr>cq_repository = tx_Quotes (uow_Repos (system_uow X)), cq_rateRepo = tx_Rates (uow_Repos (system_uow X)),
       cq_provider = env_Provider (system_env X cfg), cq_clock = env_Clock (system_env X cfg),
       cq_telemetry = env_Telemetry (system_env X cfg), cq_quoteTTL = cfg_QuoteTTL cfg,
       cq_feeBPS = cfg_FXFeeBPS cfg, cq_minFee = \<lparr>Currency = CurrencyKRW, MinorUnits = cfg_FXMinFeeMinor cfg\<rparr>\<rparr>,
    us_AcceptQuote =
      \<lparr>aq_quotes = tx_Quotes (uow_Repos (system_uow X)),
       aq_conversions = tx_Conversions (uow_Repos (system_uow X)), aq_unitOfWork = system_uow X,
       aq_clock = env_Clock (system_env X cfg), aq_telemetry = env_Telemetry (system_env X cfg)\<rparr>,
    us_GetConversion =
      \<lparr>gc_repository = tx_Conversions (uow_Repos (system_uow X)),
       gc_telemetry = env_Telemetry (system_env X cfg)\<rparr>,
    us_HandlePaymentWebhook =
      \<lparr>hp_conversions = tx_Conversions (uow_Repos (system_uow X)), hp_unitOfWork = system_uow X,
       hp_clock = env_Clock (system_env X cfg), hp_telemetry = env_Telemetry (system_env X cfg)\<rparr>,
    us_HandleTransferWebhook =
      \<lparr>ht_conversions = tx_Conversions (uow_Repos (system_uow X)), ht_unitOfWork = system_uow X,
       ht_clock = env_Clock (system_env X cfg), ht_telemetry = env_Telemetry (system_env X cfg)\<rparr>\<rparr>"
proof -
  have krw: "supported CurrencyKRW" by (simp add: supported_iff CurrencyKRW_def)
  show ?thesis
    using assms krw
    by (auto simp: system_usecases_def newUsecases_def system_uow_def store_wiring system_env_def)
qed

lemma sound_after:
  assumes sound: "sound_state (lib_decimal X) C view snap okE s"
    and run: "triple (\<lambda>s. book_of (lib_decimal X) (view s))
      (\<lambda>s. map_option (book_of (lib_decimal X)) (snap s)) (store_ok (lib_decimal X) C view snap okE)
      None (\<lambda>b. b = book_of (lib_decimal X) (view s)) c (\<lambda>r b'. \<exists>b. b = book_of (lib_decimal X) (view s) \<and> spec b r b')"
    and keeps: "\<And>b r b'. ledger_ok (stored_form_of (lib_decimal X) C) b \<Longrightarrow>
      book_inv (stored_form_of (lib_decimal X) C) b \<Longrightarrow> spec b r b' \<Longrightarrow>
      ledger_ok (stored_form_of (lib_decimal X) C) b'"
  shows "sound_state (lib_decimal X) C view snap okE (snd (c s))"
proof -
  obtain r t where c: "c s = (r, t)" by (cases "c s")
  have "store_ok (lib_decimal X) C view snap okE s" "snap s = None"
    "ledger_ok (stored_form_of (lib_decimal X) C) (book_of (lib_decimal X) (view s))"
    using sound by (simp_all add: sound_state_def)
  moreover from this have "book_inv (stored_form_of (lib_decimal X) C) (book_of (lib_decimal X) (view s))"
    using env.ok_book_inv by blast
  ultimately show ?thesis
    using tripleD [OF run _ _ _ c] keeps by (auto simp: sound_state_def c)
qed

lemma env_projections:
  "env_ULID (system_env X cfg) = lib_ulid X" "env_WallClock (system_env X cfg) = lib_now X"
  "rate_repository_of (lib_decimal X) (lib_now X) (system_store X) = tx_Rates (uow_Repos (system_uow X))"
  "outbox_repository_of (system_store X) = tx_Outbox (uow_Repos (system_uow X))"
  "ps_RateProvider (system_providers X cfg) = env_Provider (system_env X cfg)"
  "ps_EventPublisher (system_providers X cfg) = env_Publisher (system_env X cfg)"
  "lib_telemetry X = env_Telemetry (system_env X cfg)"
  by (simp_all add: system_env_def system_uow_def store_wiring)

lemma run_operation_sound:
  assumes us: "system_usecases X cfg = Ok us" and op: "operation_ok op"
    and sound: "sound_state (lib_decimal X) C view snap okE s"
  shows "sound_state (lib_decimal X) C view snap okE (run_operation X cfg us op s)"
proof (cases op)
  case (GetRates base quotes)
  show ?thesis unfolding GetRates run_operation.simps env_projections(1) [symmetric]
    by (rule sound_after [OF sound env.triple_GetReferenceRates])
      (use op in \<open>auto simp: GetRates usecases_wired [OF us] spec_ensure_def intro: ledger_rates\<close>)
next
  case (NewQuote key base target)
  show ?thesis unfolding NewQuote run_operation.simps env_projections(1) [symmetric]
    by (rule sound_after [OF sound env.triple_CreateQuote])
      (use op in \<open>auto simp: NewQuote usecases_wired [OF us] intro: ledger_create [rotated 2]\<close>)
next
  case (Accept key qid pay tra)
  show ?thesis unfolding Accept run_operation.simps env_projections(1) [symmetric]
    by (rule sound_after [OF sound env.triple_AcceptQuote])
      (auto simp: usecases_wired [OF us] env_projections intro: env.ledger_accept)
next
  case (ReadConversion cid)
  show ?thesis unfolding ReadConversion run_operation.simps env_projections(1) [symmetric]
    by (rule sound_after [OF sound env.triple_GetConversion])
      (auto simp: usecases_wired [OF us] spec_GetConversionByID_def)
next
  case (PaymentEvent ev)
  show ?thesis unfolding PaymentEvent run_operation.simps env_projections(1) [symmetric]
    by (rule sound_after [OF sound env.triple_HandlePaymentWebhook])
      (auto simp: usecases_wired [OF us] intro: env.ledger_webhook [OF _ _ payment_update_keeps])
next
  case (TransferEvent ev)
  show ?thesis unfolding TransferEvent run_operation.simps env_projections(1) [symmetric]
    by (rule sound_after [OF sound env.triple_HandleTransferWebhook])
      (auto simp: usecases_wired [OF us] intro: env.ledger_webhook [OF _ _ transfer_update_keeps])
next
  case (SyncRates base quotes)
  show ?thesis unfolding SyncRates run_operation.simps
    by (rule sound_after [OF sound env.triple_SyncReferenceRates])
      (auto simp: sync_usecase_def env_projections intro: ledger_rates)
next
  case (PublishPending limit)
  show ?thesis unfolding PublishPending run_operation.simps
  proof (rule sound_after [OF sound triple_post, where spec = "spec_publish (stored_form_of (lib_decimal X) C) limit"])
    show "triple (\<lambda>s. book_of (lib_decimal X) (view s)) (\<lambda>s. map_option (book_of (lib_decimal X)) (snap s))
        (store_ok (lib_decimal X) C view snap okE) None (\<lambda>b. b = book_of (lib_decimal X) (view s))
        (PublishOutbox_Execute (lib_now X)
          (outbox_usecase (system_store X) (system_providers X cfg) (lib_telemetry X)) limit)
        (spec_publish (stored_form_of (lib_decimal X) C) limit (book_of (lib_decimal X) (view s)))"
      using env.triple_PublishOutbox
        [of "outbox_usecase (system_store X) (system_providers X cfg) (lib_telemetry X)" None]
      by (simp add: outbox_usecase_def env_projections)
  qed (auto intro: env.ledger_publish)
qed

lemma system_run_sound:
  assumes "system_usecases X cfg = Ok us" "system_run (run_operation X cfg us) s t"
    and "sound_state (lib_decimal X) C view snap okE s"
  shows "sound_state (lib_decimal X) C view snap okE t"
  using assms(2,3) by induction (auto intro: run_operation_sound [OF assms(1)])

text \<open>What each call does to the book, from any sound state.\<close>

lemma spec_of_triple:
  assumes sound: "sound_state (lib_decimal X) C view snap okE s"
    and run: "triple (sys_book X view) (\<lambda>s. map_option (book_of (lib_decimal X)) (snap s))
      (store_ok (lib_decimal X) C view snap okE) None (\<lambda>b. b = sys_book X view s) c
      (\<lambda>r b'. \<exists>b. b = sys_book X view s \<and> spec b r b')"
    and c: "c s = (r, t)"
  shows "spec (sys_book X view s) r (sys_book X view t)"
  using tripleD [OF run _ _ refl c] sound by (simp add: sound_state_def)

lemma accept_spec:
  assumes "system_usecases X cfg = Ok us" "sound_state (lib_decimal X) C view snap okE s"
    and "AcceptQuote_Execute (lib_ulid X) (us_AcceptQuote us) key qid pay tra s = (r, t)"
  shows "spec_accept_quote (sys_form X C) key qid pay tra (sys_book X view s) r (sys_book X view t)"
  by (rule spec_of_triple [OF assms(2) env.triple_AcceptQuote assms(3) [folded env_projections(1)]])
    (simp_all add: usecases_wired [OF assms(1)] env_projections)

lemma create_spec:
  assumes "system_usecases X cfg = Ok us" "sound_state (lib_decimal X) C view snap okE s"
    and "supported (Currency base)" "supported target"
    and "CreateQuote_Execute (lib_decimal X) (lib_ulid X) (us_CreateQuote us) key base target s = (r, t)"
  shows "spec_create_quote (lib_decimal X) (sys_form X C) (echo_quote_of (lib_decimal X))
    (cfg_FXFeeBPS cfg) \<lparr>Currency = CurrencyKRW, MinorUnits = cfg_FXMinFeeMinor cfg\<rparr> (cfg_QuoteTTL cfg)
    key base target (sys_book X view s) r (sys_book X view t)"
proof -
  have eq: "cq_feeBPS (us_CreateQuote us) = cfg_FXFeeBPS cfg" "cq_quoteTTL (us_CreateQuote us) = cfg_QuoteTTL cfg"
    "cq_minFee (us_CreateQuote us) = \<lparr>Currency = CurrencyKRW, MinorUnits = cfg_FXMinFeeMinor cfg\<rparr>"
    by (simp_all add: usecases_wired [OF assms(1)])
  show ?thesis
    unfolding eq [symmetric]
    by (rule spec_of_triple [OF assms(2) env.triple_CreateQuote assms(5) [folded env_projections(1)]])
      (use assms(3,4) in \<open>simp_all add: usecases_wired [OF assms(1)]\<close>)
qed

lemma payment_spec:
  assumes "system_usecases X cfg = Ok us" "sound_state (lib_decimal X) C view snap okE s"
    and "HandlePaymentWebhook_Execute (lib_ulid X) (us_HandlePaymentWebhook us) event s = (r, t)"
  shows "spec_webhook (sys_form X C) payment_update event (sys_book X view s) r (sys_book X view t)"
  by (rule spec_of_triple [OF assms(2) env.triple_HandlePaymentWebhook assms(3) [folded env_projections(1)]])
    (simp_all add: usecases_wired [OF assms(1)])

lemma transfer_spec:
  assumes "system_usecases X cfg = Ok us" "sound_state (lib_decimal X) C view snap okE s"
    and "HandleTransferWebhook_Execute (lib_ulid X) (us_HandleTransferWebhook us) event s = (r, t)"
  shows "spec_webhook (sys_form X C) transfer_update event (sys_book X view s) r (sys_book X view t)"
  by (rule spec_of_triple [OF assms(2) env.triple_HandleTransferWebhook assms(3) [folded env_projections(1)]])
    (simp_all add: usecases_wired [OF assms(1)])

lemma rates_spec:
  assumes "system_usecases X cfg = Ok us" "sound_state (lib_decimal X) C view snap okE s"
    and "supported base" "\<forall>c \<in> set quotes. supported c"
    and "GetReferenceRates_Execute (lib_decimal X) (us_GetReferenceRates us) base quotes s = (r, t)"
  shows "spec_ensure (lib_decimal X) (sys_form X C) base quotes (sys_book X view s) r (sys_book X view t)"
  by (rule spec_of_triple [OF assms(2) env.triple_GetReferenceRates assms(5)])
    (use assms(3,4) in \<open>simp_all add: usecases_wired [OF assms(1)]\<close>)

lemma conversion_spec:
  assumes "system_usecases X cfg = Ok us" "sound_state (lib_decimal X) C view snap okE s"
    and "GetConversion_Execute (us_GetConversion us) cid s = (r, t)"
  shows "spec_GetConversionByID (sys_form X C) cid (sys_book X view s) r (sys_book X view t)"
  by (rule spec_of_triple [OF assms(2) env.triple_GetConversion assms(3)])
    (simp_all add: usecases_wired [OF assms(1)])

lemma publish_spec:
  assumes "sound_state (lib_decimal X) C view snap okE s"
    and "PublishOutbox_Execute (lib_now X)
      (outbox_usecase (system_store X) (system_providers X cfg) (lib_telemetry X)) limit s = (r, t)"
  shows "spec_publish (sys_form X C) limit (sys_book X view s) r (sys_book X view t)"
proof -
  have "triple (sys_book X view) (\<lambda>s. map_option (book_of (lib_decimal X)) (snap s))
      (store_ok (lib_decimal X) C view snap okE) None (\<lambda>b. b = sys_book X view s)
      (PublishOutbox_Execute (lib_now X)
        (outbox_usecase (system_store X) (system_providers X cfg) (lib_telemetry X)) limit)
      (spec_publish (sys_form X C) limit (sys_book X view s))"
    using env.triple_PublishOutbox
      [of "outbox_usecase (system_store X) (system_providers X cfg) (lib_telemetry X)" None]
    by (simp add: outbox_usecase_def env_projections)
  from tripleD [OF this _ _ refl assms(2)] assms(1) show ?thesis by (simp add: sound_state_def)
qed

end

end
