(* ===== verification/Scenario.thy ===== *)
theory Scenario
  imports Ledger
begin

text \<open>
  The wired system on the engine of the theory \<open>Memory\<close>: the interpretation of \<open>fx_system\<close>,
  and a settlement from the quote to the completed transfer, evaluated step by step. The
  witnesses of the properties run on these states.
\<close>

section \<open>The system on the engine in memory\<close>

definition mem_libraries :: "(world, decimal) libraries" where
  "mem_libraries =
     \<lparr>lib_decimal = decimals, lib_sql = mem_sql, lib_logger = mem_logger, lib_now = mem_now,
      lib_http = mem_http, lib_info = mem_info, lib_telemetry = prometheus_telemetry,
      lib_ulid = mem_ulid\<rparr>"

lemma mem_decode_no_panic: "\<not> is_panic (hl_DecodeRates mem_http body)"
proof -
  have "map_until mem_decode_line xs \<noteq> Panic p" for xs p
    by (rule map_until_no_panic) (auto simp: mem_decode_line_def split: list.splits option.splits)
  then show ?thesis
    by (cases "hl_DecodeRates mem_http body") (auto simp: mem_http_def)
qed

lemma mem_system: "fx_system mem_libraries mem_columns w_db w_snap (\<lambda>_. True)"
proof (intro fx_system.intro fx_system_axioms.intro, goal_cases)
  case 1
  show ?case using mem_store.store_over_sql_axioms by (simp add: mem_libraries_def)
next
  case (2 s u r t)
  then show ?case by (auto simp: mem_libraries_def mem_http_def split: list.splits option.splits)
next
  case (3 body) show ?case using mem_decode_no_panic by (simp add: mem_libraries_def)
next
  case (4 u) show ?case by (simp add: mem_libraries_def mem_http_def)
next
  case (5 u) show ?case by (simp add: mem_libraries_def mem_http_def)
next
  case (6 s message kvs) show ?case by (simp add: mem_libraries_def mem_info_def)
next
  case (7 s i t) then show ?case by (auto simp: mem_libraries_def mem_ulid_def)
next
  case (8 s name n t)
  then show ?case by (auto simp: mem_libraries_def prometheus_telemetry_def StartSpan_def)
next
  case (9 s n err t)
  then show ?case by (auto simp: mem_libraries_def prometheus_telemetry_def FinishSpan_def)
next
  case (10 s g tr op out dur prov ty)
  then show ?case
    by (auto simp: mem_libraries_def prometheus_telemetry_def RecordInboundRequest_def
        RecordWebhookDuplicate_def RecordWebhookAccepted_def RecordOutboxPublished_def
        RecordOutboxPublishFailure_def)
qed

text \<open>The configuration \<open>Load\<close> gives when nothing is set.\<close>

definition default_config :: config where
  "default_config = read_config default_viper"

interpretation mem_system: fx_system mem_libraries mem_columns w_db w_snap "\<lambda>_. True" default_config
  by (rule mem_system)

definition the_ok :: "'a res \<Rightarrow> 'a" where
  "the_ok r = (case r of Ok x \<Rightarrow> x)"

definition mem_usecases :: "(world, decimal) usecase_set" where
  "mem_usecases = the_ok (system_usecases mem_libraries default_config)"

lemma default_fee: "cfg_FXMinFeeMinor default_config = 500"
  by code_simp

lemma mem_min_fee: "MustMoney CurrencyKRW 500 = Ok \<lparr>Currency = CurrencyKRW, MinorUnits = 500\<rparr>"
  by code_simp

lemma mem_usecases_Ok: "system_usecases mem_libraries default_config = Ok mem_usecases"
  unfolding mem_usecases_def the_ok_def
  by (simp add: system_usecases_def newUsecases_def default_fee mem_min_fee)

section \<open>Evaluation rules\<close>

text \<open>
  The rules in \<open>exec\<close> run a call on a concrete state; the congruences in \<open>exec_cong\<close> evaluate the
  state before the call that reads it.
\<close>

definition krw :: "int \<Rightarrow> money" where
  "krw n = \<lparr>Currency = CurrencyKRW, MinorUnits = n\<rparr>"

definition mem_id :: "nat \<Rightarrow> string" where "mem_id = show_padded 26"

lemma mem_id_inj [simp]: assumes "n < 10 ^ 26" "m < 10 ^ 26" shows "mem_id n = mem_id m \<longleftrightarrow> n = m"
  using read_show_padded [of n 26 0] read_show_padded [of m 26 0] assms unfolding mem_id_def by (metis option.inject mult_0 add_0)

lemma last_show_padded: "last (show_padded (Suc k) n) = digit_char (n mod 10)"
  by simp

lemma mem_id_col [simp]: "col_char mem_columns 26 (mem_id n) = mem_id n"
proof (rule mem_col_char)
  show "length (mem_id n) = 26" by (simp add: mem_id_def)
  have "last (mem_id n) = digit_char (n mod 10)"
    using last_show_padded [of 25 n] unfolding mem_id_def by simp
  moreover have "digit_char k \<noteq> CHR '' ''" if "k < 10" for k
    using that by (auto simp: digit_char_def less_Suc_eq numeral_eq_Suc)
  ultimately show "last (mem_id n) \<noteq> CHR '' ''" by simp
qed

named_theorems exec
named_theorems exec_cong

lemma weak_congs [exec_cong]:
  "s = s' \<Longrightarrow> bind m f s = bind m f s'"
  "s = s' \<Longrightarrow> get_with g f s = get_with g f s'"
  "s = s' \<Longrightarrow> on_error n h k s = on_error n h k s'"
  "s = s' \<Longrightarrow> attempt n k' h' s = attempt n k' h' s'"
  "s = s' \<Longrightarrow> with_span T name b s = with_span T name b s'"
  "s = s' \<Longrightarrow> WithinTransaction U w s = WithinTransaction U w s'"
  "s = s' \<Longrightarrow> statement op s = statement op s'"
  by simp_all

definition mem_rates :: "(world, decimal) rate_repository" where
  "mem_rates = rate_repository_of decimals mem_now mem_store"
definition mem_quotes :: "(world, decimal) quote_repository" where
  "mem_quotes = quote_repository_of decimals mem_store"
definition mem_conversions :: "(world, decimal) conversion_repository" where
  "mem_conversions = conversion_repository_of decimals mem_store"
definition mem_events :: "world outbox_repository" where
  "mem_events = outbox_repository_of mem_store"
definition mem_provider :: "(world, decimal) rate_provider" where
  "mem_provider = ps_RateProvider (system_providers mem_libraries default_config)"
definition mem_repos :: "(world, decimal) transaction_repositories" where
  "mem_repos = store_repositories decimals mem_now mem_store"

lemma mem_ports_simps [exec]:
  "rr_UpsertRates mem_rates = UpsertRates decimals mem_now mem_store"
  "rr_ListLatestRates mem_rates = ListLatestRates decimals mem_store"
  "qr_GetQuoteByID mem_quotes = GetQuoteByID decimals mem_store"
  "qr_GetQuoteByIdempotencyKey mem_quotes = GetQuoteByIdempotencyKey decimals mem_store"
  "qr_CreateQuote mem_quotes = CreateQuote decimals mem_store"
  "qr_MarkQuoteAccepted mem_quotes = MarkQuoteAccepted mem_store"
  "cr_GetConversionByID mem_conversions = GetConversionByID decimals mem_store"
  "cr_GetConversionByIdempotencyKey mem_conversions = GetConversionByIdempotencyKey decimals mem_store"
  "cr_CreateConversion mem_conversions = CreateConversion decimals mem_store"
  "cr_UpdateConversion mem_conversions = UpdateConversion decimals mem_store"
  "or_Enqueue mem_events = Enqueue mem_store"
  "or_ListPending mem_events = ListPending mem_store"
  "or_MarkPublished mem_events = MarkPublished mem_store"
  "or_MarkPublishFailed mem_events = MarkPublishFailed mem_store"
  "tx_Rates mem_repos = mem_rates" "tx_Quotes mem_repos = mem_quotes"
  "tx_Conversions mem_repos = mem_conversions" "tx_Outbox mem_repos = mem_events"
  "ir_StoreIfAbsent (tx_WebhookInbox mem_repos) = StoreIfAbsent mem_store"
  "st_db mem_store = mem_sql" "st_logger mem_store = mem_logger"
  "uow_Repos mem_uow = mem_repos"
  by (simp_all add: mem_rates_def mem_quotes_def mem_conversions_def mem_events_def mem_repos_def
      mem_store_def mem_uow_def store_wiring)

lemma mem_uow_simps [exec]:
  "uow_Begin mem_uow s = (case w_faults s of
      True # fs \<Rightarrow> (Err (PlainError ''connection reset''), s\<lparr>w_faults := fs\<rparr>)
    | fs \<Rightarrow> (Ok (), s\<lparr>w_snap := Some (w_db s), w_faults := tl fs\<rparr>))"
  "uow_Commit mem_uow s = (case w_faults s of
      True # fs \<Rightarrow> (Err (PlainError ''connection reset''),
        s\<lparr>w_db := (case w_snap s of Some d \<Rightarrow> d | None \<Rightarrow> w_db s), w_snap := None, w_faults := fs\<rparr>)
    | fs \<Rightarrow> (Ok (), s\<lparr>w_snap := None, w_faults := tl fs\<rparr>))"
  "uow_Rollback mem_uow s =
     s\<lparr>w_db := (case w_snap s of Some d \<Rightarrow> d | None \<Rightarrow> w_db s), w_snap := None\<rparr>"
  by (auto simp: mem_uow_def store_wiring mem_store_def mem_sql_def on_error_def throw_def ret_def
      split: list.splits bool.splits)

lemma default_settings:
  "cfg_QuoteTTL default_config = 900000000000" "cfg_FXFeeBPS default_config = 50"
  by code_simp+

lemma mem_usecases_simps [exec]:
  "us_GetReferenceRates mem_usecases =
     \<lparr>gr_repository = mem_rates, gr_provider = mem_provider, gr_telemetry = prometheus_telemetry\<rparr>"
  "cq_repository (us_CreateQuote mem_usecases) = mem_quotes"
  "cq_rateRepo (us_CreateQuote mem_usecases) = mem_rates"
  "cq_provider (us_CreateQuote mem_usecases) = mem_provider"
  "ck_Now (cq_clock (us_CreateQuote mem_usecases)) = mem_now"
  "cq_telemetry (us_CreateQuote mem_usecases) = prometheus_telemetry"
  "cq_quoteTTL (us_CreateQuote mem_usecases) = 900000000000"
  "cq_feeBPS (us_CreateQuote mem_usecases) = 50"
  "cq_minFee (us_CreateQuote mem_usecases) = krw 500"
  "aq_conversions (us_AcceptQuote mem_usecases) = mem_conversions"
  "aq_unitOfWork (us_AcceptQuote mem_usecases) = mem_uow"
  "ck_Now (aq_clock (us_AcceptQuote mem_usecases)) = mem_now"
  "aq_telemetry (us_AcceptQuote mem_usecases) = prometheus_telemetry"
  "gc_repository (us_GetConversion mem_usecases) = mem_conversions"
  "gc_telemetry (us_GetConversion mem_usecases) = prometheus_telemetry"
  "hp_unitOfWork (us_HandlePaymentWebhook mem_usecases) = mem_uow"
  "ck_Now (hp_clock (us_HandlePaymentWebhook mem_usecases)) = mem_now"
  "hp_telemetry (us_HandlePaymentWebhook mem_usecases) = prometheus_telemetry"
  "ht_unitOfWork (us_HandleTransferWebhook mem_usecases) = mem_uow"
  "ck_Now (ht_clock (us_HandleTransferWebhook mem_usecases)) = mem_now"
  "ht_telemetry (us_HandleTransferWebhook mem_usecases) = prometheus_telemetry"
  by (simp_all add: mem_system.usecases_wired [OF mem_usecases_Ok] system_uow_def system_store_def
      system_env_def mem_libraries_def mem_rates_def mem_quotes_def mem_conversions_def mem_uow_def
      mem_store_def store_wiring krw_def mem_provider_def default_settings default_fee)

lemma mem_sql_simps [exec]:
  "sql_upsert_rates mem_sql = (\<lambda>ms. statement (\<lambda>s.
        let d = w_db s; rows = map (col_rate_row mem_columns) ms
        in if distinct (map rate_row_key rows)
           then (Ok (), d\<lparr>db_rates := fold upsert_rate_row rows (db_rates d)\<rparr>)
           else (Err (PgError ''21000''), d)))"
  "sql_find_rates mem_sql = (\<lambda>prov base quotes. query (\<lambda>d.
        filter (\<lambda>m. rm_Provider m = prov \<and> rm_BaseCurrency m = col_char mem_columns 3 base \<and>
                    rm_QuoteCurrency m \<in> set (map (col_char mem_columns 3) quotes)) (db_rates d)))"
  "sql_first_quote_by_id mem_sql = (\<lambda>qid. query_first (\<lambda>d.
        find (\<lambda>m. qm_ID m = col_char mem_columns 26 qid) (db_quotes d)))"
  "sql_first_quote_by_key mem_sql = (\<lambda>key. query_first (\<lambda>d.
        find (\<lambda>m. qm_IdempotencyKey m = key) (db_quotes d)))"
  "sql_create_quote mem_sql = (\<lambda>q. insert_row (quote_row_taken (col_quote_row mem_columns q)) (\<lambda>_. True)
        (\<lambda>d. d\<lparr>db_quotes := db_quotes d @ [col_quote_row mem_columns q]\<rparr>))"
  "sql_accept_quote mem_sql = (\<lambda>qid tm. statement (\<lambda>s.
        let d = w_db s; P = quote_row_open (col_char mem_columns 26 qid) (col_time mem_columns tm)
        in (Ok (int (length (filter P (db_quotes d)))),
            d\<lparr>db_quotes := update_where P (\<lambda>m. m\<lparr>qm_AcceptedAt := Some (col_time mem_columns tm)\<rparr>) (db_quotes d)\<rparr>)))"
  "sql_first_conversion_by_id mem_sql = (\<lambda>cid. query_first (\<lambda>d.
        find (\<lambda>m. cm_ID m = col_char mem_columns 26 cid) (db_convs d)))"
  "sql_first_conversion_by_key mem_sql = (\<lambda>key. query_first (\<lambda>d.
        find (\<lambda>m. cm_IdempotencyKey m = key) (db_convs d)))"
  "sql_create_conversion mem_sql = (\<lambda>c. insert_row (conversion_row_taken (col_conversion_row mem_columns c))
        (quote_row_exists (col_char mem_columns 26 (cm_QuoteID c)))
        (\<lambda>d. d\<lparr>db_convs := db_convs d @ [col_conversion_row mem_columns c]\<rparr>))"
  "sql_save_conversion mem_sql = (\<lambda>c. statement (mem_save c))"
  "sql_create_inbox mem_sql = (\<lambda>m. statement (mem_create_inbox m))"
  "sql_create_event mem_sql = (\<lambda>ev. insert_row (event_row_exists (col_char mem_columns 26 (om_ID ev))) (\<lambda>_. True)
        (\<lambda>d. d\<lparr>db_events := db_events d @ [col_event_row mem_columns ev]\<rparr>))"
  "sql_find_pending mem_sql = (\<lambda>limit. query (\<lambda>d.
        take (nat limit) (sort_key om_CreatedAt (filter (\<lambda>m. om_PublishedAt m = None) (db_events d)))))"
  "sql_update_published mem_sql = (\<lambda>eid tm. statement (mem_update_events eid
        (\<lambda>m. m\<lparr>om_PublishedAt := Some (col_time mem_columns tm), om_LastError := None,
               om_PublishAttempts := om_PublishAttempts m + 1\<rparr>)))"
  "sql_update_failed mem_sql = (\<lambda>eid reason. statement (mem_update_events eid
        (\<lambda>m. m\<lparr>om_LastError := Some reason, om_PublishAttempts := om_PublishAttempts m + 1\<rparr>)))"
  "sql_begin mem_sql = (\<lambda>s. case w_faults s of
          True # fs \<Rightarrow> (Err (DriverError ''connection reset''), s\<lparr>w_faults := fs\<rparr>)
        | fs \<Rightarrow> (Ok (), s\<lparr>w_snap := Some (w_db s), w_faults := tl fs\<rparr>))"
  "sql_commit mem_sql = (\<lambda>s. case w_faults s of
          True # fs \<Rightarrow> (Err (DriverError ''connection reset''),
            s\<lparr>w_db := (case w_snap s of Some d \<Rightarrow> d | None \<Rightarrow> w_db s), w_snap := None, w_faults := fs\<rparr>)
        | fs \<Rightarrow> (Ok (), s\<lparr>w_snap := None, w_faults := tl fs\<rparr>))"
  "sql_rollback mem_sql = (\<lambda>s.
        s\<lparr>w_db := (case w_snap s of Some d \<Rightarrow> d | None \<Rightarrow> w_db s), w_snap := None\<rparr>)"
  by (simp_all only: mem_sql_def sql.select_convs)

lemma mem_now_simp [exec]: "mem_now s = (w_now s, s\<lparr>w_now := w_now s + w_tick s\<rparr>)"
  by (rule mem_now_def)

lemma mem_ulid_simp [exec]: "mem_ulid s = (mem_id (w_seq s), s\<lparr>w_seq := w_seq s + 1\<rparr>)"
  by (simp add: mem_ulid_def mem_id_def)

lemma telemetry_simps [exec]:
  "tm_StartSpan prometheus_telemetry = StartSpan" "tm_Finish prometheus_telemetry = FinishSpan"
  "tm_RecordInboundRequest prometheus_telemetry = RecordInboundRequest"
  "tm_RecordWebhookDuplicate prometheus_telemetry = RecordWebhookDuplicate"
  "tm_RecordWebhookAccepted prometheus_telemetry = RecordWebhookAccepted"
  "tm_RecordOutboxPublished prometheus_telemetry = RecordOutboxPublished"
  "tm_RecordOutboxPublishFailure prometheus_telemetry = RecordOutboxPublishFailure"
  by (simp_all add: prometheus_telemetry_def)

lemma money_simps [exec]:
  "MustCurrency ''KRW'' = Ok ''KRW''" "MustCurrency ''USD'' = Ok ''USD''"
  "MustMoney ''KRW'' n = Ok \<lparr>Currency = ''KRW'', MinorUnits = n\<rparr>"
  "MustMoney ''USD'' n = Ok \<lparr>Currency = ''USD'', MinorUnits = n\<rparr>"
  by (simp_all add: supported_iff)

lemma decimal_read [exec]: "dec_NewFromString decimals ''0.00074'' = Some (74, -5)"
  by code_simp

lemma decimal_write [exec]: "dec_String decimals (74, -5) = ''0.00074''"
proof -
  have "strip_zeros 5 74 = (5, 74)" "show_padded 5 74 = ''00074''" by code_simp+
  moreover have "show_nat 0 = ''0''" by (simp add: show_nat.simps [of 0] digit_char_def)
  ultimately show ?thesis by (simp add: decimals_def fixed_text_def)
qed

lemma mem_id_nonempty [simp]: "mem_id n \<noteq> []"
  by (simp add: mem_id_def flip: length_0_conv)

lemma col_simps [exec]:
  "col_char mem_columns 3 ''KRW'' = ''KRW''" "col_char mem_columns 3 ''USD'' = ''USD''"
  "col_varchar mem_columns n v = take n v" "col_numeric mem_columns v = v"
  "col_time mem_columns t = t div 1000 * 1000" "col_json mem_columns v = v"
  by (simp_all add: mem_columns_def)

declare ValidatePositive_def [exec] ProviderFrankfurter_def [exec]

declare bind_def [exec] get_with_def [exec] on_error_def [exec] attempt_def [exec] with_span_def [exec]
  WithinTransaction_def [exec] ret_def [exec] throw_def [exec] lift_def [exec] perform_def [exec]
  statement_def [exec] query_def [exec] query_first_def [exec] insert_row_def [exec]
  mem_save_def [exec] mem_create_inbox_def [exec] mem_update_events_def [exec]
  StartSpan_def [exec] FinishSpan_def [exec] end_span_def [exec]
  RecordWebhookDuplicate_def [exec] RecordWebhookAccepted_def [exec]
  CreateQuote_Execute_def [exec] AcceptQuote_Execute_def [exec] AcceptQuote_tx_def [exec]
  HandlePaymentWebhook_Execute_def [exec] HandlePaymentWebhook_tx_def [exec]
  HandleTransferWebhook_Execute_def [exec] HandleTransferWebhook_tx_def [exec]
  GetConversion_Execute_def [exec] ensureReferenceRates_def [exec]
  UpsertRates_def [exec] ListLatestRates_def [exec] GetQuoteByID_def [exec] GetQuoteByIdempotencyKey_def [exec]
  CreateQuote_def [exec] MarkQuoteAccepted_def [exec] GetConversionByID_def [exec]
  GetConversionByIdempotencyKey_def [exec] CreateConversion_def [exec] UpdateConversion_def [exec]
  StoreIfAbsent_def [exec] Enqueue_def [exec] 
   
  col_rate_row_def [exec]
  
  quote_row_taken_def [exec] conversion_row_taken_def [exec] quote_row_exists_def [exec]
  conversion_row_exists_def [exec] event_row_exists_def [exec] inbox_row_seen_def [exec] inbox_row_key_def [exec] quote_row_open_def [exec]
   
  update_where_def [exec] 
  
  payment_update_def [exec] transfer_update_def [exec] 
  
  increment_def [exec] internalError_def [exec] mem_logger_def [exec] mem_info_def [exec]
  isUniqueViolation_def [exec]
  sortRates_def [exec] index_by_quote_def [exec] first_rate_def [exec]

lemma let_weak [exec_cong]: "a = b \<Longrightarrow> Let a f = Let b f" by simp

text \<open>Amounts and decimals of the scenario.\<close>

lemma mem_convert:
  "Convert decimals \<lparr>Currency = ''KRW'', MinorUnits = 100000\<rparr> ''USD'' (74, -5) =
     Ok \<lparr>Currency = ''USD'', MinorUnits = 7400\<rparr>"
  by code_simp

lemma mem_fee:
  "FeeFromBPS \<lparr>Currency = ''KRW'', MinorUnits = 100000\<rparr> 50 \<lparr>Currency = ''KRW'', MinorUnits = 500\<rparr> =
     Ok \<lparr>Currency = ''KRW'', MinorUnits = 500\<rparr>"
  by code_simp

lemma mem_add:
  "Add \<lparr>Currency = ''KRW'', MinorUnits = 100000\<rparr> \<lparr>Currency = ''KRW'', MinorUnits = 500\<rparr> =
     Ok \<lparr>Currency = ''KRW'', MinorUnits = 100500\<rparr>"
  by code_simp

section \<open>A settlement\<close>

definition empty_db :: database where
  "empty_db = \<lparr>db_rates = [], db_quotes = [], db_convs = [], db_inbox = [], db_events = []\<rparr>"

text \<open>
  A state of the engine by the fields the calls read: the database, the snapshot, the faults,
  the clock, the next identifier, the spans and the number of webhooks accepted and repeated.
\<close>

definition world_of ::
  "database \<Rightarrow> database option \<Rightarrow> bool list \<Rightarrow> time \<Rightarrow> nat \<Rightarrow> span list \<Rightarrow> (string list \<Rightarrow> nat) \<Rightarrow>
   (string list \<Rightarrow> nat) \<Rightarrow> http_response option list \<Rightarrow> world" where
  "world_of d sv faults now n spans acc dup answers =
     \<lparr>tl_spans = spans, tl_inboundRequestCount = (\<lambda>_. 0), tl_inboundRequestDuration = (\<lambda>_. []),
      tl_webhookDuplicateCount = dup, tl_webhookAcceptedCount = acc,
      tl_outboxPublishedCount = (\<lambda>_. 0), tl_outboxPublishFailCount = (\<lambda>_. 0),
      w_db = d, w_snap = sv, w_faults = faults, w_now = now, w_tick = 1000000000,
      w_seq = n, w_log = [], w_answers = answers, w_open = []\<rparr>"

lemma world_of_simps [exec]:
  "w_db (world_of d sv fs t n sps acc dup ans) = d" "w_snap (world_of d sv fs t n sps acc dup ans) = sv"
  "w_faults (world_of d sv fs t n sps acc dup ans) = fs" "w_now (world_of d sv fs t n sps acc dup ans) = t"
  "w_tick (world_of d sv fs t n sps acc dup ans) = 1000000000" "w_seq (world_of d sv fs t n sps acc dup ans) = n"
  "tl_spans (world_of d sv fs t n sps acc dup ans) = sps"
  "tl_webhookAcceptedCount (world_of d sv fs t n sps acc dup ans) = acc"
  "tl_webhookDuplicateCount (world_of d sv fs t n sps acc dup ans) = dup"
  "w_answers (world_of d sv fs t n sps acc dup ans) = ans"
  "(world_of d sv fs t n sps acc dup ans)\<lparr>w_db := d'\<rparr> = world_of d' sv fs t n sps acc dup ans"
  "(world_of d sv fs t n sps acc dup ans)\<lparr>w_snap := sv'\<rparr> = world_of d sv' fs t n sps acc dup ans"
  "(world_of d sv fs t n sps acc dup ans)\<lparr>w_faults := fs'\<rparr> = world_of d sv fs' t n sps acc dup ans"
  "(world_of d sv fs t n sps acc dup ans)\<lparr>w_now := t'\<rparr> = world_of d sv fs t' n sps acc dup ans"
  "(world_of d sv fs t n sps acc dup ans)\<lparr>w_seq := n'\<rparr> = world_of d sv fs t n' sps acc dup ans"
  "(world_of d sv fs t n sps acc dup ans)\<lparr>tl_spans := sps'\<rparr> = world_of d sv fs t n sps' acc dup ans"
  "(world_of d sv fs t n sps acc dup ans)\<lparr>tl_webhookAcceptedCount := acc'\<rparr> =
     world_of d sv fs t n sps acc' dup ans"
  "(world_of d sv fs t n sps acc dup ans)\<lparr>tl_webhookDuplicateCount := dup'\<rparr> =
     world_of d sv fs t n sps acc dup' ans"
  "(world_of d sv fs t n sps acc dup ans)\<lparr>w_answers := ans'\<rparr> = world_of d sv fs t n sps acc dup ans'"
  by (simp_all add: world_of_def)

definition start :: "database \<Rightarrow> nat \<Rightarrow> bool list \<Rightarrow> world" where
  "start d n faults = world_of d None faults 1700000000000000000 n [] (\<lambda>_. 0) (\<lambda>_. 0) []"

text \<open>The state after a call from \<open>start\<close>: one clock reading later, one span ended.\<close>

definition ended :: "database \<Rightarrow> nat \<Rightarrow> string \<Rightarrow> go_error list \<Rightarrow> world" where
  "ended d n name errs =
     world_of d None [] 1700000001000000000 n [\<lparr>sp_name = name, sp_errors = errs, sp_ended = True\<rparr>]
       (\<lambda>_. 0) (\<lambda>_. 0) []"

definition rate_row :: reference_rate_row where
  "rate_row =
     \<lparr>rm_BaseCurrency = ''KRW'', rm_QuoteCurrency = ''USD'', rm_Provider = ''frankfurter'', rm_Rate = ''0.00074'',
      rm_ObservedAt = 1704153600000000000, rm_FetchedAt = 1700000000000000000,
      rm_UpdatedAt = 1700000000000000000\<rparr>"

definition usd_rate :: "decimal exchange_rate" where
  "usd_rate =
     \<lparr>rate_Base = ''KRW'', rate_Quote = ''USD'', rate_Provider = ''frankfurter'', rate_Rate = (74, -5),
      rate_ObservedAt = 1704153600000000000, rate_FetchedAt = 1700000000000000000\<rparr>"

text \<open>The rate from won to dollars is stored; then 100000 won are quoted.\<close>

definition db0 :: database where
  "db0 = empty_db\<lparr>db_rates := [rate_row]\<rparr>"

definition quote1 :: "decimal quote" where
  "quote1 =
     \<lparr>q_ID = mem_id 1, q_IdempotencyKey = ''order-1'', q_BaseAmount = krw 100000,
      q_QuoteAmount = \<lparr>Currency = CurrencyUSD, MinorUnits = 7400\<rparr>, q_FeeAmount = krw 500,
      q_TotalDebitAmount = krw 100500, q_Rate = (74, -5), q_RateProvider = ProviderFrankfurter,
      q_ExpiresAt = 1700000900000000000, q_AcceptedAt = None, q_CreatedAt = 1700000000000000000\<rparr>"

definition quote_row1 :: quote_row where
  "quote_row1 = quoteModelFromDomain decimals quote1"

definition db1 :: database where
  "db1 = db0\<lparr>db_quotes := [quote_row1]\<rparr>"

lemmas code_defs = CurrencyKRW_def CurrencyUSD_def ProviderFrankfurter_def ProviderToss_def ProviderWise_def

lemma krw_simps [exec]: "Currency (krw n) = ''KRW''" "MinorUnits (krw n) = n"
  by (simp_all add: krw_def CurrencyKRW_def)

lemma rate_row_simps [exec]:
  "rm_Provider rate_row = ''frankfurter''" "rm_BaseCurrency rate_row = ''KRW''"
  "rm_QuoteCurrency rate_row = ''USD''" "rate_toDomain decimals rate_row = Ok usd_rate"
  "rate_Quote usd_rate = ''USD''"
  by (simp_all add: rate_row_def usd_rate_def rate_toDomain_def money_simps decimal_read)

lemma quote1_simps [exec]:
  "New_quote decimals (mem_id 1) ''order-1'' (krw 100000) ''USD'' usd_rate 50 (krw 500)
     1700000000000000000 900000000000 = Ok quote1"
  "quoteModelFromDomain decimals quote1 = quote_row1"
  "col_quote_row mem_columns quote_row1 = quote_row1"
  "qm_ID quote_row1 = mem_id 1" "qm_IdempotencyKey quote_row1 = ''order-1''"
  "qm_AcceptedAt quote_row1 = None" "qm_ExpiresAt quote_row1 = 1700000900000000000"
  "quote_toDomain decimals quote_row1 = Ok quote1"
  by (simp_all add: New_quote_def ValidatePositive_def quote1_def usd_rate_def krw_def code_defs mem_convert
      mem_fee mem_add quote_row1_def quoteModelFromDomain_def col_quote_row_def quote_toDomain_def exec)

lemmas state_defs = start_def ended_def empty_db_def db0_def db1_def

lemma create_quote_run:
  "CreateQuote_Execute decimals mem_ulid (us_CreateQuote mem_usecases) ''order-1'' (krw 100000) ''USD''
     (start db0 1 []) =
   (Ok quote1, ended db1 2 ''usecase.create_quote'' [])"
  by (simp add: exec state_defs Let_def cong: exec_cong del: One_nat_def)

text \<open>The quote is accepted; the conversion awaits its payment.\<close>

definition conv1 :: "decimal conversion" where
  "conv1 =
     \<lparr>c_ID = mem_id 2, c_QuoteID = mem_id 1, c_IdempotencyKey = ''accept-1'', c_BaseAmount = krw 100000,
      c_QuoteAmount = \<lparr>Currency = CurrencyUSD, MinorUnits = 7400\<rparr>, c_FeeAmount = krw 500,
      c_TotalDebitAmount = krw 100500, c_Rate = (74, -5), c_RateProvider = ProviderFrankfurter,
      c_PaymentProvider = ''toss'', c_TransferProvider = ''wise'', c_Status = StatusAwaitingPayment,
      c_ExternalPaymentID = None, c_ExternalTransferID = None, c_FailureReason = None,
      c_CreatedAt = 1700000000000000000, c_UpdatedAt = 1700000000000000000\<rparr>"

definition conv_row1 :: conversion_row where
  "conv_row1 = conversionModelFromDomain decimals conv1"

definition event1 :: outbox_event where
  "event1 = conversion_created (mem_id 3) conv1 1700000000000000000"

definition db2 :: database where
  "db2 = db1
     \<lparr>db_quotes := [quote_row1\<lparr>qm_AcceptedAt := Some 1700000000000000000\<rparr>],
      db_convs := [conv_row1], db_events := [outboxModelFromDomain event1]\<rparr>"

lemma conv1_simps [exec]:
  "FromQuote (mem_id 2) ''accept-1'' quote1 ''toss'' ''wise'' 1700000000000000000 = Ok conv1"
  "CanAccept quote1 1700000000000000000 = Ok ()"
  "conversionModelFromDomain decimals conv1 = conv_row1"
  "col_conversion_row mem_columns conv_row1 = conv_row1"
  "cm_ID conv_row1 = mem_id 2" "cm_QuoteID conv_row1 = mem_id 1" "cm_IdempotencyKey conv_row1 = ''accept-1''"
  "conversion_toDomain decimals conv_row1 = Ok conv1"
  "conversion_created (mem_id 3) conv1 1700000000000000000 = event1"
  "col_event_row mem_columns (outboxModelFromDomain event1) = outboxModelFromDomain event1"
  "om_ID (outboxModelFromDomain event1) = mem_id 3"
  by (simp_all add: FromQuote_def IsSupportedPaymentProvider_def IsSupportedTransferProvider_def CanAccept_def
      quote1_def conv1_def krw_def code_defs conv_row1_def conversionModelFromDomain_def col_conversion_row_def
      conversion_toDomain_def status_defs event1_def conversion_created_def newOutboxEvent_def
      outboxModelFromDomain_def col_event_row_def exec)

lemmas accept_defs = state_defs db2_def

lemma accept_run:
  "AcceptQuote_Execute mem_ulid (us_AcceptQuote mem_usecases) ''accept-1'' (mem_id 1) ''toss'' ''wise''
     (start db1 2 []) =
   (Ok conv1, ended db2 4 ''usecase.accept_quote'' [])"
  by (simp add: exec accept_defs Let_def cong: exec_cong del: One_nat_def)

text \<open>The sixth statement, the insert of the outbox event, fails: nothing was accepted.\<close>

definition enqueue_error :: go_error where
  "enqueue_error =
     WithCause (Internal ''Failed to enqueue outbox event'' [(''reason'', DStr ''PostgresError'')])
       (PlainError ''connection reset'')"

definition faulted :: world where
  "faulted = (ended db1 4 ''usecase.accept_quote'' [enqueue_error])
     \<lparr>w_log := [(''Failed to enqueue outbox event'', [])]\<rparr>"

lemma accept_fault_run:
  "AcceptQuote_Execute mem_ulid (us_AcceptQuote mem_usecases) ''accept-1'' (mem_id 1) ''toss'' ''wise''
     (start db1 2 [False, False, False, False, False, True]) = (Err enqueue_error, faulted)"
  by (simp add: faulted_def enqueue_error_def exec accept_defs Let_def cong: exec_cong del: One_nat_def)
    (simp add: world_of_def)

text \<open>The payment succeeded; the mapper's clock, one reading later, writes the time of the update.\<close>

definition payment_event :: provider_event where
  "payment_event =
     \<lparr>ev_Provider = ''toss'', ev_Topic = ''payment.succeeded'', ev_ExternalEventID = ''evt-1'',
      ev_ConversionID = mem_id 2, ev_ExternalReference = Some ''pay-1'',
      ev_OccurredAt = 1699999999000000000, ev_Payload = ''{}''\<rparr>"

definition conv2 :: "decimal conversion" where
  "conv2 = conv1\<lparr>c_Status := StatusProcessing, c_ExternalPaymentID := Some ''pay-1''\<rparr>"

definition conv_row2 :: conversion_row where
  "conv_row2 = (conversionModelFromDomain decimals conv2)\<lparr>cm_UpdatedAt := 1700000001000000000\<rparr>"

definition message1 :: inbox_message where
  "message1 = webhook_message (mem_id 4) payment_event 1700000000000000000"

definition event2 :: outbox_event where
  "event2 = conversion_changed (mem_id 5) payment_event conv2 1700000000000000000"

definition db3 :: database where
  "db3 = db2
     \<lparr>db_convs := [conv_row2], db_inbox := [webhookModelFromDomain message1],
      db_events := [outboxModelFromDomain event1, outboxModelFromDomain event2]\<rparr>"

lemma payment_simps [exec]:
  "ev_Provider payment_event = ''toss''" "ev_Topic payment_event = ''payment.succeeded''"
  "ev_ConversionID payment_event = mem_id 2" "event_reference payment_event = ''pay-1''"
  "webhook_message (mem_id 4) payment_event 1700000000000000000 = message1"
  "Validate_inbox message1 = Ok ()"
  "col_inbox_row mem_columns (webhookModelFromDomain message1) = webhookModelFromDomain message1"
  "wm_ID (webhookModelFromDomain message1) = mem_id 4"
  "wm_ConversionID (webhookModelFromDomain message1) = mem_id 2"
  "wm_Provider (webhookModelFromDomain message1) = ''toss''"
  "wm_ExternalEventID (webhookModelFromDomain message1) = ''evt-1''"
  "AdvanceForPayment conv1 ''pay-1'' 1700000000000000000 = Ok conv2"
  "(conversionModelFromDomain decimals conv2)\<lparr>cm_UpdatedAt := 1700000001000000000\<rparr> = conv_row2"
  "col_conversion_row mem_columns conv_row2 = conv_row2"
  "cm_ID (col_conversion_row mem_columns (conversionModelFromDomain decimals conv2)) = mem_id 2"
  "cm_QuoteID (col_conversion_row mem_columns (conversionModelFromDomain decimals conv2)) = mem_id 1"
  "cm_IdempotencyKey (col_conversion_row mem_columns (conversionModelFromDomain decimals conv2)) = ''accept-1''"
  "cm_ID conv_row2 = mem_id 2" "cm_QuoteID conv_row2 = mem_id 1" "cm_IdempotencyKey conv_row2 = ''accept-1''"
  "conversion_toDomain decimals conv_row2 = Ok (conv2\<lparr>c_UpdatedAt := 1700000001000000000\<rparr>)"
  "conversion_changed (mem_id 5) payment_event conv2 1700000000000000000 = event2"
  "col_event_row mem_columns (outboxModelFromDomain event2) = outboxModelFromDomain event2"
  "om_ID (outboxModelFromDomain event2) = mem_id 5"
  by (simp_all add: payment_event_def event_reference_def message1_def webhook_message_def Validate_inbox_def
      col_inbox_row_def webhookModelFromDomain_def AdvanceForPayment_def conv1_def conv2_def conv_row2_def
      conversionModelFromDomain_def col_conversion_row_def conversion_toDomain_def status_defs krw_def code_defs
      event2_def conversion_changed_def newOutboxEvent_def outboxModelFromDomain_def col_event_row_def exec)

lemmas payment_defs = accept_defs db3_def

lemma payment_run:
  "HandlePaymentWebhook_Execute mem_ulid (us_HandlePaymentWebhook mem_usecases) payment_event (start db2 4 []) =
     (Ok (conv2, False), (ended db3 6 ''usecase.handle_payment_webhook'' [])
        \<lparr>tl_webhookAcceptedCount := (\<lambda>_. 0)([''toss''] := 1)\<rparr>)"
  by (simp add: exec payment_defs Let_def cong: exec_cong del: One_nat_def)

text \<open>The same event again: it is recognised, and only the duplicate counter moves.\<close>

lemma payment_again_run:
  "HandlePaymentWebhook_Execute mem_ulid (us_HandlePaymentWebhook mem_usecases) payment_event (start db3 4 []) =
     (Ok (conv2\<lparr>c_UpdatedAt := 1700000001000000000\<rparr>, True),
      (ended db3 5 ''usecase.handle_payment_webhook'' [])
        \<lparr>tl_webhookDuplicateCount := (\<lambda>_. 0)([''toss''] := 1)\<rparr>)"
  by (simp add: exec payment_defs Let_def cong: exec_cong del: One_nat_def)

text \<open>The transfer completed.\<close>

definition transfer_event :: provider_event where
  "transfer_event =
     \<lparr>ev_Provider = ''wise'', ev_Topic = ''transfer.completed'', ev_ExternalEventID = ''evt-2'',
      ev_ConversionID = mem_id 2, ev_ExternalReference = Some ''tra-1'',
      ev_OccurredAt = 1699999999000000000, ev_Payload = ''{}''\<rparr>"

definition conv2_stored :: "decimal conversion" where
  "conv2_stored = conv2\<lparr>c_UpdatedAt := 1700000001000000000\<rparr>"

definition conv3 :: "decimal conversion" where
  "conv3 = conv2\<lparr>c_Status := StatusCompleted, c_ExternalTransferID := Some ''tra-1''\<rparr>"

definition conv_row3 :: conversion_row where
  "conv_row3 = (conversionModelFromDomain decimals conv3)\<lparr>cm_UpdatedAt := 1700000001000000000\<rparr>"

definition message2 :: inbox_message where
  "message2 = webhook_message (mem_id 6) transfer_event 1700000000000000000"

definition event3 :: outbox_event where
  "event3 = conversion_changed (mem_id 7) transfer_event conv3 1700000000000000000"

definition db4 :: database where
  "db4 = db3
     \<lparr>db_convs := [conv_row3],
      db_inbox := [webhookModelFromDomain message1, webhookModelFromDomain message2],
      db_events := [outboxModelFromDomain event1, outboxModelFromDomain event2, outboxModelFromDomain event3]\<rparr>"

lemma transfer_simps [exec]:
  "ev_Provider transfer_event = ''wise''" "ev_Topic transfer_event = ''transfer.completed''"
  "ev_ConversionID transfer_event = mem_id 2" "event_reference transfer_event = ''tra-1''"
  "webhook_message (mem_id 6) transfer_event 1700000000000000000 = message2"
  "Validate_inbox message2 = Ok ()"
  "col_inbox_row mem_columns (webhookModelFromDomain message2) = webhookModelFromDomain message2"
  "wm_ID (webhookModelFromDomain message2) = mem_id 6"
  "wm_ConversionID (webhookModelFromDomain message2) = mem_id 2"
  "wm_Provider (webhookModelFromDomain message2) = ''wise''"
  "wm_ExternalEventID (webhookModelFromDomain message2) = ''evt-2''"
  "conv2\<lparr>c_UpdatedAt := 1700000001000000000\<rparr> = conv2_stored"
  "CompleteTransfer conv2_stored ''tra-1'' 1700000000000000000 = Ok conv3"
  "(conversionModelFromDomain decimals conv3)\<lparr>cm_UpdatedAt := 1700000001000000000\<rparr> = conv_row3"
  "col_conversion_row mem_columns conv_row3 = conv_row3"
  "cm_ID (col_conversion_row mem_columns (conversionModelFromDomain decimals conv3)) = mem_id 2"
  "cm_QuoteID (col_conversion_row mem_columns (conversionModelFromDomain decimals conv3)) = mem_id 1"
  "cm_IdempotencyKey (col_conversion_row mem_columns (conversionModelFromDomain decimals conv3)) = ''accept-1''"
  "conversion_toDomain decimals conv_row3 = Ok (conv3\<lparr>c_UpdatedAt := 1700000001000000000\<rparr>)"
  "conversion_changed (mem_id 7) transfer_event conv3 1700000000000000000 = event3"
  "col_event_row mem_columns (outboxModelFromDomain event3) = outboxModelFromDomain event3"
  "om_ID (outboxModelFromDomain event3) = mem_id 7"
  by (simp_all add: transfer_event_def event_reference_def message2_def webhook_message_def Validate_inbox_def
      col_inbox_row_def webhookModelFromDomain_def CompleteTransfer_def conv1_def conv2_def conv2_stored_def
      conv3_def conv_row3_def conversionModelFromDomain_def col_conversion_row_def conversion_toDomain_def
      status_defs krw_def code_defs event3_def conversion_changed_def newOutboxEvent_def
      outboxModelFromDomain_def col_event_row_def exec)

lemma transfer_run:
  "HandleTransferWebhook_Execute mem_ulid (us_HandleTransferWebhook mem_usecases) transfer_event (start db3 6 []) =
     (Ok (conv3, False), (ended db4 8 ''usecase.handle_transfer_webhook'' [])
        \<lparr>tl_webhookAcceptedCount := (\<lambda>_. 0)([''wise''] := 1)\<rparr>)"
  by (simp add: exec payment_defs db4_def Let_def cong: exec_cong del: One_nat_def)

text \<open>The rates that are stored are answered without asking the service.\<close>

lemma rates_run:
  "GetReferenceRates_Execute decimals (us_GetReferenceRates mem_usecases) ''KRW'' [''USD''] (start db0 1 []) =
     (Ok [usd_rate], (ended db0 1 ''usecase.get_reference_rates'' [])\<lparr>w_now := 1700000000000000000\<rparr>)"
  by (simp add: GetReferenceRates_Execute_def exec state_defs Let_def cong: exec_cong del: One_nat_def)

text \<open>One pass over the outbox delivers the event of the acceptance.\<close>

definition mem_outbox :: "world PublishOutboxUsecase" where
  "mem_outbox = outbox_usecase (system_store mem_libraries) (system_providers mem_libraries default_config)
     (lib_telemetry mem_libraries)"

lemma mem_outbox_simps [exec]:
  "po_repository mem_outbox = mem_events" "po_telemetry mem_outbox = prometheus_telemetry"
  "ep_Publish (po_publisher mem_outbox) = LoggingPublisher_Publish mem_info"
  by (simp_all add: mem_outbox_def outbox_usecase_def mem_events_def system_store_def mem_libraries_def
      mem_store_def system_providers_def newProviders_def)

lemma event1_simps [exec]:
  "om_PublishedAt (outboxModelFromDomain event1) = None" "event_toDomain (outboxModelFromDomain event1) = Ok event1"
  "e_ID event1 = mem_id 3" "e_EventType event1 = ''conversion.created''"
  by (simp_all add: outboxModelFromDomain_def event_toDomain_def event1_def conversion_created_def
      newOutboxEvent_def)

lemma publish_run:
  "fst (PublishOutbox_Execute mem_now mem_outbox 10 (start db2 4 [])) =
     Ok \<lparr>pr_Processed = 1, pr_Published = 1, pr_Failed = 0\<rparr>"
  by (simp add: PublishOutbox_Execute_def PublishOutbox_step_def ListPending_def MarkPublished_def
      LoggingPublisher_Publish_def RecordOutboxPublished_def world_of_def
      exec accept_defs Let_def cong: exec_cong del: One_nat_def)

section \<open>The states are sound\<close>

lemma mem_libraries_simps [simp]:
  "lib_decimal mem_libraries = decimals" "lib_ulid mem_libraries = mem_ulid" "lib_now mem_libraries = mem_now"
  by (simp_all add: mem_libraries_def)

abbreviation mem_sound :: "world \<Rightarrow> bool" where
  "mem_sound s \<equiv> sound_state (lib_decimal mem_libraries) mem_columns w_db w_snap (\<lambda>_. True) s"

lemma mem_sound_db: "mem_sound s \<Longrightarrow> w_db t = w_db s \<Longrightarrow> w_snap t = w_snap s \<Longrightarrow> mem_sound t"
  by (simp add: sound_state_def store_ok_def)

lemma start_simps [simp]: "w_db (start d n faults) = d" "w_snap (start d n faults) = None"
  by (simp_all add: start_def exec)

lemma ended_simps [simp]: "w_db (ended d n name errs) = d" "w_snap (ended d n name errs) = None"
  by (simp_all add: ended_def exec)

lemma mem_step:
  assumes "mem_sound s" "operation_ok op"
    and "run_operation mem_libraries default_config mem_usecases op s = t"
  shows "mem_sound t"
  using mem_system.run_operation_sound [OF mem_usecases_Ok assms(2,1)] assms(3) by simp

lemma sound0: "mem_sound (start db0 n faults)"
proof -
  have "db_ok decimals mem_columns db0"
    by (simp add: db_ok_def db0_def empty_db_def rate_row_ok_def rate_row_def supported_iff readable_def
        decimal_read)
  then show ?thesis
    by (simp add: sound_state_def store_ok_def ledger_ok_def book_of_def db0_def empty_db_def)
qed

lemma sound1: "mem_sound (start db1 n faults)"
proof (rule mem_sound_db)
  show "mem_sound (ended db1 2 ''usecase.create_quote'' [])"
    by (rule mem_step [OF sound0 [of 1 "[]"], where op = "NewQuote ''order-1'' (krw 100000) ''USD''"])
      (simp_all add: create_quote_run [simplified] supported_iff krw_simps)
qed simp_all

lemma sound2: "mem_sound (start db2 n faults)"
proof (rule mem_sound_db)
  show "mem_sound (ended db2 4 ''usecase.accept_quote'' [])"
    by (rule mem_step [OF sound1 [of 2 "[]"], where op = "Accept ''accept-1'' (mem_id 1) ''toss'' ''wise''"])
      (simp_all add: accept_run [simplified])
qed simp_all

lemma sound3: "mem_sound (start db3 n faults)"
proof (rule mem_sound_db)
  show "mem_sound (snd (HandlePaymentWebhook_Execute mem_ulid (us_HandlePaymentWebhook mem_usecases)
      payment_event (start db2 4 [])))"
    by (rule mem_step [OF sound2, where op = "PaymentEvent payment_event"]) simp_all
qed (simp_all add: payment_run)

end
