(* ===== verification/Domain_Properties.thy ===== *)
theory Domain_Properties
  imports Scenario
begin

text \<open>
  The properties of the domain (\<open>internal/domain\<close>): money, currencies, keys, quotes and the life
  of a conversion, each with a concrete instance of its hypotheses. They hold for any decimal
  library that keeps \<open>decimal_contract\<close>; the instances use the one of \<open>Decimal_Instance\<close>.
\<close>

section \<open>Amounts\<close>

text \<open>The exact value of a conversion in minor units of the target currency.\<close>

definition exact_amount :: "('d \<Rightarrow> rat) \<Rightarrow> money \<Rightarrow> string \<Rightarrow> 'd \<Rightarrow> rat" where
  "exact_amount num base target rate =
     of_int (MinorUnits base) * num rate * 10 powi (Scale target - money_Scale base)"

lemma exact_amount_nonneg: "0 < MinorUnits base \<Longrightarrow> 0 < num rate \<Longrightarrow> 0 \<le> exact_amount num base target rate"
  by (simp add: exact_amount_def)

lemma exact_amount_range:
  assumes "0 \<le> r" "r \<le> 9223372036854775807"
  shows "in64 (bankers r)"
proof -
  have "bankers r \<le> bankers (of_int 9223372036854775807)" using assms(2) by (intro bankers_mono) simp
  then show ?thesis using bankers_nonneg [OF assms(1)] by (simp only: bankers_of_int in64_def) simp
qed

lemma Convert_exact:
  assumes "decimal_contract D num" "0 < MinorUnits base" "0 < num rate" "supported target"
    and "exact_amount num base target rate \<le> 9223372036854775807"
  shows "Convert D base target rate =
    Ok \<lparr>Currency = target, MinorUnits = bankers (exact_amount num base target rate)\<rparr>"
  using decimal_contract.Convert_value [OF assms(1-4)]
    exact_amount_range [OF exact_amount_nonneg [OF assms(2), of num rate target] assms(5)] assms(3)
  unfolding exact_amount_def by simp

text \<open>C22. A conversion is exact to the half minor unit of the target currency, a tie goes to the even
  amount, and no amount comes out negative.\<close>

theorem convert_rounds_to_even:
  assumes "decimal_contract D num" "0 < MinorUnits base" "0 < num rate" "supported target"
    and "exact_amount num base target rate \<le> 9223372036854775807"
  shows "\<exists>n. Convert D base target rate = Ok \<lparr>Currency = target, MinorUnits = n\<rparr> \<and> 0 \<le> n \<and>
    \<bar>of_int n - exact_amount num base target rate\<bar> \<le> 1 / 2 \<and>
    (exact_amount num base target rate - of_int \<lfloor>exact_amount num base target rate\<rfloor> = 1 / 2 \<longrightarrow> even n)"
  using Convert_exact [OF assms] bankers_within_half bankers_tie
    bankers_nonneg [OF exact_amount_nonneg [OF assms(2), of num rate target]] assms(3) by blast

theorem convert_rounds_to_even_witness:
  "(\<exists>n. Convert decimals (krw 125) ''USD'' (2, -4) = Ok \<lparr>Currency = ''USD'', MinorUnits = n\<rparr> \<and> 0 \<le> n \<and>
      \<bar>of_int n - exact_amount decimal_num (krw 125) ''USD'' (2, -4)\<bar> \<le> 1 / 2 \<and>
      (exact_amount decimal_num (krw 125) ''USD'' (2, -4) -
         of_int \<lfloor>exact_amount decimal_num (krw 125) ''USD'' (2, -4)\<rfloor> = 1 / 2 \<longrightarrow> even n)) \<and>
   Convert decimals (krw 125) ''USD'' (2, -4) = Ok \<lparr>Currency = ''USD'', MinorUnits = 2\<rparr>"
proof
  have "exact_amount decimal_num (krw 125) ''USD'' (2, -4) = 5 / 2"
    by (simp add: exact_amount_def krw_def money_Scale_def currency_defs power_int_def power_divide)
  then show "\<exists>n. Convert decimals (krw 125) ''USD'' (2, -4) = Ok \<lparr>Currency = ''USD'', MinorUnits = n\<rparr> \<and> 0 \<le> n \<and>
      \<bar>of_int n - exact_amount decimal_num (krw 125) ''USD'' (2, -4)\<bar> \<le> 1 / 2 \<and>
      (exact_amount decimal_num (krw 125) ''USD'' (2, -4) -
         of_int \<lfloor>exact_amount decimal_num (krw 125) ''USD'' (2, -4)\<rfloor> = 1 / 2 \<longrightarrow> even n)"
    by (intro convert_rounds_to_even [OF dec.decimal_contract_axioms])
      (simp_all add: krw_def supported_iff)
  show "Convert decimals (krw 125) ''USD'' (2, -4) = Ok \<lparr>Currency = ''USD'', MinorUnits = 2\<rparr>"
    by code_simp
qed

text \<open>C26. A larger amount never converts to less, at the same rate.\<close>

theorem convert_monotone:
  assumes "decimal_contract D num" "0 < num rate" "supported target" "Currency a = Currency b"
    and "0 < MinorUnits a" "MinorUnits a \<le> MinorUnits b"
    and "exact_amount num b target rate \<le> 9223372036854775807"
  shows "\<exists>m n. Convert D a target rate = Ok \<lparr>Currency = target, MinorUnits = m\<rparr> \<and>
    Convert D b target rate = Ok \<lparr>Currency = target, MinorUnits = n\<rparr> \<and> m \<le> n"
proof -
  have le: "exact_amount num a target rate \<le> exact_amount num b target rate"
    using assms(2,4,6) by (simp add: exact_amount_def money_Scale_def mult_right_mono)
  with assms have "Convert D a target rate =
      Ok \<lparr>Currency = target, MinorUnits = bankers (exact_amount num a target rate)\<rparr>"
    by (intro Convert_exact) simp_all
  moreover have "Convert D b target rate =
      Ok \<lparr>Currency = target, MinorUnits = bankers (exact_amount num b target rate)\<rparr>"
    using assms by (intro Convert_exact) simp_all
  ultimately show ?thesis using bankers_mono [OF le] by blast
qed

theorem convert_monotone_witness:
  "\<exists>m n. Convert decimals (krw 13) ''USD'' (74, -5) = Ok \<lparr>Currency = ''USD'', MinorUnits = m\<rparr> \<and>
    Convert decimals (krw 100000) ''USD'' (74, -5) = Ok \<lparr>Currency = ''USD'', MinorUnits = n\<rparr> \<and> m \<le> n"
proof (rule convert_monotone [OF dec.decimal_contract_axioms])
  show "exact_amount decimal_num (krw 100000) ''USD'' (74, -5) \<le> 9223372036854775807"
    by (simp add: exact_amount_def krw_def money_Scale_def currency_defs power_int_def power_divide)
qed (simp_all add: krw_def supported_iff)

text \<open>C23. The fee is the least amount that is at least the minimum and at least the base amount's share
  in basis points: rounded up, never down.\<close>

theorem fee_is_least:
  assumes "supported (Currency base)" "Currency minimum = Currency base" "0 \<le> feeBPS"
    and "0 \<le> MinorUnits base" "MinorUnits base * feeBPS \<le> 9223372036854775807"
  shows "\<exists>fee. FeeFromBPS base feeBPS minimum = Ok \<lparr>Currency = Currency base, MinorUnits = fee\<rparr> \<and>
    MinorUnits minimum \<le> fee \<and> MinorUnits base * feeBPS \<le> 10000 * fee \<and>
    (\<forall>f. MinorUnits minimum \<le> f \<and> MinorUnits base * feeBPS \<le> 10000 * f \<longrightarrow> fee \<le> f)"
proof -
  define p where "p = MinorUnits base * feeBPS"
  define fee where "fee = max (MinorUnits minimum) ((p + 9999) div 10000)"
  have "0 \<le> p" using assms by (simp add: p_def)
  then have "in64 p" using assms(5) by (simp add: in64_def p_def)
  then have "FeeFromBPS base feeBPS minimum = Ok \<lparr>Currency = Currency base, MinorUnits = fee\<rparr>"
    using FeeFromBPS_value [OF assms(1-4)] by (simp add: p_def fee_def)
  moreover have "MinorUnits minimum \<le> fee" "(p + 9999) div 10000 \<le> fee" by (simp_all add: fee_def)
  moreover from this(2) have "p \<le> 10000 * fee" by linarith
  moreover have "fee \<le> f" if "MinorUnits minimum \<le> f" "p \<le> 10000 * f" for f
    using that unfolding fee_def by linarith
  ultimately show ?thesis unfolding p_def by blast
qed

theorem fee_is_least_witness:
  "(\<exists>fee. FeeFromBPS (krw 100001) 50 (krw 500) = Ok \<lparr>Currency = Currency (krw 100001), MinorUnits = fee\<rparr> \<and>
      MinorUnits (krw 500) \<le> fee \<and> MinorUnits (krw 100001) * 50 \<le> 10000 * fee \<and>
      (\<forall>f. MinorUnits (krw 500) \<le> f \<and> MinorUnits (krw 100001) * 50 \<le> 10000 * f \<longrightarrow> fee \<le> f)) \<and>
   FeeFromBPS (krw 100001) 50 (krw 500) = Ok (krw 501)"
proof
  show "\<exists>fee. FeeFromBPS (krw 100001) 50 (krw 500) = Ok \<lparr>Currency = Currency (krw 100001), MinorUnits = fee\<rparr> \<and>
      MinorUnits (krw 500) \<le> fee \<and> MinorUnits (krw 100001) * 50 \<le> 10000 * fee \<and>
      (\<forall>f. MinorUnits (krw 500) \<le> f \<and> MinorUnits (krw 100001) * 50 \<le> 10000 * f \<longrightarrow> fee \<le> f)"
    by (rule fee_is_least) (simp_all add: krw_def supported_iff CurrencyKRW_def)
  show "FeeFromBPS (krw 100001) 50 (krw 500) = Ok (krw 501)"
    by code_simp
qed


text \<open>C27. The text of an amount determines it: the digits read back are the minor units, with as many
  decimals as the currency has.\<close>

theorem amount_string_round_trip:
  assumes "decimal_contract D num"
  shows "read_fixed (AmountString D m) = Some (MinorUnits m, nat (money_Scale m))"
  using decimal_contract.AmountString_fixed [OF assms, of m] by (simp add: read_fixed_text)

theorem amount_string_round_trip_witness:
  "read_fixed (AmountString decimals \<lparr>Currency = CurrencyUSD, MinorUnits = -7405\<rparr>) =
     Some (MinorUnits \<lparr>Currency = CurrencyUSD, MinorUnits = -7405\<rparr>,
           nat (money_Scale \<lparr>Currency = CurrencyUSD, MinorUnits = -7405\<rparr>))"
  by (rule amount_string_round_trip [OF dec.decimal_contract_axioms])

section \<open>Currencies and keys\<close>

text \<open>C29. A currency code is read exactly when, trimmed and in upper case, it is one of the four the
  system knows; the code read is read again as itself.\<close>

theorem parse_currency_codes:
  "(ParseCurrency raw = Ok c \<longleftrightarrow> c = ToUpper (TrimSpace raw) \<and> c \<in> {''KRW'', ''USD'', ''JPY'', ''EUR''}) \<and>
   (c \<in> {''KRW'', ''USD'', ''JPY'', ''EUR''} \<longrightarrow> ParseCurrency c = Ok c)"
  by (auto simp: ParseCurrency_Ok supported_iff ToUpper_code)

theorem parse_currency_codes_witness:
  "ParseCurrency '' usd '' = Ok ''USD'' \<and> ParseCurrency ''USD'' = Ok ''USD''"
proof
  have "ToUpper (TrimSpace '' usd '') = ''USD''" by code_simp
  then show "ParseCurrency '' usd '' = Ok ''USD''"
    using parse_currency_codes [of "'' usd ''" "''USD''"] by simp
  show "ParseCurrency ''USD'' = Ok ''USD''"
    using parse_currency_codes [of "''USD''" "''USD''"] by simp
qed

text \<open>C28. An idempotency key that is accepted has between 1 and 128 bytes, is free of surrounding white
  space and is accepted again as itself, so a retry that sends the key read back names the same
  request.\<close>

theorem idempotency_key_stable:
  "ParseIdempotencyKey raw = Ok key \<Longrightarrow>
     1 \<le> length key \<and> length key \<le> 128 \<and> TrimSpace key = key \<and> ParseIdempotencyKey key = Ok key"
  by (auto simp: ParseIdempotencyKey_Ok maxIdempotencyKeyLength_def Suc_le_eq)

theorem idempotency_key_stable_witness:
  "1 \<le> length ''order-1'' \<and> length ''order-1'' \<le> 128 \<and> TrimSpace ''order-1'' = ''order-1'' \<and>
     ParseIdempotencyKey ''order-1'' = Ok ''order-1''"
proof -
  have "ParseIdempotencyKey '' order-1 '' = Ok ''order-1''" by code_simp
  from idempotency_key_stable [OF this] show ?thesis .
qed

section \<open>Quotes\<close>

text \<open>C21. A quote is built on the terms it states: the target amount is the base amount at the reference
  rate, rounded to even; the fee is at least the minimum and covers the basis points; the total is
  amount plus fee; it can be accepted exactly until its expiry.\<close>

theorem quote_on_stated_terms:
  assumes "decimal_contract D num" "New_quote D qid key base target rate bps minimum now ttl = Ok q"
    and "exact_amount num base target (rate_Rate rate) \<le> 9223372036854775807"
    and "MinorUnits base * bps \<le> 9223372036854775807"
    and "in64 (MinorUnits base + MinorUnits (q_FeeAmount q))"
  shows "q_QuoteAmount q =
      \<lparr>Currency = target, MinorUnits = bankers (exact_amount num base target (rate_Rate rate))\<rparr> \<and>
    Currency (q_FeeAmount q) = Currency base \<and> MinorUnits minimum \<le> MinorUnits (q_FeeAmount q) \<and>
    MinorUnits base * bps \<le> 10000 * MinorUnits (q_FeeAmount q) \<and>
    q_TotalDebitAmount q =
      \<lparr>Currency = Currency base, MinorUnits = MinorUnits base + MinorUnits (q_FeeAmount q)\<rparr> \<and>
    (\<forall>t. CanAccept q t = Ok () \<longleftrightarrow> t \<le> now + ttl)"
proof -
  note q = New_quote_OkD [OF assms(2)]
  from q(6) decimal_contract.Convert_OkD [OF assms(1) q(6)]
  have pos: "0 < num (rate_Rate rate)" "supported target" by simp_all
  have fee: "supported (Currency base)" "Currency minimum = Currency base" "0 \<le> bps"
    using FeeFromBPS_OkD [OF q(7)] q(7) by (auto simp: FeeFromBPS_def split: if_splits)
  have prod: "0 \<le> MinorUnits base * bps" using q(2) fee(3) by simp
  with assms(4) have range: "in64 (MinorUnits base * bps)" by (simp add: in64_def)
  have least: "q_FeeAmount q = \<lparr>Currency = Currency base,
      MinorUnits = max (MinorUnits minimum) ((MinorUnits base * bps + 9999) div 10000)\<rparr>"
    using FeeFromBPS_value [OF fee less_imp_le [OF q(2)] range] q(7) by simp
  have "MinorUnits base * bps \<le> 10000 * ((MinorUnits base * bps + 9999) div 10000)" by linarith
  with least have "MinorUnits base * bps \<le> 10000 * MinorUnits (q_FeeAmount q)" by simp
  moreover have "q_QuoteAmount q =
      \<lparr>Currency = target, MinorUnits = bankers (exact_amount num base target (rate_Rate rate))\<rparr>"
    using Convert_exact [OF assms(1) q(2) pos assms(3)] q(6) by simp
  ultimately show ?thesis
    using least q(8,14,15) assms(5) by (auto simp: Add_Ok CanAccept_Ok)
qed

theorem quote_on_stated_terms_witness:
  "q_QuoteAmount quote1 =
      \<lparr>Currency = ''USD'', MinorUnits = bankers (exact_amount decimal_num (krw 100000) ''USD'' (rate_Rate usd_rate))\<rparr> \<and>
    Currency (q_FeeAmount quote1) = Currency (krw 100000) \<and> MinorUnits (krw 500) \<le> MinorUnits (q_FeeAmount quote1) \<and>
    MinorUnits (krw 100000) * 50 \<le> 10000 * MinorUnits (q_FeeAmount quote1) \<and>
    q_TotalDebitAmount quote1 = \<lparr>Currency = Currency (krw 100000),
      MinorUnits = MinorUnits (krw 100000) + MinorUnits (q_FeeAmount quote1)\<rparr> \<and>
    (\<forall>t. CanAccept quote1 t = Ok () \<longleftrightarrow> t \<le> 1700000000000000000 + 900000000000)"
proof (rule quote_on_stated_terms [OF dec.decimal_contract_axioms])
  show "New_quote decimals (mem_id 1) ''order-1'' (krw 100000) ''USD'' usd_rate 50 (krw 500)
      1700000000000000000 900000000000 = Ok quote1"
    by (rule quote1_simps)
  show "exact_amount decimal_num (krw 100000) ''USD'' (rate_Rate usd_rate) \<le> 9223372036854775807"
    by (simp add: exact_amount_def krw_def money_Scale_def currency_defs power_int_def power_divide usd_rate_def)
qed (simp_all add: krw_def quote1_def in64_def)

section \<open>The life of a conversion\<close>

text \<open>C19. The handlers' transitions are exactly the specified life cycle: a status can follow another
  if and only if some provider event takes a conversion from one to the other.\<close>

theorem conversion_lifecycle:
  "(\<exists>c'. conversion_step c c' \<and> c_Status c' = st) \<longleftrightarrow> lifecycle (c_Status c) st"
  using step_lifecycle lifecycle_step by blast

text \<open>C20. Nothing a conversion was agreed on ever changes, and neither end is left for anything but
  failure: once failed it stays failed, once completed it is completed or failed.\<close>

theorem conversion_keeps_terms:
  assumes "conversion_run c c'"
  shows "terms_of c' = terms_of c \<and> (c_Status c = StatusFailed \<longrightarrow> c_Status c' = StatusFailed) \<and>
    (c_Status c = StatusCompleted \<longrightarrow> c_Status c' \<in> {StatusCompleted, StatusFailed})"
  using run_terms [OF assms] run_failed [OF assms] run_completed [OF assms] by blast

theorem conversion_keeps_terms_witness:
  "terms_of conv3 = terms_of conv2_stored \<and>
   c_Status (FailTransfer (FailPayment conv1 ''late'' [] 1) ''returned'' [] 2) = StatusFailed \<and>
   c_Status (FailPayment conv3 ''disputed'' [] 3) \<in> {StatusCompleted, StatusFailed}"
proof -
  have "CompleteTransfer conv2_stored ''tra-1'' 1700000000000000000 = Ok conv3" by (rule transfer_simps)
  then have "conversion_run conv2_stored conv3"
    by (blast intro: conversion_run.intros conversion_step.intros)
  note completed = conversion_keeps_terms [OF this]
  have "conversion_run (FailPayment conv1 ''late'' [] 1) (FailTransfer (FailPayment conv1 ''late'' [] 1) ''returned'' [] 2)"
    "conversion_run conv3 (FailPayment conv3 ''disputed'' [] 3)"
    by (blast intro: conversion_run.intros conversion_step.intros)+
  note failed = conversion_keeps_terms [OF this(1)] and disputed = conversion_keeps_terms [OF this(2)]
  have "c_Status conv3 = StatusCompleted" by (simp add: conv3_def)
  with completed failed disputed show ?thesis by simp
qed


section \<open>Payloads\<close>



end
