(* ===== verification/Http_Messages.thy ===== *)
theory Http_Messages
  imports Ledger
begin

text \<open>
  The data of the HTTP adapter (\<open>internal/adapter/inbound/http\<close>): the bound requests of
  \<open>fx_handler.go\<close>, the responses of \<open>response.go\<close>, and \<open>validation.go\<close>. Binding a query or a
  body to a request is the framework's work, a parameter; what a failed binding reports is
  either the validator's list of fields and tags or another error.
\<close>

section \<open>Requests (fx_handler.go)\<close>

record getRatesQuery =
  gq_Base :: string
  gq_Quotes :: string

record moneyRequest =
  mq_Currency :: string
  mq_MinorUnits :: int

record createQuoteRequest =
  cqr_BaseAmount :: moneyRequest
  cqr_QuoteCurrency :: string

record createConversionRequest =
  ccr_QuoteID :: string
  ccr_PaymentProvider :: string
  ccr_TransferProvider :: string

record webhookRequest =
  wr_Provider :: string
  wr_ExternalEventID :: string
  wr_ConversionID :: string
  wr_EventType :: string
  wr_ExternalReference :: "string option"
  wr_OccurredAt :: "time option"

section \<open>Responses (response.go)\<close>

record moneyResponse =
  hm_Currency :: string
  hm_MinorUnits :: int
  hm_Scale :: int
  hm_Amount :: string

record referenceRateResponse =
  hrr_BaseCurrency :: string
  hrr_QuoteCurrency :: string
  hrr_Rate :: string
  hrr_Provider :: string
  hrr_ObservedAt :: time
  hrr_FetchedAt :: time

record ratesResponse =
  hrs_BaseCurrency :: string
  hrs_Provider :: string
  hrs_Rates :: "referenceRateResponse list"

record quoteResponse =
  hq_ID :: string
  hq_IdempotencyKey :: string
  hq_BaseAmount :: moneyResponse
  hq_QuoteAmount :: moneyResponse
  hq_FeeAmount :: moneyResponse
  hq_TotalDebitAmount :: moneyResponse
  hq_Rate :: string
  hq_RateProvider :: string
  hq_ExpiresAt :: time
  hq_AcceptedAt :: "time option"
  hq_CreatedAt :: time

record conversionResponse =
  hc_ID :: string
  hc_QuoteID :: string
  hc_IdempotencyKey :: string
  hc_BaseAmount :: moneyResponse
  hc_QuoteAmount :: moneyResponse
  hc_FeeAmount :: moneyResponse
  hc_TotalDebitAmount :: moneyResponse
  hc_Rate :: string
  hc_RateProvider :: string
  hc_PaymentProvider :: string
  hc_TransferProvider :: string
  hc_Status :: string
  hc_ExternalPaymentID :: "string option"
  hc_ExternalTransferID :: "string option"
  hc_FailureReason :: "string option"
  hc_CreatedAt :: time
  hc_UpdatedAt :: time

record webhookAckResponse =
  wa_Accepted :: bool
  wa_Duplicate :: bool
  wa_Conversion :: conversionResponse

record 'a successResponse =
  sc_Success :: bool
  sc_EventTime :: time
  sc_Data :: 'a

text \<open>What the handlers put under \<open>data\<close>.\<close>

datatype response_data =
    RatesData ratesResponse
  | QuoteData quoteResponse
  | ConversionData conversionResponse
  | AckData webhookAckResponse

definition newSuccessResponse :: "time \<Rightarrow> 'a \<Rightarrow> 'a successResponse" where
  "newSuccessResponse now data = \<lparr>sc_Success = True, sc_EventTime = now, sc_Data = data\<rparr>"

definition toMoneyResponse :: "'d decimal_lib \<Rightarrow> money \<Rightarrow> moneyResponse" where
  "toMoneyResponse D m =
     \<lparr>hm_Currency = Currency m, hm_MinorUnits = MinorUnits m, hm_Scale = money_Scale m,
      hm_Amount = AmountString D m\<rparr>"

definition toReferenceRateResponse :: "'d decimal_lib \<Rightarrow> 'd exchange_rate \<Rightarrow> referenceRateResponse" where
  "toReferenceRateResponse D rate =
     \<lparr>hrr_BaseCurrency = rate_Base rate, hrr_QuoteCurrency = rate_Quote rate,
      hrr_Rate = dec_String D (rate_Rate rate), hrr_Provider = rate_Provider rate,
      hrr_ObservedAt = rate_ObservedAt rate, hrr_FetchedAt = rate_FetchedAt rate\<rparr>"

text \<open>The provider shown is the first rate's, or the default one when there is none.\<close>

definition toRatesResponse :: "'d decimal_lib \<Rightarrow> string \<Rightarrow> 'd exchange_rate list \<Rightarrow> ratesResponse" where
  "toRatesResponse D base rates =
     (let response = \<lparr>hrs_BaseCurrency = base, hrs_Provider = ProviderFrankfurter,
                      hrs_Rates = map (toReferenceRateResponse D) rates\<rparr>
      in if length rates > 0 then response\<lparr>hrs_Provider := rate_Provider (rates ! 0)\<rparr> else response)"

definition toQuoteResponse :: "'d decimal_lib \<Rightarrow> 'd quote \<Rightarrow> quoteResponse" where
  "toQuoteResponse D v =
     \<lparr>hq_ID = q_ID v, hq_IdempotencyKey = q_IdempotencyKey v,
      hq_BaseAmount = toMoneyResponse D (q_BaseAmount v),
      hq_QuoteAmount = toMoneyResponse D (q_QuoteAmount v),
      hq_FeeAmount = toMoneyResponse D (q_FeeAmount v),
      hq_TotalDebitAmount = toMoneyResponse D (q_TotalDebitAmount v),
      hq_Rate = dec_String D (q_Rate v), hq_RateProvider = q_RateProvider v,
      hq_ExpiresAt = q_ExpiresAt v, hq_AcceptedAt = q_AcceptedAt v, hq_CreatedAt = q_CreatedAt v\<rparr>"

definition toConversionResponse :: "'d decimal_lib \<Rightarrow> 'd conversion \<Rightarrow> conversionResponse" where
  "toConversionResponse D v =
     \<lparr>hc_ID = c_ID v, hc_QuoteID = c_QuoteID v, hc_IdempotencyKey = c_IdempotencyKey v,
      hc_BaseAmount = toMoneyResponse D (c_BaseAmount v),
      hc_QuoteAmount = toMoneyResponse D (c_QuoteAmount v),
      hc_FeeAmount = toMoneyResponse D (c_FeeAmount v),
      hc_TotalDebitAmount = toMoneyResponse D (c_TotalDebitAmount v),
      hc_Rate = dec_String D (c_Rate v), hc_RateProvider = c_RateProvider v,
      hc_PaymentProvider = c_PaymentProvider v, hc_TransferProvider = c_TransferProvider v,
      hc_Status = c_Status v, hc_ExternalPaymentID = c_ExternalPaymentID v,
      hc_ExternalTransferID = c_ExternalTransferID v, hc_FailureReason = c_FailureReason v,
      hc_CreatedAt = c_CreatedAt v, hc_UpdatedAt = c_UpdatedAt v\<rparr>"

section \<open>Validation (validation.go)\<close>

datatype bind_error =
    ValidationErrors "(string \<times> string) list"
  | OtherError go_error

definition requestValidationError :: "bind_error \<Rightarrow> go_error" where
  "requestValidationError err =
     Validation ''Request validation failed''
       [(''errors'', DIssues
          (case err of
             OtherError e \<Rightarrow> [[(''message'', error_text e)]]
           | ValidationErrors issues \<Rightarrow>
               map (\<lambda>(field, tag). [(''field'', field), (''tag'', tag)]) issues))]"

definition bound :: "(bind_error, 'a) result \<Rightarrow> 'a res" where
  "bound r =
     (case r of Ok x \<Rightarrow> Ok x | Err e \<Rightarrow> Err (requestValidationError e) | Panic p \<Rightarrow> Panic p)"

text \<open>\<open>validateULID\<close> of the HTTP adapter: its \<open>field\<close> argument is not used.\<close>

definition Http_validateULID :: "(string \<Rightarrow> go_error option) \<Rightarrow> string \<Rightarrow> string \<Rightarrow> unit res" where
  "Http_validateULID parseStrict field raw =
     (case parseStrict raw of
        Some err \<Rightarrow> Err (requestValidationError (OtherError err))
      | None \<Rightarrow> Ok ())"

definition parseCurrenciesCSV :: "string \<Rightarrow> string list res" where
  "parseCurrenciesCSV raw = map_until ParseCurrency (split_on CHR '','' raw)"

lemma app_code_requestValidationError [simp]:
  "app_code (requestValidationError e) = ErrorCodeValidation"
  "is_app_error (requestValidationError e)"
  by (simp_all add: requestValidationError_def Validation_def)

lemma Http_validateULID_Ok [io_inv]: "Http_validateULID p f raw = Ok u \<longleftrightarrow> p raw = None"
  by (auto simp: Http_validateULID_def split: option.splits)

lemma Http_validateULID_no_panic [simp]: "Http_validateULID p f raw \<noteq> Panic x"
  by (auto simp: Http_validateULID_def split: option.splits)

lemma parse_currencies_Ok [io_inv]:
  "map_until ParseCurrency xs = Ok cs \<longleftrightarrow>
     cs = map (\<lambda>p. ToUpper (TrimSpace p)) xs \<and> (\<forall>c \<in> set cs. supported c)"
  by (induction xs arbitrary: cs) (auto simp: io_inv)

lemma parse_currencies_no_panic [simp]: "map_until ParseCurrency xs \<noteq> Panic p"
proof (induction xs arbitrary: p)
  case (Cons x xs)
  then show ?case by (cases "ParseCurrency x"; cases "map_until ParseCurrency xs") auto
qed simp

lemma parseCurrenciesCSV_Ok [io_inv]:
  "parseCurrenciesCSV raw = Ok cs \<longleftrightarrow>
     cs = map (\<lambda>p. ToUpper (TrimSpace p)) (split_on CHR '','' raw) \<and> (\<forall>c \<in> set cs. supported c)"
  by (simp add: parseCurrenciesCSV_def parse_currencies_Ok)

lemma bound_Ok [io_inv]: "bound r = Ok x \<longleftrightarrow> r = Ok x"
  by (cases r) (auto simp: bound_def)

text \<open>Composed calls.\<close>

lemma bind_assoc: "bind (bind m f) g = bind m (\<lambda>x. bind (f x) g)"
  by (rule ext) (simp add: bind_def split: prod.splits result.splits)

lemma bind_lift_Ok: "bind (lift (Ok x)) f = f x"
  by (rule ext) (simp add: bind_def lift_def)

end
