(* ===== verification/Gin.thy ===== *)
theory Gin
  imports Http_Messages
begin

text \<open>
  What the HTTP adapter uses of the web framework (\<open>gin-gonic/gin\<close>, a parameter): the
  operations on a request's context as the record \<open>gin\<close>, and what the framework documents of
  them as the locale \<open>gin_contract\<close>, which describes a context by what an observer sees of it
  (\<open>gin_view\<close>). The view itself, with the operations on it, is an instance.
\<close>

section \<open>A request and its context\<close>

text \<open>
  The parts of a request the code reads. The body is what reading it gives: its bytes or an error.
  \<open>Params\<close> and \<open>FullPath\<close> come from the matched route (both empty when none matches).
\<close>

record http_request =
  rq_Method :: string
  rq_Path :: string
  rq_Query :: string
  rq_Header :: "string \<Rightarrow> string"
  rq_Body :: "go_error + string"
  rq_ClientIP :: string
  rq_FullPath :: string
  rq_Params :: "string \<Rightarrow> string"

text \<open>
  The values a request's \<open>context.Context\<close> carries under the keys of
  \<open>middleware/context.go\<close>: the request's identifier, and its logger, given by the fields it
  adds to each line.
\<close>

record request_context =
  rc_request_id :: "string option"
  rc_logger :: "(string \<times> string) list option"

record errorBody =
  eb_Code :: string
  eb_Message :: string
  eb_Details :: details
  eb_RequestID :: "string option"

record errorEnvelope =
  ee_EventTime :: time
  ee_Error :: errorBody

text \<open>The values the code passes to the framework's JSON renderer.\<close>

datatype http_body =
    SuccessBody "response_data successResponse"
  | StatusBody "(string \<times> string) list"
  | ErrorBody errorEnvelope

section \<open>The interface\<close>

text \<open>
  \<open>gin_AbortWithStatusJSON\<close> stops the chain and renders; \<open>gin_Status\<close> sets the status of a
  response not yet written; \<open>gin_WriterStatus\<close> reads it.
\<close>

record 'c gin =
  gin_Request :: "'c \<Rightarrow> http_request"
  gin_Context :: "'c \<Rightarrow> request_context"
  gin_WithContext :: "request_context \<Rightarrow> 'c \<Rightarrow> 'c"
  gin_Error :: "go_error \<Rightarrow> 'c \<Rightarrow> 'c"
  gin_Errors :: "'c \<Rightarrow> go_error list"
  gin_JSON :: "int \<Rightarrow> http_body \<Rightarrow> 'c \<Rightarrow> 'c"
  gin_AbortWithStatusJSON :: "int \<Rightarrow> http_body \<Rightarrow> 'c \<Rightarrow> 'c"
  gin_Abort :: "'c \<Rightarrow> 'c"
  gin_Header :: "string \<Rightarrow> string \<Rightarrow> 'c \<Rightarrow> 'c"
  gin_Status :: "int \<Rightarrow> 'c \<Rightarrow> 'c"
  gin_WriterStatus :: "'c \<Rightarrow> int"
  gin_Written :: "'c \<Rightarrow> bool"

section \<open>What the framework documents\<close>

text \<open>The response as written so far: no body until the first one is rendered.\<close>

record gin_view =
  gv_request :: http_request
  gv_context :: request_context
  gv_errors :: "go_error list"
  gv_status :: int
  gv_body :: "http_body option"
  gv_headers :: "(string \<times> string) list"
  gv_aborted :: bool

locale gin_contract =
  fixes G :: "'c gin"
    and see :: "'c \<Rightarrow> gin_view"
  assumes Request_is: "gin_Request G c = gv_request (see c)"
    and Context_is: "gin_Context G c = gv_context (see c)"
    and Errors_is: "gin_Errors G c = gv_errors (see c)"
    and WriterStatus_is: "gin_WriterStatus G c = gv_status (see c)"
    and Written_is: "gin_Written G c \<longleftrightarrow> gv_body (see c) \<noteq> None"
    and WithContext_sets: "see (gin_WithContext G ctx c) = (see c)\<lparr>gv_context := ctx\<rparr>"
    and Error_adds: "see (gin_Error G e c) = (see c)\<lparr>gv_errors := gv_errors (see c) @ [e]\<rparr>"
    and Abort_stops: "see (gin_Abort G c) = (see c)\<lparr>gv_aborted := True\<rparr>"
    and Header_sets:
      "see (gin_Header G k v c) = (see c)\<lparr>gv_headers := gv_headers (see c) @ [(k, v)]\<rparr>"
    and Status_sets: "gv_body (see c) = None \<Longrightarrow> see (gin_Status G n c) = (see c)\<lparr>gv_status := n\<rparr>"
    and JSON_writes: "gv_body (see c) = None \<Longrightarrow>
      see (gin_JSON G n b c) = (see c)\<lparr>gv_status := n, gv_body := Some b\<rparr>"
    and AbortWithStatusJSON_writes: "gv_body (see c) = None \<Longrightarrow>
      see (gin_AbortWithStatusJSON G n b c) =
        (see c)\<lparr>gv_status := n, gv_body := Some b, gv_aborted := True\<rparr>"
begin

lemmas gin_reads = Request_is Context_is Errors_is WriterStatus_is Written_is
lemmas gin_writes = WithContext_sets Error_adds Abort_stops Header_sets Status_sets JSON_writes
  AbortWithStatusJSON_writes

end

text \<open>The view with its operations; what is rendered after a first body changes nothing.\<close>

definition render_view :: "int \<Rightarrow> http_body \<Rightarrow> gin_view \<Rightarrow> gin_view" where
  "render_view n b v = (if gv_body v = None then v\<lparr>gv_status := n, gv_body := Some b\<rparr> else v)"

definition view_gin :: "gin_view gin" where
  "view_gin =
     \<lparr>gin_Request = gv_request, gin_Context = gv_context,
      gin_WithContext = (\<lambda>k v. v\<lparr>gv_context := k\<rparr>),
      gin_Error = (\<lambda>e v. v\<lparr>gv_errors := gv_errors v @ [e]\<rparr>), gin_Errors = gv_errors,
      gin_JSON = render_view,
      gin_AbortWithStatusJSON = (\<lambda>n b v. (render_view n b v)\<lparr>gv_aborted := True\<rparr>),
      gin_Abort = (\<lambda>v. v\<lparr>gv_aborted := True\<rparr>),
      gin_Header = (\<lambda>k x v. v\<lparr>gv_headers := gv_headers v @ [(k, x)]\<rparr>),
      gin_Status = (\<lambda>n v. if gv_body v = None then v\<lparr>gv_status := n\<rparr> else v),
      gin_WriterStatus = gv_status, gin_Written = (\<lambda>v. gv_body v \<noteq> None)\<rparr>"

lemma view_gin_contract: "gin_contract view_gin (\<lambda>v. v)"
  by unfold_locales (simp_all add: view_gin_def render_view_def)

interpretation view_gin: gin_contract view_gin "\<lambda>v. v"
  by (rule view_gin_contract)

text \<open>A context as the framework creates it for a request.\<close>

definition fresh_view :: "http_request \<Rightarrow> int \<Rightarrow> gin_view" where
  "fresh_view rq n =
     \<lparr>gv_request = rq, gv_context = \<lparr>rc_request_id = None, rc_logger = None\<rparr>, gv_errors = [],
      gv_status = n, gv_body = None, gv_headers = [], gv_aborted = False\<rparr>"

section \<open>Handlers\<close>

text \<open>
  A handler works on the request's context and the world; it ends normally (\<open>None\<close>) or with a
  panic. A middleware wraps the handlers after it, which \<open>c.Next()\<close> runs.
\<close>

type_synonym ('c, 's) handler = "'c \<times> 's \<Rightarrow> string option \<times> 'c \<times> 's"

definition after_next ::
  "('c, 's) handler \<Rightarrow> ('c \<times> 's \<Rightarrow> 'c \<times> 's) \<Rightarrow> ('c, 's) handler" where
  "after_next next rest cs =
     (case next cs of (None, cs') \<Rightarrow> (None, rest cs') | (Some p, cs') \<Rightarrow> (Some p, cs'))"

lemma after_next_None: "next cs = (None, cs') \<Longrightarrow> after_next next rest cs = (None, rest cs')"
  by (simp add: after_next_def)

lemma after_next_Some: "next cs = (Some p, cs') \<Longrightarrow> after_next next rest cs = (Some p, cs')"
  by (simp add: after_next_def)

end
