(* ===== verification/Middleware.thy ===== *)
theory Middleware
  imports Gin
begin

text \<open>
  \<open>internal/adapter/inbound/http/middleware\<close>: what runs around every HTTP handler. Each
  middleware is a function of the handlers after it; \<open>router.go\<close> nests them in the order of
  \<open>engine.Use\<close>.
\<close>

section \<open>The libraries of the inbound side\<close>

text \<open>
  Beside those of the outbound side: the strict identifier parser (the error it reports, if
  any), the keyed hash of the signatures, the source of request identifiers, the framework's
  binding of requests, the loggers, the readiness probe, the matching of a path against the
  registered routes, and the cross-origin middleware, whose constructor panics on settings it
  holds invalid.
\<close>

record request_binding =
  bn_Rates :: "string \<Rightarrow> (bind_error, getRatesQuery) result"
  bn_Quote :: "go_error + string \<Rightarrow> (bind_error, createQuoteRequest) result"
  bn_Conversion :: "go_error + string \<Rightarrow> (bind_error, createConversionRequest) result"
  bn_Webhook :: "go_error + string \<Rightarrow> (bind_error, webhookRequest) result"

record cors_config =
  cors_AllowOrigins :: "string list"
  cors_AllowMethods :: "string list"
  cors_AllowHeaders :: "string list"
  cors_ExposeHeaders :: "string list"
  cors_AllowCredentials :: bool

record ('c, 's) inbound =
  in_ParseStrict :: "string \<Rightarrow> go_error option"
  in_MAC :: "string \<Rightarrow> string \<Rightarrow> string"
  in_UUID :: "'s \<Rightarrow> string \<times> 's"
  in_Binding :: request_binding
  in_Info :: "(string \<times> string) list \<Rightarrow> string \<Rightarrow> (string \<times> string) list \<Rightarrow> 's \<Rightarrow> 's"
  in_LogError :: "(string \<times> string) list \<Rightarrow> string \<Rightarrow> (string \<times> string) list \<Rightarrow> 's \<Rightarrow> 's"
  in_Ping :: "('s, unit) io"
  in_Match :: "(string \<times> string) list \<Rightarrow> string \<Rightarrow> string \<Rightarrow> (nat \<times> (string \<Rightarrow> string)) option"
  in_CorsInvalid :: "cors_config \<Rightarrow> string option"
  in_Cors :: "cors_config \<Rightarrow> ('c, 's) handler \<Rightarrow> ('c, 's) handler"

section \<open>The request's context (context.go)\<close>

definition withRequestContext ::
  "request_context \<Rightarrow> string \<Rightarrow> (string \<times> string) list \<Rightarrow> request_context" where
  "withRequestContext ctx requestID logger =
     (let ctx = ctx\<lparr>rc_request_id := Some requestID\<rparr>; ctx = ctx\<lparr>rc_logger := Some logger\<rparr> in ctx)"

definition RequestIDFromContext :: "request_context \<Rightarrow> string" where
  "RequestIDFromContext ctx = (case rc_request_id ctx of Some requestID \<Rightarrow> requestID | None \<Rightarrow> [])"

definition LoggerFromContext :: "request_context \<Rightarrow> (string \<times> string) list option" where
  "LoggerFromContext ctx = rc_logger ctx"

section \<open>RequestContext (request_context.go)\<close>

definition requestIDHeader :: string where "requestIDHeader = ''X-Request-ID''"

definition request_id :: "('c, 's) inbound \<Rightarrow> http_request \<Rightarrow> 's \<Rightarrow> string \<times> 's" where
  "request_id I rq s =
     (let requestID = rq_Header rq requestIDHeader
      in if requestID = [] then in_UUID I s else (requestID, s))"

definition RequestContext ::
  "'c gin \<Rightarrow> ('c, 's) inbound \<Rightarrow> ('c, 's) handler \<Rightarrow> ('c, 's) handler" where
  "RequestContext G I next = (\<lambda>(c, s).
     (case request_id I (gin_Request G c) s of
        (requestID, s) \<Rightarrow>
          (let requestLogger = [(''requestId'', requestID)];
               c = gin_WithContext G (withRequestContext (gin_Context G c) requestID requestLogger) c;
               c = gin_Header G requestIDHeader requestID c
           in after_next next
                (\<lambda>(c, s). (if \<not> gin_Written G c then gin_Status G 200 c else c, s)) (c, s))))"

section \<open>RequestMetrics (request_metrics.go)\<close>

definition classifyHTTPOutcome :: "int \<Rightarrow> string" where
  "classifyHTTPOutcome status =
     (if status \<ge> 500 then ''server_error'' else if status \<ge> 400 then ''client_error'' else ''success'')"

definition http_operation :: "http_request \<Rightarrow> string" where
  "http_operation rq =
     (let route = rq_FullPath rq; route = (if route = [] then rq_Path rq else route)
      in rq_Method rq @ '' '' @ route)"

definition RequestMetrics ::
  "'c gin \<Rightarrow> ('s \<Rightarrow> time \<times> 's) \<Rightarrow> 's telemetry option \<Rightarrow> ('c, 's) handler \<Rightarrow> ('c, 's) handler" where
  "RequestMetrics G now telemetry next = (\<lambda>(c, s).
     (case now s of
        (started, s) \<Rightarrow>
          after_next next
            (\<lambda>(c, s). case telemetry of
                None \<Rightarrow> (c, s)
              | Some T \<Rightarrow>
                  (case now s of
                     (t, s) \<Rightarrow>
                       (c, tm_RecordInboundRequest T ''http'' (http_operation (gin_Request G c))
                          (classifyHTTPOutcome (gin_WriterStatus G c)) (t - started) s)))
            (c, s)))"

section \<open>RequestLogger (request_logger.go)\<close>

definition RequestLogger ::
  "'c gin \<Rightarrow> ('c, 's) inbound \<Rightarrow> ('s \<Rightarrow> time \<times> 's) \<Rightarrow> ('c, 's) handler \<Rightarrow> ('c, 's) handler" where
  "RequestLogger G I now next = (\<lambda>(c, s).
     (case now s of
        (started, s) \<Rightarrow>
          after_next next
            (\<lambda>(c, s). case LoggerFromContext (gin_Context G c) of
                None \<Rightarrow> (c, s)
              | Some logger \<Rightarrow>
                  (case now s of
                     (t, s) \<Rightarrow>
                       (c, in_Info I logger ''request completed''
                          [(''method'', rq_Method (gin_Request G c)), (''path'', rq_Path (gin_Request G c)),
                           (''statusCode'', show_int (gin_WriterStatus G c)),
                           (''latency'', duration_text (t - started)),
                           (''clientIP'', rq_ClientIP (gin_Request G c))] s)))
            (c, s)))"

section \<open>Recovery (recovery.go)\<close>

definition recovered_error :: "string \<Rightarrow> go_error" where
  "recovered_error p = WithCause (Internal [] []) (PlainError (''panic: '' @ p))"

text \<open>The stack trace in the log line is left out.\<close>

definition Recovery :: "'c gin \<Rightarrow> ('c, 's) inbound \<Rightarrow> ('c, 's) handler \<Rightarrow> ('c, 's) handler" where
  "Recovery G I next = (\<lambda>cs.
     (case next cs of
        (None, cs') \<Rightarrow> (None, cs')
      | (Some p, (c, s)) \<Rightarrow>
          (let s = (case LoggerFromContext (gin_Context G c) of
                      None \<Rightarrow> s
                    | Some logger \<Rightarrow> in_LogError I logger ''panic recovered'' [(''panic'', p)] s);
               c = gin_Error G (recovered_error p) c;
               c = gin_Abort G c
           in (None, (c, s)))))"

section \<open>ErrorHandler (error_handler.go)\<close>

definition httpStatusFor :: "string \<Rightarrow> int" where
  "httpStatusFor code =
     (if code = ErrorCodeNotFound then 404
      else if code = ErrorCodeValidation then 422
      else if code = ErrorCodeConflict then 409
      else if code = ErrorCodeUnauthorized then 401
      else 500)"

definition error_envelope :: "request_context \<Rightarrow> go_error \<Rightarrow> time \<Rightarrow> errorEnvelope" where
  "error_envelope ctx appErr now =
     (let requestID = RequestIDFromContext ctx
      in \<lparr>ee_EventTime = now,
          ee_Error = \<lparr>eb_Code = app_code appErr, eb_Message = app_message appErr,
                     eb_Details = app_details appErr,
                     eb_RequestID = (if requestID \<noteq> [] then Some requestID else None)\<rparr>\<rparr>)"

definition ErrorHandler ::
  "'c gin \<Rightarrow> ('s \<Rightarrow> time \<times> 's) \<Rightarrow> ('c, 's) handler \<Rightarrow> ('c, 's) handler" where
  "ErrorHandler G now next =
     after_next next
       (\<lambda>(c, s).
         if length (gin_Errors G c) = 0 \<or> gin_Written G c then (c, s)
         else
           (let appErr = as_app_error (last (gin_Errors G c));
                statusCode = httpStatusFor (app_code appErr)
            in case now s of
                 (t, s) \<Rightarrow>
                   (gin_AbortWithStatusJSON G statusCode
                      (ErrorBody (error_envelope (gin_Context G c) appErr t)) c, s)))"

section \<open>The chain (router.go)\<close>

definition router_cors :: "string list \<Rightarrow> cors_config" where
  "router_cors origins =
     \<lparr>cors_AllowOrigins = origins,
      cors_AllowMethods = [''GET'', ''POST'', ''PATCH'', ''DELETE'', ''OPTIONS''],
      cors_AllowHeaders = [''Origin'', ''Content-Type'', ''Accept'', ''X-Request-ID'', ''Idempotency-Key'',
                           ''X-Webhook-Signature''],
      cors_ExposeHeaders = [''X-Request-ID''], cors_AllowCredentials = True\<rparr>"

definition router_chain ::
  "'c gin \<Rightarrow> ('c, 's) inbound \<Rightarrow> ('s \<Rightarrow> time \<times> 's) \<Rightarrow> 's telemetry option \<Rightarrow> string list \<Rightarrow>
   ('c, 's) handler \<Rightarrow> ('c, 's) handler" where
  "router_chain G I now telemetry origins handler =
     RequestContext G I (RequestMetrics G now telemetry (RequestLogger G I now (Recovery G I
       (in_Cors I (router_cors origins) (ErrorHandler G now handler)))))"

end
