(* ===== verification/Http.thy ===== *)
theory Http
  imports Middleware
begin

text \<open>
  The HTTP adapter (\<open>internal/adapter/inbound/http\<close>): the six handlers of \<open>fx_handler.go\<close>, the
  probes of \<open>health_handler.go\<close>, and the router of \<open>router.go\<close>.
\<close>

section \<open>The handler and its dependencies\<close>

definition webhookSignatureHeader :: string where
  "webhookSignatureHeader = ''X-Webhook-Signature''"

record ('s, 'd) FXHandlerDeps =
  hd_GetReferenceRates :: "('s, 'd) GetReferenceRatesUsecase"
  hd_CreateQuote :: "('s, 'd) CreateQuoteUsecase"
  hd_AcceptQuote :: "('s, 'd) AcceptQuoteUsecase"
  hd_GetConversion :: "('s, 'd) GetConversionUsecase"
  hd_HandlePaymentWebhook :: "('s, 'd) HandlePaymentWebhookUsecase"
  hd_HandleTransferWebhook :: "('s, 'd) HandleTransferWebhookUsecase"
  hd_PaymentWebhookSecret :: string
  hd_TransferWebhookSecret :: string

record ('s, 'd) FXHandler =
  h_getReferenceRates :: "('s, 'd) GetReferenceRatesUsecase"
  h_createQuote :: "('s, 'd) CreateQuoteUsecase"
  h_acceptQuote :: "('s, 'd) AcceptQuoteUsecase"
  h_getConversion :: "('s, 'd) GetConversionUsecase"
  h_handlePaymentWebhook :: "('s, 'd) HandlePaymentWebhookUsecase"
  h_handleTransferWebhook :: "('s, 'd) HandleTransferWebhookUsecase"
  h_paymentWebhookVerifier :: string
  h_transferWebhookVerifier :: string

text \<open>A verifier is its secret (\<open>hmac.go\<close>).\<close>

definition NewFXHandler :: "('s, 'd) FXHandlerDeps \<Rightarrow> ('s, 'd) FXHandler" where
  "NewFXHandler deps =
     \<lparr>h_getReferenceRates = hd_GetReferenceRates deps, h_createQuote = hd_CreateQuote deps,
      h_acceptQuote = hd_AcceptQuote deps, h_getConversion = hd_GetConversion deps,
      h_handlePaymentWebhook = hd_HandlePaymentWebhook deps,
      h_handleTransferWebhook = hd_HandleTransferWebhook deps,
      h_paymentWebhookVerifier = hd_PaymentWebhookSecret deps,
      h_transferWebhookVerifier = hd_TransferWebhookSecret deps\<rparr>"

section \<open>How a handler ends\<close>

text \<open>
  Every handler is a sequence of fallible steps, each with the branch
  \<open>if err != nil { _ = c.Error(err); return }\<close>, that ends by rendering the response: its steps
  are a call of the model, \<open>respond\<close> is what becomes of the call's result.
\<close>

definition respond ::
  "'c gin \<Rightarrow> ('s \<Rightarrow> time \<times> 's) \<Rightarrow> (http_request \<Rightarrow> ('s, response_data) io) \<Rightarrow> ('c, 's) handler" where
  "respond G now steps = (\<lambda>(c, s).
     (case steps (gin_Request G c) s of
        (Err err, s) \<Rightarrow> (None, (gin_Error G err c, s))
      | (Panic p, s) \<Rightarrow> (Some p, (c, s))
      | (Ok data, s) \<Rightarrow>
          (case now s of
             (t, s) \<Rightarrow> (None, (gin_JSON G 200 (SuccessBody (newSuccessResponse t data)) c, s)))))"

section \<open>The handlers\<close>

definition Http_requiredIdempotencyKey :: "http_request \<Rightarrow> string res" where
  "Http_requiredIdempotencyKey rq = ParseIdempotencyKey (rq_Header rq ''Idempotency-Key'')"

definition Http_GetRates ::
  "('s, 'd) libraries \<Rightarrow> ('c, 's) inbound \<Rightarrow> ('s, 'd) FXHandler \<Rightarrow> http_request \<Rightarrow> ('s, response_data) io" where
  "Http_GetRates X I h rq =
     bind (lift (bound (bn_Rates (in_Binding I) (rq_Query rq)))) (\<lambda>query.
     bind (lift (ParseCurrency (gq_Base query))) (\<lambda>baseCurrency.
     bind (lift (parseCurrenciesCSV (gq_Quotes query))) (\<lambda>quoteCurrencies.
     bind (GetReferenceRates_Execute (lib_decimal X) (h_getReferenceRates h) baseCurrency quoteCurrencies) (\<lambda>rates.
       ret (RatesData (toRatesResponse (lib_decimal X) baseCurrency rates))))))"

definition Http_CreateQuote ::
  "('s, 'd) libraries \<Rightarrow> ('c, 's) inbound \<Rightarrow> ('s, 'd) FXHandler \<Rightarrow> http_request \<Rightarrow> ('s, response_data) io" where
  "Http_CreateQuote X I h rq =
     bind (lift (Http_requiredIdempotencyKey rq)) (\<lambda>idempotencyKey.
     bind (lift (bound (bn_Quote (in_Binding I) (rq_Body rq)))) (\<lambda>request.
     bind (lift (ParseCurrency (mq_Currency (cqr_BaseAmount request)))) (\<lambda>baseCurrency.
     bind (lift (NewMoney baseCurrency (mq_MinorUnits (cqr_BaseAmount request)))) (\<lambda>baseAmount.
     bind (lift (ParseCurrency (cqr_QuoteCurrency request))) (\<lambda>quoteCurrency.
     bind (CreateQuote_Execute (lib_decimal X) (lib_ulid X) (h_createQuote h) idempotencyKey baseAmount
             quoteCurrency) (\<lambda>result.
       ret (QuoteData (toQuoteResponse (lib_decimal X) result))))))))"

definition Http_CreateConversion ::
  "('s, 'd) libraries \<Rightarrow> ('c, 's) inbound \<Rightarrow> ('s, 'd) FXHandler \<Rightarrow> http_request \<Rightarrow> ('s, response_data) io" where
  "Http_CreateConversion X I h rq =
     bind (lift (Http_requiredIdempotencyKey rq)) (\<lambda>idempotencyKey.
     bind (lift (bound (bn_Conversion (in_Binding I) (rq_Body rq)))) (\<lambda>request.
     bind (lift (Http_validateULID (in_ParseStrict I) ''quoteId'' (ccr_QuoteID request))) (\<lambda>_.
       (let paymentProvider = ccr_PaymentProvider request;
            paymentProvider = (if paymentProvider = [] then ProviderToss else paymentProvider);
            transferProvider = ccr_TransferProvider request;
            transferProvider = (if transferProvider = [] then ProviderWise else transferProvider)
        in bind (AcceptQuote_Execute (lib_ulid X) (h_acceptQuote h) idempotencyKey (ccr_QuoteID request)
                   paymentProvider transferProvider) (\<lambda>result.
             ret (ConversionData (toConversionResponse (lib_decimal X) result)))))))"

definition Http_GetConversion ::
  "('s, 'd) libraries \<Rightarrow> ('c, 's) inbound \<Rightarrow> ('s, 'd) FXHandler \<Rightarrow> http_request \<Rightarrow> ('s, response_data) io" where
  "Http_GetConversion X I h rq =
     (let conversionID = rq_Params rq ''conversionId''
      in bind (lift (Http_validateULID (in_ParseStrict I) ''conversionId'' conversionID)) (\<lambda>_.
         bind (GetConversion_Execute (h_getConversion h) conversionID) (\<lambda>result.
           ret (ConversionData (toConversionResponse (lib_decimal X) result)))))"

definition ReadAll :: "go_error + string \<Rightarrow> string res" where
  "ReadAll body = (case body of Inl err \<Rightarrow> Err err | Inr bytes \<Rightarrow> Ok bytes)"

text \<open>The body is put back for the binding, which reads the same bytes again.\<close>

definition readWebhookRequest ::
  "('c, 's) inbound \<Rightarrow> string \<Rightarrow> http_request \<Rightarrow> (string \<times> webhookRequest) res" where
  "readWebhookRequest I verifier rq =
     bind_result (ReadAll (rq_Body rq)) (\<lambda>body.
     bind_result (Verify (in_MAC I) verifier (rq_Header rq webhookSignatureHeader) body) (\<lambda>_.
     bind_result (bound (bn_Webhook (in_Binding I) (Inr body))) (\<lambda>request.
     bind_result (Http_validateULID (in_ParseStrict I) ''conversionId'' (wr_ConversionID request)) (\<lambda>_.
       Ok (body, request)))))"

definition provider_event_of :: "string \<Rightarrow> webhookRequest \<Rightarrow> time \<Rightarrow> provider_event" where
  "provider_event_of rawBody request occurredAt =
     \<lparr>ev_Provider = wr_Provider request, ev_Topic = wr_EventType request,
      ev_ExternalEventID = wr_ExternalEventID request, ev_ConversionID = wr_ConversionID request,
      ev_ExternalReference = wr_ExternalReference request, ev_OccurredAt = occurredAt,
      ev_Payload = rawBody\<rparr>"

definition ack_of :: "'d decimal_lib \<Rightarrow> 'd conversion \<Rightarrow> bool \<Rightarrow> response_data" where
  "ack_of D result duplicate =
     AckData \<lparr>wa_Accepted = True, wa_Duplicate = duplicate, wa_Conversion = toConversionResponse D result\<rparr>"

text \<open>The clock is read before the request's own time replaces it.\<close>

definition Http_HandlePaymentWebhook ::
  "('s, 'd) libraries \<Rightarrow> ('c, 's) inbound \<Rightarrow> ('s, 'd) FXHandler \<Rightarrow> http_request \<Rightarrow> ('s, response_data) io" where
  "Http_HandlePaymentWebhook X I h rq =
     bind (lift (readWebhookRequest I (h_paymentWebhookVerifier h) rq)) (\<lambda>(rawBody, request).
       get_with (lib_now X) (\<lambda>occurredAt.
         (let occurredAt = (case wr_OccurredAt request of Some t \<Rightarrow> t | None \<Rightarrow> occurredAt)
          in bind (HandlePaymentWebhook_Execute (lib_ulid X) (h_handlePaymentWebhook h)
                     (provider_event_of rawBody request occurredAt)) (\<lambda>(result, duplicate).
               ret (ack_of (lib_decimal X) result duplicate)))))"

definition Http_HandleTransferWebhook ::
  "('s, 'd) libraries \<Rightarrow> ('c, 's) inbound \<Rightarrow> ('s, 'd) FXHandler \<Rightarrow> http_request \<Rightarrow> ('s, response_data) io" where
  "Http_HandleTransferWebhook X I h rq =
     bind (lift (readWebhookRequest I (h_transferWebhookVerifier h) rq)) (\<lambda>(rawBody, request).
       get_with (lib_now X) (\<lambda>occurredAt.
         (let occurredAt = (case wr_OccurredAt request of Some t \<Rightarrow> t | None \<Rightarrow> occurredAt)
          in bind (HandleTransferWebhook_Execute (lib_ulid X) (h_handleTransferWebhook h)
                     (provider_event_of rawBody request occurredAt)) (\<lambda>(result, duplicate).
               ret (ack_of (lib_decimal X) result duplicate)))))"

section \<open>Probes (health_handler.go)\<close>

definition status_ok :: http_body where
  "status_ok = StatusBody [(''status'', ''ok'')]"

definition Health :: "'c gin \<Rightarrow> ('c, 's) handler" where
  "Health G = (\<lambda>(c, s). (None, (gin_JSON G 200 status_ok c, s)))"

definition Ready :: "'c gin \<Rightarrow> ('c, 's) inbound \<Rightarrow> ('c, 's) handler" where
  "Ready G I = (\<lambda>(c, s).
     (case in_Ping I s of
        (Err err, s) \<Rightarrow>
          (None, (gin_Error G (WithCause (Internal ''Database not ready'' []) err) c, s))
      | (Panic p, s) \<Rightarrow> (Some p, (c, s))
      | (Ok _, s) \<Rightarrow> (None, (gin_JSON G 200 status_ok c, s))))"

section \<open>Routes (router.go)\<close>

text \<open>A route is a method, a path pattern and a handler.\<close>

type_synonym ('c, 's) route = "(string \<times> string) \<times> ('c, 's) handler"

definition RegisterRoutes ::
  "'c gin \<Rightarrow> ('s, 'd) libraries \<Rightarrow> ('c, 's) inbound \<Rightarrow> ('s, 'd) FXHandler \<Rightarrow> string \<Rightarrow> ('c, 's) route list" where
  "RegisterRoutes G X I h prefix =
     [((''GET'', prefix @ ''/rates''), respond G (lib_now X) (Http_GetRates X I h)),
      ((''POST'', prefix @ ''/quotes''), respond G (lib_now X) (Http_CreateQuote X I h)),
      ((''POST'', prefix @ ''/conversions''), respond G (lib_now X) (Http_CreateConversion X I h)),
      ((''GET'', prefix @ ''/conversions/:conversionId''), respond G (lib_now X) (Http_GetConversion X I h)),
      ((''POST'', prefix @ ''/webhooks/payments''),
       respond G (lib_now X) (Http_HandlePaymentWebhook X I h)),
      ((''POST'', prefix @ ''/webhooks/transfers''),
       respond G (lib_now X) (Http_HandleTransferWebhook X I h))]"

definition health_RegisterRoutes :: "'c gin \<Rightarrow> ('c, 's) inbound \<Rightarrow> ('c, 's) route list" where
  "health_RegisterRoutes G I = [((''GET'', ''/health''), Health G), ((''GET'', ''/ready''), Ready G I)]"

record ('c, 's) engine =
  en_chain :: "('c, 's) handler \<Rightarrow> ('c, 's) handler"
  en_routes :: "('c, 's) route list"

definition router_engine ::
  "'c gin \<Rightarrow> ('s, 'd) libraries \<Rightarrow> ('c, 's) inbound \<Rightarrow> 's telemetry option \<Rightarrow> string list \<Rightarrow>
   ('s, 'd) FXHandlerDeps \<Rightarrow> ('c, 's) engine" where
  "router_engine G X I telemetry origins deps =
     \<lparr>en_chain = router_chain G I (lib_now X) telemetry origins,
      en_routes = RegisterRoutes G X I (NewFXHandler deps) ''/api/v1'' @ health_RegisterRoutes G I\<rparr>"

text \<open>\<open>cors.New\<close> panics when it is given settings it refuses.\<close>

definition NewRouter ::
  "'c gin \<Rightarrow> ('s, 'd) libraries \<Rightarrow> ('c, 's) inbound \<Rightarrow> 's telemetry option \<Rightarrow> string list \<Rightarrow>
   ('s, 'd) FXHandlerDeps \<Rightarrow> ('c, 's) engine res" where
  "NewRouter G X I telemetry origins deps =
     (case in_CorsInvalid I (router_cors origins) of
        Some p \<Rightarrow> Panic p
      | None \<Rightarrow> Ok (router_engine G X I telemetry origins deps))"

lemma NewRouter_Ok:
  "NewRouter G X I telemetry origins deps = Ok e \<longleftrightarrow>
     in_CorsInvalid I (router_cors origins) = None \<and> e = router_engine G X I telemetry origins deps"
  by (auto simp: NewRouter_def split: option.splits)

text \<open>
  The framework runs the middlewares around the handler of the route that matches, with the
  route's pattern and parameters in the request; when none matches, around nothing.
\<close>

definition no_handler :: "('c, 's) handler" where
  "no_handler cs = (None, cs)"

definition routed :: "('c, 's) inbound \<Rightarrow> ('c, 's) engine \<Rightarrow> http_request \<Rightarrow> http_request \<times> int \<times> ('c, 's) handler" where
  "routed I e rq =
     (case in_Match I (map fst (en_routes e)) (rq_Method rq) (rq_Path rq) of
        Some (i, params) \<Rightarrow>
          (rq\<lparr>rq_FullPath := snd (fst (en_routes e ! i)), rq_Params := params\<rparr>, 200, snd (en_routes e ! i))
      | None \<Rightarrow> (rq\<lparr>rq_FullPath := [], rq_Params := (\<lambda>_. [])\<rparr>, 404, no_handler))"

definition ServeHTTP ::
  "('c, 's) inbound \<Rightarrow> (http_request \<Rightarrow> int \<Rightarrow> 'c) \<Rightarrow> ('c, 's) engine \<Rightarrow> http_request \<Rightarrow> 's \<Rightarrow>
   string option \<times> 'c \<times> 's" where
  "ServeHTTP I fresh e rq s =
     (case routed I e rq of (rq', status, handler) \<Rightarrow> en_chain e handler (fresh rq' status, s))"

end
