(* ===== verification/Grpc.thy ===== *)
theory Grpc
  imports Http
begin

text \<open>
  The gRPC adapter (\<open>internal/adapter/inbound/grpc/server.go\<close>): the four methods, the mapping of
  errors to status codes, the messages of the replies, and the interceptor that counts calls.
  The messages are those of \<open>proto/fx/v1/fx.proto\<close>.
\<close>

section \<open>Messages\<close>

record MoneyInput_message =
  gmi_Currency :: string
  gmi_MinorUnits :: int

record Money_message =
  gm_Currency :: string
  gm_MinorUnits :: int
  gm_Scale :: int
  gm_Amount :: string

record ReferenceRate_message =
  gr_BaseCurrency :: string
  gr_QuoteCurrency :: string
  gr_Rate :: string
  gr_Provider :: string
  gr_ObservedAt :: time
  gr_FetchedAt :: time

record GetRatesRequest_message =
  grq_Base :: string
  grq_Quotes :: "string list"

record GetRatesResponse_message =
  grs_BaseCurrency :: string
  grs_Provider :: string
  grs_Rates :: "ReferenceRate_message list"

record CreateQuoteRequest_message =
  gcq_BaseAmount :: "MoneyInput_message option"
  gcq_QuoteCurrency :: string

record Quote_message =
  gq_Id :: string
  gq_IdempotencyKey :: string
  gq_BaseAmount :: Money_message
  gq_QuoteAmount :: Money_message
  gq_FeeAmount :: Money_message
  gq_TotalDebitAmount :: Money_message
  gq_Rate :: string
  gq_RateProvider :: string
  gq_ExpiresAt :: time
  gq_AcceptedAt :: "time option"
  gq_CreatedAt :: time

record CreateConversionRequest_message =
  gcc_QuoteId :: string
  gcc_PaymentProvider :: string
  gcc_TransferProvider :: string

record GetConversionRequest_message =
  ggc_ConversionId :: string

record Conversion_message =
  gc_Id :: string
  gc_QuoteId :: string
  gc_IdempotencyKey :: string
  gc_BaseAmount :: Money_message
  gc_QuoteAmount :: Money_message
  gc_FeeAmount :: Money_message
  gc_TotalDebitAmount :: Money_message
  gc_Rate :: string
  gc_RateProvider :: string
  gc_PaymentProvider :: string
  gc_TransferProvider :: string
  gc_Status :: string
  gc_ExternalPaymentId :: string
  gc_ExternalTransferId :: string
  gc_FailureReason :: string
  gc_CreatedAt :: time
  gc_UpdatedAt :: time

definition toMoneyMessage :: "'d decimal_lib \<Rightarrow> money \<Rightarrow> Money_message" where
  "toMoneyMessage D value =
     \<lparr>gm_Currency = Currency value, gm_MinorUnits = MinorUnits value, gm_Scale = money_Scale value,
      gm_Amount = AmountString D value\<rparr>"

definition toReferenceRateMessage :: "'d decimal_lib \<Rightarrow> 'd exchange_rate \<Rightarrow> ReferenceRate_message" where
  "toReferenceRateMessage D value =
     \<lparr>gr_BaseCurrency = rate_Base value, gr_QuoteCurrency = rate_Quote value,
      gr_Rate = dec_String D (rate_Rate value), gr_Provider = rate_Provider value,
      gr_ObservedAt = rate_ObservedAt value, gr_FetchedAt = rate_FetchedAt value\<rparr>"

definition toQuoteMessage :: "'d decimal_lib \<Rightarrow> 'd quote \<Rightarrow> Quote_message" where
  "toQuoteMessage D value =
     (let message =
        \<lparr>gq_Id = q_ID value, gq_IdempotencyKey = q_IdempotencyKey value,
         gq_BaseAmount = toMoneyMessage D (q_BaseAmount value),
         gq_QuoteAmount = toMoneyMessage D (q_QuoteAmount value),
         gq_FeeAmount = toMoneyMessage D (q_FeeAmount value),
         gq_TotalDebitAmount = toMoneyMessage D (q_TotalDebitAmount value),
         gq_Rate = dec_String D (q_Rate value), gq_RateProvider = q_RateProvider value,
         gq_ExpiresAt = q_ExpiresAt value, gq_AcceptedAt = None, gq_CreatedAt = q_CreatedAt value\<rparr>
      in case q_AcceptedAt value of None \<Rightarrow> message | Some t \<Rightarrow> message\<lparr>gq_AcceptedAt := Some t\<rparr>)"

text \<open>A string field of a message that is not set reads as the empty string.\<close>

definition toConversionMessage :: "'d decimal_lib \<Rightarrow> 'd conversion \<Rightarrow> Conversion_message" where
  "toConversionMessage D value =
     (let message =
        \<lparr>gc_Id = c_ID value, gc_QuoteId = c_QuoteID value, gc_IdempotencyKey = c_IdempotencyKey value,
         gc_BaseAmount = toMoneyMessage D (c_BaseAmount value),
         gc_QuoteAmount = toMoneyMessage D (c_QuoteAmount value),
         gc_FeeAmount = toMoneyMessage D (c_FeeAmount value),
         gc_TotalDebitAmount = toMoneyMessage D (c_TotalDebitAmount value),
         gc_Rate = dec_String D (c_Rate value), gc_RateProvider = c_RateProvider value,
         gc_PaymentProvider = c_PaymentProvider value, gc_TransferProvider = c_TransferProvider value,
         gc_Status = c_Status value, gc_ExternalPaymentId = [], gc_ExternalTransferId = [],
         gc_FailureReason = [], gc_CreatedAt = c_CreatedAt value, gc_UpdatedAt = c_UpdatedAt value\<rparr>;
          message = (case c_ExternalPaymentID value of
              Some v \<Rightarrow> message\<lparr>gc_ExternalPaymentId := v\<rparr> | None \<Rightarrow> message);
          message = (case c_ExternalTransferID value of
              Some v \<Rightarrow> message\<lparr>gc_ExternalTransferId := v\<rparr> | None \<Rightarrow> message);
          message = (case c_FailureReason value of
              Some v \<Rightarrow> message\<lparr>gc_FailureReason := v\<rparr> | None \<Rightarrow> message)
      in message)"

section \<open>Errors\<close>

text \<open>The status codes the server can return (\<open>codes.Code\<close>), and a status error.\<close>

datatype grpc_code =
    GrpcOK
  | GrpcInvalidArgument
  | GrpcNotFound
  | GrpcFailedPrecondition
  | GrpcUnauthenticated
  | GrpcInternal

datatype grpc_status = GrpcStatus grpc_code string

fun status_Code :: "(grpc_status, 'a) result \<Rightarrow> grpc_code" where
  "status_Code (Ok x) = GrpcOK"
| "status_Code (Err (GrpcStatus code message)) = code"
| "status_Code (Panic p) = GrpcInternal"

definition mapError :: "go_error \<Rightarrow> grpc_status" where
  "mapError err =
     (let appErr = as_app_error err;
          code = app_code appErr;
          grpcCode =
            (if code = ErrorCodeNotFound then GrpcNotFound
             else if code = ErrorCodeValidation then GrpcInvalidArgument
             else if code = ErrorCodeConflict then GrpcFailedPrecondition
             else if code = ErrorCodeUnauthorized then GrpcUnauthenticated
             else GrpcInternal)
      in GrpcStatus grpcCode (app_message appErr))"

definition classifyGRPCOutcome :: "grpc_code \<Rightarrow> string" where
  "classifyGRPCOutcome code =
     (case code of
        GrpcOK \<Rightarrow> ''success''
      | GrpcInvalidArgument \<Rightarrow> ''client_error''
      | GrpcNotFound \<Rightarrow> ''client_error''
      | GrpcFailedPrecondition \<Rightarrow> ''client_error''
      | GrpcUnauthenticated \<Rightarrow> ''client_error''
      | GrpcInternal \<Rightarrow> ''server_error'')"

text \<open>Every error of a method's steps is returned through \<open>mapError\<close>.\<close>

definition mapped :: "('s, 'a) io \<Rightarrow> (grpc_status, 's, 'a) call" where
  "mapped m s =
     (case m s of
        (Ok x, s) \<Rightarrow> (Ok x, s)
      | (Err err, s) \<Rightarrow> (Err (mapError err), s)
      | (Panic p, s) \<Rightarrow> (Panic p, s))"

section \<open>Requests\<close>

definition idempotencyMetadataKey :: string where
  "idempotencyMetadataKey = ''idempotency-key''"

text \<open>The incoming metadata: absent, or the values of each key.\<close>

definition Grpc_requiredIdempotencyKey :: "(string \<Rightarrow> string list) option \<Rightarrow> string res" where
  "Grpc_requiredIdempotencyKey metadata =
     (case metadata of
        None \<Rightarrow> ParseIdempotencyKey []
      | Some get \<Rightarrow>
          (let values = get idempotencyMetadataKey
           in if length values = 0 then ParseIdempotencyKey [] else ParseIdempotencyKey (values ! 0)))"

definition parseCurrencies :: "string list \<Rightarrow> string list res" where
  "parseCurrencies rawValues =
     (if length rawValues = 0 then Err (Validation ''At least one quote currency is required'' [])
      else map_until ParseCurrency rawValues)"

definition validateULID :: "(string \<Rightarrow> go_error option) \<Rightarrow> string \<Rightarrow> string \<Rightarrow> unit res" where
  "validateULID parseStrict field raw =
     (case parseStrict raw of
        Some err \<Rightarrow>
          Err (WithCause (Validation ''Request validation failed''
                 [(''errors'', DIssues [[(''field'', field), (''tag'', ''ulid'')]])]) err)
      | None \<Rightarrow> Ok ())"

section \<open>The service\<close>

record ('s, 'd) FXService =
  fs_getReferenceRates :: "('s, 'd) GetReferenceRatesUsecase"
  fs_createQuote :: "('s, 'd) CreateQuoteUsecase"
  fs_acceptQuote :: "('s, 'd) AcceptQuoteUsecase"
  fs_getConversion :: "('s, 'd) GetConversionUsecase"

definition Grpc_GetRates ::
  "('s, 'd) libraries \<Rightarrow> ('s, 'd) FXService \<Rightarrow> GetRatesRequest_message \<Rightarrow>
   (grpc_status, 's, GetRatesResponse_message) call" where
  "Grpc_GetRates X svc req = mapped
     (bind (lift (ParseCurrency (grq_Base req))) (\<lambda>baseCurrency.
      bind (lift (parseCurrencies (grq_Quotes req))) (\<lambda>quoteCurrencies.
      bind (GetReferenceRates_Execute (lib_decimal X) (fs_getReferenceRates svc) baseCurrency quoteCurrencies)
        (\<lambda>rates.
          (let response =
             \<lparr>grs_BaseCurrency = baseCurrency, grs_Provider = ProviderFrankfurter,
              grs_Rates = map (toReferenceRateMessage (lib_decimal X)) rates\<rparr>
           in if length rates > 0 then ret (response\<lparr>grs_Provider := rate_Provider (rates ! 0)\<rparr>)
              else ret response)))))"

definition Grpc_CreateQuote ::
  "('s, 'd) libraries \<Rightarrow> ('s, 'd) FXService \<Rightarrow> (string \<Rightarrow> string list) option \<Rightarrow> CreateQuoteRequest_message \<Rightarrow>
   (grpc_status, 's, Quote_message) call" where
  "Grpc_CreateQuote X svc metadata req = mapped
     (bind (lift (Grpc_requiredIdempotencyKey metadata)) (\<lambda>idempotencyKey.
        (case gcq_BaseAmount req of
           None \<Rightarrow> throw (Validation ''Base amount is required'' [])
         | Some base \<Rightarrow>
             bind (lift (ParseCurrency (gmi_Currency base))) (\<lambda>baseCurrency.
             bind (lift (NewMoney baseCurrency (gmi_MinorUnits base))) (\<lambda>baseAmount.
             bind (lift (ParseCurrency (gcq_QuoteCurrency req))) (\<lambda>quoteCurrency.
             bind (CreateQuote_Execute (lib_decimal X) (lib_ulid X) (fs_createQuote svc) idempotencyKey
                     baseAmount quoteCurrency) (\<lambda>value.
               ret (toQuoteMessage (lib_decimal X) value))))))))"

definition Grpc_CreateConversion ::
  "('s, 'd) libraries \<Rightarrow> (string \<Rightarrow> go_error option) \<Rightarrow> ('s, 'd) FXService \<Rightarrow> (string \<Rightarrow> string list) option \<Rightarrow>
   CreateConversionRequest_message \<Rightarrow> (grpc_status, 's, Conversion_message) call" where
  "Grpc_CreateConversion X parseStrict svc metadata req = mapped
     (bind (lift (Grpc_requiredIdempotencyKey metadata)) (\<lambda>idempotencyKey.
      bind (lift (validateULID parseStrict ''quoteId'' (gcc_QuoteId req))) (\<lambda>_.
        (let paymentProvider = gcc_PaymentProvider req;
             paymentProvider = (if paymentProvider = [] then ProviderToss else paymentProvider);
             transferProvider = gcc_TransferProvider req;
             transferProvider = (if transferProvider = [] then ProviderWise else transferProvider)
         in bind (AcceptQuote_Execute (lib_ulid X) (fs_acceptQuote svc) idempotencyKey (gcc_QuoteId req)
                    paymentProvider transferProvider) (\<lambda>value.
              ret (toConversionMessage (lib_decimal X) value))))))"

definition Grpc_GetConversion ::
  "('s, 'd) libraries \<Rightarrow> (string \<Rightarrow> go_error option) \<Rightarrow> ('s, 'd) FXService \<Rightarrow> GetConversionRequest_message \<Rightarrow>
   (grpc_status, 's, Conversion_message) call" where
  "Grpc_GetConversion X parseStrict svc req = mapped
     (bind (lift (validateULID parseStrict ''conversionId'' (ggc_ConversionId req))) (\<lambda>_.
      bind (GetConversion_Execute (fs_getConversion svc) (ggc_ConversionId req)) (\<lambda>value.
        ret (toConversionMessage (lib_decimal X) value))))"

section \<open>The interceptor and the server\<close>

text \<open>A panic of the handler passes the interceptor, which does nothing after it.\<close>

definition unaryMetricsInterceptor ::
  "('s \<Rightarrow> time \<times> 's) \<Rightarrow> 's telemetry \<Rightarrow> string \<Rightarrow> (grpc_status, 's, 'a) call \<Rightarrow> (grpc_status, 's, 'a) call" where
  "unaryMetricsInterceptor now telemetry fullMethod handler s =
     (case now s of
        (started, s) \<Rightarrow>
          (case handler s of
             (Panic p, s) \<Rightarrow> (Panic p, s)
           | (r, s) \<Rightarrow>
               (case now s of
                  (t, s) \<Rightarrow>
                    (r, tm_RecordInboundRequest telemetry ''grpc'' fullMethod
                          (classifyGRPCOutcome (status_Code r)) (t - started) s))))"

text \<open>A call of the service, by its message; the server answers with the reply's message.\<close>

datatype grpc_request =
    GrpcGetRates GetRatesRequest_message
  | GrpcCreateQuote CreateQuoteRequest_message
  | GrpcCreateConversion CreateConversionRequest_message
  | GrpcGetConversion GetConversionRequest_message

datatype grpc_reply =
    RatesMessage GetRatesResponse_message
  | QuoteMessage Quote_message
  | ConversionMessage Conversion_message

fun grpc_method :: "grpc_request \<Rightarrow> string" where
  "grpc_method (GrpcGetRates req) = ''/fx.v1.FXService/GetRates''"
| "grpc_method (GrpcCreateQuote req) = ''/fx.v1.FXService/CreateQuote''"
| "grpc_method (GrpcCreateConversion req) = ''/fx.v1.FXService/CreateConversion''"
| "grpc_method (GrpcGetConversion req) = ''/fx.v1.FXService/GetConversion''"

fun grpc_handler ::
  "('s, 'd) libraries \<Rightarrow> (string \<Rightarrow> go_error option) \<Rightarrow> ('s, 'd) FXService \<Rightarrow> (string \<Rightarrow> string list) option \<Rightarrow>
   grpc_request \<Rightarrow> (grpc_status, 's, grpc_reply) call" where
  "grpc_handler X parseStrict svc metadata (GrpcGetRates req) =
     bind (Grpc_GetRates X svc req) (\<lambda>m. ret (RatesMessage m))"
| "grpc_handler X parseStrict svc metadata (GrpcCreateQuote req) =
     bind (Grpc_CreateQuote X svc metadata req) (\<lambda>m. ret (QuoteMessage m))"
| "grpc_handler X parseStrict svc metadata (GrpcCreateConversion req) =
     bind (Grpc_CreateConversion X parseStrict svc metadata req) (\<lambda>m. ret (ConversionMessage m))"
| "grpc_handler X parseStrict svc metadata (GrpcGetConversion req) =
     bind (Grpc_GetConversion X parseStrict svc req) (\<lambda>m. ret (ConversionMessage m))"

record ('s, 'd) GRPCServer =
  gs_service :: "('s, 'd) FXService"
  gs_interceptor :: "'s telemetry option"

definition Grpc_NewServer :: "('s, 'd) usecase_set \<Rightarrow> 's telemetry option \<Rightarrow> ('s, 'd) GRPCServer" where
  "Grpc_NewServer us telemetry =
     \<lparr>gs_service =
        \<lparr>fs_getReferenceRates = us_GetReferenceRates us, fs_createQuote = us_CreateQuote us,
         fs_acceptQuote = us_AcceptQuote us, fs_getConversion = us_GetConversion us\<rparr>,
      gs_interceptor = telemetry\<rparr>"

definition grpc_serve ::
  "('s, 'd) libraries \<Rightarrow> (string \<Rightarrow> go_error option) \<Rightarrow> ('s, 'd) GRPCServer \<Rightarrow> (string \<Rightarrow> string list) option \<Rightarrow>
   grpc_request \<Rightarrow> (grpc_status, 's, grpc_reply) call" where
  "grpc_serve X parseStrict server metadata req =
     (let handler = grpc_handler X parseStrict (gs_service server) metadata req
      in case gs_interceptor server of
           None \<Rightarrow> handler
         | Some T \<Rightarrow> unaryMetricsInterceptor (lib_now X) T (grpc_method req) handler)"

lemma parseCurrencies_Ok [io_inv]:
  "parseCurrencies raws = Ok cs \<longleftrightarrow>
     raws \<noteq> [] \<and> cs = map (\<lambda>p. ToUpper (TrimSpace p)) raws \<and> (\<forall>c \<in> set cs. supported c)"
  by (auto simp: parseCurrencies_def parse_currencies_Ok)

lemma parseCurrencies_no_panic [simp]: "parseCurrencies raws \<noteq> Panic p"
  by (simp add: parseCurrencies_def)

lemma validateULID_Ok [io_inv]: "validateULID p f raw = Ok u \<longleftrightarrow> p raw = None"
  by (auto simp: validateULID_def split: option.splits)

lemma validateULID_no_panic [simp]: "validateULID p f raw \<noteq> Panic x"
  by (auto simp: validateULID_def split: option.splits)

lemma Grpc_requiredIdempotencyKey_no_panic [simp]: "Grpc_requiredIdempotencyKey md \<noteq> Panic p"
  by (auto simp: Grpc_requiredIdempotencyKey_def Let_def split: option.splits)

end
