(* ===== verification/Rpc.thy ===== *)
theory Rpc
  imports Grpc
begin

text \<open>
  The \<open>net/rpc\<close> adapter (\<open>internal/adapter/inbound/rpc/server.go\<close>): the four methods, each with
  its deferred \<open>recordRequest\<close>, and their arguments and replies.
\<close>

section \<open>Arguments and replies\<close>

record MoneyInput =
  pmi_Currency :: string
  pmi_MinorUnits :: int

record Money =
  pm_Currency :: string
  pm_MinorUnits :: int
  pm_Scale :: int
  pm_Amount :: string

record ReferenceRate =
  prr_BaseCurrency :: string
  prr_QuoteCurrency :: string
  prr_Rate :: string
  prr_Provider :: string
  prr_ObservedAt :: time
  prr_FetchedAt :: time

record GetRatesArgs =
  pga_Base :: string
  pga_Quotes :: "string list"

record GetRatesReply =
  pgr_BaseCurrency :: string
  pgr_Provider :: string
  pgr_Rates :: "ReferenceRate list"

record CreateQuoteArgs =
  pqa_IdempotencyKey :: string
  pqa_BaseAmount :: MoneyInput
  pqa_QuoteCurrency :: string

record QuoteReply =
  pq_ID :: string
  pq_IdempotencyKey :: string
  pq_BaseAmount :: Money
  pq_QuoteAmount :: Money
  pq_FeeAmount :: Money
  pq_TotalDebitAmount :: Money
  pq_Rate :: string
  pq_RateProvider :: string
  pq_ExpiresAt :: time
  pq_AcceptedAt :: "time option"
  pq_CreatedAt :: time

record CreateConversionArgs =
  pca_IdempotencyKey :: string
  pca_QuoteID :: string
  pca_PaymentProvider :: string
  pca_TransferProvider :: string

record GetConversionArgs =
  pgc_ConversionID :: string

record ConversionReply =
  pc_ID :: string
  pc_QuoteID :: string
  pc_IdempotencyKey :: string
  pc_BaseAmount :: Money
  pc_QuoteAmount :: Money
  pc_FeeAmount :: Money
  pc_TotalDebitAmount :: Money
  pc_Rate :: string
  pc_RateProvider :: string
  pc_PaymentProvider :: string
  pc_TransferProvider :: string
  pc_Status :: string
  pc_ExternalPaymentID :: "string option"
  pc_ExternalTransferID :: "string option"
  pc_FailureReason :: "string option"
  pc_CreatedAt :: time
  pc_UpdatedAt :: time

definition toMoneyReply :: "'d decimal_lib \<Rightarrow> money \<Rightarrow> Money" where
  "toMoneyReply D value =
     \<lparr>pm_Currency = Currency value, pm_MinorUnits = MinorUnits value, pm_Scale = money_Scale value,
      pm_Amount = AmountString D value\<rparr>"

definition toReferenceRateReply :: "'d decimal_lib \<Rightarrow> 'd exchange_rate \<Rightarrow> ReferenceRate" where
  "toReferenceRateReply D value =
     \<lparr>prr_BaseCurrency = rate_Base value, prr_QuoteCurrency = rate_Quote value,
      prr_Rate = dec_String D (rate_Rate value), prr_Provider = rate_Provider value,
      prr_ObservedAt = rate_ObservedAt value, prr_FetchedAt = rate_FetchedAt value\<rparr>"

definition toQuoteReply :: "'d decimal_lib \<Rightarrow> 'd quote \<Rightarrow> QuoteReply" where
  "toQuoteReply D value =
     \<lparr>pq_ID = q_ID value, pq_IdempotencyKey = q_IdempotencyKey value,
      pq_BaseAmount = toMoneyReply D (q_BaseAmount value),
      pq_QuoteAmount = toMoneyReply D (q_QuoteAmount value),
      pq_FeeAmount = toMoneyReply D (q_FeeAmount value),
      pq_TotalDebitAmount = toMoneyReply D (q_TotalDebitAmount value),
      pq_Rate = dec_String D (q_Rate value), pq_RateProvider = q_RateProvider value,
      pq_ExpiresAt = q_ExpiresAt value, pq_AcceptedAt = q_AcceptedAt value,
      pq_CreatedAt = q_CreatedAt value\<rparr>"

definition toConversionReply :: "'d decimal_lib \<Rightarrow> 'd conversion \<Rightarrow> ConversionReply" where
  "toConversionReply D value =
     \<lparr>pc_ID = c_ID value, pc_QuoteID = c_QuoteID value, pc_IdempotencyKey = c_IdempotencyKey value,
      pc_BaseAmount = toMoneyReply D (c_BaseAmount value),
      pc_QuoteAmount = toMoneyReply D (c_QuoteAmount value),
      pc_FeeAmount = toMoneyReply D (c_FeeAmount value),
      pc_TotalDebitAmount = toMoneyReply D (c_TotalDebitAmount value),
      pc_Rate = dec_String D (c_Rate value), pc_RateProvider = c_RateProvider value,
      pc_PaymentProvider = c_PaymentProvider value, pc_TransferProvider = c_TransferProvider value,
      pc_Status = c_Status value, pc_ExternalPaymentID = c_ExternalPaymentID value,
      pc_ExternalTransferID = c_ExternalTransferID value, pc_FailureReason = c_FailureReason value,
      pc_CreatedAt = c_CreatedAt value, pc_UpdatedAt = c_UpdatedAt value\<rparr>"

section \<open>The server\<close>

record ('s, 'd) rpc_server =
  rs_getReferenceRates :: "('s, 'd) GetReferenceRatesUsecase"
  rs_createQuote :: "('s, 'd) CreateQuoteUsecase"
  rs_acceptQuote :: "('s, 'd) AcceptQuoteUsecase"
  rs_getConversion :: "('s, 'd) GetConversionUsecase"
  rs_telemetry :: "'s telemetry option"

definition serviceName :: string where "serviceName = ''FXRPCService''"

text \<open>Registering the receiver under its name is the library's work: it reports an error or not.\<close>

definition Rpc_NewServer ::
  "(string \<Rightarrow> go_error option) \<Rightarrow> ('s, 'd) usecase_set \<Rightarrow> 's telemetry option \<Rightarrow> ('s, 'd) rpc_server res" where
  "Rpc_NewServer registerName us telemetry =
     (let server =
        \<lparr>rs_getReferenceRates = us_GetReferenceRates us, rs_createQuote = us_CreateQuote us,
         rs_acceptQuote = us_AcceptQuote us, rs_getConversion = us_GetConversion us,
         rs_telemetry = telemetry\<rparr>
      in case registerName serviceName of Some err \<Rightarrow> Err err | None \<Rightarrow> Ok server)"

definition classifyRPCOutcome :: "go_error option \<Rightarrow> string" where
  "classifyRPCOutcome err =
     (case err of
        None \<Rightarrow> ''success''
      | Some e \<Rightarrow>
          if app_code (as_app_error e) \<in>
             {ErrorCodeValidation, ErrorCodeNotFound, ErrorCodeConflict, ErrorCodeUnauthorized}
          then ''client_error'' else ''server_error'')"

definition recordRequest ::
  "('s \<Rightarrow> time \<times> 's) \<Rightarrow> ('s, 'd) rpc_server \<Rightarrow> string \<Rightarrow> time \<Rightarrow> go_error option \<Rightarrow> 's \<Rightarrow> 's" where
  "recordRequest now server operation started err s =
     (case rs_telemetry server of
        None \<Rightarrow> s
      | Some T \<Rightarrow>
          (case now s of
             (t, s) \<Rightarrow>
               tm_RecordInboundRequest T ''rpc'' operation (classifyRPCOutcome err) (t - started) s))"

text \<open>
  \<open>started := time.Now(); defer s.recordRequest(operation, started, err)\<close>: the arguments of the
  deferred call are evaluated where it is deferred, when the named result \<open>err\<close> is still nil; the
  call itself runs when the method returns, with an error, or panics.
\<close>

definition deferred_record ::
  "('s \<Rightarrow> time \<times> 's) \<Rightarrow> ('s, 'd) rpc_server \<Rightarrow> string \<Rightarrow> ('s, 'a) io \<Rightarrow> ('s, 'a) io" where
  "deferred_record now server operation body s =
     (case now s of
        (started, s) \<Rightarrow>
          (let err = None
           in case body s of (r, s) \<Rightarrow> (r, recordRequest now server operation started err s)))"

section \<open>The methods\<close>

definition Rpc_parseCurrencies :: "string list \<Rightarrow> string list res" where
  "Rpc_parseCurrencies rawValues =
     (if length rawValues = 0 then Err (Validation ''At least one quote currency is required'' [])
      else map_until ParseCurrency rawValues)"

definition Rpc_validateULID :: "(string \<Rightarrow> go_error option) \<Rightarrow> string \<Rightarrow> string \<Rightarrow> unit res" where
  "Rpc_validateULID parseStrict field raw =
     (case parseStrict raw of
        Some err \<Rightarrow>
          Err (WithCause (Validation ''Request validation failed''
                 [(''errors'', DIssues [[(''field'', field), (''tag'', ''ulid'')]])]) err)
      | None \<Rightarrow> Ok ())"

text \<open>The two checks are the gRPC adapter's.\<close>

lemma rpc_checks [simp]: "Rpc_parseCurrencies = parseCurrencies" "Rpc_validateULID = validateULID"
  by (simp_all add: fun_eq_iff Rpc_parseCurrencies_def parseCurrencies_def Rpc_validateULID_def
      validateULID_def)

definition Rpc_GetRates ::
  "('s, 'd) libraries \<Rightarrow> ('s, 'd) rpc_server \<Rightarrow> GetRatesArgs \<Rightarrow> ('s, GetRatesReply) io" where
  "Rpc_GetRates X srv arg =
     deferred_record (lib_now X) srv ''FXRPCService.GetRates''
       (bind (lift (ParseCurrency (pga_Base arg))) (\<lambda>baseCurrency.
        bind (lift (Rpc_parseCurrencies (pga_Quotes arg))) (\<lambda>quoteCurrencies.
        bind (GetReferenceRates_Execute (lib_decimal X) (rs_getReferenceRates srv) baseCurrency quoteCurrencies)
          (\<lambda>rates.
            (let reply = \<lparr>pgr_BaseCurrency = baseCurrency, pgr_Provider = ProviderFrankfurter,
                          pgr_Rates = map (toReferenceRateReply (lib_decimal X)) rates\<rparr>
             in if length rates > 0 then ret (reply\<lparr>pgr_Provider := rate_Provider (rates ! 0)\<rparr>)
                else ret reply)))))"

definition Rpc_CreateQuote ::
  "('s, 'd) libraries \<Rightarrow> ('s, 'd) rpc_server \<Rightarrow> CreateQuoteArgs \<Rightarrow> ('s, QuoteReply) io" where
  "Rpc_CreateQuote X srv arg =
     deferred_record (lib_now X) srv ''FXRPCService.CreateQuote''
       (bind (lift (ParseIdempotencyKey (pqa_IdempotencyKey arg))) (\<lambda>idempotencyKey.
        bind (lift (ParseCurrency (pmi_Currency (pqa_BaseAmount arg)))) (\<lambda>baseCurrency.
        bind (lift (NewMoney baseCurrency (pmi_MinorUnits (pqa_BaseAmount arg)))) (\<lambda>baseAmount.
        bind (lift (ParseCurrency (pqa_QuoteCurrency arg))) (\<lambda>quoteCurrency.
        bind (CreateQuote_Execute (lib_decimal X) (lib_ulid X) (rs_createQuote srv) idempotencyKey baseAmount
                quoteCurrency) (\<lambda>value.
          ret (toQuoteReply (lib_decimal X) value)))))))"

definition Rpc_CreateConversion ::
  "('s, 'd) libraries \<Rightarrow> (string \<Rightarrow> go_error option) \<Rightarrow> ('s, 'd) rpc_server \<Rightarrow> CreateConversionArgs \<Rightarrow>
   ('s, ConversionReply) io" where
  "Rpc_CreateConversion X parseStrict srv arg =
     deferred_record (lib_now X) srv ''FXRPCService.CreateConversion''
       (bind (lift (ParseIdempotencyKey (pca_IdempotencyKey arg))) (\<lambda>idempotencyKey.
        bind (lift (Rpc_validateULID parseStrict ''quoteId'' (pca_QuoteID arg))) (\<lambda>_.
          (let paymentProvider = pca_PaymentProvider arg;
               paymentProvider = (if paymentProvider = [] then ProviderToss else paymentProvider);
               transferProvider = pca_TransferProvider arg;
               transferProvider = (if transferProvider = [] then ProviderWise else transferProvider)
           in bind (AcceptQuote_Execute (lib_ulid X) (rs_acceptQuote srv) idempotencyKey (pca_QuoteID arg)
                      paymentProvider transferProvider) (\<lambda>value.
                ret (toConversionReply (lib_decimal X) value))))))"

definition Rpc_GetConversion ::
  "('s, 'd) libraries \<Rightarrow> (string \<Rightarrow> go_error option) \<Rightarrow> ('s, 'd) rpc_server \<Rightarrow> GetConversionArgs \<Rightarrow>
   ('s, ConversionReply) io" where
  "Rpc_GetConversion X parseStrict srv arg =
     deferred_record (lib_now X) srv ''FXRPCService.GetConversion''
       (bind (lift (Rpc_validateULID parseStrict ''conversionId'' (pgc_ConversionID arg))) (\<lambda>_.
        bind (GetConversion_Execute (rs_getConversion srv) (pgc_ConversionID arg)) (\<lambda>value.
          ret (toConversionReply (lib_decimal X) value))))"

text \<open>A call by its arguments, answered with a reply or the error (its text travels back).\<close>

datatype rpc_request =
    RpcGetRates GetRatesArgs
  | RpcCreateQuote CreateQuoteArgs
  | RpcCreateConversion CreateConversionArgs
  | RpcGetConversion GetConversionArgs

datatype rpc_reply =
    RatesReply GetRatesReply
  | QuoteReply QuoteReply
  | ConversionReply ConversionReply

fun rpc_serve ::
  "('s, 'd) libraries \<Rightarrow> (string \<Rightarrow> go_error option) \<Rightarrow> ('s, 'd) rpc_server \<Rightarrow> rpc_request \<Rightarrow> ('s, rpc_reply) io" where
  "rpc_serve X parseStrict srv (RpcGetRates arg) = bind (Rpc_GetRates X srv arg) (\<lambda>m. ret (RatesReply m))"
| "rpc_serve X parseStrict srv (RpcCreateQuote arg) =
     bind (Rpc_CreateQuote X srv arg) (\<lambda>m. ret (QuoteReply m))"
| "rpc_serve X parseStrict srv (RpcCreateConversion arg) =
     bind (Rpc_CreateConversion X parseStrict srv arg) (\<lambda>m. ret (ConversionReply m))"
| "rpc_serve X parseStrict srv (RpcGetConversion arg) =
     bind (Rpc_GetConversion X parseStrict srv arg) (\<lambda>m. ret (ConversionReply m))"

end
