(* ===== verification/Runtime.thy ===== *)
theory Runtime
  imports Rpc
begin

text \<open>
  Starting and stopping the program: the logger (\<open>logger/zap.go\<close>), the database connections
  (\<open>postgres/db.go\<close>), the migrations (\<open>postgres/migrate.go\<close>), \<open>Bootstrap\<close> and \<open>Close\<close> of
  \<open>internal/app/runtime.go\<close>, and the \<open>main\<close> packages of \<open>cmd\<close>. What the drivers, the registry
  and the servers do is a parameter; the world records which resources are open.
\<close>

section \<open>The libraries\<close>

record zap_config =
  zc_Level :: string
  zc_Development :: bool
  zc_Encoding :: string
  zc_Keys :: "(string \<times> string) list"
  zc_Encoders :: "(string \<times> string) list"
  zc_OutputPaths :: "string list"
  zc_ErrorOutputPaths :: "string list"
  zc_Caller :: bool
  zc_StacktraceLevel :: string

record pool_config =
  pcf_URL :: string
  pcf_MaxConns :: int
  pcf_MinConns :: int

text \<open>
  Connections and listeners are numbers the libraries hand out. \<open>pf_UnmarshalLevel\<close> is the
  level's text form, read back as the level's name.
\<close>

record 's platform =
  pf_UnmarshalLevel :: "string \<Rightarrow> (go_error, string) result"
  pf_BuildLogger :: "zap_config \<Rightarrow> ('s, unit) io"
  pf_SyncLogger :: "('s, unit) io"
  pf_LogInfo :: "string \<Rightarrow> (string \<times> string) list \<Rightarrow> 's \<Rightarrow> 's"
  pf_RegisterCollector :: "string \<Rightarrow> ('s, unit) io"
  pf_ParsePoolConfig :: "string \<Rightarrow> (go_error, pool_config) result"
  pf_NewPool :: "pool_config \<Rightarrow> ('s, nat) io"
  pf_PoolPing :: "nat \<Rightarrow> ('s, unit) io"
  pf_PoolClose :: "nat \<Rightarrow> 's \<Rightarrow> 's"
  pf_GormOpen :: "string \<Rightarrow> ('s, nat) io"
  pf_GormDB :: "nat \<Rightarrow> ('s, nat) io"
  pf_SetMaxOpenConns :: "nat \<Rightarrow> int \<Rightarrow> 's \<Rightarrow> 's"
  pf_SetMaxIdleConns :: "nat \<Rightarrow> int \<Rightarrow> 's \<Rightarrow> 's"
  pf_SQLOpen :: "string \<Rightarrow> string \<Rightarrow> ('s, nat) io"
  pf_SQLPing :: "nat \<Rightarrow> ('s, unit) io"
  pf_SQLClose :: "nat \<Rightarrow> ('s, unit) io"
  pf_RegisterName :: "string \<Rightarrow> go_error option"
  pf_GooseDialect :: "string \<Rightarrow> go_error option"
  pf_Goose :: "string \<Rightarrow> nat \<Rightarrow> string \<Rightarrow> ('s, unit) io"

text \<open>\<open>if err != nil { cleanup; return nil, err }\<close> with the clean-up run on the way out.\<close>

definition or_else :: "('s, 'a) io \<Rightarrow> ('s \<Rightarrow> 's) \<Rightarrow> ('a \<Rightarrow> ('s, 'b) io) \<Rightarrow> ('s, 'b) io" where
  "or_else m cleanup f s =
     (case m s of
        (Ok x, s) \<Rightarrow> f x s
      | (Err e, s) \<Rightarrow> (Err e, cleanup s)
      | (Panic p, s) \<Rightarrow> (Panic p, s))"

text \<open>\<open>_ = m()\<close>: the error is discarded.\<close>

definition ignoring :: "('s, 'a) io \<Rightarrow> 's \<Rightarrow> 's" where
  "ignoring m s = snd (m s)"

text \<open>\<open>fmt.Errorf("text: %w", err)\<close>.\<close>

definition wrapping :: "string \<Rightarrow> ('s, 'a) io \<Rightarrow> ('s, 'a) io" where
  "wrapping what m s =
     (case m s of
        (Err e, s) \<Rightarrow> (Err (WrapError (what @ '': '' @ error_text e) e), s)
      | (r, s) \<Rightarrow> (r, s))"

section \<open>The logger (zap.go)\<close>

text \<open>\<open>strings.ToLower\<close> on ASCII letters and the two other runes whose lower case is one.\<close>

definition ascii_lower :: "char \<Rightarrow> char" where
  "ascii_lower c =
     (case map_of (zip ''ABCDEFGHIJKLMNOPQRSTUVWXYZ'' ''abcdefghijklmnopqrstuvwxyz'') c of
        Some d \<Rightarrow> d | None \<Rightarrow> c)"

fun ToLower :: "string \<Rightarrow> string" where
  "ToLower [] = []"
| "ToLower (c # cs) =
     (if take 2 cs = [CHR 0x84, CHR 0xAA] \<and> c = CHR 0xE2 then CHR ''k'' # ToLower (drop 2 cs)
      else if take 1 cs = [CHR 0xB0] \<and> c = CHR 0xC4 then CHR ''i'' # ToLower (drop 1 cs)
      else ascii_lower c # ToLower cs)"

definition logger_config :: "string \<Rightarrow> zap_config" where
  "logger_config level =
     \<lparr>zc_Level = level, zc_Development = False, zc_Encoding = ''json'',
      zc_Keys = [(''TimeKey'', ''ts''), (''LevelKey'', ''level''), (''NameKey'', ''logger''),
        (''CallerKey'', ''caller''), (''MessageKey'', ''msg''), (''StacktraceKey'', ''stacktrace'')],
      zc_Encoders = [(''EncodeLevel'', ''LowercaseLevelEncoder''), (''EncodeTime'', ''ISO8601TimeEncoder''),
        (''EncodeDuration'', ''StringDurationEncoder''), (''EncodeCaller'', ''ShortCallerEncoder'')],
      zc_OutputPaths = [''stdout''], zc_ErrorOutputPaths = [''stderr''], zc_Caller = True,
      zc_StacktraceLevel = ''error''\<rparr>"

definition logger_New :: "'s platform \<Rightarrow> string \<Rightarrow> ('s, unit) io" where
  "logger_New P level =
     (case pf_UnmarshalLevel P (ToLower (TrimSpace level)) of
        Err err \<Rightarrow> throw (WrapError (''parse log level: '' @ error_text err) err)
      | Panic p \<Rightarrow> lift (Panic p)
      | Ok atomicLevel \<Rightarrow> pf_BuildLogger P (logger_config atomicLevel))"

section \<open>Connections (db.go)\<close>

definition NewPGXPool :: "'s platform \<Rightarrow> config \<Rightarrow> ('s, nat) io" where
  "NewPGXPool P cfg =
     bind (wrapping ''parse pgxpool config'' (lift (pf_ParsePoolConfig P (cfg_DatabaseURL cfg)))) (\<lambda>poolConfig.
       (let poolConfig = poolConfig\<lparr>pcf_MaxConns := cfg_PGXMaxConns cfg\<rparr>;
            poolConfig = poolConfig\<lparr>pcf_MinConns := cfg_PGXMinConns cfg\<rparr>
        in wrapping ''create pgx pool'' (pf_NewPool P poolConfig)))"

definition NewGormDB :: "'s platform \<Rightarrow> config \<Rightarrow> ('s, nat) io" where
  "NewGormDB P cfg =
     bind (wrapping ''open gorm db'' (pf_GormOpen P (cfg_DatabaseURL cfg))) (\<lambda>db.
     bind (wrapping ''fetch sql db'' (pf_GormDB P db)) (\<lambda>sqlDB.
     bind (perform (pf_SetMaxOpenConns P sqlDB (cfg_PGXMaxConns cfg))) (\<lambda>_.
     bind (perform (pf_SetMaxIdleConns P sqlDB (cfg_PGXMinConns cfg))) (\<lambda>_.
       ret db))))"

definition OpenSQLDB :: "'s platform \<Rightarrow> string \<Rightarrow> ('s, nat) io" where
  "OpenSQLDB P dsn = wrapping ''open sql db'' (pf_SQLOpen P ''pgx'' dsn)"

section \<open>Migrations (migrate.go)\<close>

definition RunGoose :: "'s platform \<Rightarrow> nat \<Rightarrow> string \<Rightarrow> string \<Rightarrow> ('s, unit) io" where
  "RunGoose P db migrationsDir command =
     (case pf_GooseDialect P ''postgres'' of
        Some err \<Rightarrow> throw (WrapError (''set goose dialect: '' @ error_text err) err)
      | None \<Rightarrow>
          if command = ''up'' then pf_Goose P ''up'' db migrationsDir
          else if command = ''down'' then pf_Goose P ''down'' db migrationsDir
          else if command = ''status'' then pf_Goose P ''status'' db migrationsDir
          else throw (PlainError (''unsupported migration command: '' @ command)))"

section \<open>Bootstrap and Close (runtime.go)\<close>

record ('c, 's, 'd) runtime =
  rt_Logger :: "unit option"
  rt_Router :: "('c, 's) engine"
  rt_GRPCServer :: "('s, 'd) GRPCServer"
  rt_RPCServer :: "('s, 'd) rpc_server"
  rt_Pool :: "nat option"
  rt_SQLDB :: "nat option"
  rt_ShutdownTimeout :: duration

definition handler_deps :: "('s, 'd) usecase_set \<Rightarrow> ('s, 'd) provider_set \<Rightarrow> ('s, 'd) FXHandlerDeps" where
  "handler_deps us providers =
     \<lparr>hd_GetReferenceRates = us_GetReferenceRates us, hd_CreateQuote = us_CreateQuote us,
      hd_AcceptQuote = us_AcceptQuote us, hd_GetConversion = us_GetConversion us,
      hd_HandlePaymentWebhook = us_HandlePaymentWebhook us,
      hd_HandleTransferWebhook = us_HandleTransferWebhook us,
      hd_PaymentWebhookSecret = ps_PaymentWebhookSecret providers,
      hd_TransferWebhookSecret = ps_TransferWebhookSecret providers\<rparr>"

definition Bootstrap ::
  "'c gin \<Rightarrow> ('s, 'd) libraries \<Rightarrow> ('c, 's) inbound \<Rightarrow> 's platform \<Rightarrow> config \<Rightarrow> ('s, ('c, 's, 'd) runtime) io" where
  "Bootstrap G X I P cfg =
     bind (logger_New P (cfg_LogLevel cfg)) (\<lambda>_.
     or_else (NewPrometheusStack (pf_RegisterCollector P)) (ignoring (pf_SyncLogger P)) (\<lambda>_.
     or_else (NewPGXPool P cfg) (ignoring (pf_SyncLogger P)) (\<lambda>pool.
     or_else (pf_PoolPing P pool) (\<lambda>s. ignoring (pf_SyncLogger P) (pf_PoolClose P pool s)) (\<lambda>_.
     or_else (NewGormDB P cfg) (\<lambda>s. ignoring (pf_SyncLogger P) (pf_PoolClose P pool s)) (\<lambda>db.
     or_else (pf_GormDB P db) (\<lambda>s. ignoring (pf_SyncLogger P) (pf_PoolClose P pool s)) (\<lambda>sqlDB.
     or_else (pf_SQLPing P sqlDB)
       (\<lambda>s. ignoring (pf_SyncLogger P) (pf_PoolClose P pool (ignoring (pf_SQLClose P sqlDB) s))) (\<lambda>_.
       (let providers = system_providers X cfg;
            telemetry = Some (lib_telemetry X)
        in bind (lift (newUsecases (lib_decimal X) (lib_now X) cfg (system_store X) providers (lib_telemetry X)
                   \<lparr>ck_Now = lib_now X\<rparr>)) (\<lambda>usecases.
           bind (lift (NewRouter G X I telemetry (cfg_CORSAllowedOrigins cfg) (handler_deps usecases providers))) (\<lambda>router.
             (let grpcServer = Grpc_NewServer usecases telemetry
              in or_else (lift (Rpc_NewServer (pf_RegisterName P) usecases telemetry))
                   (\<lambda>s. ignoring (pf_SyncLogger P) (pf_PoolClose P pool (ignoring (pf_SQLClose P sqlDB) s)))
                   (\<lambda>rpcServer.
                     ret \<lparr>rt_Logger = Some (), rt_Router = router, rt_GRPCServer = grpcServer,
                          rt_RPCServer = rpcServer, rt_Pool = Some pool, rt_SQLDB = Some sqlDB,
                          rt_ShutdownTimeout = cfg_ShutdownTimeout cfg\<rparr>))))))))))))"

text \<open>\<open>multierr.Append\<close>: the errors in order, nil ones left out; \<open>Close\<close> returns their sum.\<close>

definition append_error :: "go_error list \<Rightarrow> unit res \<Rightarrow> go_error list" where
  "append_error errs r = (case r of Err e \<Rightarrow> errs @ [e] | Ok _ \<Rightarrow> errs | Panic p \<Rightarrow> errs)"

definition Close :: "'s platform \<Rightarrow> ('c, 's, 'd) runtime \<Rightarrow> 's \<Rightarrow> go_error list \<times> 's" where
  "Close P rt s =
     (case (case rt_SQLDB rt of
              None \<Rightarrow> ([], s)
            | Some h \<Rightarrow> (case pf_SQLClose P h s of (r, s) \<Rightarrow> (append_error [] r, s))) of
        (errs, s) \<Rightarrow>
          (let s = (case rt_Pool rt of None \<Rightarrow> s | Some p \<Rightarrow> pf_PoolClose P p s)
           in case rt_Logger rt of
                None \<Rightarrow> (errs, s)
              | Some _ \<Rightarrow> (case pf_SyncLogger P s of (r, s) \<Rightarrow> (append_error errs r, s))))"

end
