(* ===== verification/Transports.thy ===== *)
theory Transports
  imports Scenario Runtime
begin

text \<open>
  The three transports over the wired system. The locale \<open>fx_inbound\<close> adds to \<open>fx_system\<close> what the
  inbound libraries document; in it, every handler keeps the sound states, and the middleware
  chain turns what a handler does into the response, the log line and the metric. \<open>request_run\<close>
  is any sequence of requests over any transport.
\<close>

section \<open>Handlers that keep a property of the world\<close>

definition keeps :: "('s \<Rightarrow> bool) \<Rightarrow> ('c, 's) handler \<Rightarrow> bool" where
  "keeps P h \<longleftrightarrow> (\<forall>c s out c' s'. P s \<longrightarrow> h (c, s) = (out, c', s') \<longrightarrow> P s')"

definition call_safe :: "('s \<Rightarrow> bool) \<Rightarrow> ('e, 's, 'a) call \<Rightarrow> bool" where
  "call_safe P m \<longleftrightarrow> (\<forall>s r t. P s \<longrightarrow> m s = (r, t) \<longrightarrow> \<not> is_panic r \<and> P t)"

definition read_keeps :: "('s \<Rightarrow> bool) \<Rightarrow> ('s \<Rightarrow> 'a \<times> 's) \<Rightarrow> bool" where
  "read_keeps P g \<longleftrightarrow> (\<forall>s. P s \<longrightarrow> P (snd (g s)))"

lemma keepsI: "(\<And>c s out c' s'. P s \<Longrightarrow> h (c, s) = (out, c', s') \<Longrightarrow> P s') \<Longrightarrow> keeps P h"
  by (auto simp: keeps_def)

lemma keepsD: "keeps P h \<Longrightarrow> P s \<Longrightarrow> h (c, s) = (out, c', s') \<Longrightarrow> P s'"
  unfolding keeps_def by blast

lemma call_safeI:
  "(\<And>s r t. P s \<Longrightarrow> m s = (r, t) \<Longrightarrow> \<not> is_panic r \<and> P t) \<Longrightarrow> call_safe P m"
  by (auto simp: call_safe_def)

lemma call_safeD:
  "call_safe P m \<Longrightarrow> P s \<Longrightarrow> m s = (r, t) \<Longrightarrow> P t"
  "call_safe P m \<Longrightarrow> P s \<Longrightarrow> m s = (r, t) \<Longrightarrow> \<not> is_panic r"
  unfolding call_safe_def by blast+

lemma read_keepsD: "read_keeps P g \<Longrightarrow> P s \<Longrightarrow> g s = (x, t) \<Longrightarrow> P t"
  unfolding read_keeps_def by (metis snd_conv)

lemma call_safe_bind:
  assumes "call_safe P m" "\<And>x. call_safe P (f x)"
  shows "call_safe P (bind m f)"
proof (rule call_safeI)
  fix s r t
  assume s: "P s" and run: "bind m f s = (r, t)"
  obtain r1 s1 where m: "m s = (r1, s1)" by (cases "m s")
  note s1 = call_safeD [OF assms(1) s m]
  show "\<not> is_panic r \<and> P t"
    by (cases r1) (use run m s1 call_safeD [OF assms(2) s1(1)] in auto)
qed

lemma call_safe_bind_lift:
  assumes "\<not> is_panic v" "\<And>x. v = Ok x \<Longrightarrow> call_safe P (f x)"
  shows "call_safe P (bind (lift v) f)"
  by (cases v) (use assms in \<open>auto simp: call_safe_def bind_def lift_def\<close>)

lemma call_safe_get_with:
  assumes "read_keeps P g" "\<And>x. call_safe P (f x)"
  shows "call_safe P (get_with g f)"
proof (rule call_safeI)
  fix s r t
  assume s: "P s" and run: "get_with g f s = (r, t)"
  obtain x s1 where g: "g s = (x, s1)" by (cases "g s")
  with run have "f x s1 = (r, t)" by (simp add: get_with_def)
  with call_safeD [OF assms(2) read_keepsD [OF assms(1) s g]] show "\<not> is_panic r \<and> P t" by blast
qed

lemma call_safe_pure: "call_safe P (ret x)" "call_safe P (throw e)"
  by (auto simp: call_safe_def ret_def throw_def)

lemma call_safe_option:
  assumes "x = None \<Longrightarrow> call_safe P a" "\<And>y. x = Some y \<Longrightarrow> call_safe P (b y)"
  shows "call_safe P (case x of None \<Rightarrow> a | Some y \<Rightarrow> b y)"
  using assms by (cases x) simp_all

lemma call_safe_run:
  assumes "\<And>s. P s \<Longrightarrow> P (snd (m s))" "\<And>s r t. P s \<Longrightarrow> m s = (r, t) \<Longrightarrow> \<not> is_panic r"
  shows "call_safe P m"
  unfolding call_safe_def using assms by (metis snd_conv)

lemma is_panic_iff: "is_panic r \<longleftrightarrow> (\<exists>p. r = Panic p)"
  by (cases r) auto

lemma no_panic: "(\<And>p. r \<noteq> Panic p) \<Longrightarrow> \<not> is_panic r"
  by (cases r) auto

lemma checks_no_panic:
  "\<not> is_panic (ParseCurrency raw)" "\<not> is_panic (parseCurrenciesCSV raw)" "\<not> is_panic (parseCurrencies raws)"
  "\<not> is_panic (NewMoney c n)" "\<not> is_panic (ParseIdempotencyKey raw)" "\<not> is_panic (Http_requiredIdempotencyKey rq)"
  "\<not> is_panic (Grpc_requiredIdempotencyKey md)" "\<not> is_panic (validateULID p f raw)"
  "\<not> is_panic (Http_validateULID p f raw)"
  by (rule no_panic; simp add: parseCurrenciesCSV_def Http_requiredIdempotencyKey_def)+

lemma bound_no_panic: "\<not> is_panic r \<Longrightarrow> \<not> is_panic (bound r)"
  by (cases r) (auto simp: bound_def)

lemmas call_safe_steps = call_safe_bind_lift call_safe_bind call_safe_get_with call_safe_option call_safe_pure

section \<open>The middlewares keep what the handlers keep\<close>

lemma keeps_after_next:
  assumes "keeps P next" "\<And>c s c' s'. P s \<Longrightarrow> rest (c, s) = (c', s') \<Longrightarrow> P s'"
  shows "keeps P (after_next next rest)"
proof (rule keepsI)
  fix c s out c' s'
  assume s: "P s" and run: "after_next next rest (c, s) = (out, c', s')"
  obtain o1 c1 s1 where n: "next (c, s) = (o1, c1, s1)" by (cases "next (c, s)")
  note s1 = keepsD [OF assms(1) s n]
  show "P s'"
    using run n s1 assms(2) [OF s1] by (cases o1) (auto simp: after_next_def)
qed

lemma keeps_respond:
  assumes "\<And>rq. call_safe P (steps rq)" "read_keeps P now"
  shows "keeps P (respond G now steps)"
proof (rule keepsI)
  fix c s out c' s'
  assume s: "P s" and run: "respond G now steps (c, s) = (out, c', s')"
  obtain r s1 where m: "steps (gin_Request G c) s = (r, s1)" by fastforce
  note s1 = call_safeD(1) [OF assms(1) s m]
  obtain x s2 where n: "now s1 = (x, s2)" by fastforce
  note s2 = read_keepsD [OF assms(2) s1 n]
  show "P s'"
    using run m n s1 s2 by (cases r) (auto simp: respond_def)
qed

lemma keeps_ErrorHandler:
  assumes "keeps P next" "read_keeps P now"
  shows "keeps P (ErrorHandler G now next)"
  unfolding ErrorHandler_def
proof (rule keeps_after_next [OF assms(1)], goal_cases)
  case (1 c s c' s')
  then show ?case
    using read_keepsD [OF assms(2) 1(1)]
    by (cases "now s") (auto simp: Let_def split: if_splits)
qed

lemma keeps_Recovery:
  assumes "keeps P next" "\<And>l m kvs s. P s \<Longrightarrow> P (in_LogError I l m kvs s)"
  shows "keeps P (Recovery G I next)"
proof (rule keepsI)
  fix c s out c' s'
  assume s: "P s" and run: "Recovery G I next (c, s) = (out, c', s')"
  obtain o1 c1 s1 where n: "next (c, s) = (o1, c1, s1)" by (cases "next (c, s)")
  note s1 = keepsD [OF assms(1) s n]
  show "P s'"
    using run n s1 assms(2) [OF s1]
    by (cases o1) (auto simp: Recovery_def Let_def split: option.splits)
qed

lemma keeps_RequestLogger:
  assumes "keeps P next" "read_keeps P now" "\<And>l m kvs s. P s \<Longrightarrow> P (in_Info I l m kvs s)"
  shows "keeps P (RequestLogger G I now next)"
proof (rule keepsI)
  fix c s out c' s'
  assume s: "P s" and run: "RequestLogger G I now next (c, s) = (out, c', s')"
  obtain x s1 where g: "now s = (x, s1)" by fastforce
  have "keeps P (after_next next (\<lambda>(c, s). case LoggerFromContext (gin_Context G c) of
        None \<Rightarrow> (c, s)
      | Some logger \<Rightarrow>
          (case now s of (t, s) \<Rightarrow> (c, in_Info I logger ''request completed''
             [(''method'', rq_Method (gin_Request G c)), (''path'', rq_Path (gin_Request G c)),
              (''statusCode'', show_int (gin_WriterStatus G c)), (''latency'', duration_text (t - x)),
              (''clientIP'', rq_ClientIP (gin_Request G c))] s))))"
  proof (rule keeps_after_next [OF assms(1)], goal_cases)
    case (1 c s c' s')
    then show ?case
      using assms(3) [OF read_keepsD [OF assms(2) 1(1)]]
      by (cases "now s") (auto split: option.splits)
  qed
  from keepsD [OF this read_keepsD [OF assms(2) s g]] run g show "P s'"
    by (simp add: RequestLogger_def)
qed

lemma keeps_RequestMetrics:
  assumes "keeps P next" "read_keeps P now"
    and "\<And>tr op out d s. P s \<Longrightarrow> P (tm_RecordInboundRequest T tr op out d s)"
  shows "keeps P (RequestMetrics G now (Some T) next)"
proof (rule keepsI)
  fix c s out c' s'
  assume s: "P s" and run: "RequestMetrics G now (Some T) next (c, s) = (out, c', s')"
  obtain x s1 where g: "now s = (x, s1)" by fastforce
  have "keeps P (after_next next (\<lambda>(c, s). case now s of
      (t, s) \<Rightarrow> (c, tm_RecordInboundRequest T ''http'' (http_operation (gin_Request G c))
                      (classifyHTTPOutcome (gin_WriterStatus G c)) (t - x) s)))"
  proof (rule keeps_after_next [OF assms(1)], goal_cases)
    case (1 c s c' s')
    then show ?case
      using assms(3) [OF read_keepsD [OF assms(2) 1(1)]] by (cases "now s") auto
  qed
  from keepsD [OF this read_keepsD [OF assms(2) s g]] run g show "P s'"
    by (simp add: RequestMetrics_def)
qed

lemma keeps_RequestContext:
  assumes "keeps P next" "read_keeps P (in_UUID I)"
  shows "keeps P (RequestContext G I next)"
proof (rule keepsI)
  fix c s out c' s'
  assume s: "P s" and run: "RequestContext G I next (c, s) = (out, c', s')"
  obtain x s1 where g: "request_id I (gin_Request G c) s = (x, s1)" by fastforce
  then have s1: "P s1"
    using read_keepsD [OF assms(2) s] s by (auto simp: request_id_def Let_def split: if_splits)
  have "keeps P (after_next next (\<lambda>(c, s). (if \<not> gin_Written G c then gin_Status G 200 c else c, s)))"
    by (rule keeps_after_next [OF assms(1)]) simp
  from keepsD [OF this s1] run g show "P s'"
    by (simp add: RequestContext_def Let_def)
qed

section \<open>The inbound system\<close>

abbreviation sys_sound ::
  "('s, 'd) libraries \<Rightarrow> columns \<Rightarrow> ('s \<Rightarrow> database) \<Rightarrow> ('s \<Rightarrow> database option) \<Rightarrow> ('s \<Rightarrow> bool) \<Rightarrow> 's \<Rightarrow> bool" where
  "sys_sound X C view snap okE \<equiv> sound_state (lib_decimal X) C view snap okE"

text \<open>
  What the code relies on of the inbound libraries: the framework (\<open>gin_contract\<close>) and a fresh
  context per request; identifiers, log lines and the probe leave the database alone; matching
  returns a registered route; the cross-origin middleware runs the handlers after it or ends the
  request (a preflight, a foreign origin), and does nothing to a request without an origin.
\<close>

locale fx_inbound = fx_system X C view snap okE cfg + gin_contract G see
  for X :: "('s, 'd) libraries" and C and view :: "'s \<Rightarrow> database" and snap okE cfg
    and G :: "'c gin" and see +
  fixes I :: "('c, 's) inbound" and fresh :: "http_request \<Rightarrow> int \<Rightarrow> 'c"
  assumes uuid_frame: "okE s \<Longrightarrow> in_UUID I s = (i, t) \<Longrightarrow> okE t \<and> view t = view s \<and> snap t = snap s"
    and line_frame: "okE s \<Longrightarrow> g \<in> {in_Info I l m kvs, in_LogError I l m kvs} \<Longrightarrow>
      okE (g s) \<and> view (g s) = view s \<and> snap (g s) = snap s"
    and ping_frame: "okE s \<Longrightarrow> in_Ping I s = (u, t) \<Longrightarrow>
      okE t \<and> view t = view s \<and> snap t = snap s \<and> \<not> is_panic u"
    and binding_values: "\<not> is_panic (bn_Rates (in_Binding I) q)" "\<not> is_panic (bn_Quote (in_Binding I) b)"
      "\<not> is_panic (bn_Conversion (in_Binding I) b)" "\<not> is_panic (bn_Webhook (in_Binding I) b)"
    and match_registered: "in_Match I routes verb path = Some (n, ps) \<Longrightarrow> n < length routes"
    and cors_same_origin: "rq_Header (gv_request (see c)) ''Origin'' = [] \<Longrightarrow>
      in_Cors I k next (c, s) = next (c, s)"
    and cors_frame: "(\<exists>c'. in_Cors I k next (c, s) = (None, c', s)) \<or>
      (\<exists>c'. in_Cors I k next (c, s) = next (c', s))"
    and fresh_is: "see (fresh rq code) = fresh_view rq code"
begin

text \<open>A property of the world that the framing calls cannot break.\<close>

definition framed :: "('s \<Rightarrow> bool) \<Rightarrow> bool" where
  "framed P \<longleftrightarrow> (\<forall>s. P s \<longrightarrow> okE s) \<and>
     (\<forall>s t. P s \<longrightarrow> okE t \<and> view t = view s \<and> snap t = snap s \<longrightarrow> P t)"

lemma framedD: "framed P \<Longrightarrow> P s \<Longrightarrow> okE s"
  "framed P \<Longrightarrow> P s \<Longrightarrow> okE t \<and> view t = view s \<and> snap t = snap s \<Longrightarrow> P t"
  unfolding framed_def by blast+

lemma framed_sound: "framed (sys_sound X C view snap okE)"
  by (simp add: framed_def sound_state_def store_ok_def)

lemma framed_same: "framed (\<lambda>t. okE t \<and> view t = v \<and> snap t = w)"
  by (simp add: framed_def)

lemma framed_reads:
  assumes "framed P" "\<And>s x t. okE s \<Longrightarrow> g s = (x, t) \<Longrightarrow> okE t \<and> view t = view s \<and> snap t = snap s"
  shows "read_keeps P g"
  unfolding read_keeps_def
proof (intro allI impI)
  fix s
  assume s: "P s"
  obtain x t where g: "g s = (x, t)" by (cases "g s")
  from framedD(2) [OF assms(1) s assms(2) [OF framedD(1) [OF assms(1) s] g]] g show "P (snd (g s))"
    by simp
qed

lemma reads_keep:
  assumes "framed P"
  shows "read_keeps P (lib_now X)" "read_keeps P (in_UUID I)"
  by (rule framed_reads [OF assms clock_frame], assumption+)
    (rule framed_reads [OF assms uuid_frame], assumption+)

lemma lines_keep:
  assumes P: "framed P" and s: "P s"
  shows "P (in_Info I l m kvs s)" "P (in_LogError I l m kvs s)"
    "P (tm_RecordInboundRequest (lib_telemetry X) tr op out d s)"
proof -
  note okE = framedD(1) [OF P s]
  show "P (in_Info I l m kvs s)"
    by (rule framedD(2) [OF P s line_frame [OF okE, of _ l m kvs]]) simp
  show "P (in_LogError I l m kvs s)"
    by (rule framedD(2) [OF P s line_frame [OF okE, of _ l m kvs]]) simp
  show "P (tm_RecordInboundRequest (lib_telemetry X) tr op out d s)"
    by (rule framedD(2) [OF P s counter_frame [OF okE, of _ tr op out d]]) simp
qed

lemma keeps_Cors:
  assumes "keeps P next"
  shows "keeps P (in_Cors I k next)"
proof (rule keepsI)
  fix c s out c' s'
  assume "P s" "in_Cors I k next (c, s) = (out, c', s')"
  with cors_frame [of k "next" c s] keepsD [OF assms] show "P s'"
    by fastforce
qed

lemma keeps_chain:
  assumes "framed P" "keeps P handler"
  shows "keeps P (router_chain G I (lib_now X) (Some (lib_telemetry X)) origins handler)"
  unfolding router_chain_def
  by (intro keeps_RequestContext keeps_RequestMetrics keeps_RequestLogger keeps_Recovery keeps_Cors
      keeps_ErrorHandler assms(2) reads_keep [OF assms(1)] lines_keep [OF assms(1)])

text \<open>Every use case keeps the sound states, and so does every handler and method over them.\<close>

lemma spec_no_panic:
  "\<not> spec_ensure D F base quotes b (Panic p) b'"
  "\<not> spec_create_quote D F echo bps minFee ttl key amount target b (Panic p) b'"
  "\<not> spec_accept_quote F key qid pay tra b (Panic p) b2"
  "\<not> spec_GetConversionByID F cid b (Panic p) b2"
  "\<not> spec_webhook F update event b (Panic p) b2"
  by (auto simp: spec_ensure_def spec_create_quote_def spec_accept_quote_def spec_GetConversionByID_def
      spec_webhook_def split: option.splits)

lemma usecases_keep:
  assumes us: "system_usecases X cfg = Ok us"
  shows "supported base \<Longrightarrow> \<forall>c \<in> set quotes. supported c \<Longrightarrow> call_safe (sys_sound X C view snap okE)
      (GetReferenceRates_Execute (lib_decimal X) (us_GetReferenceRates us) base quotes)"
    and "supported (Currency amount) \<Longrightarrow> supported target \<Longrightarrow> call_safe (sys_sound X C view snap okE)
      (CreateQuote_Execute (lib_decimal X) (lib_ulid X) (us_CreateQuote us) key amount target)"
    and "call_safe (sys_sound X C view snap okE)
      (AcceptQuote_Execute (lib_ulid X) (us_AcceptQuote us) key qid pay tra)"
    and "call_safe (sys_sound X C view snap okE) (GetConversion_Execute (us_GetConversion us) cid)"
    and "call_safe (sys_sound X C view snap okE)
      (HandlePaymentWebhook_Execute (lib_ulid X) (us_HandlePaymentWebhook us) ev)"
    and "call_safe (sys_sound X C view snap okE)
      (HandleTransferWebhook_Execute (lib_ulid X) (us_HandleTransferWebhook us) ev)"
proof -
  note op = run_operation_sound [OF us]
  show "supported base \<Longrightarrow> \<forall>c \<in> set quotes. supported c \<Longrightarrow> call_safe (sys_sound X C view snap okE)
      (GetReferenceRates_Execute (lib_decimal X) (us_GetReferenceRates us) base quotes)"
    using op [of "GetRates base quotes"] rates_spec [OF us, of _ base quotes]
    by (intro call_safe_run) (simp, metis spec_no_panic is_panic_iff)
  show "supported (Currency amount) \<Longrightarrow> supported target \<Longrightarrow> call_safe (sys_sound X C view snap okE)
      (CreateQuote_Execute (lib_decimal X) (lib_ulid X) (us_CreateQuote us) key amount target)"
    using op [of "NewQuote key amount target"] create_spec [OF us, of _ amount target key]
    by (intro call_safe_run) (simp, metis spec_no_panic is_panic_iff)
  show "call_safe (sys_sound X C view snap okE)
      (AcceptQuote_Execute (lib_ulid X) (us_AcceptQuote us) key qid pay tra)"
    using op [of "Accept key qid pay tra"] accept_spec [OF us, of _ key qid pay tra]
    by (intro call_safe_run) (simp, metis spec_no_panic is_panic_iff)
  show "call_safe (sys_sound X C view snap okE) (GetConversion_Execute (us_GetConversion us) cid)"
    using op [of "ReadConversion cid"] conversion_spec [OF us, of _ cid]
    by (intro call_safe_run) (simp, metis spec_no_panic is_panic_iff)
  show "call_safe (sys_sound X C view snap okE)
      (HandlePaymentWebhook_Execute (lib_ulid X) (us_HandlePaymentWebhook us) ev)"
    using op [of "PaymentEvent ev"] payment_spec [OF us, of _ ev]
    by (intro call_safe_run) (simp, metis spec_no_panic is_panic_iff)
  show "call_safe (sys_sound X C view snap okE)
      (HandleTransferWebhook_Execute (lib_ulid X) (us_HandleTransferWebhook us) ev)"
    using op [of "TransferEvent ev"] transfer_spec [OF us, of _ ev]
    by (intro call_safe_run) (simp, metis spec_no_panic is_panic_iff)
qed

lemma webhook_no_panic: "\<not> is_panic (readWebhookRequest I verifier rq)"
proof (rule no_panic, rule notI)
  fix p
  assume panic: "readWebhookRequest I verifier rq = Panic p"
  show False
  proof (cases "rq_Body rq")
    case (Inl e)
    with panic show False by (simp add: readWebhookRequest_def ReadAll_def)
  next
    case (Inr body)
    show False
    proof (cases "bn_Webhook (in_Binding I) (Inr body)")
      case (Panic q)
      with binding_values(4) [of "Inr body"] show False by simp
    qed (use panic Inr in \<open>cases "Verify (in_MAC I) verifier (rq_Header rq webhookSignatureHeader) body";
          auto simp: readWebhookRequest_def ReadAll_def bound_def Http_validateULID_def split: option.splits\<close>)+
  qed
qed

lemma http_steps_keep:
  assumes us: "system_usecases X cfg = Ok us"
    and h: "h = NewFXHandler (handler_deps us (system_providers X cfg))"
    and steps: "steps \<in> {Http_GetRates X I h, Http_CreateQuote X I h, Http_CreateConversion X I h,
      Http_GetConversion X I h, Http_HandlePaymentWebhook X I h, Http_HandleTransferWebhook X I h}"
  shows "call_safe (sys_sound X C view snap okE) (steps rq)"
proof -
  have wired: "h_getReferenceRates h = us_GetReferenceRates us" "h_createQuote h = us_CreateQuote us"
    "h_acceptQuote h = us_AcceptQuote us" "h_getConversion h = us_GetConversion us"
    "h_handlePaymentWebhook h = us_HandlePaymentWebhook us"
    "h_handleTransferWebhook h = us_HandleTransferWebhook us"
    by (simp_all add: h NewFXHandler_def handler_deps_def)
  note defs = Http_GetRates_def Http_CreateQuote_def Http_CreateConversion_def Http_GetConversion_def
    Http_HandlePaymentWebhook_def Http_HandleTransferWebhook_def
  note keep = call_safe_steps usecases_keep [OF us] reads_keep [OF framed_sound] checks_no_panic
    bound_no_panic binding_values webhook_no_panic
  from steps show ?thesis
    unfolding insert_iff empty_iff
    by (elim disjE FalseE; simp only: defs wired Let_def split_beta)
      (intro keep; auto simp: ParseCurrency_Ok parseCurrenciesCSV_Ok NewMoney_Ok)+
qed

lemma probes_keep:
  "keeps (sys_sound X C view snap okE) (Health G)" "keeps (sys_sound X C view snap okE) (Ready G I)"
proof -
  show "keeps (sys_sound X C view snap okE) (Health G)"
    by (rule keepsI) (simp add: Health_def)
  show "keeps (sys_sound X C view snap okE) (Ready G I)"
  proof (rule keepsI)
    fix c s out c' s'
    assume s: "sys_sound X C view snap okE s" and run: "Ready G I (c, s) = (out, c', s')"
    obtain r s1 where p: "in_Ping I s = (r, s1)" by fastforce
    with run have "s' = s1" by (cases r) (simp_all add: Ready_def)
    with ping_frame [OF framedD(1) [OF framed_sound s] p] framedD(2) [OF framed_sound s]
    show "sys_sound X C view snap okE s'" by blast
  qed
qed

lemma interceptor_keeps:
  assumes "call_safe (sys_sound X C view snap okE) handler"
  shows "call_safe (sys_sound X C view snap okE)
    (unaryMetricsInterceptor (lib_now X) (lib_telemetry X) name handler)"
proof (rule call_safeI)
  fix s r t
  assume s: "sys_sound X C view snap okE s"
    and run: "unaryMetricsInterceptor (lib_now X) (lib_telemetry X) name handler s = (r, t)"
  obtain x s1 where n: "lib_now X s = (x, s1)" by fastforce
  note s1 = read_keepsD [OF reads_keep(1) [OF framed_sound] s n]
  obtain r2 s2 where h: "handler s1 = (r2, s2)" by fastforce
  note s2 = call_safeD(1) [OF assms s1 h]
  obtain y s3 where m: "lib_now X s2 = (y, s3)" by fastforce
  note s3 = read_keepsD [OF reads_keep(1) [OF framed_sound] s2 m]
  show "\<not> is_panic r \<and> sys_sound X C view snap okE t"
    using run n h m call_safeD [OF assms s1 h] lines_keep(3) [OF framed_sound s3]
    by (cases r2) (auto simp: unaryMetricsInterceptor_def)
qed

lemma deferred_keeps:
  assumes "call_safe (sys_sound X C view snap okE) body" "rs_telemetry srv = Some (lib_telemetry X)"
  shows "call_safe (sys_sound X C view snap okE) (deferred_record (lib_now X) srv name body)"
proof (rule call_safeI)
  fix s r t
  assume s: "sys_sound X C view snap okE s" and run: "deferred_record (lib_now X) srv name body s = (r, t)"
  obtain x s1 where n: "lib_now X s = (x, s1)" by fastforce
  note s1 = read_keepsD [OF reads_keep(1) [OF framed_sound] s n]
  obtain r2 s2 where h: "body s1 = (r2, s2)" by fastforce
  note s2 = call_safeD(1) [OF assms(1) s1 h]
  obtain y s3 where m: "lib_now X s2 = (y, s3)" by fastforce
  note s3 = read_keepsD [OF reads_keep(1) [OF framed_sound] s2 m]
  show "\<not> is_panic r \<and> sys_sound X C view snap okE t"
    using run n h m call_safeD(2) [OF assms(1) s1 h] lines_keep(3) [OF framed_sound s3] assms(2)
    by (auto simp: deferred_record_def recordRequest_def)
qed

abbreviation router :: "('s, 'd) usecase_set \<Rightarrow> ('c, 's) engine" where
  "router us \<equiv> router_engine G X I (Some (lib_telemetry X)) (cfg_CORSAllowedOrigins cfg)
     (handler_deps us (system_providers X cfg))"

lemma serve_keeps:
  assumes us: "system_usecases X cfg = Ok us" and s: "sys_sound X C view snap okE s"
    and run: "ServeHTTP I fresh (router us) rq s = (out, c, t)"
  shows "sys_sound X C view snap okE t"
proof -
  let ?e = "router us"
  obtain rq' n h where r: "routed I ?e rq = (rq', n, h)" by (cases "routed I ?e rq")
  have "h = no_handler \<or> h \<in> snd ` set (en_routes ?e)"
    using r match_registered [of "map fst (en_routes ?e)"]
    by (force simp: routed_def split: option.splits)
  then have "keeps (sys_sound X C view snap okE) h"
  proof
    assume "h = no_handler"
    then show ?thesis by (auto simp: no_handler_def intro!: keepsI)
  next
    assume "h \<in> snd ` set (en_routes ?e)"
    then show ?thesis
      using http_steps_keep [OF us refl] reads_keep(1) [OF framed_sound] probes_keep
      by (auto simp: router_engine_def RegisterRoutes_def health_RegisterRoutes_def intro!: keeps_respond)
  qed
  from keepsD [OF keeps_chain [OF framed_sound this] s] run r show ?thesis
    by (simp add: ServeHTTP_def router_engine_def)
qed

lemma grpc_keeps:
  assumes us: "system_usecases X cfg = Ok us" and s: "sys_sound X C view snap okE s"
    and run: "grpc_serve X (in_ParseStrict I) (Grpc_NewServer us (Some (lib_telemetry X))) md req s = (r, t)"
  shows "\<not> is_panic r \<and> sys_sound X C view snap okE t"
proof -
  let ?svc = "gs_service (Grpc_NewServer us (Some (lib_telemetry X)))"
  have wired: "fs_getReferenceRates ?svc = us_GetReferenceRates us" "fs_createQuote ?svc = us_CreateQuote us"
    "fs_acceptQuote ?svc = us_AcceptQuote us" "fs_getConversion ?svc = us_GetConversion us"
    by (simp_all add: Grpc_NewServer_def)
  have mapped: "call_safe (sys_sound X C view snap okE) (mapped m)"
    if "call_safe (sys_sound X C view snap okE) m" for m :: "('s, 'x) io"
  proof (rule call_safeI)
    fix s r t
    assume s: "sys_sound X C view snap okE s" and run: "mapped m s = (r, t)"
    obtain r1 s1 where m: "m s = (r1, s1)" by (cases "m s")
    with run have "t = s1 \<and> is_panic r = is_panic r1"
      by (cases r1) (auto simp: mapped_def)
    with call_safeD [OF that s m] show "\<not> is_panic r \<and> sys_sound X C view snap okE t" by simp
  qed
  note defs = Grpc_GetRates_def Grpc_CreateQuote_def Grpc_CreateConversion_def Grpc_GetConversion_def
  note keep = mapped call_safe_steps usecases_keep [OF us] checks_no_panic
  have "call_safe (sys_sound X C view snap okE) (grpc_handler X (in_ParseStrict I) ?svc md req)"
    by (cases req; simp only: grpc_handler.simps defs wired Let_def; intro keep;
        auto simp: ParseCurrency_Ok parseCurrencies_Ok NewMoney_Ok call_safe_pure)
  note handler = interceptor_keeps [OF this, of "grpc_method req"]
  show ?thesis
    using call_safeD [OF handler s] run
    by (simp add: grpc_serve_def Let_def Grpc_NewServer_def)
qed

lemma rpc_keeps:
  assumes us: "system_usecases X cfg = Ok us" and s: "sys_sound X C view snap okE s"
    and srv: "Rpc_NewServer register us (Some (lib_telemetry X)) = Ok srv"
    and run: "rpc_serve X (in_ParseStrict I) srv req s = (r, t)"
  shows "\<not> is_panic r \<and> sys_sound X C view snap okE t"
proof -
  have wired: "rs_getReferenceRates srv = us_GetReferenceRates us" "rs_createQuote srv = us_CreateQuote us"
    "rs_acceptQuote srv = us_AcceptQuote us" "rs_getConversion srv = us_GetConversion us"
    and tel: "rs_telemetry srv = Some (lib_telemetry X)"
    using srv by (auto simp: Rpc_NewServer_def Let_def split: option.splits)
  note defs = Rpc_GetRates_def Rpc_CreateQuote_def Rpc_CreateConversion_def Rpc_GetConversion_def
  note keep = call_safe_steps deferred_keeps [OF _ tel] usecases_keep [OF us] checks_no_panic
  have "call_safe (sys_sound X C view snap okE) (rpc_serve X (in_ParseStrict I) srv req)"
    by (cases req; simp only: rpc_serve.simps defs wired Let_def rpc_checks; intro keep;
        auto simp: ParseCurrency_Ok parseCurrencies_Ok NewMoney_Ok call_safe_pure)
  from call_safeD [OF this s run] show ?thesis by blast
qed

end

section \<open>Any sequence of requests\<close>

text \<open>
  A request over one of the transports, or one of the two operations that a scheduler would
  start; each leaves a state of the world.
\<close>

datatype request =
    Http http_request
  | Grpc "(string \<Rightarrow> string list) option" grpc_request
  | Rpc rpc_request
  | Background operation

fun background_ok :: "request \<Rightarrow> bool" where
  "background_ok (Background op) = operation_ok op"
| "background_ok _ = True"

fun serve_request ::
  "('s, 'd) libraries \<Rightarrow> config \<Rightarrow> ('c, 's) inbound \<Rightarrow> (http_request \<Rightarrow> int \<Rightarrow> 'c) \<Rightarrow> ('s, 'd) usecase_set \<Rightarrow>
   ('c, 's) engine \<Rightarrow> ('s, 'd) GRPCServer \<Rightarrow> ('s, 'd) rpc_server \<Rightarrow> request \<Rightarrow> 's \<Rightarrow> 's" where
  "serve_request X cfg I fresh us e gs rs (Http rq) s = snd (snd (ServeHTTP I fresh e rq s))"
| "serve_request X cfg I fresh us e gs rs (Grpc md req) s = snd (grpc_serve X (in_ParseStrict I) gs md req s)"
| "serve_request X cfg I fresh us e gs rs (Rpc req) s = snd (rpc_serve X (in_ParseStrict I) rs req s)"
| "serve_request X cfg I fresh us e gs rs (Background op) s = run_operation X cfg us op s"

inductive request_run :: "(request \<Rightarrow> 's \<Rightarrow> 's) \<Rightarrow> 's \<Rightarrow> 's \<Rightarrow> bool" for step where
  request_start: "request_run step s s"
| request_step: "request_run step s t \<Longrightarrow> background_ok rq \<Longrightarrow> request_run step s (step rq t)"

inductive_cases request_run_cases: "request_run step s t"

lemma request_run_sound:
  assumes "fx_inbound X C view snap okE G see I fresh" "system_usecases X cfg = Ok us"
    and "Rpc_NewServer register us (Some (lib_telemetry X)) = Ok srv"
    and "request_run (serve_request X cfg I fresh us
      (router_engine G X I (Some (lib_telemetry X)) (cfg_CORSAllowedOrigins cfg)
        (handler_deps us (system_providers X cfg)))
      (Grpc_NewServer us (Some (lib_telemetry X))) srv) s t"
    and "sys_sound X C view snap okE s"
  shows "sys_sound X C view snap okE t"
  using assms(4,5)
proof induction
  case (request_step s t rq)
  then have t: "sys_sound X C view snap okE t" by simp
  show ?case
  proof (cases rq)
    case (Http hq)
    with fx_inbound.serve_keeps [OF assms(1,2) t] show ?thesis by (simp, metis prod.collapse)
  next
    case (Grpc md req)
    with fx_inbound.grpc_keeps [OF assms(1,2) t] show ?thesis by (simp, metis prod.collapse)
  next
    case (Rpc req)
    with fx_inbound.rpc_keeps [OF assms(1,2) t assms(3)] show ?thesis by (simp, metis prod.collapse)
  next
    case (Background op)
    with request_step(2) fx_system.run_operation_sound [OF fx_inbound.axioms(1) [OF assms(1)] assms(2) _ t]
    show ?thesis by simp
  qed
qed

end
