(* ===== verification/Outcomes.thy ===== *)
theory Outcomes
  imports Transports
begin

text \<open>
  What a caller sees: the answer the middleware chain makes of a handler's end, the gRPC status
  and the RPC error of a method's end, and the one use case all three transports run for the same
  request.
\<close>

section \<open>The HTTP chain\<close>

context fx_inbound begin

text \<open>\<open>t\<close> comes after \<open>s\<close> by calls that leave the database alone.\<close>

definition reaches :: "'s \<Rightarrow> 's \<Rightarrow> bool" where
  "reaches s t \<longleftrightarrow> (\<forall>P. framed P \<longrightarrow> P s \<longrightarrow> P t)"

lemma reachesI: "(\<And>P. framed P \<Longrightarrow> P s \<Longrightarrow> P t) \<Longrightarrow> reaches s t"
  unfolding reaches_def by blast

lemma reachesD: "reaches s t \<Longrightarrow> framed P \<Longrightarrow> P s \<Longrightarrow> P t"
  unfolding reaches_def by blast

lemma reaches_trans: "reaches s t \<Longrightarrow> reaches t u \<Longrightarrow> reaches s u"
  unfolding reaches_def by blast

lemma reaches_clock: "lib_now X s = (x, t) \<Longrightarrow> reaches s t"
  by (rule reachesI) (rule read_keepsD [OF reads_keep(1)])

lemma reaches_lines:
  "reaches s (in_Info I l m kvs s)" "reaches s (in_LogError I l m kvs s)"
  "reaches s (tm_RecordInboundRequest (lib_telemetry X) tr op out d s)"
  by (rule reachesI, erule (1) lines_keep)+

lemma reaches_refl: "reaches s s"
  unfolding reaches_def by blast

lemma chain_outer:
  assumes origin: "rq_Header (gv_request (see c)) ''Origin'' = []"
    and rid: "request_id I (gv_request (see c)) s = (rid, s1)"
    and clocks: "lib_now X s1 = (t1, s2)" "lib_now X s2 = (t2, s3)"
    and c0: "c0 = gin_Header G requestIDHeader rid
      (gin_WithContext G (withRequestContext (gv_context (see c)) rid [(''requestId'', rid)]) c)"
    and inner: "Recovery G I (ErrorHandler G (lib_now X) handler) (c0, s3) = (None, c1, s4)"
  shows "\<exists>c2 d s5. router_chain G I (lib_now X) (Some (lib_telemetry X)) origins handler (c, s) =
      (None, c2, tm_RecordInboundRequest (lib_telemetry X) ''http'' (http_operation (gv_request (see c1)))
                   (classifyHTTPOutcome (gv_status (see c1))) d s5) \<and>
    see c2 = (if gv_body (see c1) = None then (see c1)\<lparr>gv_status := 200\<rparr> else see c1) \<and>
    reaches s4 s5"
proof -
  let ?T = "lib_telemetry X"
  let ?E = "ErrorHandler G (lib_now X) handler"
  have "rq_Header (gv_request (see c0)) ''Origin'' = []"
    using origin by (simp add: c0 gin_writes)
  from cors_same_origin [OF this]
  have inner': "Recovery G I (in_Cors I (router_cors origins) ?E) (c0, s3) = (None, c1, s4)"
    using inner by (simp add: Recovery_def)
  obtain t4 s4' where c4: "lib_now X s4 = (t4, s4')" by fastforce
  have "\<exists>s5. RequestLogger G I (lib_now X) (Recovery G I (in_Cors I (router_cors origins) ?E)) (c0, s2) =
      (None, c1, s5) \<and> (s5 = s4 \<or> (\<exists>l m kvs. s5 = in_Info I l m kvs s4'))"
    using clocks(2) inner' c4
    by (auto simp: RequestLogger_def after_next_None split: option.splits)
  then obtain s5 where log:
    "RequestLogger G I (lib_now X) (Recovery G I (in_Cors I (router_cors origins) ?E)) (c0, s2) = (None, c1, s5)"
    and s5: "s5 = s4 \<or> (\<exists>l m kvs. s5 = in_Info I l m kvs s4')"
    by blast
  obtain t6 s6 where c6: "lib_now X s5 = (t6, s6)" by fastforce
  have "reaches s4 s5"
    using s5 reaches_trans [OF reaches_clock [OF c4] reaches_lines(1)] by (auto simp: reaches_refl)
  note reaches = reaches_trans [OF this reaches_clock [OF c6]]
  have met: "RequestMetrics G (lib_now X) (Some ?T) (RequestLogger G I (lib_now X)
      (Recovery G I (in_Cors I (router_cors origins) ?E))) (c0, s1) =
    (None, c1, tm_RecordInboundRequest ?T ''http'' (http_operation (gv_request (see c1)))
       (classifyHTTPOutcome (gv_status (see c1))) (t6 - t1) s6)"
    using clocks(1) log c6 by (simp add: RequestMetrics_def after_next_None gin_reads)
  show ?thesis
    unfolding router_chain_def
    using rid met reaches
    by (intro exI [of _ "if gv_body (see c1) = None then gin_Status G 200 c1 else c1"]
        exI [of _ "t6 - t1"] exI [of _ s6])
      (simp add: RequestContext_def after_next_None gin_reads gin_writes Let_def flip: c0)
qed

lemma inner_quiet:
  assumes "handler (c0, s3) = (None, c1, s4)" "gv_errors (see c1) = [] \<or> gv_body (see c1) \<noteq> None"
  shows "Recovery G I (ErrorHandler G (lib_now X) handler) (c0, s3) = (None, c1, s4)"
  using assms by (auto simp: Recovery_def ErrorHandler_def after_next_None gin_reads)

lemma inner_error:
  assumes "handler (c0, s3) = (None, c1, s4)" "gv_errors (see c1) \<noteq> []" "gv_body (see c1) = None"
    and "lib_now X s4 = (t, s5)"
  shows "\<exists>c2. Recovery G I (ErrorHandler G (lib_now X) handler) (c0, s3) = (None, c2, s5) \<and>
    see c2 = (see c1)\<lparr>gv_status := httpStatusFor (app_code (as_app_error (last (gv_errors (see c1))))),
      gv_body := Some (ErrorBody (error_envelope (gv_context (see c1))
        (as_app_error (last (gv_errors (see c1)))) t)), gv_aborted := True\<rparr>"
  using assms by (simp add: Recovery_def ErrorHandler_def after_next_None gin_reads gin_writes Let_def)

lemma inner_panic:
  assumes "handler (c0, s3) = (Some p, c1, s4)"
  shows "\<exists>c2 s5. Recovery G I (ErrorHandler G (lib_now X) handler) (c0, s3) = (None, c2, s5) \<and>
    see c2 = (see c1)\<lparr>gv_errors := gv_errors (see c1) @ [recovered_error p], gv_aborted := True\<rparr> \<and>
    reaches s4 s5"
proof -
  define s5 where "s5 = (case LoggerFromContext (gv_context (see c1)) of None \<Rightarrow> s4
      | Some logger \<Rightarrow> in_LogError I logger ''panic recovered'' [(''panic'', p)] s4)"
  have "reaches s4 s5"
    by (simp add: s5_def reaches_refl reaches_lines split: option.splits)
  moreover have "Recovery G I (ErrorHandler G (lib_now X) handler) (c0, s3) =
      (None, gin_Abort G (gin_Error G (recovered_error p) c1), s5)"
    using assms by (simp add: Recovery_def ErrorHandler_def after_next_Some gin_reads s5_def)
  ultimately show ?thesis by (auto simp: gin_writes)
qed

end

section \<open>The answer to a request\<close>

text \<open>The status and the body a caller gets for what a handler's steps ended with.\<close>

definition http_status_of :: "'a res \<Rightarrow> int" where
  "http_status_of r = (case r of Err e \<Rightarrow> httpStatusFor (app_code (as_app_error e)) | _ \<Rightarrow> 200)"

definition http_body_of :: "string \<Rightarrow> time \<Rightarrow> response_data res \<Rightarrow> http_body option" where
  "http_body_of rid now r =
     (case r of
        Ok data \<Rightarrow> Some (SuccessBody \<lparr>sc_Success = True, sc_EventTime = now, sc_Data = data\<rparr>)
      | Err e \<Rightarrow>
          (let a = as_app_error e
           in Some (ErrorBody \<lparr>ee_EventTime = now,
                ee_Error = \<lparr>eb_Code = app_code a, eb_Message = app_message a, eb_Details = app_details a,
                            eb_RequestID = (if rid \<noteq> [] then Some rid else None)\<rparr>\<rparr>))
      | Panic p \<Rightarrow> None)"

context fx_inbound begin

lemma chain_respond:
  assumes origin: "rq_Header (gv_request (see c)) ''Origin'' = []"
    and fresh: "gv_errors (see c) = []" "gv_body (see c) = None" "gv_status (see c) = 200"
    and rid: "request_id I (gv_request (see c)) s = (rid, s1)"
    and clocks: "lib_now X s1 = (t1, s2)" "lib_now X s2 = (t2, s3)"
    and steps: "steps (gv_request (see c)) s3 = (r, s4)"
  shows "\<exists>c2 d s5 now. router_chain G I (lib_now X) (Some (lib_telemetry X)) origins (respond G (lib_now X) steps) (c, s) =
      (None, c2, tm_RecordInboundRequest (lib_telemetry X) ''http'' (http_operation (gv_request (see c)))
                   (classifyHTTPOutcome (http_status_of r)) d s5) \<and>
    gv_status (see c2) = http_status_of r \<and> gv_body (see c2) = http_body_of rid now r \<and>
    gv_headers (see c2) = gv_headers (see c) @ [(requestIDHeader, rid)] \<and>
    reaches s4 s5"
proof -
  let ?T = "lib_telemetry X"
  define c0 where "c0 = gin_Header G requestIDHeader rid
      (gin_WithContext G (withRequestContext (gv_context (see c)) rid [(''requestId'', rid)]) c)"
  note see0 = gin_writes gin_reads withRequestContext_def Let_def
  have c0: "see c0 = (see c)\<lparr>gv_context := \<lparr>rc_request_id = Some rid, rc_logger = Some [(''requestId'', rid)]\<rparr>,
      gv_headers := gv_headers (see c) @ [(requestIDHeader, rid)]\<rparr>"
    by (simp add: c0_def see0)
  obtain t5 s5 where now: "lib_now X s4 = (t5, s5)" by fastforce
  note outer = chain_outer [OF origin rid clocks c0_def, of "respond G (lib_now X) steps", where origins = origins]
  note s5 = reaches_clock [OF now]
  show ?thesis
  proof (cases r)
    case (Ok data)
    let ?c1 = "gin_JSON G 200 (SuccessBody (newSuccessResponse t5 data)) c0"
    have "respond G (lib_now X) steps (c0, s3) = (None, ?c1, s5)"
      using steps Ok now c0 by (simp add: respond_def Request_is)
    moreover have see1: "see ?c1 = (see c0)\<lparr>gv_status := 200,
        gv_body := Some (SuccessBody (newSuccessResponse t5 data))\<rparr>"
      by (rule JSON_writes) (simp add: c0 fresh)
    ultimately have "Recovery G I (ErrorHandler G (lib_now X) (respond G (lib_now X) steps)) (c0, s3) =
        (None, ?c1, s5)"
      by (intro inner_quiet) simp_all
    from outer [OF this, unfolded see1] obtain c2 d s6 where
      "router_chain G I (lib_now X) (Some ?T) origins (respond G (lib_now X) steps) (c, s) =
        (None, c2, tm_RecordInboundRequest ?T ''http'' (http_operation (gv_request (see c)))
                     (classifyHTTPOutcome 200) d s6)"
      "see c2 = (see c0)\<lparr>gv_status := 200, gv_body := Some (SuccessBody (newSuccessResponse t5 data))\<rparr>"
      "reaches s5 s6"
      by (auto simp: c0)
    note run = this
    show ?thesis
      by (rule exI [of _ c2], rule exI [of _ d], rule exI [of _ s6], rule exI [of _ t5])
        (use run s5 reaches_trans in \<open>auto simp add: c0 Ok http_status_of_def http_body_of_def newSuccessResponse_def\<close>)
  next
    case (Err e)
    let ?c1 = "gin_Error G e c0"
    have run: "respond G (lib_now X) steps (c0, s3) = (None, ?c1, s4)"
      using steps Err c0 by (simp add: respond_def Request_is)
    have see1: "see ?c1 = (see c0)\<lparr>gv_errors := [e]\<rparr>"
      by (simp add: Error_adds c0 fresh)
    obtain c2 where c2: "Recovery G I (ErrorHandler G (lib_now X) (respond G (lib_now X) steps)) (c0, s3) =
        (None, c2, s5)"
      "see c2 = (see ?c1)\<lparr>gv_status := httpStatusFor (app_code (as_app_error (last (gv_errors (see ?c1))))),
      gv_body := Some (ErrorBody (error_envelope (gv_context (see ?c1))
        (as_app_error (last (gv_errors (see ?c1)))) t5)), gv_aborted := True\<rparr>"
      using inner_error [of "respond G (lib_now X) steps" c0 s3 "gin_Error G e c0" s4 t5 s5] run now by (auto simp: see1 c0 fresh)
    from outer [OF c2(1), unfolded c2(2) see1] obtain c3 d s6 where
      "router_chain G I (lib_now X) (Some ?T) origins (respond G (lib_now X) steps) (c, s) =
        (None, c3, tm_RecordInboundRequest ?T ''http'' (http_operation (gv_request (see c)))
                     (classifyHTTPOutcome (http_status_of r)) d s6)"
      "see c3 = (see c0)\<lparr>gv_errors := [e], gv_status := http_status_of r,
        gv_body := Some (ErrorBody (error_envelope (gv_context (see c0)) (as_app_error e) t5)),
        gv_aborted := True\<rparr>"
      "reaches s5 s6"
      by (auto simp: c0 Err http_status_of_def)
    note run = this
    show ?thesis
      by (rule exI [of _ c3], rule exI [of _ d], rule exI [of _ s6], rule exI [of _ t5])
        (use run s5 reaches_trans in \<open>auto simp add: c0 Err http_body_of_def error_envelope_def RequestIDFromContext_def Let_def\<close>)
  next
    case (Panic p)
    have run: "respond G (lib_now X) steps (c0, s3) = (Some p, c0, s4)"
      using steps Panic c0 by (simp add: respond_def Request_is)
    from inner_panic [of "respond G (lib_now X) steps", OF this] obtain c2 s6 where
      c2: "Recovery G I (ErrorHandler G (lib_now X) (respond G (lib_now X) steps)) (c0, s3) = (None, c2, s6)"
      "see c2 = (see c0)\<lparr>gv_errors := gv_errors (see c0) @ [recovered_error p], gv_aborted := True\<rparr>"
      "reaches s4 s6"
      by blast
    from outer [OF c2(1), unfolded c2(2)] obtain c3 d s7 where
      "router_chain G I (lib_now X) (Some ?T) origins (respond G (lib_now X) steps) (c, s) =
        (None, c3, tm_RecordInboundRequest ?T ''http'' (http_operation (gv_request (see c)))
                     (classifyHTTPOutcome 200) d s7)"
      "see c3 = (see c0)\<lparr>gv_errors := [recovered_error p], gv_aborted := True, gv_status := 200\<rparr>"
      "reaches s6 s7"
      by (auto simp: c0 fresh)
    note run = this
    show ?thesis
      by (rule exI [of _ c3], rule exI [of _ d], rule exI [of _ s7], rule exI [of _ t5])
        (use run c2(3) reaches_trans in \<open>auto simp add: c0 fresh Panic http_status_of_def http_body_of_def\<close>)
  qed
qed

text \<open>The same for a request to the router: what the matched handler's steps ended with is answered.\<close>

lemma serve_answer:
  assumes run: "ServeHTTP I fresh (router us) rq s = (out, c, t)"
    and origin: "rq_Header rq ''Origin'' = []" and okE: "okE s"
    and route: "in_Match I (map fst (en_routes (router us))) (rq_Method rq) (rq_Path rq) = Some (n, ps)"
    and steps: "snd (en_routes (router us) ! n) = respond G (lib_now X) steps"
    and rq': "rq' = rq\<lparr>rq_FullPath := snd (fst (en_routes (router us) ! n)), rq_Params := ps\<rparr>"
  shows "\<exists>rid s3 r s4 d s5 now.
    okE s3 \<and> view s3 = view s \<and> snap s3 = snap s \<and> steps rq' s3 = (r, s4) \<and> out = None \<and>
    t = tm_RecordInboundRequest (lib_telemetry X) ''http'' (http_operation rq')
          (classifyHTTPOutcome (http_status_of r)) d s5 \<and>
    gv_status (see c) = http_status_of r \<and> gv_body (see c) = http_body_of rid now r \<and>
    gv_headers (see c) = [(requestIDHeader, rid)] \<and>
    (rq_Header rq requestIDHeader \<noteq> [] \<longrightarrow> rid = rq_Header rq requestIDHeader) \<and>
    reaches s4 t"
proof -
  let ?P = "\<lambda>x. okE x \<and> view x = view s \<and> snap x = snap s"
  have reads: "read_keeps ?P (lib_now X)" "read_keeps ?P (in_UUID I)"
    by (rule reads_keep [OF framed_same])+
  obtain rid s1 where rid: "request_id I rq' s = (rid, s1)" by fastforce
  then have s1: "?P s1"
    using read_keepsD [OF reads(2), of s] okE by (auto simp: request_id_def Let_def split: if_splits)
  obtain t1 s2 where c1: "lib_now X s1 = (t1, s2)" by fastforce
  note s2 = read_keepsD [OF reads(1) s1 c1]
  obtain t2 s3 where c2: "lib_now X s2 = (t2, s3)" by fastforce
  note s3 = read_keepsD [OF reads(1) s2 c2]
  obtain r s4 where r: "steps rq' s3 = (r, s4)" by fastforce
  let ?c = "fresh rq' 200"
  have see: "see ?c = fresh_view rq' 200" by (rule fresh_is)
  have seen: "gv_request (see ?c) = rq'" "gv_errors (see ?c) = []" "gv_body (see ?c) = None"
    "gv_status (see ?c) = 200"
    by (simp_all add: see fresh_view_def)
  have origin': "rq_Header rq' ''Origin'' = []" by (simp add: rq' origin)
  have "routed I (router us) rq = (rq', 200, respond G (lib_now X) steps)"
    using route steps by (simp add: routed_def rq')
  with run have chain: "router_chain G I (lib_now X) (Some (lib_telemetry X)) (cfg_CORSAllowedOrigins cfg)
      (respond G (lib_now X) steps) (?c, s) = (out, c, t)"
    by (simp add: ServeHTTP_def router_engine_def)
  have "\<exists>c2 d s5 now. router_chain G I (lib_now X) (Some (lib_telemetry X)) (cfg_CORSAllowedOrigins cfg)
        (respond G (lib_now X) steps) (?c, s) =
      (None, c2, tm_RecordInboundRequest (lib_telemetry X) ''http'' (http_operation (gv_request (see ?c)))
                   (classifyHTTPOutcome (http_status_of r)) d s5) \<and>
    gv_status (see c2) = http_status_of r \<and> gv_body (see c2) = http_body_of rid now r \<and>
    gv_headers (see c2) = gv_headers (see ?c) @ [(requestIDHeader, rid)] \<and>
    reaches s4 s5"
    by (rule chain_respond [OF _ _ _ _ _ c1 c2, where s = s and r = r and ?s4.0 = s4])
      (simp_all add: seen origin' rid r)
  then obtain d s5 now where
    "out = None" "t = tm_RecordInboundRequest (lib_telemetry X) ''http'' (http_operation rq')
      (classifyHTTPOutcome (http_status_of r)) d s5"
    "gv_status (see c) = http_status_of r" "gv_body (see c) = http_body_of rid now r"
    "gv_headers (see c) = [(requestIDHeader, rid)]"
    and s5: "reaches s4 s5"
    using chain by (auto simp: see fresh_view_def)
  moreover have "reaches s4 t"
    using reaches_trans [OF s5 reaches_lines(3)] calculation(2) by simp
  moreover have "rq_Header rq requestIDHeader \<noteq> [] \<longrightarrow> rid = rq_Header rq requestIDHeader"
    using rid by (auto simp: request_id_def Let_def rq')
  ultimately show ?thesis using s3 r by blast
qed

end

text \<open>The steps of the six routes, in the order of their registration.\<close>

definition fx_steps ::
  "('s, 'd) libraries \<Rightarrow> ('c, 's) inbound \<Rightarrow> ('s, 'd) FXHandler \<Rightarrow> (http_request \<Rightarrow> ('s, response_data) io) list" where
  "fx_steps X I h =
     [Http_GetRates X I h, Http_CreateQuote X I h, Http_CreateConversion X I h, Http_GetConversion X I h,
      Http_HandlePaymentWebhook X I h, Http_HandleTransferWebhook X I h]"

lemma fx_routes:
  assumes "n < 6"
  shows "snd (en_routes (router_engine G X I T origins deps) ! n) =
    respond G (lib_now X) (fx_steps X I (NewFXHandler deps) ! n)"
proof -
  from assms have "n = 0 \<or> n = 1 \<or> n = 2 \<or> n = 3 \<or> n = 4 \<or> n = 5" by arith
  then show ?thesis
    by (elim disjE) (simp_all add: router_engine_def RegisterRoutes_def fx_steps_def)
qed

context fx_inbound begin

text \<open>From a sound state no handler panics: every answer has a body.\<close>

lemma steps_end:
  assumes "system_usecases X cfg = Ok us" "sys_sound X C view snap okE s"
    and "h = NewFXHandler (handler_deps us (system_providers X cfg))"
    and "steps \<in> {Http_GetRates X I h, Http_CreateQuote X I h, Http_CreateConversion X I h,
      Http_GetConversion X I h, Http_HandlePaymentWebhook X I h, Http_HandleTransferWebhook X I h}"
    and "steps rq s = (r, t)"
  shows "\<not> is_panic r \<and> sys_sound X C view snap okE t"
  using call_safeD [OF http_steps_keep [OF assms(1,3,4)] assms(2,5)] by blast

text \<open>A webhook whose signature does not match is refused before anything is read or written.\<close>

lemma unsigned_refused:
  assumes "h_paymentWebhookVerifier h = secret \<and> steps = Http_HandlePaymentWebhook X I h \<or>
      h_transferWebhookVerifier h = secret \<and> steps = Http_HandleTransferWebhook X I h"
    and "rq_Body rq = Inr body" "secret \<noteq> []"
    and "rq_Header rq webhookSignatureHeader \<noteq> EncodeToString (in_MAC I secret body)"
  shows "\<exists>e. steps rq s = (Err e, s) \<and> app_code (as_app_error e) = ErrorCodeUnauthorized"
proof -
  let ?v = "Verify (in_MAC I) secret (rq_Header rq webhookSignatureHeader) body"
  obtain e where e: "?v = Err e"
    using assms(3,4) by (cases ?v) (auto simp: Verify_Ok)
  then have "readWebhookRequest I secret rq = Err e"
    using assms(2) by (simp add: readWebhookRequest_def ReadAll_def)
  with assms(1) Verify_Err [OF e] show ?thesis
    by (auto simp: Http_HandlePaymentWebhook_def Http_HandleTransferWebhook_def bind_def lift_def)
qed

end

text \<open>Requests to the six routes, from a sound state.\<close>

lemma serve_route:
  assumes "fx_inbound X C view snap okE G see I fresh" "system_usecases X cfg = Ok us"
    and "sys_sound X C view snap okE s" "rq_Header rq ''Origin'' = []"
    and "NewRouter G X I (Some (lib_telemetry X)) (cfg_CORSAllowedOrigins cfg)
      (handler_deps us (system_providers X cfg)) = Ok e"
    and "in_Match I (map fst (en_routes e)) (rq_Method rq) (rq_Path rq) = Some (n, ps)" "n < 6"
    and "ServeHTTP I fresh e rq s = (out, c, t)"
  shows "\<exists>rid rq' s3 r s4 d s5 now.
    sys_book X view s3 = sys_book X view s \<and>
    (fx_steps X I (NewFXHandler (handler_deps us (system_providers X cfg))) ! n) rq' s3 = (r, s4) \<and>
    rq' = rq\<lparr>rq_FullPath := snd (fst (en_routes e ! n)), rq_Params := ps\<rparr> \<and>
    \<not> is_panic r \<and> out = None \<and> sys_book X view t = sys_book X view s4 \<and>
    gv_status (see c) = http_status_of r \<and> gv_body (see c) = http_body_of rid now r \<and>
    gv_headers (see c) = [(requestIDHeader, rid)] \<and>
    (rq_Header rq requestIDHeader \<noteq> [] \<longrightarrow> rid = rq_Header rq requestIDHeader) \<and>
    t = tm_RecordInboundRequest (lib_telemetry X) ''http'' (http_operation rq')
          (classifyHTTPOutcome (http_status_of r)) d s5"
proof -
  let ?h = "NewFXHandler (handler_deps us (system_providers X cfg))"
  define steps where "steps = fx_steps X I ?h ! n"
  define rq' where "rq' = rq\<lparr>rq_FullPath := snd (fst (en_routes e ! n)), rq_Params := ps\<rparr>"
  have okE: "okE s" using assms(3) by (simp add: sound_state_def store_ok_def)
  have e: "e = router_engine G X I (Some (lib_telemetry X)) (cfg_CORSAllowedOrigins cfg)
      (handler_deps us (system_providers X cfg))"
    using assms(5) by (simp add: NewRouter_Ok)
  have route: "snd (en_routes e ! n) = respond G (lib_now X) steps"
    unfolding e steps_def by (rule fx_routes [OF assms(7)])
  from fx_inbound.serve_answer [OF assms(1) assms(8) [unfolded e] assms(4) okE assms(6) [unfolded e]
      route [unfolded e] rq'_def [unfolded e]]
  obtain rid s3 r s4 d s5 now where
    s3: "okE s3" "view s3 = view s" "snap s3 = snap s" and run: "steps rq' s3 = (r, s4)"
    and answer: "out = None" "gv_status (see c) = http_status_of r" "gv_body (see c) = http_body_of rid now r"
      "gv_headers (see c) = [(requestIDHeader, rid)]"
      "rq_Header rq requestIDHeader \<noteq> [] \<longrightarrow> rid = rq_Header rq requestIDHeader"
    and t: "t = tm_RecordInboundRequest (lib_telemetry X) ''http'' (http_operation rq')
          (classifyHTTPOutcome (http_status_of r)) d s5"
    and reaches: "fx_inbound.reaches view snap okE s4 t"
    by blast
  have s3': "sys_sound X C view snap okE s3"
    using assms(3) s3 by (simp add: sound_state_def store_ok_def)
  have "steps \<in> set (fx_steps X I ?h)"
    unfolding steps_def using assms(7) by (intro nth_mem) (simp add: fx_steps_def)
  then have "\<not> is_panic r \<and> sys_sound X C view snap okE s4"
    using fx_inbound.steps_end [OF assms(1,2) s3' refl, of steps rq' r s4] run
    by (simp add: fx_steps_def)
  moreover from this have "view t = view s4"
    using fx_inbound.reachesD [OF assms(1) reaches fx_inbound.framed_same [OF assms(1), of "view s4" "snap s4"]]
    by (simp add: sound_state_def store_ok_def)
  ultimately show ?thesis
    using s3 run answer t unfolding steps_def rq'_def
    by (intro exI [of _ rid] exI [of _ rq'] exI [of _ s3] exI [of _ r] exI [of _ s4]) (auto simp: rq'_def)
qed

section \<open>One use case behind three transports\<close>

text \<open>
  The requests without their transport: what is checked, in which order, and the use case that
  is run.
\<close>

definition rates_request ::
  "('s, 'd) libraries \<Rightarrow> ('s, 'd) usecase_set \<Rightarrow> string \<Rightarrow> string list \<Rightarrow> ('s, string \<times> 'd exchange_rate list) io" where
  "rates_request X us base quotes =
     bind (lift (ParseCurrency base)) (\<lambda>b.
     bind (lift (parseCurrencies quotes)) (\<lambda>qs.
     bind (GetReferenceRates_Execute (lib_decimal X) (us_GetReferenceRates us) b qs) (\<lambda>rates.
       ret (b, rates))))"

definition quote_request ::
  "('s, 'd) libraries \<Rightarrow> ('s, 'd) usecase_set \<Rightarrow> string \<Rightarrow> string \<Rightarrow> int \<Rightarrow> string \<Rightarrow> ('s, 'd quote) io" where
  "quote_request X us key currency minorUnits target =
     bind (lift (ParseIdempotencyKey key)) (\<lambda>k.
     bind (lift (ParseCurrency currency)) (\<lambda>b.
     bind (lift (NewMoney b minorUnits)) (\<lambda>amount.
     bind (lift (ParseCurrency target)) (\<lambda>q.
       CreateQuote_Execute (lib_decimal X) (lib_ulid X) (us_CreateQuote us) k amount q))))"

definition conversion_request ::
  "('s, 'd) libraries \<Rightarrow> ('s, 'd) usecase_set \<Rightarrow> string \<Rightarrow> string \<Rightarrow> string \<Rightarrow> string \<Rightarrow> ('s, 'd conversion) io" where
  "conversion_request X us key quoteID paymentProvider transferProvider =
     bind (lift (ParseIdempotencyKey key)) (\<lambda>k.
       AcceptQuote_Execute (lib_ulid X) (us_AcceptQuote us) k quoteID
         (if paymentProvider = [] then ProviderToss else paymentProvider)
         (if transferProvider = [] then ProviderWise else transferProvider))"

end
