(* ===== verification/Commands.thy ===== *)
theory Commands
  imports Runtime
begin

text \<open>
  The programs of \<open>cmd\<close>: \<open>api\<close>, \<open>grpc\<close>, \<open>rpc\<close> and \<open>migrate\<close>. Each starts its servers as
  goroutines that report on one channel, waits for the first report or a signal, shuts down and
  closes what it opened. Which of the cases of a \<open>select\<close> is taken is the environment's choice, a
  parameter; the last section shows that whatever it chooses, nothing stays open.
\<close>

section \<open>The parameters\<close>

text \<open>What the main goroutine waits for: a server's report, or a signal.\<close>

datatype process_event = ServerReport "go_error option" | SignalReceived

record 's servers =
  sv_Start :: "string \<Rightarrow> string \<Rightarrow> 's \<Rightarrow> 's"
  sv_Listen :: "string \<Rightarrow> ('s, nat) io"
  sv_CloseListener :: "nat \<Rightarrow> ('s, unit) io"
  sv_Select :: "'s \<Rightarrow> process_event \<times> 's"
  sv_Receive :: "'s \<Rightarrow> go_error option \<times> 's"
  sv_Shutdown :: "string \<Rightarrow> duration \<Rightarrow> ('s, unit) io"
  sv_GracefulStop :: "duration \<Rightarrow> 's \<Rightarrow> bool \<times> 's"
  sv_Stop :: "'s \<Rightarrow> 's"
  sv_IsServerClosed :: "go_error \<Rightarrow> bool"

text \<open>\<open>defer func() { _ = cleanup() }()\<close>: run when the function ends, however it ends.\<close>

definition deferring :: "('s \<Rightarrow> 's) \<Rightarrow> ('s, 'a) io \<Rightarrow> ('s, 'a) io" where
  "deferring cleanup body s = (case body s of (r, s) \<Rightarrow> (r, cleanup s))"

text \<open>\<open>err != nil && !errors.Is(err, http.ErrServerClosed)\<close>\<close>

definition real_error :: "'s servers \<Rightarrow> go_error option \<Rightarrow> go_error option" where
  "real_error V err =
     (case err of None \<Rightarrow> None | Some e \<Rightarrow> if sv_IsServerClosed V e then None else Some e)"

definition launch :: "'s platform \<Rightarrow> 's servers \<Rightarrow> string \<Rightarrow> string \<Rightarrow> 's \<Rightarrow> 's" where
  "launch P V server addr s =
     sv_Start V server addr (pf_LogInfo P (''starting '' @ server) [(''addr'', addr)] s)"

definition shutdown_server :: "'s servers \<Rightarrow> string \<Rightarrow> duration \<Rightarrow> ('s, unit) io" where
  "shutdown_server V server timeout s =
     (case sv_Shutdown V server timeout s of
        (Err e, s) \<Rightarrow> (case real_error V (Some e) of Some e \<Rightarrow> (Err e, s) | None \<Rightarrow> (Ok (), s))
      | (r, s) \<Rightarrow> (r, s))"

text \<open>The wait of \<open>api\<close> and \<open>grpc\<close>.\<close>

definition await_end :: "'s platform \<Rightarrow> 's servers \<Rightarrow> ('s, unit) io" where
  "await_end P V s =
     (case sv_Select V s of
        (ServerReport err, s) \<Rightarrow>
          (case real_error V err of Some e \<Rightarrow> (Err e, s) | None \<Rightarrow> (Ok (), s))
      | (SignalReceived, s) \<Rightarrow> (Ok (), pf_LogInfo P ''shutdown signal received'' [] s))"

section \<open>cmd/api\<close>

definition api_run ::
  "'c gin \<Rightarrow> ('s, 'd) libraries \<Rightarrow> ('c, 's) inbound \<Rightarrow> 's platform \<Rightarrow> 's servers \<Rightarrow> viper \<Rightarrow> ('s, unit) io" where
  "api_run G X I P V v =
     bind (lift (Load v)) (\<lambda>cfg.
     bind (Bootstrap G X I P cfg) (\<lambda>rt.
       deferring (\<lambda>s. snd (Close P rt s))
         (bind (perform (launch P V ''http server'' (HTTPAddress cfg))) (\<lambda>_.
          bind (perform (launch P V ''metrics server'' (HTTPMetricsAddress cfg))) (\<lambda>_.
          bind (await_end P V) (\<lambda>_.
          bind (shutdown_server V ''http server'' (rt_ShutdownTimeout rt)) (\<lambda>_.
            shutdown_server V ''metrics server'' (rt_ShutdownTimeout rt))))))))"

section \<open>cmd/grpc\<close>

definition grpc_run ::
  "'c gin \<Rightarrow> ('s, 'd) libraries \<Rightarrow> ('c, 's) inbound \<Rightarrow> 's platform \<Rightarrow> 's servers \<Rightarrow> viper \<Rightarrow> ('s, unit) io" where
  "grpc_run G X I P V v =
     bind (lift (Load v)) (\<lambda>cfg.
     bind (Bootstrap G X I P cfg) (\<lambda>rt.
       deferring (\<lambda>s. snd (Close P rt s))
         (bind (sv_Listen V (GRPCAddress cfg)) (\<lambda>listener.
            deferring (ignoring (sv_CloseListener V listener))
              (bind (perform (launch P V ''grpc server'' (GRPCAddress cfg))) (\<lambda>_.
               bind (perform (launch P V ''metrics server'' (GRPCMetricsAddress cfg))) (\<lambda>_.
               bind (await_end P V) (\<lambda>_.
               get_with (sv_GracefulStop V (rt_ShutdownTimeout rt)) (\<lambda>stopped.
               bind (perform (if stopped then (\<lambda>s. s) else sv_Stop V)) (\<lambda>_.
                 shutdown_server V ''metrics server'' (rt_ShutdownTimeout rt))))))))))) "

section \<open>cmd/rpc\<close>

text \<open>
  The accept loop reports nil when its listener was closed. On a signal the listener is closed
  and the loop's report awaited.
\<close>

definition rpc_await :: "'s platform \<Rightarrow> 's servers \<Rightarrow> nat \<Rightarrow> ('s, unit) io" where
  "rpc_await P V listener s =
     (case sv_Select V s of
        (ServerReport err, s) \<Rightarrow> (case err of Some e \<Rightarrow> (Err e, s) | None \<Rightarrow> (Ok (), s))
      | (SignalReceived, s) \<Rightarrow>
          (let s = pf_LogInfo P ''shutdown signal received'' [] s;
               s = ignoring (sv_CloseListener V listener) s
           in case sv_Receive V s of
                (err, s) \<Rightarrow> (case real_error V err of Some e \<Rightarrow> (Err e, s) | None \<Rightarrow> (Ok (), s))))"

definition rpc_run ::
  "'c gin \<Rightarrow> ('s, 'd) libraries \<Rightarrow> ('c, 's) inbound \<Rightarrow> 's platform \<Rightarrow> 's servers \<Rightarrow> viper \<Rightarrow> ('s, unit) io" where
  "rpc_run G X I P V v =
     bind (lift (Load v)) (\<lambda>cfg.
     bind (Bootstrap G X I P cfg) (\<lambda>rt.
       deferring (\<lambda>s. snd (Close P rt s))
         (bind (sv_Listen V (RPCAddress cfg)) (\<lambda>listener.
            deferring (ignoring (sv_CloseListener V listener))
              (bind (perform (launch P V ''rpc server'' (RPCAddress cfg))) (\<lambda>_.
               bind (perform (launch P V ''metrics server'' (RPCMetricsAddress cfg))) (\<lambda>_.
               bind (rpc_await P V listener) (\<lambda>_.
                 shutdown_server V ''metrics server'' (rt_ShutdownTimeout rt)))))))))"

section \<open>cmd/migrate\<close>

text \<open>
  \<open>%q\<close> of the command in the error: quotes, backslashes and control characters escaped; bytes
  outside ASCII are left as they are.
\<close>

definition quote_char :: "char \<Rightarrow> string" where
  "quote_char c =
     (if c = CHR 0x22 then [CHR 0x5C, CHR 0x22]
      else if c = CHR 0x5C then [CHR 0x5C, CHR 0x5C]
      else if c = CHR 0x07 then [CHR 0x5C, CHR ''a'']
      else if c = CHR 0x08 then [CHR 0x5C, CHR ''b'']
      else if c = CHR 0x0C then [CHR 0x5C, CHR ''f'']
      else if c = CHR 0x0A then [CHR 0x5C, CHR ''n'']
      else if c = CHR 0x0D then [CHR 0x5C, CHR ''r'']
      else if c = CHR 0x09 then [CHR 0x5C, CHR ''t'']
      else if c = CHR 0x0B then [CHR 0x5C, CHR ''v'']
      else if (of_char c :: nat) < 32 \<or> c = CHR 0x7F
      then [CHR 0x5C, CHR ''x'', hex_digit (of_char c div 16), hex_digit (of_char c)]
      else [c])"

definition go_quoted :: "string \<Rightarrow> string" where
  "go_quoted s = CHR 0x22 # concat (map quote_char s) @ [CHR 0x22]"

definition migrate_run :: "'s platform \<Rightarrow> viper \<Rightarrow> string list \<Rightarrow> ('s, unit) io" where
  "migrate_run P v osArgs =
     bind (lift (Load v)) (\<lambda>cfg.
       (let command = (if length osArgs > 1 then osArgs ! 1 else ''up'')
        in bind (OpenSQLDB P (cfg_DatabaseURL cfg)) (\<lambda>db.
             deferring (ignoring (pf_SQLClose P db))
               (wrapping (''run migration command '' @ go_quoted command)
                  (RunGoose P db ''migrations'' command)))))"

text \<open>\<open>main\<close>: the exit status, and what is written to standard error.\<close>

definition main_exit :: "unit res \<Rightarrow> int \<times> string" where
  "main_exit r =
     (case r of
        Ok _ \<Rightarrow> (0, [])
      | Err e \<Rightarrow> (1, error_text e @ [CHR 0x0A])
      | Panic p \<Rightarrow> (2, ''panic: '' @ p @ [CHR 0x0A]))"

section \<open>What is open\<close>

text \<open>
  What the code relies on: opening hands out a fresh resource or opens nothing, closing closes
  (whatever it reports), the mapper's \<open>DB()\<close> returns the connection it was opened with, and no
  other call opens, closes or panics.
\<close>

definition acquires :: "('s \<Rightarrow> resource set) \<Rightarrow> ('s, 'a) io \<Rightarrow> ('a \<Rightarrow> resource set) \<Rightarrow> bool" where
  "acquires opened m new \<longleftrightarrow>
     (\<forall>s r t. m s = (r, t) \<longrightarrow> \<not> is_panic r \<and>
        (case r of Ok x \<Rightarrow> new x \<inter> opened s = {} \<and> opened t = opened s \<union> new x
         | _ \<Rightarrow> opened t = opened s))"

text \<open>
  A part of a start-up that holds \<open>R\<close>: when it fails it has closed \<open>R\<close>, when it succeeds exactly
  \<open>held\<close> of its result is open instead.
\<close>

definition hands_over ::
  "('s \<Rightarrow> resource set) \<Rightarrow> resource set \<Rightarrow> ('s, 'a) io \<Rightarrow> ('a \<Rightarrow> resource set) \<Rightarrow> bool" where
  "hands_over opened R m held \<longleftrightarrow>
     (\<forall>s r t. R \<subseteq> opened s \<longrightarrow> m s = (r, t) \<longrightarrow> \<not> is_panic r \<and>
        (case r of
           Ok x \<Rightarrow> held x \<inter> (opened s - R) = {} \<and> opened t = (opened s - R) \<union> held x
         | _ \<Rightarrow> opened t = opened s - R))"

lemma acquires_or_else:
  assumes "acquires opened m new" "\<And>s. opened (cleanup s) = opened s - R"
    and "\<And>x. hands_over opened (R \<union> new x) (f x) held"
  shows "hands_over opened R (or_else m cleanup f) held"
  unfolding hands_over_def
proof (intro allI impI)
  fix s r t
  assume R: "R \<subseteq> opened s" and run: "or_else m cleanup f s = (r, t)"
  obtain r1 s1 where m: "m s = (r1, s1)" by (cases "m s")
  note a = assms(1) [unfolded acquires_def, rule_format, OF m]
  show "\<not> is_panic r \<and> (case r of
      Ok x \<Rightarrow> held x \<inter> (opened s - R) = {} \<and> opened t = (opened s - R) \<union> held x
    | _ \<Rightarrow> opened t = opened s - R)"
  proof (cases r1)
    case (Ok x)
    with a R have s1: "R \<union> new x \<subseteq> opened s1" "opened s1 - (R \<union> new x) = opened s - R" by auto
    from run m Ok have "f x s1 = (r, t)" by (simp add: or_else_def)
    from assms(3) [unfolded hands_over_def, rule_format, OF s1(1) this] show ?thesis
      unfolding s1(2) .
  next
    case (Err e)
    with run m a assms(2) [of s1] show ?thesis by (auto simp: or_else_def)
  next
    case (Panic p)
    with a show ?thesis by simp
  qed
qed

lemma hands_over_ret: "held x = R \<Longrightarrow> hands_over opened R (ret x) held"
  by (auto simp: hands_over_def ret_def)

lemma hands_over_empty: "hands_over opened {} m held = acquires opened m held"
  by (simp add: hands_over_def acquires_def cong: result.case_cong)

lemma acquires_bind:
  assumes "acquires opened m new" "\<And>x. hands_over opened (new x) (f x) held"
  shows "acquires opened (bind m f) held"
proof -
  have "bind m f = or_else m (\<lambda>s. s) f"
    by (rule ext) (simp add: bind_def or_else_def)
  moreover have "hands_over opened {} (or_else m (\<lambda>s. s) f) held"
    by (rule acquires_or_else [OF assms(1)]) (use assms(2) in auto)
  ultimately show ?thesis by (simp add: hands_over_empty)
qed

lemma acquires_wrapping:
  assumes "acquires opened m new" shows "acquires opened (wrapping what m) new"
  unfolding acquires_def
proof (intro allI impI)
  fix s r t
  assume run: "wrapping what m s = (r, t)"
  obtain r1 s1 where m: "m s = (r1, s1)" by (cases "m s")
  from assms [unfolded acquires_def, rule_format, OF m] run m
  show "\<not> is_panic r \<and> (case r of
      Ok x \<Rightarrow> new x \<inter> opened s = {} \<and> opened t = opened s \<union> new x | _ \<Rightarrow> opened t = opened s)"
    by (cases r1) (auto simp: wrapping_def)
qed

lemma acquires_lift: "\<not> is_panic r \<Longrightarrow> acquires opened (lift r) (\<lambda>_. {})"
  by (auto simp: acquires_def lift_def split: result.splits)

lemma acquires_perform: "(\<And>s. opened (g s) = opened s) \<Longrightarrow> acquires opened (perform g) (\<lambda>_. {})"
  by (auto simp: acquires_def perform_def)

lemma acquires_throw: "acquires opened (throw e) new"
  by (auto simp: acquires_def throw_def)

text \<open>\<open>Bootstrap\<close> opens the pool and the connection, or nothing.\<close>

definition runtime_holds :: "('c, 't, 'd) runtime \<Rightarrow> resource set" where
  "runtime_holds rt = (case rt_Pool rt of Some p \<Rightarrow> {Pool p} | None \<Rightarrow> {}) \<union>
     (case rt_SQLDB rt of Some h \<Rightarrow> {DB h} | None \<Rightarrow> {})"

lemma newUsecases_Ok: "\<exists>us. newUsecases D now cfg st providers telemetry clk = Ok us"
  by (simp add: newUsecases_def supported_iff CurrencyKRW_def)

locale platform_contract =
  fixes P :: "'s platform" and opened :: "'s \<Rightarrow> resource set" and connection :: "nat \<Rightarrow> nat"
  assumes pure: "\<not> is_panic (pf_UnmarshalLevel P l)" "\<not> is_panic (pf_ParsePoolConfig P u)"
    and logger: "acquires opened (pf_BuildLogger P z) (\<lambda>_. {})" "acquires opened (pf_SyncLogger P) (\<lambda>_. {})"
      "opened (pf_LogInfo P m kvs s) = opened s"
    and collectors: "acquires opened (pf_RegisterCollector P nm) (\<lambda>_. {})"
    and pool: "acquires opened (pf_NewPool P c) (\<lambda>p. {Pool p})" "acquires opened (pf_PoolPing P p) (\<lambda>_. {})"
      "opened (pf_PoolClose P p s) = opened s - {Pool p}"
    and mapper: "acquires opened (pf_GormOpen P u) (\<lambda>g. {DB (connection g)})"
      "pf_GormDB P g s = (Ok (connection g), s)"
      "opened (pf_SetMaxOpenConns P h n s) = opened s" "opened (pf_SetMaxIdleConns P h n s) = opened s"
    and sql: "acquires opened (pf_SQLOpen P dr u) (\<lambda>h. {DB h})" "acquires opened (pf_SQLPing P h) (\<lambda>_. {})"
      "pf_SQLClose P h s = (ru, t) \<Longrightarrow> \<not> is_panic ru \<and> opened t = opened s - {DB h}"
    and goose: "acquires opened (pf_Goose P cmd h dir) (\<lambda>_. {})"
begin

lemma ignoring_Sync [simp]: "opened (ignoring (pf_SyncLogger P) s) = opened s"
proof -
  obtain r t where run: "pf_SyncLogger P s = (r, t)" by fastforce
  from logger(2) [unfolded acquires_def, rule_format, OF run] show ?thesis
    by (cases r) (simp_all add: ignoring_def run)
qed

lemma ignoring_SQLClose [simp]: "opened (ignoring (pf_SQLClose P h) s) = opened s - {DB h}"
  using sql(3) by (cases "pf_SQLClose P h s") (auto simp: ignoring_def)

lemma logger_New: "acquires opened (logger_New P level) (\<lambda>_. {})"
proof (cases "pf_UnmarshalLevel P (ToLower (TrimSpace level))")
  case (Panic p)
  with pure(1) [of "ToLower (TrimSpace level)"] show ?thesis by simp
qed (simp_all add: logger_New_def logger(1) acquires_throw)

lemma prometheus: "acquires opened (NewPrometheusStack (pf_RegisterCollector P)) (\<lambda>_. {})"
proof -
  have regs: "acquires opened (registerCollectors (pf_RegisterCollector P) cs) (\<lambda>_. {})" for cs
  proof (induction cs)
    case Nil
    show ?case by (simp add: acquires_def ret_def)
  next
    case (Cons c cs)
    show ?case unfolding registerCollectors.simps
      by (rule acquires_bind [OF collectors]) (simp add: hands_over_empty Cons.IH)
  qed
  then show ?thesis
    unfolding NewPrometheusStack_def newTelemetry_def
    by (intro acquires_bind [OF regs]) (simp add: hands_over_empty regs)
qed

lemma pool_opened: "acquires opened (NewPGXPool P cfg) (\<lambda>p. {Pool p})"
  unfolding NewPGXPool_def Let_def
  by (intro acquires_bind [where new = "\<lambda>_. {}"] acquires_wrapping acquires_lift pure pool(1))
    (simp add: hands_over_empty acquires_wrapping pool(1))

lemma mapper_opened: "acquires opened (NewGormDB P cfg) (\<lambda>g. {DB (connection g)})"
  unfolding acquires_def
proof (intro allI impI)
  fix s r t
  assume run: "NewGormDB P cfg s = (r, t)"
  obtain r1 s1 where m: "pf_GormOpen P (cfg_DatabaseURL cfg) s = (r1, s1)" by fastforce
  from mapper(1) [unfolded acquires_def, rule_format, OF m] run m mapper(2-4)
  show "\<not> is_panic r \<and> (case r of
      Ok g \<Rightarrow> {DB (connection g)} \<inter> opened s = {} \<and> opened t = opened s \<union> {DB (connection g)}
    | _ \<Rightarrow> opened t = opened s)"
    by (cases r1) (auto simp: NewGormDB_def bind_def wrapping_def perform_def ret_def)
qed

lemma mapper_connection: "or_else (pf_GormDB P g) cleanup f = f (connection g)"
  by (rule ext) (simp add: or_else_def mapper(2))

lemma bootstrap:
  assumes "in_CorsInvalid I (router_cors (cfg_CORSAllowedOrigins cfg)) = None"
  shows "acquires opened (Bootstrap G X I P cfg) runtime_holds"
proof -
  have router: "NewRouter G X I tel (cfg_CORSAllowedOrigins cfg) deps =
      Ok (router_engine G X I tel (cfg_CORSAllowedOrigins cfg) deps)" for tel deps
    by (simp add: NewRouter_Ok assms)
  obtain us where us: "newUsecases (lib_decimal X) (lib_now X) cfg (system_store X) (system_providers X cfg)
      (lib_telemetry X) \<lparr>ck_Now = lib_now X\<rparr> = Ok us"
    using newUsecases_Ok by blast
  have rpc: "\<not> is_panic (Rpc_NewServer (pf_RegisterName P) us tel)" for tel
    by (simp add: Rpc_NewServer_def Let_def split: option.splits)
  show ?thesis
    unfolding Bootstrap_def Let_def us router bind_lift_Ok mapper_connection
    apply (rule acquires_bind [OF logger_New])
    apply (rule acquires_or_else [OF prometheus], simp)
    apply (rule acquires_or_else [OF pool_opened], simp)
    apply (rule acquires_or_else [OF pool(2)], force simp: pool(3))
    apply (rule acquires_or_else [OF mapper_opened], force simp: pool(3))
    apply (rule acquires_or_else [OF sql(2)], force simp: pool(3))
    apply (rule acquires_or_else [OF acquires_lift [OF rpc]], force simp: pool(3))
    apply (rule hands_over_ret)
    apply (auto simp: runtime_holds_def)
    done
qed

lemma sql_close: "opened (snd (pf_SQLClose P h s)) = opened s - {DB h}"
  using sql(3) by (cases "pf_SQLClose P h s") auto

lemma logger_sync: "opened (snd (pf_SyncLogger P s)) = opened s"
  using ignoring_Sync [of s] by (simp add: ignoring_def)

text \<open>\<open>Close\<close> closes exactly what the runtime holds.\<close>

lemma close: "opened (snd (Close P rt s)) = opened s - runtime_holds rt"
  by (cases "rt_SQLDB rt"; cases "rt_Pool rt"; cases "rt_Logger rt")
    (auto simp: Close_def runtime_holds_def Let_def split_beta pool(3) sql_close logger_sync)

end

text \<open>
  A call that opens nothing and closes at most \<open>R\<close>; with \<open>R\<close> empty, what is open after it is
  what was open before it.
\<close>

definition loses :: "('s \<Rightarrow> resource set) \<Rightarrow> resource set \<Rightarrow> ('s, 'a) io \<Rightarrow> bool" where
  "loses opened R m \<longleftrightarrow>
     (\<forall>s r t. m s = (r, t) \<longrightarrow> opened s - R \<subseteq> opened t \<and> opened t \<subseteq> opened s)"

lemma losesD: "loses opened {} m \<Longrightarrow> m s = (r, t) \<Longrightarrow> opened t = opened s"
  unfolding loses_def by (metis Diff_empty subset_antisym)

lemma loses_acquires: "acquires opened m (\<lambda>_. {}) \<Longrightarrow> loses opened R m"
  unfolding acquires_def loses_def by (fastforce split: result.splits)

lemma loses_perform: "(\<And>s. opened (g s) = opened s) \<Longrightarrow> loses opened R (perform g)"
  by (rule loses_acquires) (rule acquires_perform)

lemma loses_bind:
  assumes "loses opened R m" "\<And>x. loses opened R (f x)"
  shows "loses opened R (bind m f)"
  unfolding loses_def
proof (intro allI impI)
  fix s r t
  assume run: "bind m f s = (r, t)"
  obtain r1 s1 where m: "m s = (r1, s1)" by (cases "m s")
  note a = assms(1) [unfolded loses_def, rule_format, OF m]
  show "opened s - R \<subseteq> opened t \<and> opened t \<subseteq> opened s"
  proof (cases r1)
    case (Ok x)
    with run m have "f x s1 = (r, t)" by simp
    with assms(2) [unfolded loses_def] have "opened s1 - R \<subseteq> opened t" "opened t \<subseteq> opened s1" by blast+
    with a show ?thesis by blast
  qed (use run m a in simp_all)
qed

lemma loses_get_with:
  assumes "\<And>s. opened (snd (g s)) = opened s" "\<And>x. loses opened R (f x)"
  shows "loses opened R (get_with g f)"
  unfolding loses_def
proof (intro allI impI)
  fix s r t
  assume run: "get_with g f s = (r, t)"
  obtain x s1 where g: "g s = (x, s1)" by (cases "g s")
  with run have "f x s1 = (r, t)" by (simp add: get_with_def)
  with assms(2) [unfolded loses_def] assms(1) [of s] g
  show "opened s - R \<subseteq> opened t \<and> opened t \<subseteq> opened s" by (metis snd_conv)
qed

text \<open>What a function opens and closes in a deferred call is closed when it ends.\<close>

lemma deferring_closes:
  assumes "acquires opened m new" "\<And>x s. opened (cleanup x s) = opened s - new x"
    and "\<And>x. loses opened (new x) (body x)"
  shows "loses opened R (bind m (\<lambda>x. deferring (cleanup x) (body x)))"
  unfolding loses_def
proof (intro allI impI)
  fix s r t
  assume run: "bind m (\<lambda>x. deferring (cleanup x) (body x)) s = (r, t)"
  obtain r1 s1 where m: "m s = (r1, s1)" by (cases "m s")
  note a = assms(1) [unfolded acquires_def, rule_format, OF m]
  show "opened s - R \<subseteq> opened t \<and> opened t \<subseteq> opened s"
  proof (cases r1)
    case (Ok x)
    obtain r2 s2 where b: "body x s1 = (r2, s2)" by (cases "body x s1")
    from run m Ok b have t: "opened t = opened s2 - new x"
      by (auto simp: deferring_def assms(2))
    from assms(3) [unfolded loses_def, rule_format, OF b]
    have "opened s1 - new x \<subseteq> opened s2" "opened s2 \<subseteq> opened s1" by simp_all
    with a Ok t show ?thesis by auto
  qed (use run m a in simp_all)
qed

text \<open>The origins the environment names, when it names valid settings, are accepted.\<close>

definition origins_valid :: "('c, 's) inbound \<Rightarrow> viper \<Rightarrow> bool" where
  "origins_valid I v \<longleftrightarrow>
     (\<forall>cfg. Load v = Ok cfg \<longrightarrow> in_CorsInvalid I (router_cors (cfg_CORSAllowedOrigins cfg)) = None)"

lemma origins_validD:
  "origins_valid I v \<Longrightarrow> Load v = Ok cfg \<Longrightarrow> in_CorsInvalid I (router_cors (cfg_CORSAllowedOrigins cfg)) = None"
  by (simp add: origins_valid_def)

locale process_contract = platform_contract P opened connection
  for P :: "'s platform" and opened connection +
  fixes V :: "'s servers"
  assumes started: "opened (sv_Start V server addr s) = opened s"
    and listening: "acquires opened (sv_Listen V addr) (\<lambda>l. {Listener l})"
      "opened (ignoring (sv_CloseListener V l) s) = opened s - {Listener l}"
    and selecting: "opened (snd (sv_Select V s)) = opened s" "opened (snd (sv_Receive V s)) = opened s"
    and stopping: "acquires opened (sv_Shutdown V server d) (\<lambda>_. {})"
      "opened (snd (sv_GracefulStop V d s)) = opened s" "opened (sv_Stop V s) = opened s"
begin

lemma loses_launch: "loses opened R (perform (launch P V server addr))"
  by (rule loses_perform) (simp add: launch_def started logger(3))

lemma loses_shutdown: "loses opened R (shutdown_server V server d)"
  unfolding loses_def
proof (intro allI impI)
  fix s r t
  assume run: "shutdown_server V server d s = (r, t)"
  obtain r1 s1 where m: "sv_Shutdown V server d s = (r1, s1)" by fastforce
  from stopping(1) [unfolded acquires_def, rule_format, OF m] have "opened s1 = opened s"
    by (cases r1) simp_all
  moreover have "t = s1"
    using run m by (cases r1) (simp_all add: shutdown_server_def split: option.splits)
  ultimately show "opened s - R \<subseteq> opened t \<and> opened t \<subseteq> opened s" by auto
qed

lemma loses_await: "loses opened R (await_end P V)"
  unfolding loses_def
proof (intro allI impI)
  fix s r t
  assume run: "await_end P V s = (r, t)"
  obtain ev s1 where sel: "sv_Select V s = (ev, s1)" by fastforce
  with selecting(1) [of s] have s1: "opened s1 = opened s" by simp
  have "t = s1 \<or> t = pf_LogInfo P ''shutdown signal received'' [] s1"
    using run sel by (cases ev) (simp_all add: await_end_def split: option.splits)
  with s1 logger(3) show "opened s - R \<subseteq> opened t \<and> opened t \<subseteq> opened s" by auto
qed

lemma loses_rpc_await: "loses opened {Listener l} (rpc_await P V l)"
  unfolding loses_def
proof (intro allI impI)
  fix s r t
  assume run: "rpc_await P V l s = (r, t)"
  obtain ev s1 where sel: "sv_Select V s = (ev, s1)" by fastforce
  with selecting(1) [of s] have s1: "opened s1 = opened s" by simp
  show "opened s - {Listener l} \<subseteq> opened t \<and> opened t \<subseteq> opened s"
  proof (cases ev)
    case (ServerReport err)
    with run sel s1 show ?thesis by (auto simp: rpc_await_def split: option.splits)
  next
    case SignalReceived
    let ?s2 = "ignoring (sv_CloseListener V l) (pf_LogInfo P ''shutdown signal received'' [] s1)"
    obtain err s3 where rcv: "sv_Receive V ?s2 = (err, s3)" by fastforce
    with selecting(2) [of ?s2] have "opened s3 = opened s - {Listener l}"
      by (simp add: listening(2) logger(3) s1)
    with run sel rcv SignalReceived show ?thesis
      by (auto simp: rpc_await_def split: option.splits)
  qed
qed

lemmas loses_steps = loses_bind loses_launch loses_shutdown loses_await

lemma load_then: "(\<And>cfg. Load v = Ok cfg \<Longrightarrow> loses opened R (f cfg)) \<Longrightarrow> loses opened R (bind (lift (Load v)) f)"
  by (cases "Load v") (simp_all add: bind_lift_Ok, simp_all add: loses_def bind_def lift_def)

lemma listener_then:
  assumes "\<And>l. loses opened {Listener l} (body l)"
  shows "loses opened R (bind (sv_Listen V addr) (\<lambda>l. deferring (ignoring (sv_CloseListener V l)) (body l)))"
  by (rule deferring_closes [OF listening(1)]) (simp_all add: listening(2) assms)

lemma runtime_then:
  assumes "in_CorsInvalid I (router_cors (cfg_CORSAllowedOrigins cfg)) = None"
    and "\<And>rt. loses opened (runtime_holds rt) (body rt)"
  shows "loses opened R
    (bind (Bootstrap G X I P cfg) (\<lambda>rt. deferring (\<lambda>s. snd (Close P rt s)) (body rt)))"
  by (rule deferring_closes [OF bootstrap]) (simp_all add: close assms)

lemma api_closes:
  assumes "origins_valid I v" shows "loses opened {} (api_run G X I P V v)"
  unfolding api_run_def using assms
  by (intro load_then runtime_then loses_steps) (rule origins_validD)

lemma grpc_closes:
  assumes "origins_valid I v" shows "loses opened {} (grpc_run G X I P V v)"
  unfolding grpc_run_def using assms
  by (intro load_then runtime_then listener_then loses_steps loses_get_with loses_perform)
    (simp_all add: stopping origins_validD)

lemma rpc_closes:
  assumes "origins_valid I v" shows "loses opened {} (rpc_run G X I P V v)"
  unfolding rpc_run_def using assms
  by (intro load_then runtime_then listener_then loses_steps loses_rpc_await) (rule origins_validD)

lemma migrate_closes: "loses opened {} (migrate_run P v osArgs)"
proof -
  have "acquires opened (OpenSQLDB P u) (\<lambda>h. {DB h})" for u
    unfolding OpenSQLDB_def by (rule acquires_wrapping) (rule sql(1))
  moreover have "acquires opened (RunGoose P db dir command) (\<lambda>_. {})" for db dir command
    by (auto simp: RunGoose_def goose acquires_throw split: option.splits)
  ultimately show ?thesis
    unfolding migrate_run_def Let_def
    by (intro load_then deferring_closes loses_acquires [OF acquires_wrapping]) auto
qed

end

end
