(* ===== verification/Memory_Inbound.thy ===== *)
theory Memory_Inbound
  imports Outcomes Commands
begin

text \<open>
  The contracts of the inbound side and of the process hold together: the framework's context is
  its view, the other libraries work on the world of the theory \<open>Memory\<close>. The witnesses run the
  transports and the commands on these instances.
\<close>

section \<open>The inbound libraries\<close>

text \<open>Identifiers: 26 characters of Crockford's alphabet.\<close>

definition mem_parse_ulid :: "string \<Rightarrow> go_error option" where
  "mem_parse_ulid raw =
     (if length raw \<noteq> 26 then Some (PlainError ''ulid: bad data size when unmarshaling'')
      else if \<exists>c \<in> set raw. c \<notin> set ''0123456789ABCDEFGHJKMNPQRSTVWXYZ''
      then Some (PlainError ''ulid: bad data characters when unmarshaling'')
      else None)"

text \<open>Bodies are fields between bars; a field that is required and missing is reported.\<close>

definition body_fields :: "go_error + string \<Rightarrow> (bind_error, string list) result" where
  "body_fields body = (case body of Inl e \<Rightarrow> Err (OtherError e) | Inr b \<Rightarrow> Ok (split_on CHR ''|'' b))"

definition mem_binding :: request_binding where
  "mem_binding =
     \<lparr>bn_Rates = (\<lambda>q. case split_on CHR ''|'' q of
          [base, quotes] \<Rightarrow> Ok \<lparr>gq_Base = base, gq_Quotes = quotes\<rparr>
        | _ \<Rightarrow> Err (ValidationErrors [(''Base'', ''required'')])),
      bn_Quote = (\<lambda>b. bind_result (body_fields b) (\<lambda>fs. case fs of
          [currency, amount, target] \<Rightarrow>
            (case read_digits 0 amount of
               Some n \<Rightarrow> Ok \<lparr>cqr_BaseAmount = \<lparr>mq_Currency = currency, mq_MinorUnits = int n\<rparr>,
                            cqr_QuoteCurrency = target\<rparr>
             | None \<Rightarrow> Err (OtherError (PlainError ''invalid character'')))
        | _ \<Rightarrow> Err (ValidationErrors [(''BaseAmount'', ''required'')]))),
      bn_Conversion = (\<lambda>b. bind_result (body_fields b) (\<lambda>fs. case fs of
          [qid, pay, tra] \<Rightarrow> Ok \<lparr>ccr_QuoteID = qid, ccr_PaymentProvider = pay, ccr_TransferProvider = tra\<rparr>
        | _ \<Rightarrow> Err (ValidationErrors [(''QuoteID'', ''required'')]))),
      bn_Webhook = (\<lambda>b. bind_result (body_fields b) (\<lambda>fs. case fs of
          [prov, ev, cid, ty] \<Rightarrow> Ok \<lparr>wr_Provider = prov, wr_ExternalEventID = ev, wr_ConversionID = cid,
            wr_EventType = ty, wr_ExternalReference = None, wr_OccurredAt = None\<rparr>
        | _ \<Rightarrow> Err (ValidationErrors [(''Provider'', ''required'')])))\<rparr>"

text \<open>A path matches a pattern segment by segment; a segment after a colon is a parameter.\<close>

fun match_segments :: "string list \<Rightarrow> string list \<Rightarrow> (string \<times> string) list option" where
  "match_segments [] [] = Some []"
| "match_segments (p # ps) (x # xs) =
     (case match_segments ps xs of
        None \<Rightarrow> None
      | Some binds \<Rightarrow>
          if take 1 p = '':'' then Some ((drop 1 p, x) # binds) else if p = x then Some binds else None)"
| "match_segments _ _ = None"

fun match_routes :: "nat \<Rightarrow> (string \<times> string) list \<Rightarrow> string \<Rightarrow> string \<Rightarrow> (nat \<times> (string \<Rightarrow> string)) option" where
  "match_routes n [] verb path = None"
| "match_routes n ((m, pattern) # routes) verb path =
     (case (if m = verb then match_segments (split_on CHR ''/'' pattern) (split_on CHR ''/'' path) else None) of
        Some binds \<Rightarrow> Some (n, \<lambda>k. case map_of binds k of Some v \<Rightarrow> v | None \<Rightarrow> [])
      | None \<Rightarrow> match_routes (Suc n) routes verb path)"

definition mem_inbound :: "(gin_view, world) inbound" where
  "mem_inbound =
     \<lparr>in_ParseStrict = mem_parse_ulid, in_MAC = (\<lambda>secret body. secret @ body),
      in_UUID = (\<lambda>s. (''generated'', s)), in_Binding = mem_binding,
      in_Info = (\<lambda>logger message kvs. mem_info message (logger @ kvs)),
      in_LogError = (\<lambda>logger message kvs. mem_info message (logger @ kvs)),
      in_Ping = (\<lambda>s. (Ok (), s)), in_Match = match_routes 0,
      in_CorsInvalid = (\<lambda>k. if cors_AllowOrigins k = [] then Some ''all origins disabled'' else None),
      in_Cors = (\<lambda>_ next. next)\<rparr>"

lemma match_routes_bound: "match_routes n routes verb path = Some (i, ps) \<Longrightarrow> i < n + length routes"
  by (induction n routes verb path rule: match_routes.induct) (auto split: option.splits if_splits)

lemma body_fields_no_panic: "body_fields b \<noteq> Panic p"
  by (simp add: body_fields_def split: sum.splits)

lemma mem_binding_values:
  "\<not> is_panic (bn_Rates mem_binding q)" "\<not> is_panic (bn_Quote mem_binding b)"
  "\<not> is_panic (bn_Conversion mem_binding b)" "\<not> is_panic (bn_Webhook mem_binding b)"
proof -
  show "\<not> is_panic (bn_Rates mem_binding q)"
    by (auto simp: mem_binding_def split: list.splits)
  show "\<not> is_panic (bn_Quote mem_binding b)" "\<not> is_panic (bn_Conversion mem_binding b)"
    "\<not> is_panic (bn_Webhook mem_binding b)"
    using body_fields_no_panic [of b]
    by (cases "body_fields b"; auto simp: mem_binding_def split: list.splits option.splits)+
qed

lemma mem_inbound_contract:
  "fx_inbound mem_libraries mem_columns w_db w_snap (\<lambda>_. True) view_gin (\<lambda>v. v) mem_inbound fresh_view"
proof (intro fx_inbound.intro fx_inbound_axioms.intro mem_system view_gin_contract, goal_cases)
  case (1 s i t) then show ?case by (simp add: mem_inbound_def)
next
  case (2 s g l m kvs) then show ?case by (auto simp: mem_inbound_def mem_info_def)
next
  case (3 s u t) then show ?case by (auto simp: mem_inbound_def)
next
  case (4 q) show ?case using mem_binding_values by (simp add: mem_inbound_def)
next
  case (5 b) show ?case using mem_binding_values by (simp add: mem_inbound_def)
next
  case (6 b) show ?case using mem_binding_values by (simp add: mem_inbound_def)
next
  case (7 b) show ?case using mem_binding_values by (simp add: mem_inbound_def)
next
  case (8 routes verb path n ps)
  then show ?case using match_routes_bound [of 0] by (fastforce simp: mem_inbound_def)
qed (auto simp: mem_inbound_def)

interpretation mem_inbound: fx_inbound mem_libraries mem_columns w_db w_snap "\<lambda>_. True" default_config
  view_gin "\<lambda>v. v" mem_inbound fresh_view
  by (rule mem_inbound_contract)

section \<open>The process\<close>

text \<open>A library call fails when the schedule of faults says so; what is open is a list.\<close>

definition or_fault :: "(world \<Rightarrow> 'a \<times> world) \<Rightarrow> (world, 'a) io" where
  "or_fault op s =
     (case w_faults s of
        True # fs \<Rightarrow> (Err (PlainError ''connection refused''), s\<lparr>w_faults := fs\<rparr>)
      | fs \<Rightarrow> (case op (s\<lparr>w_faults := tl fs\<rparr>) of (x, s') \<Rightarrow> (Ok x, s')))"

fun handle_of :: "resource \<Rightarrow> nat" where
  "handle_of (Pool n) = n"
| "handle_of (DB n) = n"
| "handle_of (Listener n) = n"

definition fresh_handle :: "world \<Rightarrow> nat" where
  "fresh_handle s = Suc (sum_list (map handle_of (w_open s)))"

definition open_new :: "(nat \<Rightarrow> resource) \<Rightarrow> world \<Rightarrow> nat \<times> world" where
  "open_new kind s = (fresh_handle s, s\<lparr>w_open := kind (fresh_handle s) # w_open s\<rparr>)"

definition close_it :: "resource \<Rightarrow> world \<Rightarrow> world" where
  "close_it r s = s\<lparr>w_open := filter (\<lambda>x. x \<noteq> r) (w_open s)\<rparr>"

abbreviation mem_open :: "world \<Rightarrow> resource set" where
  "mem_open s \<equiv> set (w_open s)"

definition no_op :: "world \<Rightarrow> unit \<times> world" where "no_op s = ((), s)"

definition mem_platform :: "world platform" where
  "mem_platform =
     \<lparr>pf_UnmarshalLevel = Ok, pf_BuildLogger = (\<lambda>_. or_fault no_op), pf_SyncLogger = or_fault no_op,
      pf_LogInfo = mem_info, pf_RegisterCollector = (\<lambda>_. or_fault no_op),
      pf_ParsePoolConfig = (\<lambda>u. Ok \<lparr>pcf_URL = u, pcf_MaxConns = 4, pcf_MinConns = 0\<rparr>),
      pf_NewPool = (\<lambda>_. or_fault (open_new Pool)), pf_PoolPing = (\<lambda>_. or_fault no_op),
      pf_PoolClose = (\<lambda>p. close_it (Pool p)), pf_GormOpen = (\<lambda>_. or_fault (open_new DB)),
      pf_GormDB = (\<lambda>g s. (Ok g, s)), pf_SetMaxOpenConns = (\<lambda>_ _ s. s), pf_SetMaxIdleConns = (\<lambda>_ _ s. s),
      pf_SQLOpen = (\<lambda>_ _. or_fault (open_new DB)), pf_SQLPing = (\<lambda>_. or_fault no_op),
      pf_SQLClose = (\<lambda>h s. (Ok (), close_it (DB h) s)), pf_RegisterName = (\<lambda>_. None),
      pf_GooseDialect = (\<lambda>_. None), pf_Goose = (\<lambda>_ _ _. or_fault no_op)\<rparr>"

definition mem_servers :: "world servers" where
  "mem_servers =
     \<lparr>sv_Start = (\<lambda>_ _ s. s), sv_Listen = (\<lambda>_. or_fault (open_new Listener)),
      sv_CloseListener = (\<lambda>l s. (Ok (), close_it (Listener l) s)),
      sv_Select = (\<lambda>s. (SignalReceived, s)), sv_Receive = (\<lambda>s. (None, s)),
      sv_Shutdown = (\<lambda>_ _. or_fault no_op), sv_GracefulStop = (\<lambda>_ s. (True, s)), sv_Stop = (\<lambda>s. s),
      sv_IsServerClosed = (\<lambda>e. error_text e = ''http: Server closed'')\<rparr>"

lemma fresh_handle_new: "r \<in> set (w_open s) \<Longrightarrow> handle_of r \<noteq> fresh_handle s"
  using member_le_sum_list [of "handle_of r" "map handle_of (w_open s)"]
  by (auto simp: fresh_handle_def)

lemma or_fault_cases:
  "or_fault op s = (r, t) \<Longrightarrow>
     (\<exists>e fs. r = Err e \<and> t = s\<lparr>w_faults := fs\<rparr>) \<or> (\<exists>fs x. op (s\<lparr>w_faults := fs\<rparr>) = (x, t) \<and> r = Ok x)"
  by (auto simp: or_fault_def split: list.splits bool.splits prod.splits)

lemma acquires_no_op: "acquires mem_open (or_fault no_op) (\<lambda>_. {})"
  unfolding acquires_def by (auto dest!: or_fault_cases simp: no_op_def)

lemma acquires_open_new:
  assumes "\<And>n. handle_of (kind n) = n"
  shows "acquires mem_open (or_fault (open_new kind)) (\<lambda>h. {kind h})"
  unfolding acquires_def
proof (intro allI impI)
  fix s r t
  assume "or_fault (open_new kind) s = (r, t)"
  from or_fault_cases [OF this] fresh_handle_new [of _ s] assms
  show "\<not> is_panic r \<and> (case r of
      Ok x \<Rightarrow> {kind x} \<inter> mem_open s = {} \<and> mem_open t = mem_open s \<union> {kind x}
    | _ \<Rightarrow> mem_open t = mem_open s)"
    by (force simp: open_new_def fresh_handle_def)
qed

lemma mem_process: "process_contract mem_platform mem_open (\<lambda>g. g) mem_servers"
  by unfold_locales
    (auto simp: mem_platform_def mem_servers_def acquires_no_op acquires_open_new mem_info_def close_it_def
      ignoring_def)

interpretation mem_process: process_contract mem_platform mem_open "\<lambda>g. g" mem_servers
  by (rule mem_process)

section \<open>The servers\<close>

definition mem_engine :: "(gin_view, world) engine" where
  "mem_engine =
     router_engine view_gin mem_libraries mem_inbound (Some (lib_telemetry mem_libraries))
       (cfg_CORSAllowedOrigins default_config)
       (handler_deps mem_usecases (system_providers mem_libraries default_config))"

lemma mem_cors_valid: "in_CorsInvalid mem_inbound (router_cors (cfg_CORSAllowedOrigins default_config)) = None"
proof -
  have "cfg_CORSAllowedOrigins default_config \<noteq> []" by code_simp
  then show ?thesis by (simp add: mem_inbound_def router_cors_def)
qed

lemma mem_origins_valid: "origins_valid mem_inbound default_viper"
  using Load_Ok mem_cors_valid by (auto simp: origins_valid_def default_config_def)

lemma mem_engine_Ok:
  "NewRouter view_gin mem_libraries mem_inbound (Some (lib_telemetry mem_libraries))
     (cfg_CORSAllowedOrigins default_config)
     (handler_deps mem_usecases (system_providers mem_libraries default_config)) = Ok mem_engine"
  by (simp add: NewRouter_Ok mem_engine_def mem_cors_valid)

definition mem_grpc :: "(world, decimal) GRPCServer" where
  "mem_grpc = Grpc_NewServer mem_usecases (Some (lib_telemetry mem_libraries))"

definition mem_rpc :: "(world, decimal) rpc_server" where
  "mem_rpc = the_ok (Rpc_NewServer (\<lambda>_. None) mem_usecases (Some (lib_telemetry mem_libraries)))"

lemma mem_rpc_Ok:
  "Rpc_NewServer (\<lambda>_. None) mem_usecases (Some (lib_telemetry mem_libraries)) = Ok mem_rpc"
  by (simp add: mem_rpc_def the_ok_def Rpc_NewServer_def Let_def)

definition mem_serve :: "request \<Rightarrow> world \<Rightarrow> world" where
  "mem_serve = serve_request mem_libraries default_config mem_inbound fresh_view mem_usecases mem_engine
     mem_grpc mem_rpc"

text \<open>Requests of the witnesses: accepting the quote of the scenario, and a forged webhook.\<close>

definition accept_post :: http_request where
  "accept_post =
     \<lparr>rq_Method = ''POST'', rq_Path = ''/api/v1/conversions'', rq_Query = [],
      rq_Header = (\<lambda>k. if k = ''Idempotency-Key'' then ''accept-1'' else if k = ''X-Request-ID'' then ''req-7'' else []),
      rq_Body = Inr (mem_id 1 @ ''|toss|wise''), rq_ClientIP = ''10.0.0.1'', rq_FullPath = [],
      rq_Params = (\<lambda>_. [])\<rparr>"

definition forged_post :: http_request where
  "forged_post =
     \<lparr>rq_Method = ''POST'', rq_Path = ''/api/v1/webhooks/payments'', rq_Query = [],
      rq_Header = (\<lambda>k. if k = ''X-Webhook-Signature'' then ''00'' else []),
      rq_Body = Inr ''toss|evt-1|x|payment.succeeded'', rq_ClientIP = ''10.0.0.1'', rq_FullPath = [],
      rq_Params = (\<lambda>_. [])\<rparr>"

lemma mem_routes: "map fst (en_routes mem_engine) =
  [(''GET'', ''/api/v1/rates''), (''POST'', ''/api/v1/quotes''), (''POST'', ''/api/v1/conversions''),
   (''GET'', ''/api/v1/conversions/:conversionId''), (''POST'', ''/api/v1/webhooks/payments''),
   (''POST'', ''/api/v1/webhooks/transfers''), (''GET'', ''/health''), (''GET'', ''/ready'')]"
  by (simp add: mem_engine_def router_engine_def RegisterRoutes_def health_RegisterRoutes_def)

lemma accept_matches: "\<exists>ps. in_Match mem_inbound (map fst (en_routes mem_engine))
    (rq_Method accept_post) (rq_Path accept_post) = Some (2, ps)"
  by (simp add: mem_routes mem_inbound_def accept_post_def)

lemma forged_matches: "\<exists>ps. in_Match mem_inbound (map fst (en_routes mem_engine))
    (rq_Method forged_post) (rq_Path forged_post) = Some (4, ps)"
  by (simp add: mem_routes mem_inbound_def forged_post_def)

lemma default_secret: "cfg_PaymentWebhookSecret default_config = ''payment-dev-secret''"
  by code_simp

lemma show_padded_digits: "c \<in> set (show_padded k n) \<Longrightarrow> c \<in> set ''0123456789''"
proof (induction k arbitrary: n)
  case (Suc k)
  have "digit_char (n mod 10) \<in> set ''0123456789''"
    unfolding digit_char_def by (rule nth_mem) simp
  moreover have "c \<in> set (show_padded k (n div 10)) \<or> c = digit_char (n mod 10)"
    using Suc.prems by auto
  ultimately show ?case using Suc.IH by blast
qed simp

lemma mem_id_parses: "mem_parse_ulid (mem_id n) = None"
proof -
  have "c \<in> set ''0123456789ABCDEFGHJKMNPQRSTVWXYZ''" if "c \<in> set (mem_id n)" for c
    using show_padded_digits [of c 26 n] that by (auto simp: mem_id_def)
  then show ?thesis by (auto simp: mem_parse_ulid_def mem_id_def simp del: list.set insert_iff)
qed

lemma split_on_plain: "sep \<notin> set p \<Longrightarrow> split_on sep (p @ sep # rest) = p # split_on sep rest"
  by (induction p) auto

lemma split_on_mem_id: "split_on CHR ''|'' (mem_id n @ CHR ''|'' # rest) = mem_id n # split_on CHR ''|'' rest"
  using show_padded_digits [of "CHR ''|''" 26 n] by (intro split_on_plain) (auto simp: mem_id_def)

end
