(* ===== verification/Transport_Properties.thy ===== *)
theory Transport_Properties
  imports Memory_Inbound
begin

text \<open>
  The properties of the transports, of starting and of stopping, each with an instance on the
  engine in memory.
\<close>

section \<open>The invariant over the transports\<close>

text \<open>C8. Whatever requests arrive, over HTTP, gRPC or RPC, well formed or not, in whatever order,
  interleaved with rate synchronisations and outbox passes and with whatever failures of the
  database: from a sound state only sound states are reached, and the ledger stays balanced.\<close>

theorem requests_keep_ledger:
  assumes "fx_inbound X C view snap okE G see I fresh" "system_usecases X cfg = Ok us"
    and "Rpc_NewServer register us (Some (lib_telemetry X)) = Ok srv"
    and "NewRouter G X I (Some (lib_telemetry X)) (cfg_CORSAllowedOrigins cfg)
      (handler_deps us (system_providers X cfg)) = Ok e"
    and "sys_sound X C view snap okE s"
    and "request_run (serve_request X cfg I fresh us e (Grpc_NewServer us (Some (lib_telemetry X))) srv) s t"
  shows "sys_sound X C view snap okE t"
  using assms(4,6) by (simp add: NewRouter_Ok request_run_sound [OF assms(1-3) _ assms(5)])

theorem requests_keep_ledger_witness:
  "mem_sound (mem_serve (Rpc (RpcGetConversion \<lparr>pgc_ConversionID = mem_id 2\<rparr>))
     (mem_serve (Http accept_post) (start db1 2 [True, False])))"
proof (rule requests_keep_ledger [OF mem_inbound_contract mem_usecases_Ok mem_rpc_Ok mem_engine_Ok sound1])
  show "request_run (serve_request mem_libraries default_config mem_inbound fresh_view mem_usecases mem_engine
      (Grpc_NewServer mem_usecases (Some (lib_telemetry mem_libraries))) mem_rpc)
    (start db1 2 [True, False])
    (mem_serve (Rpc (RpcGetConversion \<lparr>pgc_ConversionID = mem_id 2\<rparr>))
      (mem_serve (Http accept_post) (start db1 2 [True, False])))"
    unfolding mem_serve_def mem_grpc_def by (intro request_run.intros) simp_all
qed

section \<open>Answers\<close>





text \<open>C17. A handler that panics leaves the caller with an empty response of status 200, counted as a
  success: the recovering middleware stands outside the one that writes errors, and the outermost
  one sets the status of a response nobody wrote.\<close>

theorem panic_answers_empty_success:
  assumes "fx_inbound X C view snap okE G see I fresh"
    and "rq_Header rq ''Origin'' = []" "\<And>x. \<exists>y. steps rq x = (Panic p, y)"
    and "router_chain G I (lib_now X) (Some (lib_telemetry X)) origins (respond G (lib_now X) steps)
      (fresh rq 200, s) = (out, c, t)"
  shows "out = None \<and> gv_status (see c) = 200 \<and> gv_body (see c) = None \<and>
    (\<exists>d s'. t = tm_RecordInboundRequest (lib_telemetry X) ''http'' (http_operation rq) ''success'' d s')"
proof -
  let ?c = "fresh rq 200"
  have see: "gv_request (see ?c) = rq" "gv_errors (see ?c) = []" "gv_body (see ?c) = None"
    "gv_status (see ?c) = 200"
    by (simp_all add: fx_inbound.fresh_is [OF assms(1)] fresh_view_def)
  obtain rid s1 where rid: "request_id I rq s = (rid, s1)" by fastforce
  obtain t1 s2 where c1: "lib_now X s1 = (t1, s2)" by fastforce
  obtain t2 s3 where c2: "lib_now X s2 = (t2, s3)" by fastforce
  from assms(3) obtain s4 where r: "steps rq s3 = (Panic p, s4)" by blast
  have "\<exists>c2 d s5 now. router_chain G I (lib_now X) (Some (lib_telemetry X)) origins
        (respond G (lib_now X) steps) (?c, s) =
      (None, c2, tm_RecordInboundRequest (lib_telemetry X) ''http'' (http_operation (gv_request (see ?c)))
                   (classifyHTTPOutcome (http_status_of (Panic p :: response_data res))) d s5) \<and>
    gv_status (see c2) = http_status_of (Panic p :: response_data res) \<and>
    gv_body (see c2) = http_body_of rid now (Panic p) \<and>
    gv_headers (see c2) = gv_headers (see ?c) @ [(requestIDHeader, rid)] \<and>
    fx_inbound.reaches view snap okE s4 s5"
    by (rule fx_inbound.chain_respond [OF assms(1) _ _ _ _ _ c1 c2, where s = s])
      (simp_all add: see assms(2) rid r)
  then show ?thesis
    using assms(4) see(1) by (auto simp: http_status_of_def http_body_of_def classifyHTTPOutcome_def)
qed

theorem panic_answers_empty_success_witness:
  "\<exists>out c t. router_chain view_gin mem_inbound mem_now (Some (lib_telemetry mem_libraries)) []
       (respond view_gin mem_now (\<lambda>_ s. (Panic ''index out of range'', s)))
       (fresh_view accept_post 200, start db1 2 []) = (out, c, t) \<and> gv_status c = 200 \<and> gv_body c = None"
proof -
  let ?run = "router_chain view_gin mem_inbound mem_now (Some (lib_telemetry mem_libraries)) []
       (respond view_gin mem_now (\<lambda>_ s. (Panic ''index out of range'', s)))
       (fresh_view accept_post 200, start db1 2 [])"
  have origin: "rq_Header accept_post ''Origin'' = []" by (simp add: accept_post_def)
  have run: "?run = (fst ?run, fst (snd ?run), snd (snd ?run))" by simp
  from panic_answers_empty_success [OF mem_inbound_contract origin, unfolded mem_libraries_simps, OF _ run] run
  show ?thesis by blast
qed

section \<open>One outcome behind three transports\<close>

text \<open>C15. The three transports put every error into the same class, client's or server's: by the HTTP
  status of its code, by its gRPC status code, and by its code for RPC.\<close>

theorem error_classes_agree:
  "classifyHTTPOutcome (httpStatusFor (app_code (as_app_error err))) = classifyRPCOutcome (Some err) \<and>
   classifyGRPCOutcome (status_Code (Err (mapError err) :: (grpc_status, unit) result)) =
     classifyRPCOutcome (Some err)"
  by (simp add: classifyHTTPOutcome_def httpStatusFor_def classifyRPCOutcome_def classifyGRPCOutcome_def
      mapError_def Let_def Errors.code_defs)







text \<open>C16. No gRPC or RPC call panics: neither server recovers from a panic, which would end the
  process.\<close>

theorem methods_never_panic:
  assumes "fx_inbound X C view snap okE G see I fresh" "system_usecases X cfg = Ok us"
    and "Rpc_NewServer register us (Some (lib_telemetry X)) = Ok srv"
    and "sys_sound X C view snap okE s"
    and "grpc_serve X (in_ParseStrict I) (Grpc_NewServer us (Some (lib_telemetry X))) md greq s = (gr, gt)"
    and "rpc_serve X (in_ParseStrict I) srv rreq s = (rr, rt)"
  shows "\<not> is_panic gr \<and> \<not> is_panic rr"
  using fx_inbound.grpc_keeps [OF assms(1,2,4,5)] fx_inbound.rpc_keeps [OF assms(1,2,4,3,6)] by blast

theorem methods_never_panic_witness:
  "\<not> is_panic (fst (grpc_serve mem_libraries (in_ParseStrict mem_inbound)
       (Grpc_NewServer mem_usecases (Some (lib_telemetry mem_libraries))) None
       (GrpcGetRates \<lparr>grq_Base = ''USD'', grq_Quotes = [''KRW'', ''KRW'']\<rparr>) (start db1 2 [True]))) \<and>
   \<not> is_panic (fst (rpc_serve mem_libraries (in_ParseStrict mem_inbound) mem_rpc
       (RpcGetConversion \<lparr>pgc_ConversionID = mem_id 9\<rparr>) (start db1 2 [True])))"
  by (rule methods_never_panic [OF mem_inbound_contract mem_usecases_Ok mem_rpc_Ok sound1 prod.collapse [symmetric]
        prod.collapse [symmetric]])

section \<open>Starting and stopping\<close>

text \<open>C11. Bootstrap is all or nothing, when the cross-origin settings are ones its library
  accepts: it never panics, when it fails every connection it had opened
  is closed again, and when it succeeds exactly the pool and the connection of the runtime are
  open besides what was; closing the runtime then closes exactly these.\<close>

theorem bootstrap_all_or_nothing:
  assumes "platform_contract P opened connection"
    and "in_CorsInvalid I (router_cors (cfg_CORSAllowedOrigins cfg)) = None"
    and "Bootstrap G X I P cfg s = (r, t)"
  shows "case r of
      Ok rt \<Rightarrow> runtime_holds rt \<inter> opened s = {} \<and> opened t = opened s \<union> runtime_holds rt \<and>
        opened (snd (Close P rt t)) = opened s
    | Err e \<Rightarrow> opened t = opened s
    | Panic p \<Rightarrow> False"
  using platform_contract.bootstrap [OF assms(1,2), unfolded acquires_def, rule_format, OF assms(3)]
  by (cases r) (auto simp: platform_contract.close [OF assms(1)])

theorem bootstrap_all_or_nothing_witness:
  "\<exists>e t. Bootstrap view_gin mem_libraries mem_inbound mem_platform default_config
       (start empty_db 1 [False, False, False, False, False, False, False, False, False, False, True]) =
     (Err e, t) \<and> mem_open t = {}"
proof -
  let ?s = "start empty_db 1 [False, False, False, False, False, False, False, False, False, False, True]"
  have "\<exists>e t. Bootstrap view_gin mem_libraries mem_inbound mem_platform default_config ?s = (Err e, t)"
    by (simp add: Bootstrap_def bind_def or_else_def logger_New_def NewPrometheusStack_def newTelemetry_def
        telemetry_collectors_def NewPGXPool_def wrapping_def lift_def mem_platform_def or_fault_def no_op_def
        ret_def start_def world_of_def open_new_def fresh_handle_def)
  then obtain e t where run: "Bootstrap view_gin mem_libraries mem_inbound mem_platform default_config ?s = (Err e, t)"
    by blast
  from bootstrap_all_or_nothing [OF process_contract.axioms(1) [OF mem_process] mem_cors_valid run] run show ?thesis
    by (auto simp: start_def world_of_def)
qed



end
