(* ===== verification/Json.thy ===== *)
theory Json
  imports Payloads
begin

text \<open>
  Reading JSON as \<open>encoding/json\<close> does: the text is a value with nothing but white space behind
  it, nested at most 10000 deep; bytes of a string that are not UTF-8 and surrogates that are no
  pair become U+FFFD. Where and why a text is refused is left out. The writer of strings is in
  \<open>Payloads\<close>; what it writes of a UTF-8 string is read back as that string.
\<close>

section \<open>Runes\<close>

definition utf8_rune :: "nat \<Rightarrow> string" where
  "utf8_rune r =
     (if r < 128 then [char_of r]
      else if r < 2048 then [char_of (192 + r div 64), char_of (128 + r mod 64)]
      else if r < 65536
      then [char_of (224 + r div 4096), char_of (128 + r div 64 mod 64), char_of (128 + r mod 64)]
      else [char_of (240 + r div 262144), char_of (128 + r div 4096 mod 64),
            char_of (128 + r div 64 mod 64), char_of (128 + r mod 64)])"

definition replacement_rune :: nat where "replacement_rune = 65533"

definition hex_value :: "char \<Rightarrow> nat option" where
  "hex_value c = map_of (zip ''0123456789abcdef'' [0..<16] @ zip ''ABCDEF'' [10..<16]) c"

fun hex4 :: "string \<Rightarrow> (nat \<times> string) option" where
  "hex4 (a # b # c # d # s) =
     (case (hex_value a, hex_value b, hex_value c, hex_value d) of
        (Some i, Some j, Some k, Some l) \<Rightarrow> Some (((i * 16 + j) * 16 + k) * 16 + l, s)
      | _ \<Rightarrow> None)"
| "hex4 _ = None"

text \<open>The second half of a surrogate pair, when it follows.\<close>

definition low_surrogate :: "string \<Rightarrow> (nat \<times> string) option" where
  "low_surrogate s =
     (if take 2 s = [CHR 0x5C, CHR ''u'']
      then (case hex4 (drop 2 s) of
              Some (r, rest) \<Rightarrow> if 56320 \<le> r \<and> r < 57344 then Some (r, rest) else None
            | None \<Rightarrow> None)
      else None)"

definition escaped_rune :: "string \<Rightarrow> (string \<times> string) option" where
  "escaped_rune s =
     (case hex4 s of
        None \<Rightarrow> None
      | Some (r, rest) \<Rightarrow>
          if 55296 \<le> r \<and> r < 57344
          then (case (if r < 56320 then low_surrogate rest else None) of
                  Some (r', rest') \<Rightarrow> Some (utf8_rune ((r - 55296) * 1024 + (r' - 56320) + 65536), rest')
                | None \<Rightarrow> Some (utf8_rune replacement_rune, rest))
          else Some (utf8_rune r, rest))"

definition simple_escape :: "char \<Rightarrow> char option" where
  "simple_escape c =
     map_of [(CHR 0x22, CHR 0x22), (CHR 0x5C, CHR 0x5C), (CHR ''/'', CHR ''/''), (CHR ''b'', CHR 0x08),
       (CHR ''f'', CHR 0x0C), (CHR ''n'', CHR 0x0A), (CHR ''r'', CHR 0x0D), (CHR ''t'', CHR 0x09)] c"

text \<open>One element of a string: an escape, or the bytes of a rune.\<close>

fun string_item :: "string \<Rightarrow> (string \<times> string) option" where
  "string_item [] = None"
| "string_item (c # cs) =
     (if c = CHR 0x5C
      then (case cs of
              [] \<Rightarrow> None
            | e # es \<Rightarrow> if e = CHR ''u'' then escaped_rune es
                      else map_option (\<lambda>x. ([x], es)) (simple_escape e))
      else if (of_char c :: nat) < 32 then None
      else (let n = utf8_len (c # cs)
            in if n = 0 then Some (utf8_rune replacement_rune, cs)
               else Some (take n (c # cs), drop n (c # cs))))"

lemma hex4_shorter: "hex4 s = Some (r, rest) \<Longrightarrow> length rest < length s"
  by (cases s rule: hex4.cases) (auto split: option.splits)

lemma low_surrogate_shorter: "low_surrogate s = Some (r, rest) \<Longrightarrow> length rest < length s"
  using hex4_shorter [of "drop 2 s"]
  by (fastforce simp: low_surrogate_def split: if_splits option.splits)

lemma escaped_rune_shorter: "escaped_rune s = Some (x, rest) \<Longrightarrow> length rest < length s"
  using hex4_shorter low_surrogate_shorter
  by (fastforce simp: escaped_rune_def split: if_splits option.splits dest: less_trans)

lemma string_item_shorter: "string_item s = Some (x, rest) \<Longrightarrow> length rest < length s"
  using escaped_rune_shorter
  by (cases s) (fastforce simp: Let_def simp del: utf8_len.simps split: if_splits option.splits list.splits)+

definition prepend :: "'a list \<Rightarrow> ('a list \<times> string) option \<Rightarrow> ('a list \<times> string) option" where
  "prepend x m = map_option (\<lambda>(y, rest). (x @ y, rest)) m"

text \<open>A string after its opening quote.\<close>

function read_string :: "string \<Rightarrow> (string \<times> string) option" where
  "read_string s =
     (if s \<noteq> [] \<and> hd s = CHR 0x22 then Some ([], tl s)
      else (case string_item s of
              None \<Rightarrow> None
            | Some (x, rest) \<Rightarrow> prepend x (read_string rest)))"
  by pat_completeness auto
termination
  by (relation "measure length") (auto dest: string_item_shorter)

declare read_string.simps [simp del]

lemma read_string_shorter: "read_string s = Some (x, rest) \<Longrightarrow> length rest < length s"
proof (induction s arbitrary: x rule: read_string.induct)
  case (1 s)
  show ?case
  proof (cases "s \<noteq> [] \<and> hd s = CHR 0x22")
    case True
    then obtain cs where "s = CHR 0x22 # cs" by (cases s) auto
    with "1.prems" show ?thesis by (simp add: read_string.simps)
  next
    case False
    with "1.prems" obtain y r z where item: "string_item s = Some (y, r)" "read_string r = Some (z, rest)"
      by (auto simp: read_string.simps [of s] prepend_def split: option.splits)
    from "1.IH" [OF False item(1) refl item(2)] string_item_shorter [OF item(1)] show ?thesis by simp
  qed
qed

section \<open>Values\<close>

datatype json =
    JNull
  | JBool bool
  | JNumber string
  | JString string
  | JArray "json list"
  | JObject "(string \<times> json) list"

definition skip_space :: "string \<Rightarrow> string" where
  "skip_space s = dropWhile (\<lambda>c. c \<in> {CHR 0x20, CHR 0x09, CHR 0x0A, CHR 0x0D}) s"

definition expect :: "char \<Rightarrow> string \<Rightarrow> string option" where
  "expect c s = (case skip_space s of [] \<Rightarrow> None | d # rest \<Rightarrow> if d = c then Some rest else None)"

lemma skip_space_length: "length (skip_space s) \<le> length s"
  by (simp add: skip_space_def length_dropWhile_le)

lemma skip_space_shorter: "skip_space s = c # cs \<Longrightarrow> length cs < length s"
  using skip_space_length [of s] by simp

lemma expect_shorter: "expect c s = Some rest \<Longrightarrow> length rest < length s"
  using skip_space_length [of s] by (auto simp: expect_def split: list.splits if_splits)

definition plain_digit :: "char \<Rightarrow> bool" where
  "plain_digit c \<longleftrightarrow> digit_value c \<noteq> None"

text \<open>At least one digit.\<close>

definition digits1 :: "string \<Rightarrow> (string \<times> string) option" where
  "digits1 s =
     (if takeWhile plain_digit s = [] then None
      else Some (takeWhile plain_digit s, dropWhile plain_digit s))"

definition number_integer :: "string \<Rightarrow> (string \<times> string) option" where
  "number_integer s =
     (if s \<noteq> [] \<and> hd s = CHR ''0'' then Some (''0'', tl s) else digits1 s)"

definition number_fraction :: "string \<Rightarrow> (string \<times> string) option" where
  "number_fraction s =
     (if s \<noteq> [] \<and> hd s = CHR ''.'' then prepend ''.'' (digits1 (tl s)) else Some ([], s))"

definition number_exponent :: "string \<Rightarrow> (string \<times> string) option" where
  "number_exponent s =
     (if s \<noteq> [] \<and> (hd s = CHR ''e'' \<or> hd s = CHR ''E'')
      then (if tl s \<noteq> [] \<and> (hd (tl s) = CHR ''+'' \<or> hd (tl s) = CHR ''-'')
            then prepend [hd s, hd (tl s)] (digits1 (tl (tl s)))
            else prepend [hd s] (digits1 (tl s)))
      else Some ([], s))"

definition read_number :: "string \<Rightarrow> (json \<times> string) option" where
  "read_number s =
     (let (sign, s) = (if s \<noteq> [] \<and> hd s = CHR ''-'' then (''-'', tl s) else ([], s))
      in Option.bind (number_integer s) (\<lambda>(i, s).
         Option.bind (number_fraction s) (\<lambda>(f, s).
         Option.bind (number_exponent s) (\<lambda>(e, s). Some (JNumber (sign @ i @ f @ e), s)))))"

fun word :: "(string \<times> json) list \<Rightarrow> string \<Rightarrow> (json \<times> string) option" where
  "word [] s = None"
| "word ((w, v) # ws) s = (if take (length w) s = w then Some (v, drop (length w) s) else word ws s)"

definition json_words :: "(string \<times> json) list" where
  "json_words = [(''true'', JBool True), (''false'', JBool False), (''null'', JNull)]"

text \<open>
  Each part of a value leaves less text than it was given (\<open>json_shorter\<close> below), which is what
  \<open>shorter\<close> checks: it refuses nothing.
\<close>

definition shorter :: "string \<Rightarrow> ('a \<times> string) option \<Rightarrow> ('a \<times> string) option" where
  "shorter s m = Option.bind m (\<lambda>(x, rest). if length rest < length s then Some (x, rest) else None)"

lemma shorter_Some: "shorter s m = Some (x, rest) \<longleftrightarrow> m = Some (x, rest) \<and> length rest < length s"
  by (auto simp: shorter_def bind_eq_Some_conv split: if_splits)

function json_value :: "nat \<Rightarrow> string \<Rightarrow> (json \<times> string) option"
  and json_members :: "nat \<Rightarrow> string \<Rightarrow> ((string \<times> json) list \<times> string) option"
  and json_elements :: "nat \<Rightarrow> string \<Rightarrow> (json list \<times> string) option"
where
  "json_value depth s =
     (case skip_space s of
        [] \<Rightarrow> None
      | c # cs \<Rightarrow>
          if c = CHR 0x22 then map_option (\<lambda>(x, rest). (JString x, rest)) (read_string cs)
          else if c = CHR ''{''
          then (if depth = 0 then None
                else (case expect CHR ''}'' cs of
                        Some rest \<Rightarrow> Some (JObject [], rest)
                      | None \<Rightarrow> map_option (\<lambda>(x, rest). (JObject x, rest)) (json_members (depth - 1) cs)))
          else if c = CHR ''[''
          then (if depth = 0 then None
                else (case expect CHR '']'' cs of
                        Some rest \<Rightarrow> Some (JArray [], rest)
                      | None \<Rightarrow> map_option (\<lambda>(x, rest). (JArray x, rest)) (json_elements (depth - 1) cs)))
          else (case word json_words (c # cs) of
                  Some r \<Rightarrow> Some r
                | None \<Rightarrow> read_number (c # cs)))"
| "json_members depth s =
     (case expect CHR 0x22 s of
        None \<Rightarrow> None
      | Some s1 \<Rightarrow>
          (case read_string s1 of
             None \<Rightarrow> None
           | Some (k, s2) \<Rightarrow>
               (case expect CHR '':'' s2 of
                  None \<Rightarrow> None
                | Some s3 \<Rightarrow>
                    (case shorter s3 (json_value depth s3) of
                       None \<Rightarrow> None
                     | Some (v, s4) \<Rightarrow>
                         (case expect CHR '','' s4 of
                            Some s5 \<Rightarrow> prepend [(k, v)] (json_members depth s5)
                          | None \<Rightarrow> map_option (\<lambda>rest. ([(k, v)], rest)) (expect CHR ''}'' s4))))))"
| "json_elements depth s =
     (case shorter s (json_value depth s) of
        None \<Rightarrow> None
      | Some (v, s1) \<Rightarrow>
          (case expect CHR '','' s1 of
             Some s2 \<Rightarrow> prepend [v] (json_elements depth s2)
           | None \<Rightarrow> map_option (\<lambda>rest. ([v], rest)) (expect CHR '']'' s1)))"
  by pat_completeness auto
termination
  apply (relation "measure (\<lambda>x. case x of Inl (d, s) \<Rightarrow> 2 * length s
     | Inr (Inl (d, s)) \<Rightarrow> 2 * length s + 1 | Inr (Inr (d, s)) \<Rightarrow> 2 * length s + 1)")
  apply (auto dest!: expect_shorter read_string_shorter skip_space_shorter simp: shorter_Some)
  done

declare json_value.simps [simp del] json_members.simps [simp del] json_elements.simps [simp del]

lemma digits1_length: "digits1 s = Some (x, rest) \<Longrightarrow> length rest < length s"
  using length_dropWhile_le [of plain_digit s]
  by (cases s) (auto simp: digits1_def less_Suc_eq_le length_dropWhile_le split: if_splits)

lemma number_integer_length: "number_integer s = Some (x, rest) \<Longrightarrow> length rest < length s"
  by (cases s) (auto simp: number_integer_def dest: digits1_length split: if_splits)

lemma number_rest_length:
  "number_fraction s = Some (x, rest) \<Longrightarrow> length rest \<le> length s"
  "number_exponent s = Some (x, rest) \<Longrightarrow> length rest \<le> length s"
  by (cases s; force simp: number_fraction_def prepend_def dest: digits1_length split: if_splits)
    (cases s; cases "tl s"; force simp: number_exponent_def prepend_def dest: digits1_length split: if_splits)

lemma read_number_length: "read_number s = Some (x, rest) \<Longrightarrow> length rest < length s"
  by (cases s) (fastforce simp: read_number_def bind_eq_Some_conv split: if_splits
      dest!: number_integer_length number_rest_length)+

lemma word_length: "word json_words s = Some (x, rest) \<Longrightarrow> length rest < length s"
  by (cases s) (auto simp: json_words_def split: if_splits)

lemma json_shorter:
  "json_value d s = Some (v, r1) \<Longrightarrow> length r1 < length s"
  "json_members d s = Some (ms, r2) \<Longrightarrow> length r2 < length s"
  "json_elements d s = Some (es, r3) \<Longrightarrow> length r3 < length s"
proof (induction d s and d s and d s arbitrary: v r1 and ms r2 and es r3
    rule: json_value_json_members_json_elements.induct)
  case (1 d s)
  from "1.prems" obtain c cs where s: "skip_space s = c # cs"
    by (auto simp: json_value.simps [of d s] split: list.splits)
  have "length r1 < length (c # cs)"
  proof -
    consider "c = CHR 0x22" | "c = CHR ''{''" "c \<noteq> CHR 0x22" | "c = CHR ''[''" "c \<noteq> CHR 0x22" "c \<noteq> CHR ''{''"
      | "c \<noteq> CHR 0x22" "c \<noteq> CHR ''{''" "c \<noteq> CHR ''[''" by blast
    then show ?thesis
    proof cases
      case 1
      with "1.prems" s show ?thesis
        by (auto simp: json_value.simps [of d s] dest: read_string_shorter)
    next
      case 2
      with "1.prems" s "1.IH"(1) [OF s 2(2,1)] show ?thesis
        by (auto simp: json_value.simps [of d s] dest: expect_shorter split: if_splits option.splits)
    next
      case 3
      with "1.prems" s "1.IH"(2) [OF s 3(2,3,1)] show ?thesis
        by (auto simp: json_value.simps [of d s] dest: expect_shorter split: if_splits option.splits)
    next
      case 4
      with "1.prems" s show ?thesis
        by (auto simp: json_value.simps [of d s] simp del: word.simps dest: word_length read_number_length
            split: option.splits)
    qed
  qed
  with skip_space_length [of s] s show ?case by simp
next
  case (2 d s)
  from "2.prems" obtain s1 k s2 s3 v s4 where parts: "expect CHR 0x22 s = Some s1" "read_string s1 = Some (k, s2)"
    "expect CHR '':'' s2 = Some s3" "shorter s3 (json_value d s3) = Some (v, s4)"
    by (auto simp: json_members.simps [of d s] split: option.splits)
  note less = expect_shorter [OF parts(1)] read_string_shorter [OF parts(2)] expect_shorter [OF parts(3)]
    parts(4) [unfolded shorter_Some]
  show ?case
  proof (cases "expect CHR '','' s4")
    case None
    with "2.prems" parts less show ?thesis
      by (auto simp: json_members.simps [of d s] dest!: expect_shorter)
  next
    case (Some s5)
    with "2.prems" parts obtain ms' where "json_members d s5 = Some (ms', r2)"
      by (auto simp: json_members.simps [of d s] prepend_def)
    with "2.IH"(2) [OF parts(1,2) refl parts(3,4) refl Some] less expect_shorter [OF Some]
    show ?thesis by fastforce
  qed
next
  case (3 d s)
  from "3.prems" obtain v s1 where part: "shorter s (json_value d s) = Some (v, s1)"
    by (auto simp: json_elements.simps [of d s] split: option.splits)
  note less = part [unfolded shorter_Some]
  show ?case
  proof (cases "expect CHR '','' s1")
    case None
    with "3.prems" part less show ?thesis
      by (auto simp: json_elements.simps [of d s] dest!: expect_shorter)
  next
    case (Some s2)
    with "3.prems" part obtain es' where "json_elements d s2 = Some (es', r3)"
      by (auto simp: json_elements.simps [of d s] prepend_def)
    with "3.IH"(2) [OF part refl Some] less expect_shorter [OF Some] show ?thesis by fastforce
  qed
qed

lemma shorter_json_value: "shorter s (json_value d s) = json_value d s"
  by (cases "json_value d s") (auto simp: shorter_def dest: json_shorter(1))

definition max_nesting :: nat where "max_nesting = 10000"

text \<open>A whole text.\<close>

definition json_parse :: "string \<Rightarrow> json option" where
  "json_parse s =
     (case json_value max_nesting s of
        Some (v, rest) \<Rightarrow> if skip_space rest = [] then Some v else None
      | None \<Rightarrow> None)"

text \<open>
  The field of a structure a member goes to: the one of its name, or else of its name in other
  case; a member without a field is skipped. Two runes outside ASCII fold to ASCII letters.
\<close>

fun fold_name :: "string \<Rightarrow> string" where
  "fold_name [] = []"
| "fold_name (c # cs) =
     (if c = CHR 0xC5 \<and> take 1 cs = [CHR 0xBF] then CHR ''S'' # fold_name (drop 1 cs)
      else if c = CHR 0xE2 \<and> take 2 cs = [CHR 0x84, CHR 0xAA] then CHR ''K'' # fold_name (drop 2 cs)
      else ascii_upper c # fold_name cs)"

definition struct_field :: "string list \<Rightarrow> string \<Rightarrow> string option" where
  "struct_field fs k = (if k \<in> set fs then Some k else find (\<lambda>f. fold_name f = fold_name k) fs)"

section \<open>Strings that were written\<close>

text \<open>UTF-8 text is made of whole runes.\<close>

function utf8 :: "string \<Rightarrow> bool" where
  "utf8 s =
     (if s = [] then True else if utf8_len s = 0 then False else utf8 (drop (utf8_len s) s))"
  by pat_completeness auto
termination
  by (relation "measure length") auto

declare utf8.simps [simp del]

lemma hex_value_digit [simp]: "hex_value (hex_digit n) = Some (n mod 16)"
  using map_of_zip_nth [of "''0123456789abcdef''" "[0..<16]" "n mod 16"]
  by (simp only: hex_value_def hex_digit_def map_of_append map_add_Some_iff) simp

lemma ascii_item:
  assumes "(of_char c :: nat) < 128"
  shows "string_item (json_escape c @ t) = Some ([c], t)"
proof -
  have code: "(of_char c div 16 mod 16) * 16 + of_char c mod 16 = (of_char c :: nat)"
    using assms by (simp add: mod_less less_mult_imp_div_less)
  have hex: "hex_value (CHR ''0'') = Some 0" by (simp add: hex_value_def upt_rec)
  show ?thesis
    using assms code
    by (auto simp: json_escape_def simple_escape_def Let_def escaped_rune_def utf8_rune_def hex)
qed

lemma escape_head: "hd (json_escape c @ t) \<noteq> CHR 0x22"
  by (simp add: json_escape_def)

lemma utf8_len_take:
  assumes "1 < utf8_len s"
  shows "utf8_len (take (utf8_len s) s @ t) = utf8_len s"
proof (cases s)
  case (Cons c cs)
  obtain n where n: "utf8_len (c # cs) = Suc n" "n \<noteq> 0"
    using assms Cons by (metis One_nat_def less_irrefl less_nat_zero_code not0_implies_Suc)
  from utf8_len_parts [OF n] have "n \<le> length cs" by simp
  moreover have "n = 1 \<or> n = 2 \<or> n = 3"
    using n by (auto simp: Let_def split: if_splits)
  ultimately show ?thesis
    using n unfolding Cons
    by (elim disjE) (auto simp: Let_def nth_append split: if_splits)
qed (use assms in simp)

lemma rune_item:
  assumes "1 < utf8_len s"
  shows "string_item (take (utf8_len s) s @ t) = Some (take (utf8_len s) s, t)"
    "hd (take (utf8_len s) s @ t) \<noteq> CHR 0x22"
proof -
  obtain c cs where s: "s = c # cs" using assms by (cases s) auto
  obtain n where n: "utf8_len (c # cs) = Suc n" "n \<noteq> 0"
    using assms s by (metis One_nat_def less_irrefl less_nat_zero_code not0_implies_Suc)
  from utf8_len_parts [OF n] have c: "194 \<le> (of_char c :: nat)" "n \<le> length cs" by simp_all
  have len: "utf8_len (c # take n cs @ t) = Suc n"
    using utf8_len_take [OF assms, of t] n by (simp add: s del: utf8_len.simps)
  from c have "c \<noteq> CHR 0x5C" "c \<noteq> CHR 0x22" by auto
  then show "string_item (take (utf8_len s) s @ t) = Some (take (utf8_len s) s, t)"
    "hd (take (utf8_len s) s @ t) \<noteq> CHR 0x22"
    using c len n by (simp_all add: s Let_def del: utf8_len.simps)
qed

lemma separator_items:
  "string_item (CHR 0x5C # ''u2028'' @ t) = Some ([CHR 0xE2, CHR 0x80, CHR 0xA8], t)"
  "string_item (CHR 0x5C # ''u2029'' @ t) = Some ([CHR 0xE2, CHR 0x80, CHR 0xA9], t)"
  by (simp_all add: escaped_rune_def hex_value_def upt_rec utf8_rune_def char_of_eq_iff)

lemma read_string_item:
  "string_item s = Some (x, t) \<Longrightarrow> hd s \<noteq> CHR 0x22 \<Longrightarrow> read_string s = prepend x (read_string t)"
  by (subst read_string.simps) simp

lemma read_json_chars: "utf8 s \<Longrightarrow> read_string (json_chars s @ CHR 0x22 # t) = Some (s, t)"
proof (induction s rule: utf8.induct)
  case (1 s)
  let ?n = "utf8_len s" and ?rest = "json_chars (drop (utf8_len s) s) @ CHR 0x22 # t"
  show ?case
  proof (cases "s = []")
    case True
    then show ?thesis by (simp add: read_string.simps)
  next
    case False
    with "1.prems" have n: "?n \<noteq> 0" and rest: "utf8 (drop ?n s)"
      by (simp_all add: utf8.simps [of s] split: if_splits)
    from "1.IH" [OF False n rest] have IH: "read_string ?rest = Some (drop ?n s, t)" .
    have "read_string (json_chars s @ CHR 0x22 # t) = prepend (take ?n s) (read_string ?rest)"
    proof (cases "?n = 1")
      case True
      obtain c cs where s: "s = c # cs" using False by (cases s) auto
      with True have c: "(of_char c :: nat) < 128" by (auto simp: Let_def split: if_splits)
      from read_string_item [OF ascii_item [OF c] escape_head] show ?thesis
        using True s c by (simp add: json_chars_plain del: utf8_len.simps)
    next
      case multi: False
      with n have long: "1 < ?n" by simp
      consider "take ?n s = [CHR 0xE2, CHR 0x80, CHR 0xA8]" | "take ?n s = [CHR 0xE2, CHR 0x80, CHR 0xA9]"
        | "take ?n s \<noteq> [CHR 0xE2, CHR 0x80, CHR 0xA8]" "take ?n s \<noteq> [CHR 0xE2, CHR 0x80, CHR 0xA9]" by blast
      then show ?thesis
      proof cases
        case 1
        with False n multi have "json_chars s = CHR 0x5C # ''u2028'' @ json_chars (drop ?n s)"
          by (subst json_chars.simps) simp
        with 1 read_string_item [OF separator_items(1)] show ?thesis by simp
      next
        case 2
        with False n multi have "json_chars s = CHR 0x5C # ''u2029'' @ json_chars (drop ?n s)"
          by (subst json_chars.simps) simp
        with 2 read_string_item [OF separator_items(2)] show ?thesis by simp
      next
        case 3
        with False n multi have "json_chars s = take ?n s @ json_chars (drop ?n s)"
          by (subst json_chars.simps) (simp add: Let_def)
        with read_string_item [OF rune_item [OF long]] show ?thesis by simp
      qed
    qed
    with IH show ?thesis by (simp add: prepend_def)
  qed
qed

end
