(* ===== verification/Base64.thy ===== *)
theory Base64
  imports Prelude
begin

text \<open>
  \<open>base64.URLEncoding\<close> of the standard library, which the cursors of \<open>internal/keyset\<close> are sent
  in: six bits a character, padded with \<open>=\<close> to whole quadruples. The decoder skips line ends
  anywhere and does not look at the bits behind the last byte. Where it stops, on a text that is
  none, is left out.
\<close>

definition base64_alphabet :: string where
  "base64_alphabet = ''ABCDEFGHIJKLMNOPQRSTUVWXYZabcdefghijklmnopqrstuvwxyz0123456789-_''"

definition base64_char :: "nat \<Rightarrow> char" where
  "base64_char n = base64_alphabet ! (n mod 64)"

definition base64_value :: "char \<Rightarrow> nat option" where
  "base64_value c = map_of (zip base64_alphabet [0..<64]) c"

definition base64_quad :: "nat \<Rightarrow> string" where
  "base64_quad v = map base64_char [v div 262144, v div 4096, v div 64, v]"

fun base64_encode :: "string \<Rightarrow> string" where
  "base64_encode [] = []"
| "base64_encode [a] = take 2 (base64_quad (of_char a * 65536)) @ ''==''"
| "base64_encode [a, b] = take 3 (base64_quad (of_char a * 65536 + of_char b * 256)) @ ''=''"
| "base64_encode (a # b # c # s) =
     base64_quad (of_char a * 65536 + of_char b * 256 + of_char c) @ base64_encode s"

definition base64_bytes :: "nat \<Rightarrow> string" where
  "base64_bytes v = map char_of [v div 65536, v div 256, v]"

fun base64_quads :: "string \<Rightarrow> string option" where
  "base64_quads [] = Some []"
| "base64_quads (p # q # r # t # s) =
     (case (base64_value p, base64_value q) of
        (Some i, Some j) \<Rightarrow>
          if r = CHR ''='' then (if t = CHR ''='' \<and> s = [] then Some (take 1 (base64_bytes (i * 262144 + j * 4096))) else None)
          else (case base64_value r of
              None \<Rightarrow> None
            | Some k \<Rightarrow>
                if t = CHR ''=''
                then (if s = [] then Some (take 2 (base64_bytes (i * 262144 + j * 4096 + k * 64))) else None)
                else (case base64_value t of
                    None \<Rightarrow> None
                  | Some l \<Rightarrow> map_option ((@) (base64_bytes (i * 262144 + j * 4096 + k * 64 + l))) (base64_quads s)))
      | _ \<Rightarrow> None)"
| "base64_quads _ = None"

definition base64_decode :: "string \<Rightarrow> string option" where
  "base64_decode s = base64_quads (filter (\<lambda>c. c \<noteq> CHR 0x0A \<and> c \<noteq> CHR 0x0D) s)"

section \<open>Decoding what was encoded\<close>

lemma base64_alphabet: "length base64_alphabet = 64" "distinct base64_alphabet"
  "CHR ''='' \<notin> set base64_alphabet" "CHR 0x0A \<notin> set base64_alphabet" "CHR 0x0D \<notin> set base64_alphabet"
  by (simp_all add: base64_alphabet_def)

lemma base64_value_char [simp]: "base64_value (base64_char n) = Some (n mod 64)"
  using map_of_zip_nth [of base64_alphabet "[0..<64]" "n mod 64"] base64_alphabet
  by (simp add: base64_value_def base64_char_def)

lemma base64_char_in: "base64_char n \<in> set base64_alphabet"
  using base64_alphabet by (simp add: base64_char_def)

lemma base64_char_neq [simp]:
  "base64_char n \<noteq> CHR ''=''" "base64_char n \<noteq> CHR 0x0A" "base64_char n \<noteq> CHR 0x0D"
  using base64_char_in [of n] base64_alphabet by metis+

lemma sextets:
  fixes v :: nat
  assumes "v < 16777216"
  shows "v div 262144 mod 64 * 262144 + v div 4096 mod 64 * 4096 + v div 64 mod 64 * 64 + v mod 64 = v"
proof -
  have d: "v div 4096 = v div 64 div 64" "v div 262144 = v div 64 div 64 div 64"
    by (simp_all add: div_mult2_eq [symmetric])
  have "v div 64 div 64 div 64 < 64" using assms by (simp add: div_mult2_eq [symmetric] less_mult_imp_div_less)
  then have "v div 64 div 64 div 64 mod 64 = v div 64 div 64 div 64" by simp
  moreover have "v div 64 div 64 = 64 * (v div 64 div 64 div 64) + v div 64 div 64 mod 64"
    "v div 64 = 64 * (v div 64 div 64) + v div 64 mod 64" "v = 64 * (v div 64) + v mod 64"
    by simp_all
  ultimately show ?thesis unfolding d by linarith
qed

lemma char_of_low [simp]: "char_of (k * 256 + of_char b :: nat) = b"
  by (simp add: char_of_eq_iff take_bit_eq_mod)

lemma base64_bytes_of [simp]:
  "base64_bytes (of_char a * 65536 + of_char b * 256 + of_char c) = [a, b, c]"
proof -
  let ?v = "of_char a * 65536 + of_char b * 256 + of_char c :: nat"
  have "(of_char b :: nat) < 256" "(of_char c :: nat) < 256"
    by (simp_all only: nat_of_char_less_256)
  then have "?v div 65536 = of_char a" "?v div 256 = of_char a * 256 + of_char b"
    by linarith+
  moreover have "?v = (of_char a * 256 + of_char b) * 256 + of_char c" by simp
  then have "char_of ?v = c" by (simp only: char_of_low)
  ultimately show ?thesis by (simp add: base64_bytes_def)
qed

lemma base64_triple_bound: "of_char a * 65536 + of_char b * 256 + of_char c < (16777216 :: nat)"
  using nat_of_char_less_256 [of a] nat_of_char_less_256 [of b] nat_of_char_less_256 [of c] by linarith

lemma base64_quads_quad:
  "base64_quads (take 2 (base64_quad v) @ ''=='') =
     Some (take 1 (base64_bytes (v div 262144 mod 64 * 262144 + v div 4096 mod 64 * 4096)))"
  "base64_quads (take 3 (base64_quad v) @ ''='') =
     Some (take 2 (base64_bytes
       (v div 262144 mod 64 * 262144 + v div 4096 mod 64 * 4096 + v div 64 mod 64 * 64)))"
  "base64_quads (base64_quad v @ s) =
     map_option ((@) (base64_bytes (v div 262144 mod 64 * 262144 + v div 4096 mod 64 * 4096 +
       v div 64 mod 64 * 64 + v mod 64))) (base64_quads s)"
  by (simp_all add: base64_quad_def numeral_2_eq_2 numeral_3_eq_3)

lemma low_bits:
  fixes a b :: nat
  shows "a * 65536 div 64 mod 64 = 0" "a * 65536 mod 64 = 0" "(a * 65536 + b * 256) mod 64 = 0"
proof -
  have "a * 65536 = 64 * (64 * (a * 16))" "a * 65536 + b * 256 = 64 * (a * 1024 + b * 4)" by simp_all
  then show "a * 65536 div 64 mod 64 = 0" "a * 65536 mod 64 = 0" "(a * 65536 + b * 256) mod 64 = 0"
    by (metis mod_mult_self1_is_0 nonzero_mult_div_cancel_left zero_neq_numeral)+
qed

lemma base64_quads_encode: "base64_quads (base64_encode s) = Some s"
proof (induction s rule: base64_encode.induct)
  case (2 a)
  have bytes: "base64_bytes (of_char a * 65536) = [a, CHR 0x00, CHR 0x00]"
    and bound: "(of_char a * 65536 :: nat) < 16777216"
    using base64_bytes_of [of a "CHR 0x00" "CHR 0x00"] base64_triple_bound [of a "CHR 0x00" "CHR 0x00"]
    by simp_all
  note parts = sextets [OF bound, unfolded low_bits mult_0 add_0_right]
  show ?case by (simp only: base64_encode.simps base64_quads_quad parts bytes) simp
next
  case (3 a b)
  have bytes: "base64_bytes (of_char a * 65536 + of_char b * 256) = [a, b, CHR 0x00]"
    and bound: "(of_char a * 65536 + of_char b * 256 :: nat) < 16777216"
    using base64_bytes_of [of a b "CHR 0x00"] base64_triple_bound [of a b "CHR 0x00"]
    by simp_all
  note parts = sextets [OF bound, unfolded low_bits add_0_right]
  show ?case by (simp only: base64_encode.simps base64_quads_quad parts bytes) (simp add: numeral_2_eq_2)
next
  case (4 a b c s)
  then show ?case
    by (simp only: base64_encode.simps base64_quads_quad sextets [OF base64_triple_bound] base64_bytes_of) simp
qed simp

lemma base64_encode_plain: "c \<in> set (base64_encode s) \<Longrightarrow> c \<noteq> CHR 0x0A \<and> c \<noteq> CHR 0x0D"
  by (induction s rule: base64_encode.induct) (auto simp: base64_quad_def dest!: in_set_takeD)

lemma base64_decode_encode: "base64_decode (base64_encode s) = Some s"
proof -
  have "filter (\<lambda>c. c \<noteq> CHR 0x0A \<and> c \<noteq> CHR 0x0D) (base64_encode s) = base64_encode s"
    by (rule filter_True) (blast dest: base64_encode_plain)
  then show ?thesis by (simp add: base64_decode_def base64_quads_encode)
qed

lemma base64_encode_empty: "base64_encode s = [] \<longleftrightarrow> s = []"
  by (cases s rule: base64_encode.cases) (simp_all add: base64_quad_def)

end
