(* ===== verification/Paging.thy ===== *)
theory Paging
  imports Keyset
begin

text \<open>
  What the texts of \<open>internal/keyset\<close> mean to a database: a condition is a disjunction of
  conjunctions of comparisons with placeholders, filled from left to right; an order is
  lexicographic in its columns. Read so, the condition of a cursor selects exactly the rows
  behind the row the cursor was made from. Columns are not null.
\<close>

section \<open>Conditions and orders\<close>

type_synonym 'v row = "string \<Rightarrow> 'v"
type_synonym condition = "(string \<times> string) list list"

fun comparison :: "string \<Rightarrow> 'v::linorder \<Rightarrow> 'v \<Rightarrow> bool" where
  "comparison op a b =
     (if op = ''>'' then b < a else if op = ''<'' then a < b else if op = ''='' then a = b else False)"

fun all_hold :: "'v::linorder row \<Rightarrow> (string \<times> string) list \<Rightarrow> 'v list \<Rightarrow> bool" where
  "all_hold r ((column, op) # cs) (v # vs) = (comparison op (r column) v \<and> all_hold r cs vs)"
| "all_hold r [] vs = True"
| "all_hold r (c # cs) [] = False"

fun clause_holds :: "condition \<Rightarrow> 'v::linorder list \<Rightarrow> 'v row \<Rightarrow> bool" where
  "clause_holds [] vs r = False"
| "clause_holds (cs # rest) vs r =
     (all_hold r cs (take (length cs) vs) \<or> clause_holds rest (drop (length cs) vs) r)"

definition clause_text :: "condition \<Rightarrow> string" where
  "clause_text cond =
     join_with '' OR ''
       (map (\<lambda>cs. ''('' @ join_with '' AND '' (map (\<lambda>(column, op). column @ '' '' @ op @ '' ?'') cs) @ '')'') cond)"

definition operator :: "plan \<Rightarrow> string" where
  "operator p = (if pl_Order p = OrderDesc then ''<'' else ''>'')"

definition where_conditions :: "plan \<Rightarrow> condition" where
  "where_conditions p =
     (let primary = sd_PrimaryColumn (pl_definition p); secondary = sd_SecondaryColumn (pl_definition p);
          op = operator p
      in if hasSecondary p
         then [[(primary, op)], [(primary, ''=''), (secondary, op)],
               [(primary, ''=''), (secondary, ''=''), (''id'', op)]]
         else [[(primary, op)], [(primary, ''=''), (''id'', op)]])"

definition order_columns :: "plan \<Rightarrow> string list" where
  "order_columns p =
     sd_PrimaryColumn (pl_definition p) #
     (if hasSecondary p then [sd_SecondaryColumn (pl_definition p)] else []) @ [''id'']"

text \<open>The order of two rows, by the columns one after the other.\<close>

fun lex_before :: "string \<Rightarrow> string list \<Rightarrow> 'v::linorder row \<Rightarrow> 'v row \<Rightarrow> bool" where
  "lex_before op [] r r' = False"
| "lex_before op (column # columns) r r' =
     (comparison op (r' column) (r column) \<or> r column = r' column \<and> lex_before op columns r r')"

definition comes_before :: "plan \<Rightarrow> 'v::linorder row \<Rightarrow> 'v row \<Rightarrow> bool" where
  "comes_before p = lex_before (operator p) (order_columns p)"

lemma lex_before_asym: "op \<in> {''<'', ''>''} \<Longrightarrow> lex_before op columns r r' \<Longrightarrow> \<not> lex_before op columns r' r"
  by (induction columns) auto

lemma comes_before_asym: "comes_before p r r' \<Longrightarrow> \<not> comes_before p r' r"
  unfolding comes_before_def by (rule lex_before_asym) (auto simp: operator_def)

lemma OrderBy_columns:
  "OrderBy p = map (\<lambda>column. column @ '' '' @ (if pl_Order p = OrderDesc then OrderDesc else OrderAsc))
     (order_columns p)"
  by (simp add: OrderBy_def order_columns_def Let_def)

section \<open>From a row to the next page\<close>

text \<open>The text and the values of the condition, and what it selects.\<close>

lemma WhereClause_selects:
  assumes "pl_Cursor p = Some c" "primaryValue p = Ok v1" "hasSecondary p \<Longrightarrow> secondaryValue p = Ok v2"
    and "r (sd_PrimaryColumn (pl_definition p)) = sql v1" "r ''id'' = sql (AnyString (cu_LastID c))"
    and "hasSecondary p \<Longrightarrow> r (sd_SecondaryColumn (pl_definition p)) = sql v2"
  shows "\<exists>args. WhereClause p = Ok (clause_text (where_conditions p), args) \<and>
    clause_holds (where_conditions p) (map sql args) = comes_before p r"
proof (cases "hasSecondary p")
  case True
  with assms have "WhereClause p =
      Ok (clause_text (where_conditions p), [v1, v1, v2, v1, v2, AnyString (cu_LastID c)])"
    by (simp add: WhereClause_def or_invalid_def where_conditions_def clause_text_def operator_def Let_def)
  moreover have "clause_holds (where_conditions p) (map sql [v1, v1, v2, v1, v2, AnyString (cu_LastID c)]) =
      comes_before p r"
    using True assms(4-6)
    by (intro ext) (auto simp: where_conditions_def comes_before_def order_columns_def Let_def)
  ultimately show ?thesis by blast
next
  case False
  with assms have "WhereClause p =
      Ok (clause_text (where_conditions p), [v1, v1, AnyString (cu_LastID c)])"
    by (simp add: WhereClause_def or_invalid_def where_conditions_def clause_text_def operator_def Let_def)
  moreover have "clause_holds (where_conditions p) (map sql [v1, v1, AnyString (cu_LastID c)]) = comes_before p r"
    using False assms(4-6)
    by (intro ext) (auto simp: where_conditions_def comes_before_def order_columns_def Let_def)
  ultimately show ?thesis by blast
qed

lemma NewPlan_Ok:
  assumes "NewPlan q definitions = Ok p"
  obtains d where "definitions (qu_Sort q) = Some d" "pl_Sort p = qu_Sort q" "pl_Order p = qu_Order q"
    "pl_definition p = normalizeDefinition d" "qu_Order q = OrderAsc \<or> qu_Order q = OrderDesc"
  using assms
  by (auto simp: NewPlan_def Let_def bind_result_Ok split: option.splits if_splits)

lemma or_invalid_Ok: "or_invalid e r = Ok x \<longleftrightarrow> r = Ok x"
  by (cases r) (simp_all add: or_invalid_def)

lemma NewPlan_cursor:
  assumes "NewPlan q definitions = Ok p" "qu_Cursor q \<noteq> []"
  obtains c v1 where "DecodeCursor (qu_Cursor q) = Ok c" "pl_Cursor p = Some c" "cu_Sort c = qu_Sort q"
    "cu_Order c = qu_Order q" "primaryValue p = Ok v1"
    "hasSecondary p \<longrightarrow> cu_LastSecondary c \<noteq> None \<and> (\<exists>v2. secondaryValue p = Ok v2)"
proof -
  from assms obtain d where d: "definitions (qu_Sort q) = Some d" "qu_Order q = OrderAsc \<or> qu_Order q = OrderDesc"
    by (blast elim: NewPlan_Ok)
  with assms obtain c where c: "DecodeCursor (qu_Cursor q) = Ok c"
    by (auto simp: NewPlan_def Let_def bind_result_Ok)
  define p' where "p' = \<lparr>pl_Sort = qu_Sort q, pl_Order = qu_Order q, pl_definition = normalizeDefinition d,
    pl_Cursor = Some c\<rparr>"
  have "NewPlan q definitions =
      (if cu_Sort c \<noteq> qu_Sort q \<or> cu_Order c \<noteq> qu_Order q
       then Err (Validation ''Cursor sort/order mismatch''
              [(''cursor_sort'', DStr (cu_Sort c)), (''cursor_order'', DStr (cu_Order c)),
               (''query_sort'', DStr (qu_Sort q)), (''query_order'', DStr (qu_Order q))])
       else bind_result (or_invalid invalid_cursor (primaryValue p')) (\<lambda>_.
              if hasSecondary p'
              then (if cu_LastSecondary c = None then Err invalid_cursor_for_sort
                    else bind_result (or_invalid invalid_cursor_for_sort (secondaryValue p')) (\<lambda>_. Ok p'))
              else Ok p'))"
    using assms(2) d by (auto simp: NewPlan_def Let_def c p'_def)
  with assms(1) have "cu_Sort c = qu_Sort q" "cu_Order c = qu_Order q" "p = p'"
    "\<exists>v1. primaryValue p' = Ok v1"
    "hasSecondary p' \<longrightarrow> cu_LastSecondary c \<noteq> None \<and> (\<exists>v2. secondaryValue p' = Ok v2)"
    by (simp_all add: bind_result_Ok or_invalid_Ok split: if_splits) blast+
  with c show thesis using that by (force simp: p'_def)
qed

lemma NewPlan_first: "NewPlan q definitions = Ok p \<Longrightarrow> qu_Cursor q = [] \<Longrightarrow> pl_Cursor p = None"
  by (auto simp: NewPlan_def Let_def split: option.splits if_splits)

lemma WhereClause_Ok:
  assumes "pl_Cursor p = Some c" "primaryValue p = Ok v1" "hasSecondary p \<longrightarrow> (\<exists>v2. secondaryValue p = Ok v2)"
  shows "\<exists>clause args. WhereClause p = Ok (clause, args)"
  using assms by (cases "hasSecondary p") (auto simp: WhereClause_def Let_def or_invalid_def)

text \<open>A codec reads a value back from what it wrote of it, and wrote UTF-8.\<close>

definition reads_back :: "codec \<Rightarrow> any_value \<Rightarrow> bool" where
  "reads_back codec v \<longleftrightarrow> (\<exists>raw. cd_Serialize codec v = Ok raw \<and> utf8 raw \<and> cd_Parse codec raw = Ok v)"

lemma StringCodec_reads_back: "utf8 s \<Longrightarrow> reads_back StringCodec (AnyString s)"
  by (simp add: reads_back_def StringCodec_def)

lemma RFC3339TimeCodec_reads_back:
  assumes "0 \<le> text_year t" "text_year t < 10000"
  shows "reads_back RFC3339TimeCodec (AnyTime t)"
proof -
  have "utf8 (FormatRFC3339Nano t)" by (rule utf8_ascii) (rule rfc3339_ascii)
  with rfc3339_again [OF assms] show ?thesis by (simp add: reads_back_def RFC3339TimeCodec_def)
qed

lemma next_cursor:
  assumes plan: "NewPlan q definitions = Ok p" and valid: "utf8 (qu_Sort q)" "utf8 lastID"
    and primary: "sd_PrimaryCodec (pl_definition p) = Some c1" "reads_back c1 v1"
    and secondary: "hasSecondary p \<Longrightarrow> v2 \<noteq> AnyNil \<and>
      (\<exists>c2. sd_SecondaryCodec (pl_definition p) = Some c2 \<and> reads_back c2 v2)"
  obtains token p' c where "EncodeNextCursor p v1 lastID v2 = Ok token"
    "NewPlan (q\<lparr>qu_Cursor := token\<rparr>) definitions = Ok p'"
    "pl_definition p' = pl_definition p" "pl_Order p' = pl_Order p" "pl_Cursor p' = Some c"
    "cu_LastID c = lastID" "primaryValue p' = Ok v1" "hasSecondary p \<Longrightarrow> secondaryValue p' = Ok v2"
proof -
  obtain d where d: "definitions (qu_Sort q) = Some d" "pl_Sort p = qu_Sort q" "pl_Order p = qu_Order q"
    "pl_definition p = normalizeDefinition d" "qu_Order q = OrderAsc \<or> qu_Order q = OrderDesc"
    using NewPlan_Ok [OF plan] .
  obtain raw1 where raw1: "cd_Serialize c1 v1 = Ok raw1" "utf8 raw1" "cd_Parse c1 raw1 = Ok v1"
    using primary(2) by (auto simp: reads_back_def)
  have "\<exists>raw2. (hasSecondary p \<longrightarrow> (\<exists>c2 s. raw2 = Some s \<and> sd_SecondaryCodec (pl_definition p) = Some c2 \<and>
      cd_Serialize c2 v2 = Ok s \<and> utf8 s \<and> cd_Parse c2 s = Ok v2)) \<and> (\<not> hasSecondary p \<longrightarrow> raw2 = None)"
    using secondary by (cases "hasSecondary p") (auto simp: reads_back_def)
  then obtain raw2 where raw2: "hasSecondary p \<longrightarrow> (\<exists>c2 s. raw2 = Some s \<and>
      sd_SecondaryCodec (pl_definition p) = Some c2 \<and> cd_Serialize c2 v2 = Ok s \<and> utf8 s \<and> cd_Parse c2 s = Ok v2)"
    "\<not> hasSecondary p \<longrightarrow> raw2 = None"
    by blast
  define c where "c = \<lparr>cu_Sort = pl_Sort p, cu_Order = pl_Order p, cu_LastValue = raw1,
      cu_LastSecondary = raw2, cu_LastID = lastID\<rparr>"
  define p' where "p' = p\<lparr>pl_Cursor := Some c\<rparr>"
  have "cursor_json c \<noteq> []" by (simp add: cursor_json_def json_object_def)
  then obtain token where token: "EncodeCursor c = Ok token" "token \<noteq> []"
    by (simp add: EncodeCursor_def base64_encode_empty)
  have encode: "EncodeNextCursor p v1 lastID v2 = Ok token"
    using token(1) raw1 raw2 primary secondary
    by (cases "hasSecondary p") (auto simp: EncodeNextCursor_def with_codec_def or_invalid_def c_def)
  have "utf8 OrderAsc" "utf8 OrderDesc" by (auto intro!: utf8_ascii simp: OrderAsc_def OrderDesc_def)
  then have "cursor_utf8 c"
    using d valid raw1(2) raw2 by (cases "hasSecondary p") (auto simp: cursor_utf8_def c_def)
  from decode_encode_cursor [OF this token(1)] have decode: "DecodeCursor token = Ok c" .
  have vals: "primaryValue p' = Ok v1" "hasSecondary p \<Longrightarrow> secondaryValue p' = Ok v2"
    using raw1 raw2 primary by (auto simp: primaryValue_def secondaryValue_def p'_def c_def with_codec_def hasSecondary_def)
  have p': "p' = \<lparr>pl_Sort = qu_Sort q, pl_Order = qu_Order q, pl_definition = normalizeDefinition d,
      pl_Cursor = Some c\<rparr>"
    using d by (simp add: p'_def)
  have second: "hasSecondary p' = hasSecondary p" "hasSecondary p \<Longrightarrow> cu_LastSecondary c \<noteq> None"
    using raw2(1) by (auto simp: p'_def hasSecondary_def c_def)
  have "NewPlan (q\<lparr>qu_Cursor := token\<rparr>) definitions = Ok p'"
    using d(1,5) token(2) vals second
    by (cases "hasSecondary p") (auto simp: NewPlan_def decode or_invalid_def Let_def p' c_def d)
  with encode vals d show thesis
    by (intro that [of token p' c]) (simp_all add: p'_def c_def)
qed

text \<open>In a table sorted without ties, what comes after a row is what is behind it.\<close>

lemma filter_sorted_wrt:
  assumes "sorted_wrt R rows" "k < length rows" "\<And>x y. R x y \<Longrightarrow> \<not> R y x"
  shows "filter (R (rows ! k)) rows = drop (Suc k) rows"
proof -
  have rows: "rows = take k rows @ rows ! k # drop (Suc k) rows"
    by (rule id_take_nth_drop [OF assms(2)])
  then have "sorted_wrt R (take k rows @ rows ! k # drop (Suc k) rows)" using assms(1) by simp
  then have "\<forall>x \<in> set (take k rows). R x (rows ! k)" "\<forall>x \<in> set (drop (Suc k) rows). R (rows ! k) x"
    by (simp_all add: sorted_wrt_append)
  then have "filter (R (rows ! k)) (take k rows) = []" "filter (R (rows ! k)) (drop (Suc k) rows) = drop (Suc k) rows"
    "\<not> R (rows ! k) (rows ! k)"
    using assms(3) by (auto simp: filter_empty_conv)
  then show ?thesis by (subst (2) rows) simp
qed

lemma next_page:
  fixes rows :: "'v::linorder row list"
  assumes "NewPlan q definitions = Ok p" "utf8 (qu_Sort q)" "utf8 lastID"
    and "sd_PrimaryCodec (pl_definition p) = Some c1" "reads_back c1 v1"
    and "hasSecondary p \<Longrightarrow> v2 \<noteq> AnyNil \<and> (\<exists>c2. sd_SecondaryCodec (pl_definition p) = Some c2 \<and> reads_back c2 v2)"
    and "sorted_wrt (comes_before p) rows" "k < length rows"
    and "(rows ! k) (sd_PrimaryColumn (pl_definition p)) = sql v1" "(rows ! k) ''id'' = sql (AnyString lastID)"
    and "hasSecondary p \<Longrightarrow> (rows ! k) (sd_SecondaryColumn (pl_definition p)) = sql v2"
  obtains token p' args where "EncodeNextCursor p v1 lastID v2 = Ok token"
    "NewPlan (q\<lparr>qu_Cursor := token\<rparr>) definitions = Ok p'" "OrderBy p' = OrderBy p"
    "WhereClause p' = Ok (clause_text (where_conditions p'), args)"
    "filter (clause_holds (where_conditions p') (map sql args)) rows = drop (Suc k) rows"
proof -
  obtain token p' c where e: "EncodeNextCursor p v1 lastID v2 = Ok token"
    "NewPlan (q\<lparr>qu_Cursor := token\<rparr>) definitions = Ok p'"
    "pl_definition p' = pl_definition p" "pl_Order p' = pl_Order p" "pl_Cursor p' = Some c"
    "cu_LastID c = lastID" "primaryValue p' = Ok v1" "hasSecondary p \<Longrightarrow> secondaryValue p' = Ok v2"
    using next_cursor [OF assms(1-6)] by blast
  have same: "hasSecondary p' = hasSecondary p" "(comes_before p' :: 'v row \<Rightarrow> 'v row \<Rightarrow> bool) = comes_before p" "OrderBy p' = OrderBy p"
    using e(3,4) by (simp_all add: hasSecondary_def comes_before_def operator_def order_columns_def OrderBy_columns)
  obtain args where w: "WhereClause p' = Ok (clause_text (where_conditions p'), args)"
    "clause_holds (where_conditions p') (map sql args) = comes_before p' (rows ! k)"
    using WhereClause_selects [OF e(5,7), of v2 "rows ! k" sql] e(3,6,8) assms(9-11) same(1) by auto
  then have "filter (clause_holds (where_conditions p') (map sql args)) rows = drop (Suc k) rows"
    using filter_sorted_wrt [OF assms(7,8) comes_before_asym] same(2) by simp
  with e(1,2) same(3) w(1) show thesis by (rule that)
qed

end
