(* ===== verification/Paging_Properties.thy ===== *)
theory Paging_Properties
  imports Paging
begin

text \<open>The properties of paging by keys, each with an instance on a table of two rows.\<close>

section \<open>The instance\<close>

definition demo_definitions :: "string \<Rightarrow> sort_definition option" where
  "demo_definitions =
     [''name'' \<mapsto> \<lparr>sd_PrimaryColumn = ''name'', sd_SecondaryColumn = ''aisle'',
                  sd_PrimaryCodec = None, sd_SecondaryCodec = None\<rparr>]"

definition demo_query :: query where
  "demo_query = \<lparr>qu_Sort = ''name'', qu_Order = ''asc'', qu_Limit = 1, qu_Cursor = []\<rparr>"

definition demo_plan :: plan where
  "demo_plan =
     \<lparr>pl_Sort = ''name'', pl_Order = ''asc'',
      pl_definition = \<lparr>sd_PrimaryColumn = ''name'', sd_SecondaryColumn = ''aisle'',
        sd_PrimaryCodec = Some StringCodec, sd_SecondaryCodec = Some StringCodec\<rparr>,
      pl_Cursor = None\<rparr>"

definition demo_row :: "string \<Rightarrow> string \<Rightarrow> string \<Rightarrow> string row" where
  "demo_row name aisle ident column =
     (if column = ''name'' then name else if column = ''aisle'' then aisle else ident)"

definition demo_rows :: "string row list" where
  "demo_rows = [demo_row ''apple'' ''a'' ''1'', demo_row ''apple'' ''b'' ''0'', demo_row ''pear'' ''a'' ''2'']"

definition demo_sql :: "any_value \<Rightarrow> string" where
  "demo_sql v = (case v of AnyString s \<Rightarrow> s | AnyTime t \<Rightarrow> FormatRFC3339Nano t | _ \<Rightarrow> [])"

lemma demo_plan_Ok: "NewPlan demo_query demo_definitions = Ok demo_plan"
  by (simp add: NewPlan_def demo_query_def demo_definitions_def demo_plan_def normalizeDefinition_def
      OrderAsc_def)

lemma demo_utf8: "utf8 ''name''" "utf8 ''1''" "utf8 ''apple''" "utf8 ''a''" "utf8 ''asc''"
  by (auto intro!: utf8_ascii)

section \<open>Properties\<close>

text \<open>C35. A cursor whose texts are UTF-8 comes back from its token as it was.\<close>

theorem cursor_round_trip:
  assumes "cursor_utf8 c"
  shows "\<exists>token. EncodeCursor c = Ok token \<and> DecodeCursor token = Ok c"
  using decode_encode_cursor [OF assms] by (auto simp: EncodeCursor_def)

theorem cursor_round_trip_witness:
  "\<exists>token. EncodeCursor \<lparr>cu_Sort = ''name'', cu_Order = ''asc'', cu_LastValue = ''apple'',
       cu_LastSecondary = Some ''a'', cu_LastID = ''1''\<rparr> = Ok token \<and>
     DecodeCursor token = Ok \<lparr>cu_Sort = ''name'', cu_Order = ''asc'', cu_LastValue = ''apple'',
       cu_LastSecondary = Some ''a'', cu_LastID = ''1''\<rparr>"
  by (rule cursor_round_trip) (simp add: cursor_utf8_def demo_utf8)

text \<open>C33. The cursor made from the last row of a page gives, with the same query, the page that
  follows: the same order, and a condition that selects exactly the rows behind that row, none
  twice and none left out.\<close>

theorem next_page_is_the_rest:
  fixes rows :: "'v::linorder row list"
  assumes "NewPlan q definitions = Ok p" "utf8 (qu_Sort q)" "utf8 lastID"
    and "sd_PrimaryCodec (pl_definition p) = Some c1" "reads_back c1 v1"
    and "hasSecondary p \<Longrightarrow> v2 \<noteq> AnyNil \<and> (\<exists>c2. sd_SecondaryCodec (pl_definition p) = Some c2 \<and> reads_back c2 v2)"
    and "sorted_wrt (comes_before p) rows" "k < length rows"
    and "(rows ! k) (sd_PrimaryColumn (pl_definition p)) = sql v1" "(rows ! k) ''id'' = sql (AnyString lastID)"
    and "hasSecondary p \<Longrightarrow> (rows ! k) (sd_SecondaryColumn (pl_definition p)) = sql v2"
  shows "\<exists>token p' args. EncodeNextCursor p v1 lastID v2 = Ok token \<and>
    NewPlan (q\<lparr>qu_Cursor := token\<rparr>) definitions = Ok p' \<and> OrderBy p' = OrderBy p \<and>
    WhereClause p' = Ok (clause_text (where_conditions p'), args) \<and>
    filter (clause_holds (where_conditions p') (map sql args)) rows = drop (Suc k) rows"
  by (rule next_page [where q = q and sql = sql, OF assms]) blast+

theorem next_page_is_the_rest_witness:
  "\<exists>token p' args. EncodeNextCursor demo_plan (AnyString ''apple'') ''1'' (AnyString ''a'') = Ok token \<and>
    NewPlan (demo_query\<lparr>qu_Cursor := token\<rparr>) demo_definitions = Ok p' \<and> OrderBy p' = OrderBy demo_plan \<and>
    WhereClause p' = Ok (clause_text (where_conditions p'), args) \<and>
    filter (clause_holds (where_conditions p') (map demo_sql args)) demo_rows = drop (Suc 0) demo_rows"
proof (rule next_page_is_the_rest [OF demo_plan_Ok])
  show "sorted_wrt (comes_before demo_plan) demo_rows"
    by (simp add: demo_rows_def comes_before_def order_columns_def operator_def demo_plan_def hasSecondary_def
        demo_row_def OrderDesc_def less_char_def)
  show "reads_back StringCodec (AnyString ''apple'')"
    by (rule StringCodec_reads_back) (rule demo_utf8)
  show "AnyString ''a'' \<noteq> AnyNil \<and> (\<exists>c2. sd_SecondaryCodec (pl_definition demo_plan) = Some c2 \<and>
      reads_back c2 (AnyString ''a''))"
    using StringCodec_reads_back [OF demo_utf8(4)] by (simp add: demo_plan_def)
qed (simp_all add: demo_utf8 demo_query_def demo_rows_def demo_row_def demo_sql_def demo_plan_def)

text \<open>C34. A plan that was accepted never fails later: its condition can be built, and its cursor, when
  it has one, is of the query's own sort and order and has the second value the sort needs.\<close>

theorem accepted_plan_has_condition:
  assumes "NewPlan q definitions = Ok p"
  shows "(\<exists>clause args. WhereClause p = Ok (clause, args)) \<and>
    (case pl_Cursor p of
       None \<Rightarrow> qu_Cursor q = []
     | Some c \<Rightarrow> DecodeCursor (qu_Cursor q) = Ok c \<and> cu_Sort c = qu_Sort q \<and> cu_Order c = qu_Order q \<and>
         (hasSecondary p \<longrightarrow> cu_LastSecondary c \<noteq> None))"
proof (cases "qu_Cursor q = []")
  case True
  with NewPlan_first [OF assms] show ?thesis by (simp add: WhereClause_def)
next
  case False
  obtain c v1 where "DecodeCursor (qu_Cursor q) = Ok c" "pl_Cursor p = Some c" "cu_Sort c = qu_Sort q"
    "cu_Order c = qu_Order q" "primaryValue p = Ok v1"
    "hasSecondary p \<longrightarrow> cu_LastSecondary c \<noteq> None \<and> (\<exists>v2. secondaryValue p = Ok v2)"
    using NewPlan_cursor [OF assms False] .
  with WhereClause_Ok [of p c v1] show ?thesis by simp
qed

theorem accepted_plan_has_condition_witness:
  "(\<exists>clause args. WhereClause demo_plan = Ok (clause, args)) \<and> qu_Cursor demo_query = []"
  using accepted_plan_has_condition [OF demo_plan_Ok] by (simp add: demo_plan_def)

text \<open>C36. An instant of the years 0 to 9999 comes back from the text the time codec writes into a cursor,
  to the nanosecond.\<close>

theorem time_text_round_trip:
  assumes "0 \<le> text_year t" "text_year t < 10000"
  shows "\<exists>raw. cd_Serialize RFC3339TimeCodec (AnyTime t) = Ok raw \<and> cd_Parse RFC3339TimeCodec raw = Ok (AnyTime t)"
  by (simp add: RFC3339TimeCodec_def rfc3339_again [OF assms])

theorem time_text_round_trip_witness:
  "\<exists>raw. cd_Serialize RFC3339TimeCodec (AnyTime 1700000000123456000) = Ok raw \<and>
    cd_Parse RFC3339TimeCodec raw = Ok (AnyTime 1700000000123456000)"
  by (rule time_text_round_trip) code_simp+

end
