(* ===== verification/Demo.thy ===== *)
theory Demo
  imports Commands Json
begin

text \<open>
  The traffic generator (\<open>cmd/demo-traffic/main.go\<close>): it waits for the three servers, drives each
  through the life of a quote, and ends with a request each must refuse. What the clients of the
  libraries do is a parameter; a client's timeouts are the library's.
\<close>

section \<open>The parameters\<close>

record demo_response =
  dr_StatusCode :: int
  dr_Body :: "go_error + string"

record 's demo_platform =
  dm_Getenv :: "string \<Rightarrow> string"
  dm_Now :: "'s \<Rightarrow> time \<times> 's"
  dm_Sleep :: "duration \<Rightarrow> 's \<Rightarrow> 's"
  dm_NewRequest :: "string \<Rightarrow> string \<Rightarrow> go_error option"
  dm_Do :: "string \<Rightarrow> string \<Rightarrow> (string \<times> string) list \<Rightarrow> string option \<Rightarrow> ('s, demo_response) io"
  dm_GrpcDial :: "string \<Rightarrow> ('s, nat) io"
  dm_GrpcCall :: "nat \<Rightarrow> string option \<Rightarrow> grpc_request \<Rightarrow> ('s, grpc_reply) io"
  dm_GrpcClose :: "nat \<Rightarrow> 's \<Rightarrow> 's"
  dm_InvalidArgument :: "go_error \<Rightarrow> bool"
  dm_RpcDial :: "string \<Rightarrow> ('s, nat) io"
  dm_RpcCall :: "nat \<Rightarrow> rpc_request \<Rightarrow> ('s, rpc_reply) io"
  dm_RpcClose :: "nat \<Rightarrow> 's \<Rightarrow> 's"
  dm_Println :: "string \<Rightarrow> 's \<Rightarrow> 's"

record demo_config =
  dc_httpBaseURL :: string
  dc_grpcAddr :: string
  dc_rpcAddr :: string
  dc_timeout :: duration

definition defaultHTTPBaseURL :: string where "defaultHTTPBaseURL = ''http://127.0.0.1:8000''"
definition defaultGRPCAddr :: string where "defaultGRPCAddr = ''127.0.0.1:9000''"
definition defaultRPCAddr :: string where "defaultRPCAddr = ''127.0.0.1:9100''"
definition defaultTimeout :: duration where "defaultTimeout = 30000000000"

definition envOrDefault :: "'s demo_platform \<Rightarrow> string \<Rightarrow> string \<Rightarrow> string" where
  "envOrDefault P key fallback = (let v = dm_Getenv P key in if v = [] then fallback else v)"

definition nextKey :: "'s demo_platform \<Rightarrow> string \<Rightarrow> 's \<Rightarrow> string \<times> 's" where
  "nextKey P prefix s = (case dm_Now P s of (t, s) \<Rightarrow> (prefix @ ''-'' @ show_int t, s))"

section \<open>Waiting\<close>

text \<open>
  The loop of \<open>waitFor\<close>: None would be a loop without end. When it never probed, the wrapped error
  is nil.
\<close>

definition wait_failed :: "string \<Rightarrow> go_error option \<Rightarrow> go_error" where
  "wait_failed name lastErr =
     (case lastErr of
        None \<Rightarrow> PlainError (''wait for '' @ name @ '' ready: %!w(<nil>)'')
      | Some e \<Rightarrow> WrapError (''wait for '' @ name @ '' ready: '' @ error_text e) e)"

definition poll_interval :: duration where "poll_interval = 250000000"

partial_function (option) wait_loop ::
  "'s demo_platform \<Rightarrow> string \<Rightarrow> time \<Rightarrow> ('s, unit) io \<Rightarrow> go_error option \<Rightarrow> 's \<Rightarrow> (unit res \<times> 's) option" where
  "wait_loop P name deadline fn lastErr s =
     (case dm_Now P s of
        (t, s) \<Rightarrow>
          if t < deadline
          then (case fn s of
                  (Ok _, s) \<Rightarrow> Some (Ok (), s)
                | (Err e, s) \<Rightarrow> wait_loop P name deadline fn (Some e) (dm_Sleep P poll_interval s)
                | (Panic p, s) \<Rightarrow> Some (Panic p, s))
          else Some (Err (wait_failed name lastErr), s))"

definition waitFor ::
  "'s demo_platform \<Rightarrow> string \<Rightarrow> duration \<Rightarrow> ('s, unit) io \<Rightarrow> 's \<Rightarrow> (unit res \<times> 's) option" where
  "waitFor P name timeout fn s = (case dm_Now P s of (t, s) \<Rightarrow> wait_loop P name (t + timeout) fn None s)"

definition waitForHTTPReady :: "'s demo_platform \<Rightarrow> string \<Rightarrow> duration \<Rightarrow> 's \<Rightarrow> (unit res \<times> 's) option" where
  "waitForHTTPReady P baseURL timeout =
     waitFor P ''http'' timeout
       (bind (dm_Do P ''GET'' (baseURL @ ''/ready'') [] None) (\<lambda>response.
          if dr_StatusCode response \<noteq> 200
          then throw (PlainError (''ready status '' @ show_int (dr_StatusCode response)))
          else ret ()))"

definition waitForGRPCReady :: "'s demo_platform \<Rightarrow> string \<Rightarrow> duration \<Rightarrow> 's \<Rightarrow> (unit res \<times> 's) option" where
  "waitForGRPCReady P addr timeout =
     waitFor P ''grpc'' timeout (bind (dm_GrpcDial P addr) (\<lambda>conn. perform (dm_GrpcClose P conn)))"

definition waitForRPCReady :: "'s demo_platform \<Rightarrow> string \<Rightarrow> duration \<Rightarrow> 's \<Rightarrow> (unit res \<times> 's) option" where
  "waitForRPCReady P addr timeout =
     waitFor P ''rpc'' timeout (bind (dm_RpcDial P addr) (\<lambda>client. perform (dm_RpcClose P client)))"

section \<open>HTTP\<close>

definition doJSONRequest ::
  "'s demo_platform \<Rightarrow> string \<Rightarrow> string \<Rightarrow> string option \<Rightarrow> (string \<times> string) list \<Rightarrow> int \<Rightarrow> ('s, string) io" where
  "doJSONRequest P verb url body headers expectedStatus =
     (case dm_NewRequest P verb url of
        Some err \<Rightarrow> throw (WrapError (''build request: '' @ error_text err) err)
      | None \<Rightarrow>
          bind (wrapping ''execute request'' (dm_Do P verb url headers body)) (\<lambda>response.
          bind (wrapping ''read response'' (lift (ReadAll (dr_Body response)))) (\<lambda>responseBody.
            if dr_StatusCode response \<noteq> expectedStatus
            then throw (PlainError (''unexpected status '' @ show_int (dr_StatusCode response) @ '' body='' @ responseBody))
            else ret responseBody)))"

definition expectHTTPStatus ::
  "'s demo_platform \<Rightarrow> string \<Rightarrow> string \<Rightarrow> string option \<Rightarrow> (string \<times> string) list \<Rightarrow> int \<Rightarrow> ('s, unit) io" where
  "expectHTTPStatus P verb url body headers expectedStatus =
     bind (doJSONRequest P verb url body headers expectedStatus) (\<lambda>_. ret ())"

text \<open>The bodies, as \<open>json.Marshal\<close> writes the maps, and the envelope they are answered in.\<close>

definition quote_body :: string where
  "quote_body =
     json_object
       [(''baseAmount'', json_object [(''currency'', json_string ''KRW''), (''minorUnits'', ''100000'')]),
        (''quoteCurrency'', json_string ''USD'')]"

definition conversion_body :: "string \<Rightarrow> string" where
  "conversion_body quoteID = json_object [(''quoteId'', json_string quoteID)]"

fun data_members :: "(string \<times> json) list \<Rightarrow> string \<Rightarrow> string option" where
  "data_members [] ident = Some ident"
| "data_members ((k, v) # ms) ident =
     (if struct_field [''id''] k = None then data_members ms ident
      else (case v of JString s \<Rightarrow> data_members ms s | JNull \<Rightarrow> data_members ms ident | _ \<Rightarrow> None))"

fun envelope_members :: "(string \<times> json) list \<Rightarrow> string \<Rightarrow> string option" where
  "envelope_members [] ident = Some ident"
| "envelope_members ((k, v) # ms) ident =
     (case struct_field [''success'', ''data''] k of
        None \<Rightarrow> envelope_members ms ident
      | Some f \<Rightarrow>
          if f = ''success''
          then (case v of JBool _ \<Rightarrow> envelope_members ms ident | JNull \<Rightarrow> envelope_members ms ident | _ \<Rightarrow> None)
          else (case v of
                  JObject ds \<Rightarrow> Option.bind (data_members ds ident) (envelope_members ms)
                | JNull \<Rightarrow> envelope_members ms ident
                | _ \<Rightarrow> None))"

definition envelope_id :: "string \<Rightarrow> string res" where
  "envelope_id body =
     (case json_parse body of
        None \<Rightarrow> Err (PlainError ''invalid JSON'')
      | Some v \<Rightarrow>
          (case (case v of JNull \<Rightarrow> Some [] | JObject ms \<Rightarrow> envelope_members ms [] | _ \<Rightarrow> None) of
             Some ident \<Rightarrow> Ok ident
           | None \<Rightarrow> Err (PlainError ''json: cannot unmarshal'')))"

definition createHTTPQuote :: "'s demo_platform \<Rightarrow> string \<Rightarrow> string \<Rightarrow> ('s, string) io" where
  "createHTTPQuote P baseURL idempotencyKey =
     bind (doJSONRequest P ''POST'' (baseURL @ ''/api/v1/quotes'') (Some quote_body)
       [(''Content-Type'', ''application/json''), (''Idempotency-Key'', idempotencyKey)] 200) (\<lambda>responseBody.
       wrapping ''decode http quote response'' (lift (envelope_id responseBody)))"

definition createHTTPConversion :: "'s demo_platform \<Rightarrow> string \<Rightarrow> string \<Rightarrow> string \<Rightarrow> ('s, string) io" where
  "createHTTPConversion P baseURL quoteID idempotencyKey =
     bind (doJSONRequest P ''POST'' (baseURL @ ''/api/v1/conversions'') (Some (conversion_body quoteID))
       [(''Content-Type'', ''application/json''), (''Idempotency-Key'', idempotencyKey)] 200) (\<lambda>responseBody.
       wrapping ''decode http conversion response'' (lift (envelope_id responseBody)))"

definition driveHTTP :: "'s demo_platform \<Rightarrow> demo_config \<Rightarrow> ('s, unit) io" where
  "driveHTTP P cfg =
     (let url = dc_httpBaseURL cfg
      in bind (wrapping ''http get rates''
                (expectHTTPStatus P ''GET'' (url @ ''/api/v1/rates?base=KRW&quotes=USD,JPY'') None [] 200)) (\<lambda>_.
         get_with (nextKey P ''http-quote'') (\<lambda>key.
         bind (wrapping ''http create quote'' (createHTTPQuote P url key)) (\<lambda>quoteID.
         get_with (nextKey P ''http-conversion'') (\<lambda>key.
         bind (wrapping ''http create conversion'' (createHTTPConversion P url quoteID key)) (\<lambda>conversionID.
         bind (wrapping ''http get conversion''
                (expectHTTPStatus P ''GET'' (url @ ''/api/v1/conversions/'' @ conversionID) None [] 200)) (\<lambda>_.
           wrapping ''http missing idempotency''
             (expectHTTPStatus P ''POST'' (url @ ''/api/v1/quotes'') (Some quote_body)
               [(''Content-Type'', ''application/json'')] 422))))))))"

section \<open>gRPC and RPC\<close>

text \<open>A call whose error is looked at, not returned.\<close>

definition inspecting :: "('s, 'a) io \<Rightarrow> (go_error option \<Rightarrow> ('s, 'b) io) \<Rightarrow> ('s, 'b) io" where
  "inspecting m f s =
     (case m s of
        (Ok _, s) \<Rightarrow> f None s
      | (Err e, s) \<Rightarrow> f (Some e) s
      | (Panic p, s) \<Rightarrow> (Panic p, s))"

text \<open>\<open>%v\<close> of an error that may be nil.\<close>

definition error_verb :: "go_error option \<Rightarrow> string" where
  "error_verb err = (case err of None \<Rightarrow> ''<nil>'' | Some e \<Rightarrow> error_text e)"

text \<open>\<open>GetId()\<close> of a reply.\<close>

fun message_id :: "grpc_reply \<Rightarrow> string" where
  "message_id (QuoteMessage m) = gq_Id m"
| "message_id (ConversionMessage m) = gc_Id m"
| "message_id (RatesMessage m) = []"

fun reply_id :: "rpc_reply \<Rightarrow> string" where
  "reply_id (QuoteReply r) = pq_ID r"
| "reply_id (ConversionReply r) = pc_ID r"
| "reply_id (RatesReply r) = []"

definition demo_grpc_quote :: grpc_request where
  "demo_grpc_quote =
     GrpcCreateQuote \<lparr>gcq_BaseAmount = Some \<lparr>gmi_Currency = ''KRW'', gmi_MinorUnits = 100000\<rparr>,
                      gcq_QuoteCurrency = ''USD''\<rparr>"

definition demo_rpc_quote :: "string \<Rightarrow> rpc_request" where
  "demo_rpc_quote key =
     RpcCreateQuote \<lparr>pqa_IdempotencyKey = key, pqa_BaseAmount = \<lparr>pmi_Currency = ''KRW'', pmi_MinorUnits = 100000\<rparr>,
                     pqa_QuoteCurrency = ''USD''\<rparr>"

definition driveGRPC :: "'s demo_platform \<Rightarrow> demo_config \<Rightarrow> ('s, unit) io" where
  "driveGRPC P cfg =
     bind (wrapping ''dial grpc'' (dm_GrpcDial P (dc_grpcAddr cfg))) (\<lambda>conn.
       deferring (dm_GrpcClose P conn)
         (bind (wrapping ''grpc get rates''
                 (dm_GrpcCall P conn None (GrpcGetRates \<lparr>grq_Base = ''KRW'', grq_Quotes = [''USD'', ''JPY'']\<rparr>))) (\<lambda>_.
          get_with (nextKey P ''grpc-quote'') (\<lambda>key.
          bind (wrapping ''grpc create quote'' (dm_GrpcCall P conn (Some key) demo_grpc_quote)) (\<lambda>quote.
          get_with (nextKey P ''grpc-conversion'') (\<lambda>key.
          bind (wrapping ''grpc create conversion''
                 (dm_GrpcCall P conn (Some key) (GrpcCreateConversion
                    \<lparr>gcc_QuoteId = message_id quote, gcc_PaymentProvider = [], gcc_TransferProvider = []\<rparr>)))
            (\<lambda>conversion.
          bind (wrapping ''grpc get conversion''
                 (dm_GrpcCall P conn None (GrpcGetConversion \<lparr>ggc_ConversionId = message_id conversion\<rparr>))) (\<lambda>_.
            inspecting (dm_GrpcCall P conn None demo_grpc_quote) (\<lambda>err.
              if (case err of None \<Rightarrow> False | Some e \<Rightarrow> dm_InvalidArgument P e) then ret ()
              else throw (PlainError (''grpc missing idempotency expected InvalidArgument, got '' @ error_verb err)))))))))))"

definition driveRPC :: "'s demo_platform \<Rightarrow> demo_config \<Rightarrow> ('s, unit) io" where
  "driveRPC P cfg =
     bind (wrapping ''dial rpc'' (dm_RpcDial P (dc_rpcAddr cfg))) (\<lambda>client.
       deferring (dm_RpcClose P client)
         (bind (wrapping ''rpc get rates''
                 (dm_RpcCall P client (RpcGetRates \<lparr>pga_Base = ''KRW'', pga_Quotes = [''USD'', ''JPY'']\<rparr>))) (\<lambda>_.
          get_with (nextKey P ''rpc-quote'') (\<lambda>key.
          bind (wrapping ''rpc create quote'' (dm_RpcCall P client (demo_rpc_quote key))) (\<lambda>quoteReply.
          get_with (nextKey P ''rpc-conversion'') (\<lambda>key.
          bind (wrapping ''rpc create conversion''
                 (dm_RpcCall P client (RpcCreateConversion
                    \<lparr>pca_IdempotencyKey = key, pca_QuoteID = reply_id quoteReply, pca_PaymentProvider = [],
                     pca_TransferProvider = []\<rparr>))) (\<lambda>conversionReply.
          bind (wrapping ''rpc get conversion''
                 (dm_RpcCall P client (RpcGetConversion \<lparr>pgc_ConversionID = reply_id conversionReply\<rparr>))) (\<lambda>_.
            inspecting (dm_RpcCall P client (demo_rpc_quote [])) (\<lambda>err.
              if err = None then throw (PlainError ''rpc missing idempotency expected error, got nil'')
              else ret ())))))))))"

section \<open>The program\<close>

text \<open>\<open>if err := m(); err != nil { return err }\<close> for a step that may not end.\<close>

definition after ::
  "('s \<Rightarrow> (unit res \<times> 's) option) \<Rightarrow> ('s \<Rightarrow> (unit res \<times> 's) option) \<Rightarrow> 's \<Rightarrow> (unit res \<times> 's) option" where
  "after m k s = Option.bind (m s) (\<lambda>(r, s). case r of Ok _ \<Rightarrow> k s | _ \<Rightarrow> Some (r, s))"

definition demo_run :: "'s demo_platform \<Rightarrow> 's \<Rightarrow> (unit res \<times> 's) option" where
  "demo_run P =
     (let cfg = \<lparr>dc_httpBaseURL = envOrDefault P ''DEMO_HTTP_BASE_URL'' defaultHTTPBaseURL,
                 dc_grpcAddr = envOrDefault P ''DEMO_GRPC_ADDR'' defaultGRPCAddr,
                 dc_rpcAddr = envOrDefault P ''DEMO_RPC_ADDR'' defaultRPCAddr, dc_timeout = defaultTimeout\<rparr>
      in after (waitForHTTPReady P (dc_httpBaseURL cfg) (dc_timeout cfg))
         (after (waitForGRPCReady P (dc_grpcAddr cfg) (dc_timeout cfg))
         (after (waitForRPCReady P (dc_rpcAddr cfg) (dc_timeout cfg))
         (\<lambda>s. Some (bind (driveHTTP P cfg) (\<lambda>_.
                    bind (driveGRPC P cfg) (\<lambda>_.
                    bind (driveRPC P cfg) (\<lambda>_.
                      perform (dm_Println P ''demo traffic completed for http, grpc, rpc'')))) s)))))"

section \<open>The waits end\<close>

text \<open>
  What the waits rely on: time never runs backwards, whatever is called, and sleeping takes at
  least the time asked for. \<open>clk\<close> is the time of a state.
\<close>

definition forward :: "('s \<Rightarrow> time) \<Rightarrow> ('s, 'a) io \<Rightarrow> bool" where
  "forward clk m \<longleftrightarrow> (\<forall>s r t. m s = (r, t) \<longrightarrow> clk s \<le> clk t)"

locale ticking =
  fixes P :: "'s demo_platform" and clk :: "'s \<Rightarrow> time"
  assumes now: "dm_Now P s = (n, t) \<Longrightarrow> clk s \<le> n \<and> n \<le> clk t"
    and sleep: "0 \<le> d \<Longrightarrow> clk s + d \<le> clk (dm_Sleep P d s)"
    and http: "forward clk (dm_Do P verb url hs body)"
    and grpc: "forward clk (dm_GrpcDial P addr)" "clk s \<le> clk (dm_GrpcClose P conn s)"
    and rpc: "forward clk (dm_RpcDial P addr)" "clk s \<le> clk (dm_RpcClose P conn s)"
begin

text \<open>
  The loop ends: with the success of its last probe, with a panic, or when the deadline has
  passed.
\<close>

lemma wait_loop_ends:
  assumes "forward clk fn"
  shows "\<exists>r t. wait_loop P name deadline fn lastErr s = Some (r, t) \<and>
    (r = Ok () \<longrightarrow> (\<exists>x. fn x = (Ok (), t))) \<and> (\<forall>e. r = Err e \<longrightarrow> deadline \<le> clk t)"
proof (induction "nat (deadline - clk s)" arbitrary: s lastErr rule: less_induct)
  case less
  obtain n s1 where n: "dm_Now P s = (n, s1)" by fastforce
  note clock = now [OF n]
  show ?case
  proof (cases "n < deadline")
    case False
    with n clock show ?thesis by (subst wait_loop.simps) auto
  next
    case True
    obtain r s2 where probe: "fn s1 = (r, s2)" by fastforce
    with assms have s2: "clk s1 \<le> clk s2" by (auto simp: forward_def)
    show ?thesis
    proof (cases r)
      case (Ok u)
      with n True probe show ?thesis by (subst wait_loop.simps) auto
    next
      case (Panic p)
      with n True probe show ?thesis by (subst wait_loop.simps) auto
    next
      case (Err e)
      let ?s = "dm_Sleep P poll_interval s2"
      have "clk s2 + poll_interval \<le> clk ?s" by (rule sleep) (simp add: poll_interval_def)
      with clock s2 True have "nat (deadline - clk ?s) < nat (deadline - clk s)"
        by (simp add: poll_interval_def)
      moreover have "wait_loop P name deadline fn lastErr s = wait_loop P name deadline fn (Some e) ?s"
        using n True probe Err by (subst wait_loop.simps) simp
      ultimately show ?thesis using less.hyps by simp
    qed
  qed
qed

lemma waitFor_ends:
  assumes "forward clk fn"
  shows "\<exists>r t. waitFor P name timeout fn s = Some (r, t) \<and>
    (r = Ok () \<longrightarrow> (\<exists>x. fn x = (Ok (), t))) \<and> (\<forall>e. r = Err e \<longrightarrow> clk s + timeout \<le> clk t)"
proof -
  obtain n s1 where n: "dm_Now P s = (n, s1)" by fastforce
  with now [OF n] wait_loop_ends [OF assms, of name "n + timeout" None s1] show ?thesis
    unfolding waitFor_def by fastforce
qed

lemma forward_bind:
  assumes "forward clk m" "\<And>x. forward clk (f x)"
  shows "forward clk (bind m f)"
  unfolding forward_def
proof (intro allI impI)
  fix s r t
  assume run: "bind m f s = (r, t)"
  obtain r1 s1 where m: "m s = (r1, s1)" by fastforce
  from assms(1) m have "clk s \<le> clk s1" by (simp add: forward_def)
  moreover have "clk s1 \<le> clk t"
    using run m assms(2) by (cases r1) (auto simp: forward_def)
  ultimately show "clk s \<le> clk t" by simp
qed

lemma forward_steps:
  "(\<And>s. clk s \<le> clk (g s)) \<Longrightarrow> forward clk (perform g)" "forward clk (throw e)" "forward clk (ret x)"
  by (simp_all add: forward_def perform_def throw_def ret_def)

lemma demo_ends: "\<exists>r t. demo_run P s = Some (r, t)"
proof -
  have step: "\<exists>r t. after m k s = Some (r, t)"
    if m: "\<And>s. \<exists>r t. m s = Some (r, t)" and k: "\<And>s. \<exists>r t. k s = Some (r, t)" for m k :: "'s \<Rightarrow> (unit res \<times> 's) option" and s
  proof -
    obtain r t where "m s = Some (r, t)" using m by blast
    with k [of t] show ?thesis by (cases r) (simp_all add: after_def)
  qed
  have probes:
    "forward clk (bind (dm_Do P ''GET'' u [] None) (\<lambda>response.
       if dr_StatusCode response \<noteq> 200
       then throw (PlainError (''ready status '' @ show_int (dr_StatusCode response))) else ret ()))"
    "forward clk (bind (dm_GrpcDial P u) (\<lambda>conn. perform (dm_GrpcClose P conn)))"
    "forward clk (bind (dm_RpcDial P u) (\<lambda>client. perform (dm_RpcClose P client)))" for u
    by (rule forward_bind, rule http grpc(1) rpc(1), simp add: forward_steps grpc(2) rpc(2))+
  have "\<exists>r t. waitForHTTPReady P u d s = Some (r, t)" for u d s
    unfolding waitForHTTPReady_def using waitFor_ends [OF probes(1)] by blast
  moreover have "\<exists>r t. waitForGRPCReady P u d s = Some (r, t)" for u d s
    unfolding waitForGRPCReady_def using waitFor_ends [OF probes(2)] by blast
  moreover have "\<exists>r t. waitForRPCReady P u d s = Some (r, t)" for u d s
    unfolding waitForRPCReady_def using waitFor_ends [OF probes(3)] by blast
  ultimately show ?thesis
    unfolding demo_run_def Let_def by (intro step) simp_all
qed

end

end
