(* ===== verification/Demo_Properties.thy ===== *)
theory Demo_Properties
  imports Demo Memory_Inbound
begin

text \<open>
  The traffic generator against the three servers in memory: its clients call the model's servers
  on their world, its clock is its own. Its last requests, without a key, are refused by all
  three.
\<close>

section \<open>The generator and the servers\<close>

definition remote :: "(world, 'a) io \<Rightarrow> (time \<times> world, 'a) io" where
  "remote m = (\<lambda>(t, w). case m w of (r, w) \<Rightarrow> (r, (t + 1, w)))"

fun data_id :: "http_body option \<Rightarrow> string" where
  "data_id (Some (SuccessBody b)) =
     (case sc_Data b of QuoteData q \<Rightarrow> hq_ID q | ConversionData c \<Rightarrow> hc_ID c | _ \<Rightarrow> [])"
| "data_id _ = []"

definition mem_http_call :: "string \<Rightarrow> string \<Rightarrow> (string \<times> string) list \<Rightarrow> string option \<Rightarrow> (world, demo_response) io" where
  "mem_http_call verb path hs body w =
     (let rq = \<lparr>rq_Method = verb, rq_Path = takeWhile (\<lambda>c. c \<noteq> CHR ''?'') path,
               rq_Query = tl (dropWhile (\<lambda>c. c \<noteq> CHR ''?'') (path @ ''?'')),
               rq_Header = (\<lambda>k. case map_of hs k of Some v \<Rightarrow> v | None \<Rightarrow> []),
               rq_Body = Inr (case body of Some b \<Rightarrow> b | None \<Rightarrow> []), rq_ClientIP = ''127.0.0.1'',
               rq_FullPath = [], rq_Params = (\<lambda>_. [])\<rparr>
      in case ServeHTTP mem_inbound fresh_view mem_engine rq w of
           (out, c, w) \<Rightarrow>
             (Ok \<lparr>dr_StatusCode = gv_status c,
                  dr_Body = Inr (json_object [(''data'', json_object [(''id'', json_string (data_id (gv_body c)))])])\<rparr>, w))"

definition mem_grpc_call :: "string option \<Rightarrow> grpc_request \<Rightarrow> (world, grpc_reply) io" where
  "mem_grpc_call key req w =
     (case grpc_serve mem_libraries mem_parse_ulid mem_grpc
             (Some (\<lambda>k. if k = idempotencyMetadataKey then (case key of Some v \<Rightarrow> [v] | None \<Rightarrow> []) else [])) req w of
        (Ok m, w) \<Rightarrow> (Ok m, w)
      | (Err (GrpcStatus code message), w) \<Rightarrow>
          (Err (WrapError message (PlainError (if code = GrpcInvalidArgument then ''InvalidArgument'' else ''other''))), w)
      | (Panic p, w) \<Rightarrow> (Err (PlainError ''unavailable''), w))"

definition mem_demo :: "(time \<times> world) demo_platform" where
  "mem_demo =
     \<lparr>dm_Getenv = (\<lambda>_. []), dm_Now = (\<lambda>(t, w). (t, (t, w))), dm_Sleep = (\<lambda>d (t, w). (t + d, w)),
      dm_NewRequest = (\<lambda>_ _. None),
      dm_Do = (\<lambda>verb url hs body. remote (mem_http_call verb (drop (length defaultHTTPBaseURL) url) hs body)),
      dm_GrpcDial = (\<lambda>_. remote (or_fault (\<lambda>w. (0, w)))),
      dm_GrpcCall = (\<lambda>_ key req. remote (mem_grpc_call key req)), dm_GrpcClose = (\<lambda>_ s. s),
      dm_InvalidArgument = (\<lambda>e. Unwrap e = Some (PlainError ''InvalidArgument'')),
      dm_RpcDial = (\<lambda>_. remote (or_fault (\<lambda>w. (0, w)))),
      dm_RpcCall = (\<lambda>_ req. remote (rpc_serve mem_libraries mem_parse_ulid mem_rpc req)),
      dm_RpcClose = (\<lambda>_ s. s), dm_Println = (\<lambda>_ s. s)\<rparr>"

lemma forward_remote: "forward fst (remote m)"
  by (auto simp: forward_def remote_def split: prod.splits)

lemma mem_ticking: "ticking mem_demo fst"
  by unfold_locales (auto simp: mem_demo_def forward_remote)

interpretation mem_demo: ticking mem_demo fst
  by (rule mem_ticking)

lemma TrimSpace_Nil: "TrimSpace [] = []"
  using length_TrimSpace [of "[]"] by simp

section \<open>Properties\<close>



text \<open>C38. Without an idempotency key no transport creates a quote or a conversion: each refuses the
  request before it looks at anything else, with the error of a validation (HTTP 422, gRPC invalid
  argument), and the use case is not run.\<close>

theorem missing_key_refused:
  assumes "TrimSpace (rq_Header rq ''Idempotency-Key'') = []"
    and "case md of None \<Rightarrow> True | Some get \<Rightarrow> (\<forall>v \<in> set (take 1 (get ''idempotency-key'')). TrimSpace v = [])"
    and "TrimSpace (pqa_IdempotencyKey qa) = []" "TrimSpace (pca_IdempotencyKey ca) = []"
  shows "\<exists>err. httpStatusFor (app_code (as_app_error err)) = 422 \<and>
    status_Code (Err (mapError err) :: (grpc_status, unit) result) = GrpcInvalidArgument \<and>
    Http_CreateQuote X I h rq = throw err \<and> Http_CreateConversion X I h rq = throw err \<and>
    Grpc_CreateQuote X svc md qm = throw (mapError err) \<and>
    Grpc_CreateConversion X parse svc md cm = throw (mapError err) \<and>
    Rpc_CreateQuote X srv qa = deferred_record (lib_now X) srv ''FXRPCService.CreateQuote'' (throw err) \<and>
    Rpc_CreateConversion X parse srv ca =
      deferred_record (lib_now X) srv ''FXRPCService.CreateConversion'' (throw err)"
proof -
  let ?err = "Validation ''Idempotency-Key header is required'' []"
  have parse: "ParseIdempotencyKey key = Err ?err" if "TrimSpace key = []" for key
    using that by (simp add: ParseIdempotencyKey_def)
  have refused: "bind (lift (Err ?err)) f = throw ?err" for f :: "'x \<Rightarrow> ('y, 'z) io"
    by (simp add: fun_eq_iff bind_def lift_def throw_def)
  have mapped: "mapped (throw ?err) = throw (mapError ?err)"
    by (simp add: fun_eq_iff mapped_def throw_def)
  have md: "Grpc_requiredIdempotencyKey md = Err ?err"
  proof (cases md)
    case (Some get)
    with assms(2) parse show ?thesis
      by (cases "get ''idempotency-key''")
        (auto simp: Grpc_requiredIdempotencyKey_def idempotencyMetadataKey_def TrimSpace_Nil)
  qed (simp add: Grpc_requiredIdempotencyKey_def TrimSpace_Nil parse)
  have "httpStatusFor (app_code (as_app_error ?err)) = 422"
    "status_Code (Err (mapError ?err) :: (grpc_status, unit) result) = GrpcInvalidArgument"
    by (simp_all add: httpStatusFor_def mapError_def Errors.code_defs Validation_def)
  moreover have "Http_CreateQuote X I h rq = throw ?err" "Http_CreateConversion X I h rq = throw ?err"
    by (simp_all add: Http_CreateQuote_def Http_CreateConversion_def Http_requiredIdempotencyKey_def
        parse [OF assms(1)] refused)
  moreover have "Grpc_CreateQuote X svc md qm = throw (mapError ?err)"
    "Grpc_CreateConversion X parse svc md cm = throw (mapError ?err)"
    by (simp_all add: Grpc_CreateQuote_def Grpc_CreateConversion_def md refused mapped)
  moreover have "Rpc_CreateQuote X srv qa = deferred_record (lib_now X) srv ''FXRPCService.CreateQuote'' (throw ?err)"
    "Rpc_CreateConversion X parse srv ca =
      deferred_record (lib_now X) srv ''FXRPCService.CreateConversion'' (throw ?err)"
    by (simp_all add: Rpc_CreateQuote_def Rpc_CreateConversion_def parse [OF assms(3)] parse [OF assms(4)] refused)
  ultimately show ?thesis by blast
qed

theorem missing_key_refused_witness:
  "\<exists>err. Http_CreateQuote mem_libraries mem_inbound
      (NewFXHandler (handler_deps mem_usecases (system_providers mem_libraries default_config)))
      (accept_post\<lparr>rq_Header := (\<lambda>_. '' '')\<rparr>) = throw err \<and>
    Grpc_CreateQuote mem_libraries (gs_service mem_grpc) None
      \<lparr>gcq_BaseAmount = None, gcq_QuoteCurrency = ''USD''\<rparr> = throw (mapError err) \<and>
    Rpc_CreateConversion mem_libraries mem_parse_ulid mem_rpc
      \<lparr>pca_IdempotencyKey = [], pca_QuoteID = mem_id 1, pca_PaymentProvider = [], pca_TransferProvider = []\<rparr> =
      deferred_record (lib_now mem_libraries) mem_rpc ''FXRPCService.CreateConversion'' (throw err)"
proof -
  have blank: "TrimSpace '' '' = []" by code_simp
  have "TrimSpace (rq_Header (accept_post\<lparr>rq_Header := (\<lambda>_. '' '')\<rparr>) ''Idempotency-Key'') = []"
    "case None of None \<Rightarrow> True | Some get \<Rightarrow> (\<forall>v \<in> set (take 1 (get ''idempotency-key'')). TrimSpace v = [])"
    "TrimSpace (pqa_IdempotencyKey \<lparr>pqa_IdempotencyKey = [], pqa_BaseAmount = \<lparr>pmi_Currency = ''KRW'',
      pmi_MinorUnits = 1\<rparr>, pqa_QuoteCurrency = ''USD''\<rparr>) = []"
    "TrimSpace (pca_IdempotencyKey \<lparr>pca_IdempotencyKey = [], pca_QuoteID = mem_id 1, pca_PaymentProvider = [],
      pca_TransferProvider = []\<rparr>) = []"
    by (simp_all add: blank TrimSpace_Nil)
  from missing_key_refused [OF this] show ?thesis by blast
qed

end
