(* ===== verification/Outbound_Properties.thy ===== *)
theory Outbound_Properties
  imports Memory
begin




text \<open>C40. A webhook's signature is accepted exactly when no secret is configured or it is the
  hexadecimal keyed hash of the payload; otherwise the answer is the error of an unauthorized
  request, and the check never panics.\<close>

theorem signature_check_exact:
  "case Verify mac secret signature payload of
     Ok _ \<Rightarrow> secret = [] \<or> (signature = EncodeToString (mac secret payload) \<and> 0 < length signature)
   | Err e \<Rightarrow> \<not> (secret = [] \<or> (signature = EncodeToString (mac secret payload) \<and> 0 < length signature)) \<and>
       app_code e = ErrorCodeUnauthorized
   | Panic p \<Rightarrow> False"
  by (auto simp: Verify_def ConstantTimeCompare_iff split: if_splits)

end
