(* ===== verification/Spec2Isabelle.thy ===== *)
theory Spec2Isabelle
  imports Domain_Properties Transport_Properties Paging_Properties Demo_Properties Outbound_Properties
begin

text \<open>
  HEADER
\<close>

section \<open>The whole system\<close>

text \<open>C1. Whatever operations run in whatever order, with whatever failures, from a sound state only
  sound states are reached: every conversion settles an accepted quote on that quote's own terms,
  every accepted quote has its conversion, every received webhook names a conversion, and each
  conversion and each webhook has put exactly one event into the outbox.\<close>

theorem system_invariant:
  assumes "fx_system X C view snap okE" "system_usecases X cfg = Ok us"
    and "sound_state (lib_decimal X) C view snap okE s"
    and "system_run (run_operation X cfg us) s t"
  shows "sound_state (lib_decimal X) C view snap okE t"
  by (rule fx_system.system_run_sound [OF assms(1,2,4,3)])

theorem system_invariant_witness:
  "mem_sound (snd (HandlePaymentWebhook_Execute mem_ulid (us_HandlePaymentWebhook mem_usecases) payment_event
     (snd (AcceptQuote_Execute mem_ulid (us_AcceptQuote mem_usecases) ''accept-1'' (mem_id 1) ''toss'' ''wise''
       (start db1 2 [])))))"
proof (rule system_invariant [OF mem_system mem_usecases_Ok sound1])
  have "system_run (run_operation mem_libraries default_config mem_usecases) (start db1 2 [])
      (run_operation mem_libraries default_config mem_usecases (PaymentEvent payment_event)
        (run_operation mem_libraries default_config mem_usecases
          (Accept ''accept-1'' (mem_id 1) ''toss'' ''wise'') (start db1 2 [])))"
    by (intro system_run.intros) simp_all
  then show "system_run (run_operation mem_libraries default_config mem_usecases) (start db1 2 [])
      (snd (HandlePaymentWebhook_Execute mem_ulid (us_HandlePaymentWebhook mem_usecases) payment_event
        (snd (AcceptQuote_Execute mem_ulid (us_AcceptQuote mem_usecases) ''accept-1'' (mem_id 1) ''toss'' ''wise''
          (start db1 2 [])))))"
    by simp
qed

section \<open>Accepting a quote\<close>

text \<open>C2. Accepting is atomic: either the book is left alone, or exactly three things happened to it,
  the conversion was added, the quote was marked accepted and the event was queued, and nothing
  else; it never panics.\<close>

theorem accept_is_atomic:
  assumes "fx_system X C view snap okE" "system_usecases X cfg = Ok us"
    and "sound_state (lib_decimal X) C view snap okE s"
    and "AcceptQuote_Execute (lib_ulid X) (us_AcceptQuote us) key qid pay tra s = (r, t)"
  shows "\<not> is_panic r \<and> (sys_book X view t = sys_book X view s \<or>
    (\<exists>c eid now. r = Ok c \<and> c_IdempotencyKey c = key \<and> c_QuoteID c = sf_id (sys_form X C) qid \<and>
       c_Status c = StatusAwaitingPayment \<and>
       list_ex (acceptable (c_QuoteID c) (sf_time (sys_form X C) now)) (bk_quotes (sys_book X view s)) \<and>
       sys_book X view t = accepted_book (sys_form X C) c eid now (sys_book X view s)))"
proof
  note spec = fx_system.accept_spec [OF assms]
  from spec show "\<not> is_panic r"
    by (cases r) (auto simp: spec_accept_quote_def split: option.splits)
  from spec quote_by_id_ID show "sys_book X view t = sys_book X view s \<or>
    (\<exists>c eid now. r = Ok c \<and> c_IdempotencyKey c = key \<and> c_QuoteID c = sf_id (sys_form X C) qid \<and>
       c_Status c = StatusAwaitingPayment \<and>
       list_ex (acceptable (c_QuoteID c) (sf_time (sys_form X C) now)) (bk_quotes (sys_book X view s)) \<and>
       sys_book X view t = accepted_book (sys_form X C) c eid now (sys_book X view s))"
    by (fastforce simp: spec_accept_quote_def FromQuote_Ok split: option.splits result.splits)
qed

text \<open>The instance: the insert of the event fails, and the conversion and the mark are gone again.\<close>

theorem accept_is_atomic_witness:
  "AcceptQuote_Execute mem_ulid (us_AcceptQuote mem_usecases) ''accept-1'' (mem_id 1) ''toss'' ''wise''
     (start db1 2 [False, False, False, False, False, True]) = (Err enqueue_error, faulted) \<and>
   sys_book mem_libraries w_db faulted = sys_book mem_libraries w_db (start db1 2 [])"
  using accept_is_atomic [OF mem_system mem_usecases_Ok sound1, unfolded mem_libraries_simps, OF accept_fault_run]
    accept_fault_run by simp

text \<open>C4. A retry is safe: accepting again under the same key returns the conversion of the first call,
  as the store holds it, or reports an infrastructure failure; it writes nothing.\<close>

theorem accept_retry_is_safe:
  assumes "fx_system X C view snap okE" "system_usecases X cfg = Ok us"
    and "sound_state (lib_decimal X) C view snap okE s"
    and "AcceptQuote_Execute (lib_ulid X) (us_AcceptQuote us) key qid pay tra s = (Ok c, s')"
    and "length key \<le> 128"
    and "AcceptQuote_Execute (lib_ulid X) (us_AcceptQuote us) key qid2 pay2 tra2 s' = (r, t)"
  shows "sys_book X view t = sys_book X view s' \<and>
    ((\<exists>c'. r = Ok c' \<and> conv_by_key key (sys_book X view s') = Some c' \<and>
        (c' = c \<or> c' = stored_conversion (sys_form X C) c)) \<or> (\<exists>e. r = Err e \<and> infra e))"
proof -
  have s': "sound_state (lib_decimal X) C view snap okE s'"
    using fx_system.run_operation_sound [OF assms(1,2) _ assms(3), of "Accept key qid pay tra"] assms(4) by simp
  note first = fx_system.accept_spec [OF assms(1-4)]
  note second = fx_system.accept_spec [OF assms(1,2) s' assms(6)]
  have "conv_by_key key (sys_book X view s') = Some c \<or>
      conv_by_key key (sys_book X view s') = Some (stored_conversion (sys_form X C) c)"
  proof (cases "conv_by_key key (sys_book X view s)")
    case (Some d)
    with first show ?thesis by (auto simp: spec_accept_quote_def)
  next
    case None
    with first obtain eid now where
      b': "sys_book X view s' = accepted_book (sys_form X C) c eid now (sys_book X view s)"
      and key: "c_IdempotencyKey c = key"
      by (auto simp: spec_accept_quote_def FromQuote_Ok)
    have "sf_text (sys_form X C) 128 key = key"
      using fx_ports.sf_text_short [OF fx_system.system_ports [OF assms(1)]] assms(5) by blast
    then show ?thesis
      using None key unfolding b'
      by (simp add: accepted_book_def conv_by_key_def find_append stored_conversion_def)
  qed
  with second show ?thesis by (auto simp: spec_accept_quote_def)
qed

theorem accept_retry_is_safe_witness:
  "\<exists>r t. AcceptQuote_Execute mem_ulid (us_AcceptQuote mem_usecases) ''accept-1'' (mem_id 1) ''demo'' ''demo''
       (ended db2 4 ''usecase.accept_quote'' []) = (r, t) \<and>
     sys_book mem_libraries w_db t = sys_book mem_libraries w_db (ended db2 4 ''usecase.accept_quote'' []) \<and>
     ((\<exists>c'. r = Ok c' \<and>
         conv_by_key ''accept-1'' (sys_book mem_libraries w_db (ended db2 4 ''usecase.accept_quote'' [])) = Some c' \<and>
         (c' = conv1 \<or> c' = stored_conversion (sys_form mem_libraries mem_columns) conv1)) \<or>
      (\<exists>e. r = Err e \<and> infra e))"
proof (intro exI conjI)
  let ?run = "AcceptQuote_Execute mem_ulid (us_AcceptQuote mem_usecases) ''accept-1'' (mem_id 1) ''demo'' ''demo''
       (ended db2 4 ''usecase.accept_quote'' [])"
  show run: "?run = (fst ?run, snd ?run)" by simp
  have "length ''accept-1'' \<le> (128::nat)" by simp
  from accept_retry_is_safe [OF mem_system mem_usecases_Ok sound1, unfolded mem_libraries_simps,
      OF accept_run this run]
  show "sys_book mem_libraries w_db (snd ?run) =
      sys_book mem_libraries w_db (ended db2 4 ''usecase.accept_quote'' [])"
    "(\<exists>c'. fst ?run = Ok c' \<and>
         conv_by_key ''accept-1'' (sys_book mem_libraries w_db (ended db2 4 ''usecase.accept_quote'' [])) = Some c' \<and>
         (c' = conv1 \<or> c' = stored_conversion (sys_form mem_libraries mem_columns) conv1)) \<or>
      (\<exists>e. fst ?run = Err e \<and> infra e)"
    by simp_all
qed

text \<open>C3. A quote settles at most once: after an acceptance, another key for the same quote is refused
  and writes nothing.\<close>

theorem accept_at_most_once:
  assumes "fx_system X C view snap okE" "system_usecases X cfg = Ok us"
    and "sound_state (lib_decimal X) C view snap okE s"
    and "AcceptQuote_Execute (lib_ulid X) (us_AcceptQuote us) key qid pay tra s = (Ok c, s')"
    and "conv_by_key key (sys_book X view s) = None"
    and "conv_by_key key2 (sys_book X view s') = None"
    and "AcceptQuote_Execute (lib_ulid X) (us_AcceptQuote us) key2 qid pay2 tra2 s' = (r, t)"
  shows "(\<exists>e. r = Err e) \<and> sys_book X view t = sys_book X view s'"
proof -
  have s': "sound_state (lib_decimal X) C view snap okE s'"
    using fx_system.run_operation_sound [OF assms(1,2) _ assms(3), of "Accept key qid pay tra"] assms(4) by simp
  note first = fx_system.accept_spec [OF assms(1-4)]
  note second = fx_system.accept_spec [OF assms(1,2) s' assms(7)]
  let ?F = "sys_form X C" and ?b' = "sys_book X view s'"
  from first assms(5) obtain q cid eid now where q: "quote_by_id (sf_id ?F qid) (sys_book X view s) = Some q"
    "FromQuote cid key q pay tra now = Ok c" and b': "?b' = accepted_book ?F c eid now (sys_book X view s)"
    by (auto simp: spec_accept_quote_def)
  have c: "c_QuoteID c = sf_id ?F qid"
    using q quote_by_id_ID [OF q(1)] by (simp add: FromQuote_Ok)
  have taken: "conv_taken (stored_conversion ?F d) ?b'" if "c_QuoteID d = sf_id ?F qid" for d
    using that c unfolding b' by (simp add: conv_taken_def accepted_book_def stored_conversion_def)
  show ?thesis
  proof (cases r)
    case (Ok d)
    with second assms(6) obtain q' cid' now' where q': "quote_by_id (sf_id ?F qid) ?b' = Some q'"
      "FromQuote cid' key2 q' pay2 tra2 now' = Ok d" "\<not> conv_taken (stored_conversion ?F d) ?b'"
      by (auto simp: spec_accept_quote_def)
    then have "c_QuoteID d = sf_id ?F qid" using quote_by_id_ID [OF q'(1)] by (simp add: FromQuote_Ok)
    with taken q'(3) show ?thesis by blast
  next
    case (Err e)
    with second assms(6) show ?thesis by (simp add: spec_accept_quote_def)
  next
    case (Panic p)
    with second assms(6) show ?thesis by (simp add: spec_accept_quote_def)
  qed
qed

theorem accept_at_most_once_witness:
  "\<exists>e t. AcceptQuote_Execute mem_ulid (us_AcceptQuote mem_usecases) ''accept-2'' (mem_id 1) ''toss'' ''wise''
       (ended db2 4 ''usecase.accept_quote'' []) = (Err e, t) \<and>
     sys_book mem_libraries w_db t = sys_book mem_libraries w_db (ended db2 4 ''usecase.accept_quote'' [])"
proof -
  let ?run = "AcceptQuote_Execute mem_ulid (us_AcceptQuote mem_usecases) ''accept-2'' (mem_id 1) ''toss'' ''wise''
       (ended db2 4 ''usecase.accept_quote'' [])"
  have run: "?run = (fst ?run, snd ?run)" by simp
  have keys: "conv_by_key ''accept-1'' (sys_book mem_libraries w_db (start db1 2 [])) = None"
    "conv_by_key ''accept-2'' (sys_book mem_libraries w_db (ended db2 4 ''usecase.accept_quote'' [])) = None"
    by (simp_all add: conv_by_key_def book_of_def db1_def db2_def db0_def empty_db_def conversion_of_def exec)
  from accept_at_most_once [OF mem_system mem_usecases_Ok sound1, unfolded mem_libraries_simps,
      OF accept_run keys [unfolded mem_libraries_simps] run]
  show ?thesis using run by (metis mem_libraries_simps(1))
qed

section \<open>Creating a quote\<close>

text \<open>C5. A quote is made once per key, from a rate that is stored, on the configured fee and lifetime:
  a known key returns the stored quote; a new key adds exactly one quote, and nothing but rates is
  written besides; an error leaves quotes, conversions, inbox and outbox as they were.\<close>

theorem create_quote_once:
  assumes "fx_system X C view snap okE" "system_usecases X cfg = Ok us"
    and "sound_state (lib_decimal X) C view snap okE s"
    and "supported (Currency base)" "supported target"
    and "CreateQuote_Execute (lib_decimal X) (lib_ulid X) (us_CreateQuote us) key base target s = (r, t)"
  shows "case quote_by_key key (sys_book X view s) of
      Some q \<Rightarrow> sys_book X view t = sys_book X view s \<and> (r = Ok q \<or> (\<exists>e. r = Err e \<and> infra e))
    | None \<Rightarrow>
        (\<exists>q rate qid now rates. r = Ok (echo_quote_of (lib_decimal X) q) \<and>
           New_quote (lib_decimal X) qid key base target rate (cfg_FXFeeBPS cfg)
             \<lparr>Currency = CurrencyKRW, MinorUnits = cfg_FXMinFeeMinor cfg\<rparr> now (cfg_QuoteTTL cfg) = Ok q \<and>
           rate \<in> set rates \<and> rate_Base rate = Currency base \<and> rate_Quote rate = target \<and>
           sys_book X view t = (sys_book X view s)\<lparr>bk_rates := rates,
             bk_quotes := bk_quotes (sys_book X view s) @ [stored_quote (sys_form X C) q]\<rparr>) \<or>
        (\<exists>e rates. r = Err e \<and> sys_book X view t = (sys_book X view s)\<lparr>bk_rates := rates\<rparr>)"
proof -
  note spec = fx_system.create_spec [OF assms]
  have synced: "\<exists>rates. b1 = b\<lparr>bk_rates := rates\<rparr>"
    if "rates_synced (lib_decimal X) (sys_form X C) b b1" for b b1
    using that by (auto simp: rates_synced_def)
  show ?thesis
  proof (cases "quote_by_key key (sys_book X view s)")
    case (Some q)
    with spec show ?thesis by (simp add: spec_create_quote_def)
  next
    case None
    show ?thesis
    proof (cases r)
      case (Ok q')
      with spec None obtain q rate qid now b1 where
        b1: "rates_synced (lib_decimal X) (sys_form X C) (sys_book X view s) b1" "rate \<in> set (bk_rates b1)"
        and q: "New_quote (lib_decimal X) qid key base target rate (cfg_FXFeeBPS cfg)
             \<lparr>Currency = CurrencyKRW, MinorUnits = cfg_FXMinFeeMinor cfg\<rparr> now (cfg_QuoteTTL cfg) = Ok q"
          "q' = echo_quote_of (lib_decimal X) q"
        and t: "sys_book X view t =
          b1\<lparr>bk_quotes := bk_quotes (sys_book X view s) @ [stored_quote (sys_form X C) q]\<rparr>"
        by (auto simp: spec_create_quote_def)
      from synced [OF b1(1)] obtain rates where rates: "b1 = (sys_book X view s)\<lparr>bk_rates := rates\<rparr>" by blast
      with b1(2) t q(2) Ok None q(1) New_quote_OkD(4,5) [OF q(1)] show ?thesis by auto
    next
      case (Err e)
      with spec None synced show ?thesis by (simp add: spec_create_quote_def)
    next
      case (Panic p)
      with spec None show ?thesis by (simp add: spec_create_quote_def)
    qed
  qed
qed

theorem create_quote_once_witness:
  "\<exists>q rate qid now rates. quote1 = echo_quote_of decimals q \<and>
     New_quote decimals qid ''order-1'' (krw 100000) ''USD'' rate (cfg_FXFeeBPS default_config)
       \<lparr>Currency = CurrencyKRW, MinorUnits = cfg_FXMinFeeMinor default_config\<rparr> now
       (cfg_QuoteTTL default_config) = Ok q \<and>
     rate \<in> set rates \<and> rate_Base rate = Currency (krw 100000) \<and> rate_Quote rate = ''USD'' \<and>
     sys_book mem_libraries w_db (ended db1 2 ''usecase.create_quote'' []) =
       (sys_book mem_libraries w_db (start db0 1 []))\<lparr>bk_rates := rates,
         bk_quotes := bk_quotes (sys_book mem_libraries w_db (start db0 1 [])) @
           [stored_quote (sys_form mem_libraries mem_columns) q]\<rparr>"
proof -
  have "quote_by_key ''order-1'' (sys_book mem_libraries w_db (start db0 1 [])) = None"
    by (simp add: quote_by_key_def book_of_def db0_def empty_db_def)
  moreover have "supported (Currency (krw 100000))" "supported ''USD''"
    by (simp_all add: supported_iff krw_simps)
  ultimately show ?thesis
    using create_quote_once [OF mem_system mem_usecases_Ok sound0, of _ "''USD''", unfolded mem_libraries_simps,
        OF _ _ create_quote_run]
    by (simp del: One_nat_def)
qed

section \<open>Provider events\<close>

lemma webhook_outcome:
  assumes "spec_webhook F update event b r b'"
  shows "case r of
      Ok (c, duplicate) \<Rightarrow> duplicate = event_seen F event b \<and>
        (if duplicate
         then b' = b \<and> conv_by_id (sf_id F (ev_ConversionID event)) b = Some c
         else \<exists>current mid eid now c1 tm.
           conv_by_id (sf_id F (ev_ConversionID event)) b = Some current \<and>
           update event current now = Ok c \<and> (c1 = c \<or> c1 = c\<lparr>c_UpdatedAt := tm\<rparr>) \<and>
           b' = webhook_book F mid eid event c c1 now b)
    | Err e \<Rightarrow> b' = b
    | Panic p \<Rightarrow> False"
proof (cases r)
  case (Ok p)
  obtain c d where p: "p = (c, d)" by (cases p)
  show ?thesis
    using assms unfolding spec_webhook_def Ok p result.case prod.case by (cases d) (simp, simp)
qed (use assms in \<open>simp_all add: spec_webhook_def\<close>)

text \<open>C6. A payment event is applied at most once and all at once: a repeated event changes nothing and
  returns the stored conversion; a new one records the message, replaces the conversion by its
  update and queues one event, together; a refusal changes nothing.\<close>

theorem payment_event_at_most_once:
  assumes "fx_system X C view snap okE" "system_usecases X cfg = Ok us"
    and "sound_state (lib_decimal X) C view snap okE s"
    and "HandlePaymentWebhook_Execute (lib_ulid X) (us_HandlePaymentWebhook us) event s = (r, t)"
  shows "case r of
      Ok (c, duplicate) \<Rightarrow> duplicate = event_seen (sys_form X C) event (sys_book X view s) \<and>
        (if duplicate
         then sys_book X view t = sys_book X view s \<and>
           conv_by_id (sf_id (sys_form X C) (ev_ConversionID event)) (sys_book X view s) = Some c
         else \<exists>current mid eid now c1 tm.
           conv_by_id (sf_id (sys_form X C) (ev_ConversionID event)) (sys_book X view s) = Some current \<and>
           payment_update event current now = Ok c \<and> (c1 = c \<or> c1 = c\<lparr>c_UpdatedAt := tm\<rparr>) \<and>
           sys_book X view t = webhook_book (sys_form X C) mid eid event c c1 now (sys_book X view s))
    | Err e \<Rightarrow> sys_book X view t = sys_book X view s
    | Panic p \<Rightarrow> False"
  by (rule webhook_outcome [OF fx_system.payment_spec [OF assms]])

text \<open>The instance: the same event again, after it was applied.\<close>

theorem payment_event_at_most_once_witness:
  "event_seen (sys_form mem_libraries mem_columns) payment_event (sys_book mem_libraries w_db (start db3 4 [])) \<and>
   sys_book mem_libraries w_db (snd (HandlePaymentWebhook_Execute mem_ulid (us_HandlePaymentWebhook mem_usecases)
     payment_event (start db3 4 []))) = sys_book mem_libraries w_db (start db3 4 [])"
  using payment_event_at_most_once [OF mem_system mem_usecases_Ok sound3, unfolded mem_libraries_simps,
      OF payment_again_run]
  by (simp add: payment_again_run)

text \<open>C7. The same for a transfer event.\<close>

theorem transfer_event_at_most_once:
  assumes "fx_system X C view snap okE" "system_usecases X cfg = Ok us"
    and "sound_state (lib_decimal X) C view snap okE s"
    and "HandleTransferWebhook_Execute (lib_ulid X) (us_HandleTransferWebhook us) event s = (r, t)"
  shows "case r of
      Ok (c, duplicate) \<Rightarrow> duplicate = event_seen (sys_form X C) event (sys_book X view s) \<and>
        (if duplicate
         then sys_book X view t = sys_book X view s \<and>
           conv_by_id (sf_id (sys_form X C) (ev_ConversionID event)) (sys_book X view s) = Some c
         else \<exists>current mid eid now c1 tm.
           conv_by_id (sf_id (sys_form X C) (ev_ConversionID event)) (sys_book X view s) = Some current \<and>
           transfer_update event current now = Ok c \<and> (c1 = c \<or> c1 = c\<lparr>c_UpdatedAt := tm\<rparr>) \<and>
           sys_book X view t = webhook_book (sys_form X C) mid eid event c c1 now (sys_book X view s))
    | Err e \<Rightarrow> sys_book X view t = sys_book X view s
    | Panic p \<Rightarrow> False"
  by (rule webhook_outcome [OF fx_system.transfer_spec [OF assms]])

text \<open>The instance: the transfer completes the conversion.\<close>

theorem transfer_event_at_most_once_witness:
  "\<exists>current mid eid now c1 tm.
     conv_by_id (sf_id (sys_form mem_libraries mem_columns) (ev_ConversionID transfer_event))
       (sys_book mem_libraries w_db (start db3 6 [])) = Some current \<and>
     transfer_update transfer_event current now = Ok conv3 \<and> (c1 = conv3 \<or> c1 = conv3\<lparr>c_UpdatedAt := tm\<rparr>) \<and>
     book_of decimals db4 = webhook_book (sys_form mem_libraries mem_columns) mid eid transfer_event conv3 c1 now
       (sys_book mem_libraries w_db (start db3 6 []))"
  using transfer_event_at_most_once [OF mem_system mem_usecases_Ok sound3, unfolded mem_libraries_simps,
      OF transfer_run]
  by (simp del: One_nat_def)

section \<open>Rates and the outbox\<close>





end
